(* ===== verification/PyText.thy ===== *)
theory PyText
  imports Main "HOL-Library.List_Lexorder" "HOL-Library.Product_Lexorder"
    "HOL-Library.Code_Target_Nat"
begin

text \<open>
  The text values of the program and the operations of Python's str and int that it uses.

  A Python string is a sequence of Unicode code points, so it is a list of natural numbers here
  (\<open>ustr\<close>), not a list of 8-bit characters: the program's own messages are Chinese.
  \<open>lit\<close> turns an ASCII literal into such a list.  \<open>strip\<close>, \<open>py_lower\<close>, \<open>py_int\<close> and
  \<open>show_int\<close> are str.strip, str.lower, int(str) and str(int).  The theory ends with the facts the
  component theories use: \<open>strip\<close> is idempotent, and int() reads back what str() printed.
\<close>

named_theorems text_simps \<open>evaluation rules for texts\<close>

section \<open>Code points and literals\<close>

type_synonym ustr = "nat list"

definition lit :: "string \<Rightarrow> ustr" where
  "lit s = map of_char s"

lemma lit_eq_iff [simp]: "lit a = lit b \<longleftrightarrow> a = b"
  unfolding lit_def by (rule inj_map_eq_map) (auto intro: injI)

lemma lit_Nil [simp]: "lit [] = []"
  by (simp add: lit_def)

lemma lit_eq_Nil [simp]: "lit s = [] \<longleftrightarrow> s = []" "[] = lit s \<longleftrightarrow> s = []"
  by (auto simp: lit_def)

lemma length_lit [simp]: "length (lit s) = length s"
  by (simp add: lit_def)

lemma lit_append: "lit (a @ b) = lit a @ lit b"
  by (simp add: lit_def)

lemma lit_Cons: "lit (c # s) = of_char c # lit s"
  by (simp add: lit_def)

lemmas lit_eval [text_simps] = lit_Cons lit_Nil

section \<open>White space, str.strip and str.lower\<close>

text \<open>The code points for which str.isspace holds.\<close>

definition space_points :: "nat list" where
  "space_points = [9, 10, 11, 12, 13, 28, 29, 30, 31, 32, 133, 160, 5760, 8192, 8193, 8194, 8195,
     8196, 8197, 8198, 8199, 8200, 8201, 8202, 8232, 8233, 8239, 8287, 12288]"

definition py_space :: "nat \<Rightarrow> bool" where
  "py_space c = List.member space_points c"

definition lstrip :: "ustr \<Rightarrow> ustr" where
  "lstrip s = dropWhile py_space s"

definition rstrip :: "ustr \<Rightarrow> ustr" where
  "rstrip s = rev (dropWhile py_space (rev s))"

definition strip :: "ustr \<Rightarrow> ustr" where
  "strip s = rstrip (lstrip s)"

text \<open>
  The lower-case form of a code point, for the code points whose lower-case form holds an ASCII
  character: A to Z, the Kelvin sign and I with a dot.  The program compares lowered texts with
  ASCII literals only where this function is used, and every other code point lowers to
  non-ASCII code points, so such a comparison has Python's result.
\<close>

definition lower_point :: "nat \<Rightarrow> ustr" where
  "lower_point c =
     (if 65 \<le> c \<and> c \<le> 90 then [c + 32]
      else if c = 8490 then [107]
      else if c = 304 then [105, 775]
      else [c])"

definition py_lower :: "ustr \<Rightarrow> ustr" where
  "py_lower s = concat (map lower_point s)"

text \<open>\<open>x in s\<close>, \<open>s.startswith(p)\<close> and \<open>sep.join(xs)\<close>.\<close>

definition starts_with :: "ustr \<Rightarrow> ustr \<Rightarrow> bool" where
  "starts_with p s = (take (length p) s = p)"

fun contains :: "ustr \<Rightarrow> ustr \<Rightarrow> bool" where
  "contains x [] = (x = [])"
| "contains x (c # s) = (starts_with x (c # s) \<or> contains x s)"

fun join :: "ustr \<Rightarrow> ustr list \<Rightarrow> ustr" where
  "join sep [] = []"
| "join sep [x] = x"
| "join sep (x # y # xs) = x @ sep @ join sep (y # xs)"

text \<open>\<open>s.split(c)\<close> for a one-character separator.\<close>

fun split_on :: "nat \<Rightarrow> ustr \<Rightarrow> ustr list" where
  "split_on c [] = [[]]"
| "split_on c (x # xs) =
     (if x = c then [] # split_on c xs
      else (case split_on c xs of [] \<Rightarrow> [[x]] | w # ws \<Rightarrow> (x # w) # ws))"

section \<open>int(str) and str(int)\<close>

text \<open>
  The zero of every block of decimal digits (category Nd), as int() accepts them.
\<close>

definition digit_zeros :: "nat list" where
  "digit_zeros = [48, 1632, 1776, 1984, 2406, 2534, 2662, 2790, 2918, 3046, 3174, 3302, 3430, 3558,
     3664, 3792, 3872, 4160, 4240, 6112, 6160, 6470, 6608, 6784, 6800, 6992, 7088, 7232, 7248, 42528,
     43216, 43264, 43472, 43504, 43600, 44016, 65296, 66720, 68912, 69734, 69872, 69942, 70096, 70384,
     70736, 70864, 71248, 71360, 71472, 71904, 72016, 72784, 73040, 73120, 73552, 92768, 92864, 93008,
     120782, 120792, 120802, 120812, 120822, 123200, 123632, 124144, 125264, 130032]"

definition digit_value :: "nat \<Rightarrow> nat option" where
  "digit_value c = map_option (\<lambda>z. c - z) (find (\<lambda>z. z \<le> c \<and> c < z + 10) digit_zeros)"

text \<open>
  White space that int() skips on both sides: the ASCII white space of C's isspace, and any
  non-ASCII white space.
\<close>

definition int_space :: "nat \<Rightarrow> bool" where
  "int_space c = ((9 \<le> c \<and> c \<le> 13) \<or> c = 32 \<or> (127 < c \<and> py_space c))"

definition int_strip :: "ustr \<Rightarrow> ustr" where
  "int_strip s = rev (dropWhile int_space (rev (dropWhile int_space s)))"

text \<open>Digits with single underscores between them; the flag says whether a digit came just before.\<close>

fun parse_digits :: "bool \<Rightarrow> nat \<Rightarrow> ustr \<Rightarrow> nat option" where
  "parse_digits prev acc [] = (if prev then Some acc else None)"
| "parse_digits prev acc (c # cs) =
     (if c = 95 then (if prev then parse_digits False acc cs else None)
      else (case digit_value c of
              None \<Rightarrow> None
            | Some d \<Rightarrow> parse_digits True (10 * acc + d) cs))"

definition split_sign :: "ustr \<Rightarrow> bool \<times> ustr" where
  "split_sign s =
     (case s of
        [] \<Rightarrow> (False, [])
      | c # cs \<Rightarrow> if c = 45 then (True, cs) else if c = 43 then (False, cs) else (False, s))"

text \<open>int(s): None is ValueError.  More than 4300 digits are refused, as CPython does.\<close>

definition int_digit_limit :: nat where
  "int_digit_limit = 4300"

definition py_int :: "ustr \<Rightarrow> int option" where
  "py_int s =
     (let (neg, ds) = split_sign (int_strip s)
      in if int_digit_limit < length (filter (\<lambda>c. c \<noteq> 95) ds) then None
         else map_option (\<lambda>n. if neg then - int n else int n) (parse_digits False 0 ds))"

fun show_nat :: "nat \<Rightarrow> ustr" where
  "show_nat n = (if n < 10 then [48 + n] else show_nat (n div 10) @ [48 + n mod 10])"

declare show_nat.simps [simp del]

definition show_int :: "int \<Rightarrow> ustr" where
  "show_int i = (if i < 0 then 45 # show_nat (nat (- i)) else show_nat (nat i))"

section \<open>Facts about substrings\<close>

lemma starts_with_iff: "starts_with p s \<longleftrightarrow> (\<exists>b. s = p @ b)"
  unfolding starts_with_def by (metis append_eq_conv_conj append_take_drop_id)

lemma contains_iff: "contains x s \<longleftrightarrow> (\<exists>a b. s = a @ x @ b)"
proof (induction s)
  case (Cons c s)
  show ?case
    unfolding contains.simps Cons starts_with_iff
    by (metis append_Cons append_Nil list.exhaust list.inject)
qed simp

lemma contains_trans: "contains x y \<Longrightarrow> contains y z \<Longrightarrow> contains x z"
  unfolding contains_iff by (metis append.assoc)

lemma contains_append: "contains x y \<Longrightarrow> contains x (a @ y @ b)"
  using contains_trans contains_iff by blast

lemma contains_join: "x \<in> set xs \<Longrightarrow> contains x (join sep xs)"
proof (induction sep xs rule: join.induct)
  case (3 sep y z zs)
  have "contains y (y @ sep @ join sep (z # zs))" by (auto simp: contains_iff)
  then show ?case
    using 3 contains_append [of x "join sep (z # zs)" "y @ sep" "[]"] by auto
qed (auto simp: contains_iff intro: exI [of _ "[]"])

lemma split_on_plain: "c \<notin> set a \<Longrightarrow> split_on c a = [a]"
  by (induction a) auto

lemma split_on_sep: "c \<notin> set a \<Longrightarrow> split_on c (a @ c # b) = a # split_on c b"
  by (induction a) auto

section \<open>Facts about strip\<close>

lemma lstrip_Nil [simp]: "lstrip [] = []"
  by (simp add: lstrip_def)

lemma rstrip_Nil [simp]: "rstrip [] = []"
  by (simp add: rstrip_def)

lemma strip_Nil [simp]: "strip [] = []"
  by (simp add: strip_def)

lemma dropWhile_idem_rev:
  "dropWhile P (rev (dropWhile P (rev (dropWhile P s)))) = rev (dropWhile P (rev (dropWhile P s)))"
proof (cases "dropWhile P s")
  case Nil
  then show ?thesis by (simp only: rev.simps dropWhile.simps)
next
  case (Cons x xs)
  then have nx: "\<not> P x" by (metis dropWhile_eq_Cons_conv)
  then have "dropWhile P (rev (x # xs)) = dropWhile P (rev xs) @ [x]"
    by (simp add: dropWhile_append3)
  then show ?thesis using Cons nx by simp
qed

lemma strip_idem [simp]: "strip (strip s) = strip s"
  unfolding strip_def rstrip_def lstrip_def
  by (simp add: dropWhile_idem_rev)

lemma strip_eq_Nil_iff: "strip s = [] \<longleftrightarrow> (\<forall>c \<in> set s. py_space c)"
proof -
  have "strip s = [] \<longleftrightarrow> (\<forall>c \<in> set (dropWhile py_space s). py_space c)"
    by (simp add: strip_def rstrip_def lstrip_def)
  also have "\<dots> \<longleftrightarrow> dropWhile py_space s = []"
    using hd_dropWhile[of py_space s] by (cases "dropWhile py_space s") (auto dest: set_dropWhileD)
  finally show ?thesis by (simp only: dropWhile_eq_Nil_conv)
qed

lemma set_strip: "set (strip s) \<subseteq> set s"
  unfolding strip_def rstrip_def lstrip_def
  by (auto dest!: set_dropWhileD)

lemma strip_no_edge:
  assumes "s \<noteq> []" "\<not> py_space (hd s)" "\<not> py_space (last s)"
  shows "strip s = s"
proof -
  have "lstrip s = s"
    using assms(1,2) by (cases s) (auto simp: lstrip_def)
  moreover have "rstrip s = s"
    using assms(1,3) by (cases s rule: rev_cases) (auto simp: rstrip_def)
  ultimately show ?thesis by (simp add: strip_def)
qed

lemma strip_no_space: "(\<And>c. c \<in> set s \<Longrightarrow> \<not> py_space c) \<Longrightarrow> strip s = s"
  by (cases "s = []") (auto intro: strip_no_edge)

section \<open>int() reads back what str() printed\<close>

lemma digit_value_ascii: "d < 10 \<Longrightarrow> digit_value (48 + d) = Some d"
  by (simp add: digit_value_def digit_zeros_def)

lemma show_nat_digits: "c \<in> set (show_nat n) \<Longrightarrow> 48 \<le> c \<and> c < 58"
  by (induction n rule: show_nat.induct) (subst (asm) (2) show_nat.simps, auto split: if_splits)

lemma show_nat_not_Nil [simp]: "show_nat n \<noteq> []"
  by (subst show_nat.simps) simp

lemma parse_show_nat:
  "parse_digits p acc (show_nat n @ cs) = parse_digits True (acc * 10 ^ length (show_nat n) + n) cs"
proof (induction n arbitrary: p acc cs rule: show_nat.induct)
  case (1 n)
  show ?case
  proof (cases "n < 10")
    case True
    then show ?thesis
      using digit_value_ascii [of n] by (simp add: show_nat.simps [of n] mult.commute)
  next
    case False
    have d: "digit_value (48 + n mod 10) = Some (n mod 10)"
      by (rule digit_value_ascii) simp
    have ne: "48 + n mod 10 \<noteq> 95" using mod_less_divisor [of 10 n] by linarith
    show ?thesis
      using False d ne
      by (simp add: show_nat.simps [of n] "1.IH" algebra_simps del: mod_mult_self1)
  qed
qed

lemma int_space_bounds: "48 \<le> c \<Longrightarrow> c < 58 \<Longrightarrow> \<not> int_space c"
  by (auto simp: int_space_def)

lemma int_strip_no_edge:
  assumes "s \<noteq> []" "\<not> int_space (hd s)" "\<not> int_space (last s)"
  shows "int_strip s = s"
proof -
  have "dropWhile int_space s = s"
    using assms(1,2) by (cases s) auto
  moreover have "rev (dropWhile int_space (rev s)) = s"
    using assms(1,3) by (cases s rule: rev_cases) auto
  ultimately show ?thesis by (simp add: int_strip_def)
qed

lemma show_nat_edges:
  "\<not> int_space (hd (show_nat n))" "\<not> int_space (last (show_nat n))"
  using show_nat_digits [of "hd (show_nat n)" n] show_nat_digits [of "last (show_nat n)" n]
    int_space_bounds [of "hd (show_nat n)"] int_space_bounds [of "last (show_nat n)"]
  by auto

lemma show_nat_hd: "48 \<le> hd (show_nat n)"
  using show_nat_digits [of "hd (show_nat n)" n] by simp

lemma split_sign_show: 
  "split_sign (int_strip (show_int i)) = (i < 0, show_nat (nat \<bar>i\<bar>))"
proof (cases "i < 0")
  case True
  have "int_strip (45 # show_nat (nat (- i))) = 45 # show_nat (nat (- i))"
    using show_nat_edges(2) by (intro int_strip_no_edge) (auto simp: int_space_def)
  then show ?thesis using True by (simp add: show_int_def split_sign_def)
next
  case False
  have "int_strip (show_nat (nat i)) = show_nat (nat i)"
    using show_nat_edges by (intro int_strip_no_edge) auto
  moreover obtain c cs where "show_nat (nat i) = c # cs" "48 \<le> c"
    using show_nat_hd [of "nat i"] by (cases "show_nat (nat i)") auto
  ultimately show ?thesis using False by (simp add: show_int_def split_sign_def)
qed

lemma length_show_nat: "n < 10 ^ k \<Longrightarrow> 0 < k \<Longrightarrow> length (show_nat n) \<le> k"
proof (induction k arbitrary: n)
  case 0
  then show ?case by simp
next
  case (Suc k)
  show ?case
  proof (cases "n < 10")
    case True
    then show ?thesis by (simp add: show_nat.simps)
  next
    case False
    with Suc.prems have "0 < k" "n div 10 < 10 ^ k"
      by (auto simp: less_mult_imp_div_less intro: gr0I)
    then have "length (show_nat (n div 10)) \<le> k" by (rule Suc.IH [rotated])
    with False show ?thesis by (simp add: show_nat.simps [of n])
  qed
qed

lemma py_int_show_int [simp]:
  assumes "\<bar>i\<bar> < 10 ^ int_digit_limit"
  shows "py_int (show_int i) = Some i"
proof -
  from assms have "nat \<bar>i\<bar> < 10 ^ int_digit_limit" by (simp add: nat_less_iff)
  then have "length (show_nat (nat \<bar>i\<bar>)) \<le> int_digit_limit"
    by (rule length_show_nat) (simp add: int_digit_limit_def)
  then have "\<not> int_digit_limit < length (filter (\<lambda>c. c \<noteq> 95) (show_nat (nat \<bar>i\<bar>)))"
    by (metis length_filter_le linorder_not_less order_trans)
  moreover have "parse_digits False 0 (show_nat (nat \<bar>i\<bar>)) = Some (nat \<bar>i\<bar>)"
    using parse_show_nat [of False 0 "nat \<bar>i\<bar>" "[]"] by simp
  ultimately show ?thesis
    by (auto simp: py_int_def split_sign_show)
qed

end
