(* ===== verification/Labels.thy ===== *)
theory Labels
  imports PyText
begin

text \<open>
  The program's texts that are not ASCII, as lists of Unicode code points.  Each is a literal of the
  source, or the fixed part of one of its f-strings, in the order of the string; the comment gives
  its meaning in English.
\<close>

definition zh_example_source_name :: ustr where \<comment> \<open>example source\<close>
  "zh_example_source_name = [31034, 20363, 26469, 28304]"

definition zh_anhui_name :: ustr where \<comment> \<open>Anhui public resource trading network (government procurement)\<close>
  "zh_anhui_name = [23433, 24509, 30465, 20844, 20849, 36164, 28304, 20132, 26131, 30417,
     31649, 32593, 65288, 25919, 24220, 37319, 36141, 65289]"

definition zh_ggzy_name :: ustr where \<comment> \<open>national public resource trading platform (government procurement)\<close>
  "zh_ggzy_name = [20840, 22269, 20844, 20849, 36164, 28304, 20132, 26131, 24179, 21488,
     65288, 25919, 24220, 37319, 36141, 65289]"

definition zh_ggzy_platform :: ustr where \<comment> \<open>national public resource trading platform\<close>
  "zh_ggzy_platform = [20840, 22269, 20844, 20849, 36164, 28304, 20132, 26131, 24179, 21488]"

definition zh_start_timeout :: ustr where \<comment> \<open>job start timed out, the worker did not start within the lease\<close>
  "zh_start_timeout = [20219, 21153, 21551, 21160, 36229, 26102, 65292, 21518, 21488, 25191,
     34892, 26410, 22312, 31199, 32422, 20869, 21551, 21160]"

definition zh_heartbeat_timeout :: ustr where \<comment> \<open>job heartbeat timed out, the process may have exited or hung\<close>
  "zh_heartbeat_timeout = [20219, 21153, 24515, 36339, 36229, 26102, 65292, 25191, 34892,
     36827, 31243, 21487, 33021, 24050, 36864, 20986, 25110, 21345, 27515]"

definition zh_start_abandoned :: ustr where \<comment> \<open>job start abandoned:\<close>
  "zh_start_abandoned = [20219, 21153, 24050, 25918, 24323, 21551, 21160, 65306]"

definition zh_run_timeout :: ustr where \<comment> \<open>job execution timed out:\<close>
  "zh_run_timeout = [20219, 21153, 25191, 34892, 36229, 26102, 65306]"

definition zh_not_integrated :: ustr where \<comment> \<open>only the source data is stored, no crawler is integrated yet\<close>
  "zh_not_integrated = [20165, 20445, 23384, 26469, 28304, 20449, 24687, 65292, 23578,
     26410, 25509, 20837, 25235, 21462, 36923, 36753]"

definition zh_unsupported_job_type :: ustr where \<comment> \<open>does not support job_type=\<close>
  "zh_unsupported_job_type = [32, 19981, 25903, 25345, 32, 106, 111, 98, 95, 116, 121, 112,
     101, 61]"

definition zh_supported_modes :: ustr where \<comment> \<open>supported modes:\<close>
  "zh_supported_modes = [65292, 25903, 25345, 27169, 24335, 58, 32]"

definition zh_no_spider :: ustr where \<comment> \<open>has no spider configured\<close>
  "zh_no_spider = [32, 26410, 37197, 32622, 32, 115, 112, 105, 100, 101, 114]"

definition zh_source :: ustr where \<comment> \<open>source\<close>
  "zh_source = [26469, 28304, 32]"

definition zh_has_active_job :: ustr where \<comment> \<open>already has a crawl job in progress\<close>
  "zh_has_active_job = [32, 24050, 26377, 36827, 34892, 20013, 30340, 25235, 21462, 20219,
     21153]"

definition zh_lparen :: ustr where \<comment> \<open>left parenthesis\<close>
  "zh_lparen = [65288]"

definition zh_rparen :: ustr where \<comment> \<open>right parenthesis\<close>
  "zh_rparen = [65289]"

definition zh_wait_and_retry :: ustr where \<comment> \<open>wait until the current job has ended and try again\<close>
  "zh_wait_and_retry = [65292, 35831, 31561, 24453, 24403, 21069, 20219, 21153, 32467,
     26463, 21518, 20877, 35797]"

definition zh_already_running :: ustr where \<comment> \<open>crawl_job was atomically taken by another worker and is running:\<close>
  "zh_already_running = [99, 114, 97, 119, 108, 95, 106, 111, 98, 32, 24050, 34987, 20854,
     20182, 32, 119, 111, 114, 107, 101, 114, 32, 21407, 23376, 39046, 21462, 24182, 36827,
     20837, 32, 114, 117, 110, 110, 105, 110, 103, 65306]"

definition zh_cannot_start :: ustr where \<comment> \<open>the state of crawl_job does not allow another start: id=\<close>
  "zh_cannot_start = [99, 114, 97, 119, 108, 95, 106, 111, 98, 32, 24403, 21069, 29366,
     24577, 19981, 20801, 35768, 20877, 27425, 21551, 21160, 65306, 105, 100, 61]"

definition zh_comma :: ustr where \<comment> \<open>comma\<close>
  "zh_comma = [65292]"

definition zh_queued :: ustr where \<comment> \<open>job queued, waits for background execution\<close>
  "zh_queued = [32, 20219, 21153, 24050, 20837, 38431, 65292, 31561, 24453, 21518, 21488,
     35843, 24230, 25191, 34892]"

definition zh_max_pages :: ustr where \<comment> \<open>largest number of pages\<close>
  "zh_max_pages = [26368, 22823, 39029, 25968, 32]"

definition zh_backfill_year :: ustr where \<comment> \<open>backfill year\<close>
  "zh_backfill_year = [22238, 22635, 24180, 20221, 32]"

definition zh_running :: ustr where \<comment> \<open>job running (spider=\<close>
  "zh_running = [32, 20219, 21153, 25191, 34892, 20013, 65288, 115, 112, 105, 100, 101, 114,
     61]"

definition zh_task_in :: ustr where \<comment> \<open>job, in\<close>
  "zh_task_in = [32, 20219, 21153, 22312, 32]"

definition zh_stage_failed :: ustr where \<comment> \<open>stage failed:\<close>
  "zh_stage_failed = [32, 38454, 27573, 22833, 36133, 65306]"

definition zh_dispatch_failed :: ustr where \<comment> \<open>job dispatch failed:\<close>
  "zh_dispatch_failed = [32, 20219, 21153, 27966, 21457, 22833, 36133, 65306]"

definition zh_background_dispatch_failed :: ustr where \<comment> \<open>background dispatch failed:\<close>
  "zh_background_dispatch_failed = [21518, 21488, 20219, 21153, 27966, 21457, 22833, 36133,
     65306]"

definition zh_command_failed :: ustr where \<comment> \<open>command failed:\<close>
  "zh_command_failed = [21629, 20196, 25191, 34892, 22833, 36133, 65306]"

definition zh_ended :: ustr where \<comment> \<open>job has ended\<close>
  "zh_ended = [32, 20219, 21153, 24050, 32467, 26463]"

definition zh_status :: ustr where \<comment> \<open>status\<close>
  "zh_status = [29366, 24577, 32]"

definition zh_list_pages :: ustr where \<comment> \<open>list pages\<close>
  "zh_list_pages = [21015, 34920, 39029, 32]"

definition zh_list_items :: ustr where \<comment> \<open>list items\<close>
  "zh_list_items = [21015, 34920, 39033, 32]"

definition zh_detail_requests :: ustr where \<comment> \<open>detail requests\<close>
  "zh_detail_requests = [35814, 24773, 35831, 27714, 32]"

definition zh_notices :: ustr where \<comment> \<open>notices\<close>
  "zh_notices = [20844, 21578, 32]"

definition zh_archived :: ustr where \<comment> \<open>archived\<close>
  "zh_archived = [24402, 26723, 32]"

definition zh_dedup_skipped :: ustr where \<comment> \<open>skipped as duplicates\<close>
  "zh_dedup_skipped = [21435, 37325, 36339, 36807, 32]"

definition zh_earliest_date :: ustr where \<comment> \<open>earliest publication date\<close>
  "zh_earliest_date = [26368, 26089, 21457, 24067, 26085, 26399, 32]"

definition zh_latest_date :: ustr where \<comment> \<open>latest publication date\<close>
  "zh_latest_date = [26368, 26202, 21457, 24067, 26085, 26399, 32]"

definition zh_anomaly :: ustr where \<comment> \<open>anomaly\<close>
  "zh_anomaly = [24322, 24120, 32]"

definition zh_exit_code :: ustr where \<comment> \<open>exit code\<close>
  "zh_exit_code = [36864, 20986, 30721, 32]"

definition zh_page_fetch_failed :: ustr where \<comment> \<open>fetching pages failed\<close>
  "zh_page_fetch_failed = [39029, 38754, 33719, 21462, 22833, 36133]"

definition zh_spider_exited :: ustr where \<comment> \<open>fetching pages failed: the spider process exited (\<close>
  "zh_spider_exited = [39029, 38754, 33719, 21462, 22833, 36133, 58, 32, 115, 112, 105, 100,
     101, 114, 32, 36827, 31243, 36864, 20986, 40]"

definition zh_list_parsed_to_zero :: ustr where \<comment> \<open>the list parsed to nothing\<close>
  "zh_list_parsed_to_zero = [21015, 34920, 35299, 26512, 20026, 48]"

definition zh_detail_parse_failed :: ustr where \<comment> \<open>parsing details failed\<close>
  "zh_detail_parse_failed = [35814, 24773, 35299, 26512, 22833, 36133]"

definition zh_detail :: ustr where \<comment> \<open>detail\<close>
  "zh_detail = [35814, 24773]"

definition zh_worker_source_missing :: ustr where \<comment> \<open>the worker could not start: the source is missing or was deleted\<close>
  "zh_worker_source_missing = [21518, 21488, 25191, 34892, 21551, 21160, 22833, 36133,
     65306, 26469, 28304, 19981, 23384, 22312, 25110, 24050, 34987, 21024, 38500]"

definition zh_worker_failed :: ustr where \<comment> \<open>the worker failed:\<close>
  "zh_worker_failed = [21518, 21488, 25191, 34892, 22833, 36133, 65306]"

definition zh_execution_failed :: ustr where \<comment> \<open>job execution failed:\<close>
  "zh_execution_failed = [32, 20219, 21153, 25191, 34892, 22833, 36133, 65306]"

definition zh_normal :: ustr where \<comment> \<open>normal\<close>
  "zh_normal = [27491, 24120]"

definition zh_warning :: ustr where \<comment> \<open>warning\<close>
  "zh_warning = [35686, 21578]"

definition zh_critical :: ustr where \<comment> \<open>abnormal\<close>
  "zh_critical = [24322, 24120]"

definition zh_pending :: ustr where \<comment> \<open>waiting\<close>
  "zh_pending = [31561, 24453, 20013]"

definition zh_in_progress :: ustr where \<comment> \<open>in progress\<close>
  "zh_in_progress = [36827, 34892, 20013]"

definition zh_success :: ustr where \<comment> \<open>success\<close>
  "zh_success = [25104, 21151]"

definition zh_failed :: ustr where \<comment> \<open>failed\<close>
  "zh_failed = [22833, 36133]"

definition zh_partial :: ustr where \<comment> \<open>partly successful\<close>
  "zh_partial = [37096, 20998, 25104, 21151]"

definition zh_csrf_cookie_missing :: ustr where \<comment> \<open>the CSRF cookie is missing, reload the page and try again\<close>
  "zh_csrf_cookie_missing = [32570, 23569, 32, 67, 83, 82, 70, 32, 67, 111, 111, 107, 105,
     101, 65292, 35831, 21047, 26032, 39029, 38754, 21518, 37325, 35797, 12290]"

definition zh_csrf_token_missing :: ustr where \<comment> \<open>the CSRF token is missing, reload the page and try again\<close>
  "zh_csrf_token_missing = [32570, 23569, 32, 67, 83, 82, 70, 32, 84, 111, 107, 101, 110,
     65292, 35831, 21047, 26032, 39029, 38754, 21518, 37325, 35797, 12290]"

definition zh_csrf_mismatch :: ustr where \<comment> \<open>the CSRF token does not match, reload the page and try again\<close>
  "zh_csrf_mismatch = [67, 83, 82, 70, 32, 84, 111, 107, 101, 110, 32, 19981, 21305, 37197,
     65292, 35831, 21047, 26032, 39029, 38754, 21518, 37325, 35797, 12290]"

definition zh_csrf_invalid :: ustr where \<comment> \<open>the CSRF token is invalid or expired, reload the page and try again\<close>
  "zh_csrf_invalid = [67, 83, 82, 70, 32, 84, 111, 107, 101, 110, 32, 26080, 25928, 25110,
     24050, 36807, 26399, 65292, 35831, 21047, 26032, 39029, 38754, 21518, 37325, 35797,
     12290]"

definition zh_format_minutes_spaced :: ustr where \<comment> \<open>a date format: year, month, day, hour and minute\<close>
  "zh_format_minutes_spaced = [37, 89, 24180, 37, 109, 26376, 37, 100, 26085, 32, 37, 72,
     28857, 37, 77, 20998]"

definition zh_format_minutes :: ustr where \<comment> \<open>the same format without the space\<close>
  "zh_format_minutes = [37, 89, 24180, 37, 109, 26376, 37, 100, 26085, 37, 72, 28857, 37,
     77, 20998]"

definition zh_format_date :: ustr where \<comment> \<open>a date format: year, month and day\<close>
  "zh_format_date = [37, 89, 24180, 37, 109, 26376, 37, 100, 26085]"

definition zh_correction :: ustr where \<comment> \<open>correction\<close>
  "zh_correction = [26356, 27491]"

definition zh_change :: ustr where \<comment> \<open>change\<close>
  "zh_change = [21464, 26356]"

definition zh_clarification :: ustr where \<comment> \<open>clarification\<close>
  "zh_clarification = [28548, 28165]"

definition zh_extension :: ustr where \<comment> \<open>extension of a deadline\<close>
  "zh_extension = [24310, 26399]"

definition zh_bid_won :: ustr where \<comment> \<open>bid won\<close>
  "zh_bid_won = [20013, 26631]"

definition zh_deal_made :: ustr where \<comment> \<open>deal made\<close>
  "zh_deal_made = [25104, 20132]"

definition zh_result :: ustr where \<comment> \<open>result\<close>
  "zh_result = [32467, 26524]"

definition zh_selected :: ustr where \<comment> \<open>selected\<close>
  "zh_selected = [20013, 36873]"

definition zh_next_page :: ustr where \<comment> \<open>next page\<close>
  "zh_next_page = [19979, 19968, 39029]"

definition zh_purchase_name :: ustr where \<comment> \<open>name of the procurement project\<close>
  "zh_purchase_name = [37319, 36141, 39033, 30446, 21517, 31216]"

definition zh_project_code :: ustr where \<comment> \<open>project code\<close>
  "zh_project_code = [39033, 30446, 32534, 21495]"

definition zh_purchaser_name :: ustr where \<comment> \<open>name of the purchaser\<close>
  "zh_purchaser_name = [37319, 36141, 20154, 21517, 31216]"

definition zh_purchase_place :: ustr where \<comment> \<open>place of the procurement project\<close>
  "zh_purchase_place = [37319, 36141, 39033, 30446, 22320, 28857]"

definition zh_purchaser :: ustr where \<comment> \<open>purchaser\<close>
  "zh_purchaser = [37319, 36141, 20154]"

definition zh_information :: ustr where \<comment> \<open>information\<close>
  "zh_information = [20449, 24687]"

definition zh_name :: ustr where \<comment> \<open>name\<close>
  "zh_name = [21517, 31216]"

definition zh_budget_amount :: ustr where \<comment> \<open>budget amount\<close>
  "zh_budget_amount = [39044, 31639, 37329, 39069]"

definition zh_ten_thousand_yuan :: ustr where \<comment> \<open>ten thousand yuan\<close>
  "zh_ten_thousand_yuan = [19975, 20803]"

definition zh_submit_response_deadline :: ustr where \<comment> \<open>deadline for submitting response documents\<close>
  "zh_submit_response_deadline = [25552, 20132, 21709, 24212, 25991, 20214, 25130, 27490,
     26102, 38388]"

definition zh_submit_bid_deadline :: ustr where \<comment> \<open>deadline for submitting bid documents\<close>
  "zh_submit_bid_deadline = [25552, 20132, 25237, 26631, 25991, 20214, 25130, 27490, 26102,
     38388]"

definition zh_deadline :: ustr where \<comment> \<open>deadline\<close>
  "zh_deadline = [25130, 27490, 26102, 38388]"

definition zh_attachment :: ustr where \<comment> \<open>attachment\<close>
  "zh_attachment = [38468, 20214]"

definition zh_download :: ustr where \<comment> \<open>download\<close>
  "zh_download = [19979, 36733]"

definition zh_anhui_site :: ustr where \<comment> \<open>Anhui public resource trading supervision network\<close>
  "zh_anhui_site = [23433, 24509, 30465, 20844, 20849, 36164, 28304, 20132, 26131, 30417,
     31649, 32593]"

definition zh_manual_crawl :: ustr where \<comment> \<open>manual crawl\<close>
  "zh_manual_crawl = [25163, 21160, 25235, 21462]"

definition zh_scheduled_crawl :: ustr where \<comment> \<open>automatic crawl\<close>
  "zh_scheduled_crawl = [33258, 21160, 25235, 21462]"

definition zh_backfill_crawl :: ustr where \<comment> \<open>backfill crawl\<close>
  "zh_backfill_crawl = [22238, 22635, 25235, 21462]"

definition zh_retry_crawl :: ustr where \<comment> \<open>retried crawl\<close>
  "zh_retry_crawl = [37325, 35797, 25235, 21462]"

definition zh_status_queued :: ustr where \<comment> \<open>waiting in the queue\<close>
  "zh_status_queued = [25490, 38431, 20013]"

definition zh_crawling :: ustr where \<comment> \<open>crawling\<close>
  "zh_crawling = [25235, 21462, 20013]"

definition zh_completed :: ustr where \<comment> \<open>completed\<close>
  "zh_completed = [24050, 23436, 25104]"

definition zh_await_dispatch :: ustr where \<comment> \<open>waiting to be dispatched again\<close>
  "zh_await_dispatch = [31561, 24453, 37325, 27966, 21457]"

definition zh_claim_expired :: ustr where \<comment> \<open>the lease of the dispatch has expired, waiting for a retry of the dispatcher\<close>
  "zh_claim_expired = [20219, 21153, 27966, 21457, 31199, 32422, 24050, 36807, 26399, 65292,
     31561, 24453, 29420, 31435, 32, 100, 105, 115, 112, 97, 116, 99, 104, 101, 114, 32,
     37325, 35797]"

definition zh_no_heartbeat :: ustr where \<comment> \<open>heartbeat timed out\<close>
  "zh_no_heartbeat = [24515, 36339, 36229, 26102]"

definition zh_process_gone :: ustr where \<comment> \<open>the heartbeat has expired, the process may have exited or hung\<close>
  "zh_process_gone = [20219, 21153, 24515, 36339, 24050, 36807, 26399, 65292, 25191, 34892,
     36827, 31243, 21487, 33021, 24050, 36864, 20986, 25110, 21345, 27515]"

definition zh_await_worker :: ustr where \<comment> \<open>waiting for the start of the worker\<close>
  "zh_await_worker = [31561, 24453, 32, 87, 111, 114, 107, 101, 114, 32, 21551, 21160]"

definition zh_claimed :: ustr where \<comment> \<open>the dispatcher has claimed the job, waiting for the start of the worker\<close>
  "zh_claimed = [100, 105, 115, 112, 97, 116, 99, 104, 101, 114, 32, 24050, 39046, 21462,
     20219, 21153, 65292, 31561, 24453, 32, 119, 111, 114, 107, 101, 114, 32, 21551, 21160]"

definition zh_await_start :: ustr where \<comment> \<open>waiting for the start\<close>
  "zh_await_start = [31561, 24453, 21551, 21160]"

definition zh_in_queue :: ustr where \<comment> \<open>in the queue, waiting for the start\<close>
  "zh_in_queue = [24050, 20837, 38431, 65292, 31561, 24453, 21551, 21160]"

definition zh_stage_details :: ustr where \<comment> \<open>crawling details and storing\<close>
  "zh_stage_details = [25235, 21462, 35814, 24773, 19982, 20837, 24211]"

definition zh_stage_parsing :: ustr where \<comment> \<open>parsing list pages\<close>
  "zh_stage_parsing = [35299, 26512, 21015, 34920, 39029]"

definition zh_stage_lists :: ustr where \<comment> \<open>crawling list pages\<close>
  "zh_stage_lists = [25235, 21462, 21015, 34920, 39029]"

definition zh_stage_spider :: ustr where \<comment> \<open>starting the spider\<close>
  "zh_stage_spider = [21551, 21160, 32, 83, 112, 105, 100, 101, 114]"

definition zh_metric_list_pages :: ustr where \<comment> \<open>list pages\<close>
  "zh_metric_list_pages = [21015, 34920, 39029]"

definition zh_metric_list_items :: ustr where \<comment> \<open>list items\<close>
  "zh_metric_list_items = [21015, 34920, 39033]"

definition zh_metric_unique_items :: ustr where \<comment> \<open>unique items\<close>
  "zh_metric_unique_items = [21807, 19968, 39033]"

definition zh_metric_detail_pages :: ustr where \<comment> \<open>detail pages\<close>
  "zh_metric_detail_pages = [35814, 24773, 39029]"

definition zh_metric_notices :: ustr where \<comment> \<open>notices\<close>
  "zh_metric_notices = [20844, 21578]"

definition zh_metric_archived :: ustr where \<comment> \<open>archived\<close>
  "zh_metric_archived = [24402, 26723]"

definition zh_metric_skipped :: ustr where \<comment> \<open>skipped as duplicates\<close>
  "zh_metric_skipped = [21435, 37325, 36339, 36807]"

definition zh_metric_errors :: ustr where \<comment> \<open>errors\<close>
  "zh_metric_errors = [38169, 35823]"

definition zh_started_updating :: ustr where \<comment> \<open>has started, statistics are being updated\<close>
  "zh_started_updating = [24050, 21551, 21160, 65292, 27491, 22312, 25345, 32493, 26356,
     26032, 32479, 35745]"

definition zh_procurement :: ustr where \<comment> \<open>procurement\<close>
  "zh_procurement = [37319, 36141]"

definition zh_tendering :: ustr where \<comment> \<open>invitation to tender\<close>
  "zh_tendering = [25307, 26631]"

definition zh_competitive_consultation :: ustr where \<comment> \<open>competitive consultation\<close>
  "zh_competitive_consultation = [31454, 20105, 24615, 30923, 21830]"

definition zh_competitive_negotiation :: ustr where \<comment> \<open>competitive negotiation\<close>
  "zh_competitive_negotiation = [31454, 20105, 24615, 35848, 21028]"

definition zh_inquiry :: ustr where \<comment> \<open>inquiry for prices\<close>
  "zh_inquiry = [35810, 20215]"

definition zh_termination :: ustr where \<comment> \<open>termination\<close>
  "zh_termination = [32456, 27490]"

definition zh_bid_voided :: ustr where \<comment> \<open>bid declared void\<close>
  "zh_bid_voided = [24223, 26631]"

definition zh_bid_failed :: ustr where \<comment> \<open>failed tender\<close>
  "zh_bid_failed = [27969, 26631]"

definition zh_publicity :: ustr where \<comment> \<open>publication\<close>
  "zh_publicity = [20844, 31034]"

definition zh_notification :: ustr where \<comment> \<open>notification\<close>
  "zh_notification = [36890, 30693]"

definition zh_contract :: ustr where \<comment> \<open>contract\<close>
  "zh_contract = [21512, 21516]"

definition zh_list_not_object :: ustr where \<comment> \<open>parsing the list failed: the JSON of the answer is no object\<close>
  "zh_list_not_object = [21015, 34920, 35299, 26512, 22833, 36133, 58, 32, 21709, 24212, 74,
     83, 79, 78, 19981, 26159, 23545, 35937]"

definition zh_list_not_json :: ustr where \<comment> \<open>parsing the list failed: the answer is no JSON (\<close>
  "zh_list_not_json = [21015, 34920, 35299, 26512, 22833, 36133, 58, 32, 21709, 24212,
     19981, 26159, 74, 83, 79, 78, 32, 40]"

definition zh_list_captcha :: ustr where \<comment> \<open>fetching pages failed: the list interface asks for a captcha, which is not solved\<close>
  "zh_list_captcha = [39029, 38754, 33719, 21462, 22833, 36133, 58, 32, 21015, 34920, 25509,
     21475, 35302, 21457, 39564, 35777, 30721, 65292, 24403, 21069, 23454, 29616, 19981,
     30772, 35299, 39564, 35777, 30721]"

definition zh_list_code :: ustr where \<comment> \<open>fetching pages failed: the list interface returned code=\<close>
  "zh_list_code = [39029, 38754, 33719, 21462, 22833, 36133, 58, 32, 21015, 34920, 25509,
     21475, 36820, 22238, 32, 99, 111, 100, 101, 61]"

definition zh_detail_code :: ustr where \<comment> \<open>fetching details failed: the detail page returned JSON code=\<close>
  "zh_detail_code = [35814, 24773, 33719, 21462, 22833, 36133, 58, 32, 35814, 24773, 39029,
     36820, 22238, 74, 83, 79, 78, 32, 99, 111, 100, 101, 61]"

definition zh_detail_is_json :: ustr where \<comment> \<open>fetching details failed: the detail page returned JSON, no HTML that can be parsed\<close>
  "zh_detail_is_json = [35814, 24773, 33719, 21462, 22833, 36133, 58, 32, 35814, 24773,
     39029, 36820, 22238, 32, 74, 83, 79, 78, 32, 21709, 24212, 65292, 24403, 21069, 26410,
     36820, 22238, 21487, 35299, 26512, 32, 72, 84, 77, 76]"

definition zh_source_not_active :: ustr where \<comment> \<open>the source is not active and cannot be crawled\<close>
  "zh_source_not_active = [26469, 28304, 26410, 21551, 29992, 65292, 26080, 27861, 25163,
     21160, 25235, 21462]"

definition zh_no_manual_crawl :: ustr where \<comment> \<open>the source does not support a manual crawl\<close>
  "zh_no_manual_crawl = [24403, 21069, 26469, 28304, 19981, 25903, 25345, 25163, 21160,
     25235, 21462]"

definition zh_manual_crawl_failed :: ustr where \<comment> \<open>creating the manual crawl job failed:\<close>
  "zh_manual_crawl_failed = [25163, 21160, 25235, 21462, 20219, 21153, 21019, 24314, 22833,
     36133, 65306]"

definition zh_manual_crawl_failed_see_log :: ustr where \<comment> \<open>creating the manual crawl job failed, see the log\<close>
  "zh_manual_crawl_failed_see_log = [25163, 21160, 25235, 21462, 20219, 21153, 21019, 24314,
     22833, 36133, 65292, 35831, 26597, 30475, 26381, 21153, 26085, 24535]"

definition zh_once_in_days :: ustr where \<comment> \<open>days apart\<close>
  "zh_once_in_days = [22825, 19968, 27425]"

definition zh_minutes :: ustr where \<comment> \<open>minutes\<close>
  "zh_minutes = [32, 20998, 38047]"

definition zh_days :: ustr where \<comment> \<open>days\<close>
  "zh_days = [32, 22825]"

definition zh_no_retry :: ustr where \<comment> \<open>none\<close>
  "zh_no_retry = [26080]"

definition zh_ops_success :: ustr where \<comment> \<open>succeeded\<close>
  "zh_ops_success = [25104, 21151, 32]"

definition zh_ops_failed :: ustr where \<comment> \<open>/ failed\<close>
  "zh_ops_failed = [32, 47, 32, 22833, 36133, 32]"

definition zh_ops_new :: ustr where \<comment> \<open>/ new\<close>
  "zh_ops_new = [32, 47, 32, 26032, 22686, 32]"

definition zh_crawl_task :: ustr where \<comment> \<open>crawl task\<close>
  "zh_crawl_task = [25235, 21462, 20219, 21153]"

definition zh_statistics_missing :: ustr where \<comment> \<open>the statistics are not available, defaults are shown; check that alembic upgrade head has been run\<close>
  "zh_statistics_missing = [32479, 35745, 25968, 25454, 26242, 19981, 21487, 29992, 65292,
     24050, 38477, 32423, 20026, 40664, 35748, 20540, 12290, 35831, 30830, 35748, 24050,
     25191, 34892, 32, 97, 108, 101, 109, 98, 105, 99, 32, 117, 112, 103, 114, 97, 100, 101,
     32, 104, 101, 97, 100, 12290]"

definition zh_statistics_defaults :: ustr where \<comment> \<open>the statistics are not available, defaults are shown\<close>
  "zh_statistics_defaults = [32479, 35745, 25968, 25454, 26242, 19981, 21487, 29992, 65292,
     24050, 38477, 32423, 20026, 40664, 35748, 20540, 12290]"

end
