(* ===== verification/Tables.thy ===== *)
theory Tables
  imports Complex_Main
begin

text \<open>
  The relational tables of the database, as lists of rows in the order of insertion, with the four
  row operations the program uses through its ORM: look a row up by its primary key, update one row,
  add a row, and select rows by a condition.

  The interface the services rely on is the locale \<open>row_store\<close>; its laws are proved here for the
  list implementation, and every table of the schema is an interpretation of it (theory Schema).
\<close>

named_theorems row_simps \<open>what looking up and updating rows returns\<close>

definition get_row :: "('r \<Rightarrow> int) \<Rightarrow> int \<Rightarrow> 'r list \<Rightarrow> 'r option" where
  "get_row key k rows = find (\<lambda>r. key r = k) rows"

definition update_row :: "('r \<Rightarrow> int) \<Rightarrow> int \<Rightarrow> ('r \<Rightarrow> 'r) \<Rightarrow> 'r list \<Rightarrow> 'r list" where
  "update_row key k f rows = map (\<lambda>r. if key r = k then f r else r) rows"

definition add_row :: "'r \<Rightarrow> 'r list \<Rightarrow> 'r list" where
  "add_row r rows = rows @ [r]"

text \<open>SELECT MAX(id), 0 for an empty table (Python's \<open>max_id or 0\<close>).\<close>

definition max_key :: "('r \<Rightarrow> int) \<Rightarrow> 'r list \<Rightarrow> int" where
  "max_key key rows = (if rows = [] then 0 else Max (key ` set rows))"

text \<open>ORDER BY: a stable sort by a key, ascending or descending; the first row of a list, if any.\<close>

definition order_by :: "('r \<Rightarrow> 'k::linorder) \<Rightarrow> 'r list \<Rightarrow> 'r list" where
  "order_by k rows = sort_key k rows"

definition order_by_desc :: "('r \<Rightarrow> 'k::linorder) \<Rightarrow> 'r list \<Rightarrow> 'r list" where
  "order_by_desc k rows = rev (sort_key k (rev rows))"

definition first_row :: "'r list \<Rightarrow> 'r option" where
  "first_row rows = (case rows of [] \<Rightarrow> None | r # _ \<Rightarrow> Some r)"

definition limit_rows :: "int option \<Rightarrow> 'r list \<Rightarrow> 'r list" where
  "limit_rows m rows = (case m of None \<Rightarrow> rows | Some n \<Rightarrow> take (nat n) rows)"

section \<open>The interface of a table\<close>

locale row_store =
  fixes key :: "'r \<Rightarrow> int"
    and get :: "int \<Rightarrow> 't \<Rightarrow> 'r option"
    and upd :: "int \<Rightarrow> ('r \<Rightarrow> 'r) \<Rightarrow> 't \<Rightarrow> 't"
    and add :: "'r \<Rightarrow> 't \<Rightarrow> 't"
  assumes get_key: "get k t = Some r \<Longrightarrow> key r = k"
    and get_upd_same: "(\<And>r. key (f r) = key r) \<Longrightarrow> get k (upd k f t) = map_option f (get k t)"
    and get_upd_other: "(\<And>r. key (f r) = key r) \<Longrightarrow> k \<noteq> l \<Longrightarrow> get l (upd k f t) = get l t"
    and get_add_same: "get (key r) t = None \<Longrightarrow> get (key r) (add r t) = Some r"
    and get_add_other: "get l t \<noteq> None \<or> key r \<noteq> l \<Longrightarrow> get l (add r t) = get l t"
begin

lemma get_upd:
  assumes "\<And>r. key (f r) = key r"
  shows "get l (upd k f t) = (if k = l then map_option f (get l t) else get l t)"
  using get_upd_same [OF assms] get_upd_other [OF assms] by auto

lemma get_upd_None:
  assumes "\<And>r. key (f r) = key r"
  shows "get l (upd k f t) = None \<longleftrightarrow> get l t = None"
  by (simp add: get_upd [OF assms])

lemma get_upd_Some:
  assumes "\<And>r. key (f r) = key r" "get l (upd k f t) = Some r'"
  obtains r where "get l t = Some r" "r' = (if k = l then f r else r)"
  using assms(2) by (auto simp: get_upd [OF assms(1)] split: if_splits)

lemma get_upd_twice:
  assumes "\<And>r. key (f r) = key r" "\<And>r. key (g r) = key r"
  shows "get l (upd k g (upd k f t)) = get l (upd k (\<lambda>r. g (f r)) t)"
  by (simp add: get_upd assms option.map_comp o_def)

lemma get_add_kept: "get l t = Some r \<Longrightarrow> get l (add r' t) = Some r"
  by (simp add: get_add_other)

lemma get_add_cases:
  assumes "get l (add r t) = Some r'"
  shows "get l t = Some r' \<or> (get l t = None \<and> key r = l \<and> r' = r)"
proof (cases "get l t")
  case None
  have "key r = l" using assms None get_add_other [of l t r] by fastforce
  with None assms get_add_same [of r t] show ?thesis by simp
next
  case (Some x)
  with assms show ?thesis by (simp add: get_add_other)
qed

end

section \<open>Lists of rows implement it\<close>

lemma get_row_Nil [simp]: "get_row key k [] = None"
  by (simp add: get_row_def)

lemma get_row_Cons [row_simps]:
  "get_row key k (r # rows) = (if key r = k then Some r else get_row key k rows)"
  by (simp add: get_row_def)

lemma get_row_key: "get_row key k rows = Some r \<Longrightarrow> key r = k"
  by (auto simp: get_row_def find_Some_iff)

lemma get_row_mem: "get_row key k rows = Some r \<Longrightarrow> r \<in> set rows"
  by (auto simp: get_row_def find_Some_iff)

lemma get_row_None_iff: "get_row key k rows = None \<longleftrightarrow> k \<notin> key ` set rows"
  by (auto simp: get_row_def find_None_iff)

lemma get_row_append:
  "get_row key k (xs @ ys) = (case get_row key k xs of None \<Rightarrow> get_row key k ys | Some r \<Rightarrow> Some r)"
  by (induction xs) (auto simp: row_simps)

lemma get_row_distinct:
  "distinct (map key rows) \<Longrightarrow> r \<in> set rows \<Longrightarrow> get_row key (key r) rows = Some r"
  by (induction rows) (auto simp: row_simps)

lemma get_row_update_row:
  assumes "\<And>r. key (f r) = key r"
  shows "get_row key l (update_row key k f rows) =
    (if k = l then map_option f (get_row key l rows) else get_row key l rows)"
  by (induction rows) (auto simp: row_simps update_row_def assms)

lemma row_store_list:
  "row_store key (get_row key) (update_row key) add_row"
  by unfold_locales
    (auto simp: get_row_key get_row_update_row add_row_def get_row_append row_simps
          split: option.splits)

lemma map_key_update_row [row_simps]:
  "(\<And>r. key (f r) = key r) \<Longrightarrow> map key (update_row key k f rows) = map key rows"
  by (simp add: update_row_def)

lemma update_row_id: "get_row key k rows = None \<Longrightarrow> update_row key k f rows = rows"
  unfolding update_row_def get_row_None_iff by (rule map_idI) auto

lemma set_update_row:
  assumes "\<And>r. key (f r) = key r" "distinct (map key rows)" "get_row key k rows = Some r"
  shows "set (update_row key k f rows) = insert (f r) (set rows - {r})"
proof -
  have "key r = k" "r \<in> set rows" using assms(3) by (auto dest: get_row_key get_row_mem)
  moreover have "r' = r" if "r' \<in> set rows" "key r' = k" for r'
    using get_row_distinct [OF assms(2) that(1)] that(2) assms(3) by simp
  ultimately have "x \<in> set (update_row key k f rows) \<longleftrightarrow> x = f r \<or> (x \<in> set rows \<and> x \<noteq> r)" for x
    unfolding update_row_def set_map image_iff by (metis (full_types))
  then show ?thesis by blast
qed

lemma in_update_rowE:
  assumes "x \<in> set (update_row key k f rows)"
  obtains "x \<in> set rows" "key x \<noteq> k" | r where "r \<in> set rows" "key r = k" "x = f r"
  using assms by (auto simp: update_row_def split: if_splits)

lemma update_row_from:
  "x \<in> set (update_row key k f rows) \<Longrightarrow> \<exists>r \<in> set rows. x = (if key r = k then f r else r)"
  by (auto simp: update_row_def)

lemma update_row_mem:
  "r \<in> set rows \<Longrightarrow> (if key r = k then f r else r) \<in> set (update_row key k f rows)"
  by (simp add: update_row_def)

lemma update_row_all:
  assumes "\<And>r. r \<in> set rows \<Longrightarrow> P r" "\<And>r. r \<in> set rows \<Longrightarrow> key r = k \<Longrightarrow> P (f r)"
    "x \<in> set (update_row key k f rows)"
  shows "P x"
  using assms by (auto simp: update_row_def split: if_splits)

lemma length_update_row [simp]: "length (update_row key k f rows) = length rows"
  by (simp add: update_row_def)

lemma max_key_ge: "r \<in> set rows \<Longrightarrow> key r \<le> max_key key rows"
  by (auto simp: max_key_def)

lemma max_key_fresh: "max_key key rows + 1 \<notin> key ` set rows"
  using max_key_ge [of _ rows key] by fastforce

lemma set_order_by [simp]: "set (order_by k rows) = set rows"
  by (simp add: order_by_def)

lemma set_order_by_desc [simp]: "set (order_by_desc k rows) = set rows"
  by (simp add: order_by_desc_def)

lemma order_by_Nil [simp]: "order_by k rows = [] \<longleftrightarrow> rows = []"
  by (simp add: order_by_def flip: length_0_conv)

lemma order_by_desc_Nil [simp]: "order_by_desc k rows = [] \<longleftrightarrow> rows = []"
  by (simp add: order_by_desc_def flip: length_0_conv)

lemma sorted_order_by: "sorted (map k (order_by k rows))"
  by (simp add: order_by_def)

lemma sorted_order_by_desc: "sorted_wrt (\<lambda>a b. k a \<ge> k b) (order_by_desc k rows)"
proof -
  have "sorted_wrt (\<lambda>a b. k a \<le> k b) (sort_key k (rev rows))"
    using sorted_sort_key [of k "rev rows"] by (simp add: sorted_map)
  then show ?thesis by (simp add: order_by_desc_def sorted_wrt_rev)
qed

lemma first_row_Some: "first_row rows = Some r \<Longrightarrow> r \<in> set rows"
  by (auto simp: first_row_def split: list.splits)

lemma first_row_None [simp]: "first_row rows = None \<longleftrightarrow> rows = []"
  by (auto simp: first_row_def split: list.splits)

lemma set_limit_rows: "set (limit_rows m rows) \<subseteq> set rows"
  by (auto simp: limit_rows_def dest: in_set_takeD split: option.splits)

lemma limit_rows_None [simp]: "limit_rows None rows = rows"
  by (simp add: limit_rows_def)

lemma first_order_by_desc_greatest:
  assumes "first_row (order_by_desc k rows) = Some r" "x \<in> set rows"
  shows "k x \<le> k r"
  using sorted_order_by_desc [of k rows] assms set_order_by_desc [of k rows]
  by (cases "order_by_desc k rows") (auto simp: first_row_def)

lemma first_order_by_least:
  assumes "first_row (order_by k rows) = Some r" "x \<in> set rows"
  shows "k r \<le> k x"
  using sorted_order_by [of k rows] assms set_order_by [of k rows]
  by (cases "order_by k rows") (auto simp: first_row_def)

end
