(* ===== verification/PyTime.thy ===== *)
theory PyTime
  imports PyText
begin

text \<open>
  Instants and calendar dates as the program's datetime values.

  Every datetime the program stores is aware and in UTC, so an instant is an integer number of
  microseconds since 1970-01-01T00:00:00Z.  \<open>add_seconds\<close> is \<open>moment + timedelta(seconds=n)\<close> with
  the OverflowError of datetime, and \<open>isoformat\<close> is datetime.isoformat() of an instant in UTC.
  Times of the clock (datetime.now) are arguments of the operations that read it.
\<close>

type_synonym instant = int

definition second :: int where
  "second = 1000000"

definition day :: int where
  "day = 86400 * second"

lemma second_pos [simp]: "0 < second"
  by (simp add: second_def)

lemma day_pos [simp]: "0 < day"
  by (simp add: day_def)

text \<open>The last instant a datetime can hold: 9999-12-31T23:59:59.999999.\<close>

definition max_instant :: instant where
  "max_instant = 253402300799999999"

definition add_seconds :: "instant \<Rightarrow> int \<Rightarrow> instant option" where
  "add_seconds t n = (if t + n * second \<le> max_instant then Some (t + n * second) else None)"

section \<open>Calendar dates\<close>

record civil =
  civil_year :: int
  civil_month :: int
  civil_day :: int

text \<open>The proleptic Gregorian date of a day number counted from 1970-01-01.\<close>

definition civil_from_days :: "int \<Rightarrow> civil" where
  "civil_from_days z =
     (let z' = z + 719468;
          era = z' div 146097;
          doe = z' mod 146097;
          yoe = (doe - doe div 1460 + doe div 36524 - doe div 146096) div 365;
          doy = doe - (365 * yoe + yoe div 4 - yoe div 100);
          mp = (5 * doy + 2) div 153;
          d = doy - (153 * mp + 2) div 5 + 1;
          m = (if mp < 10 then mp + 3 else mp - 9);
          y = yoe + era * 400
      in \<lparr>civil_year = (if m \<le> 2 then y + 1 else y), civil_month = m, civil_day = d\<rparr>)"

definition days_from_civil :: "int \<Rightarrow> int \<Rightarrow> int \<Rightarrow> int" where
  "days_from_civil y m d =
     (let y' = (if m \<le> 2 then y - 1 else y);
          era = y' div 400;
          yoe = y' mod 400;
          doy = (153 * (if m > 2 then m - 3 else m + 9) + 2) div 5 + d - 1;
          doe = yoe * 365 + yoe div 4 - yoe div 100 + doy
      in era * 146097 + doe - 719468)"

definition pad :: "nat \<Rightarrow> int \<Rightarrow> ustr" where
  "pad w n = replicate (w - length (show_int n)) 48 @ show_int n"

definition iso_date :: "int \<Rightarrow> ustr" where
  "iso_date z =
     (let c = civil_from_days z
      in pad 4 (civil_year c) @ lit ''-'' @ pad 2 (civil_month c) @ lit ''-'' @ pad 2 (civil_day c))"

definition isoformat :: "instant \<Rightarrow> ustr" where
  "isoformat t =
     (let z = t div day; r = t mod day; s = r div second; us = r mod second
      in iso_date z @ lit ''T'' @ pad 2 (s div 3600) @ lit '':'' @ pad 2 (s div 60 mod 60) @ lit '':''
         @ pad 2 (s mod 60) @ (if us = 0 then [] else lit ''.'' @ pad 6 us) @ lit ''+00:00'')"

text \<open>Midnight (UTC) of the day an instant falls on.\<close>

definition start_of_day :: "instant \<Rightarrow> instant" where
  "start_of_day t = (t div day) * day"

lemma start_of_day_le: "start_of_day t \<le> t"
  using pos_mod_sign [of day t] by (simp add: start_of_day_def flip: minus_mod_eq_div_mult)

lemma start_of_day_gt: "t < start_of_day t + day"
  using pos_mod_bound [of day t] by (simp add: start_of_day_def flip: minus_mod_eq_div_mult)

lemma add_seconds_Some:
  "add_seconds t n = Some u \<longleftrightarrow> u = t + n * second \<and> t + n * second \<le> max_instant"
  by (auto simp: add_seconds_def)

lemma add_seconds_later: "add_seconds t n = Some u \<Longrightarrow> 1 \<le> n \<Longrightarrow> t + second \<le> u"
  using mult_right_mono [of 1 n second] by (simp add: add_seconds_Some)

end
