(* ===== verification/Schema.thy ===== *)
theory Schema
  imports Tables PyTime
begin

text \<open>
  The data model of app/models: one record per mapped class, the database that holds the tables,
  and what an INSERT enforces (primary key, foreign keys, unique constraints and the partial unique
  index on active crawl jobs).

  Columns with a CHECK constraint over a list of words (status, job_type) are datatypes.  A
  database also has its dialect, because the code numbers rows itself on SQLite
  (\<open>_model_create_kwargs\<close>) and leaves it to the sequence elsewhere.  The column updated_at, the
  widths of the text and integer columns and the relationship() collections are not modelled.
\<close>

section \<open>Values of dynamic type\<close>

text \<open>
  A value read from a JSON column or a crawler item.  \<open>VOther s\<close> is a value of any other type
  (float, list, Decimal), which the program reads only through str(); s is that text.  \<open>VDict s kvs\<close>
  is a dict with the text s that str() gives for it, and \<open>VTime s t\<close> a datetime with its text s and the
  instant t it stands for (a datetime without a time zone counts as UTC, as in the code).
\<close>

datatype pyval =
    VNone
  | VBool bool
  | VInt int
  | VStr ustr
  | VDict ustr "(ustr \<times> pyval) list"
  | VTime ustr int
  | VOther ustr

fun py_str :: "pyval \<Rightarrow> ustr" where
  "py_str VNone = lit ''None''"
| "py_str (VBool b) = (if b then lit ''True'' else lit ''False'')"
| "py_str (VInt i) = show_int i"
| "py_str (VStr s) = s"
| "py_str (VDict s kvs) = s"
| "py_str (VTime s t) = s"
| "py_str (VOther s) = s"

text \<open>The truth value of a value; that of the other values is an argument.\<close>

fun py_true :: "(ustr \<Rightarrow> bool) \<Rightarrow> pyval \<Rightarrow> bool" where
  "py_true other VNone = False"
| "py_true other (VBool b) = b"
| "py_true other (VInt i) = (i \<noteq> 0)"
| "py_true other (VStr s) = (s \<noteq> [])"
| "py_true other (VDict s kvs) = (kvs \<noteq> [])"
| "py_true other (VTime s t) = True"
| "py_true other (VOther s) = other s"

text \<open>Python's \<open>a or b\<close>.\<close>

definition py_or :: "(ustr \<Rightarrow> bool) \<Rightarrow> pyval \<Rightarrow> pyval \<Rightarrow> pyval" where
  "py_or other a b = (if py_true other a then a else b)"

type_synonym payload = "(ustr \<times> pyval) list"

definition dict_get :: "payload \<Rightarrow> ustr \<Rightarrow> pyval" where
  "dict_get d k = (case map_of d k of None \<Rightarrow> VNone | Some v \<Rightarrow> v)"

text \<open>\<open>d[k] = v\<close>: an old key keeps its place, a new one comes last.\<close>

fun dict_put :: "ustr \<Rightarrow> pyval \<Rightarrow> payload \<Rightarrow> payload" where
  "dict_put k v [] = [(k, v)]"
| "dict_put k v (e # d) = (if fst e = k then (k, v) # d else e # dict_put k v d)"

lemma dict_get_put [simp]: "dict_get (dict_put k v d) x = (if x = k then v else dict_get d x)"
  by (induction d) (auto simp: dict_get_def)

section \<open>Enumerations\<close>

datatype job_status = Pending | Running | Succeeded | Failed | Partial

datatype job_type = Manual | Scheduled | Backfill | Manual_retry

fun status_text :: "job_status \<Rightarrow> ustr" where
  "status_text Pending = lit ''pending''"
| "status_text Running = lit ''running''"
| "status_text Succeeded = lit ''succeeded''"
| "status_text Failed = lit ''failed''"
| "status_text Partial = lit ''partial''"

fun job_type_text :: "job_type \<Rightarrow> ustr" where
  "job_type_text Manual = lit ''manual''"
| "job_type_text Scheduled = lit ''scheduled''"
| "job_type_text Backfill = lit ''backfill''"
| "job_type_text Manual_retry = lit ''manual_retry''"

section \<open>Rows\<close>

record source_site =
  ss_id :: int
  ss_code :: ustr
  ss_name :: ustr
  ss_base_url :: ustr
  ss_official_url :: ustr
  ss_list_url :: ustr
  ss_description :: "ustr option"
  ss_is_active :: bool
  ss_supports_js_render :: bool
  ss_crawl_interval_minutes :: int
  ss_default_max_pages :: int
  ss_schedule_enabled :: bool
  ss_schedule_days :: int
  ss_last_scheduled_run_at :: "instant option"
  ss_next_scheduled_run_at :: "instant option"
  ss_last_schedule_status :: "ustr option"

text \<open>The twelve counters of a crawl job, in the order of the columns.\<close>

record job_counters =
  pages_fetched :: int
  documents_saved :: int
  notices_upserted :: int
  deduplicated_count :: int
  error_count :: int
  list_items_seen :: int
  list_items_unique :: int
  list_items_source_duplicates_skipped :: int
  detail_pages_fetched :: int
  records_inserted :: int
  records_updated :: int
  source_duplicates_suppressed :: int

text \<open>The fields a CrawlJobSnapshot has; a row of the table adds created_at.\<close>

record crawl_job_snapshot =
  cj_id :: int
  cj_source_site_id :: int
  cj_job_type :: job_type
  cj_status :: job_status
  cj_triggered_by :: "ustr option"
  cj_retry_of_job_id :: "int option"
  cj_queued_at :: "instant option"
  cj_picked_at :: "instant option"
  cj_started_at :: "instant option"
  cj_finished_at :: "instant option"
  cj_heartbeat_at :: "instant option"
  cj_timeout_at :: "instant option"
  cj_lease_expires_at :: "instant option"
  cj_counters :: job_counters
  cj_job_params_json :: "payload option"
  cj_runtime_stats_json :: "payload option"
  cj_failure_reason :: "ustr option"
  cj_message :: "ustr option"

record crawl_job = crawl_job_snapshot +
  cj_created_at :: instant

record crawl_error =
  ce_id :: int
  ce_source_site_id :: int
  ce_crawl_job_id :: "int option"
  ce_raw_document_id :: "int option"
  ce_stage :: ustr
  ce_url :: "ustr option"
  ce_error_type :: ustr
  ce_error_message :: ustr
  ce_traceback :: "ustr option"
  ce_retryable :: bool
  ce_occurred_at :: instant
  ce_resolved :: bool
  ce_created_at :: instant

record raw_document =
  rd_id :: int
  rd_source_site_id :: int
  rd_crawl_job_id :: "int option"
  rd_url :: ustr
  rd_normalized_url :: ustr
  rd_url_hash :: ustr
  rd_content_hash :: "ustr option"
  rd_source_duplicate_key :: "ustr option"
  rd_source_list_item_fingerprint :: "ustr option"
  rd_document_type :: ustr
  rd_http_status :: "int option"
  rd_mime_type :: "ustr option"
  rd_charset :: "ustr option"
  rd_title :: "ustr option"
  rd_fetched_at :: instant
  rd_storage_uri :: ustr
  rd_content_length :: "int option"
  rd_is_duplicate_url :: bool
  rd_is_duplicate_content :: bool
  rd_extra_meta :: "payload option"

record tender_notice =
  tn_id :: int
  tn_source_site_id :: int
  tn_external_id :: "ustr option"
  tn_project_code :: "ustr option"
  tn_dedup_hash :: "ustr option"
  tn_dedup_key :: "ustr option"
  tn_source_duplicate_key :: "ustr option"
  tn_title :: ustr
  tn_notice_type :: ustr
  tn_issuer :: "ustr option"
  tn_region :: "ustr option"
  tn_published_at :: "instant option"
  tn_deadline_at :: "instant option"
  tn_budget_amount :: "rat option"
  tn_budget_currency :: ustr
  tn_summary :: "ustr option"
  tn_first_published_at :: "instant option"
  tn_latest_published_at :: "instant option"
  tn_current_version_id :: "int option"
  tn_created_at :: instant

record notice_version =
  nv_id :: int
  nv_notice_id :: int
  nv_raw_document_id :: "int option"
  nv_version_no :: int
  nv_is_current :: bool
  nv_content_hash :: ustr
  nv_dedup_key :: "ustr option"
  nv_source_duplicate_key :: "ustr option"
  nv_title :: ustr
  nv_notice_type :: ustr
  nv_issuer :: "ustr option"
  nv_region :: "ustr option"
  nv_published_at :: "instant option"
  nv_deadline_at :: "instant option"
  nv_budget_amount :: "rat option"
  nv_budget_currency :: ustr
  nv_structured_data :: "payload option"
  nv_change_summary :: "ustr option"
  nv_created_at :: instant

record tender_attachment =
  ta_id :: int
  ta_source_site_id :: int
  ta_notice_id :: int
  ta_notice_version_id :: "int option"
  ta_raw_document_id :: "int option"
  ta_file_name :: ustr
  ta_attachment_type :: ustr
  ta_file_url :: ustr
  ta_url_hash :: ustr
  ta_file_hash :: "ustr option"
  ta_storage_uri :: "ustr option"
  ta_mime_type :: "ustr option"
  ta_file_ext :: "ustr option"
  ta_file_size_bytes :: "int option"
  ta_published_at :: "instant option"
  ta_downloaded_at :: "instant option"
  ta_is_deleted :: bool

record health_rule_config =
  hr_id :: int
  hr_recent_error_warning_threshold :: int
  hr_recent_error_critical_threshold :: int
  hr_consecutive_failure_warning_threshold :: int
  hr_consecutive_failure_critical_threshold :: int
  hr_partial_warning_enabled :: bool

section \<open>The database\<close>

datatype dialect = Sqlite | Postgresql

datatype table_name =
    T_source_site | T_crawl_job | T_crawl_error | T_raw_document | T_tender_notice
  | T_notice_version | T_tender_attachment

record db =
  db_dialect :: dialect
  db_seq :: "table_name \<Rightarrow> int"
  source_sites :: "source_site list"
  crawl_jobs :: "crawl_job list"
  crawl_errors :: "crawl_error list"
  raw_documents :: "raw_document list"
  tender_notices :: "tender_notice list"
  notice_versions :: "notice_version list"
  tender_attachments :: "tender_attachment list"
  health_rule_configs :: "health_rule_config list"

definition empty_db :: "dialect \<Rightarrow> db" where
  "empty_db d = \<lparr>db_dialect = d, db_seq = (\<lambda>_. 0), source_sites = [], crawl_jobs = [],
     crawl_errors = [], raw_documents = [], tender_notices = [], notice_versions = [],
     tender_attachments = [], health_rule_configs = []\<rparr>"

interpretation source_rows: row_store ss_id "get_row ss_id" "update_row ss_id" add_row
  by (rule row_store_list)

interpretation job_rows: row_store cj_id "get_row cj_id" "update_row cj_id" add_row
  by (rule row_store_list)

interpretation notice_rows: row_store tn_id "get_row tn_id" "update_row tn_id" add_row
  by (rule row_store_list)

interpretation version_rows: row_store nv_id "get_row nv_id" "update_row nv_id" add_row
  by (rule row_store_list)

section \<open>Errors\<close>

datatype integrity_constraint =
    Pk_crawl_job | Pk_source_site | Fk_crawl_job_source_site | Fk_crawl_job_retry_of
  | Uq_crawl_job_retry_of_job_id | Uq_crawl_job_source_active | Uq_source_site_code
  | Uq_other ustr

text \<open>The exceptions of the program, each with what its constructor is given.\<close>

datatype pyerror =
    ValueError ustr
  | RuntimeError ustr
  | TypeError ustr
  | OverflowError
  | IntegrityError integrity_constraint
  | SourceActiveCrawlJobConflictError ustr int "int option" "job_status option"
  | CrawlJobRetryConflictError int "int option"
  | CrawlJobRetryValidationError ustr
  | CrawlJobRetryNotFoundError ustr
  | CrawlJobStartConflictError int job_status
  | RunnerError ustr
  | InvalidOperation

type_synonym 'a result = "pyerror + 'a"

text \<open>The outcome of a request to the API: the status code of an error, or the content of the response.\<close>

type_synonym 'a http_result = "nat + 'a"

section \<open>Sequences of checks\<close>

definition and_then :: "'a result \<Rightarrow> ('a \<Rightarrow> 'b result) \<Rightarrow> 'b result" where
  "and_then r f = (case r of Inl e \<Rightarrow> Inl e | Inr x \<Rightarrow> f x)"

lemma and_then_simps [simp]: "and_then (Inl e) f = Inl e" "and_then (Inr x) f = f x"
  by (simp_all add: and_then_def)

lemma and_then_Inr: "and_then r f = Inr y \<longleftrightarrow> (\<exists>x. r = Inr x \<and> f x = Inr y)"
  by (cases r) auto

definition require :: "bool \<Rightarrow> pyerror \<Rightarrow> unit result" where
  "require c e = (if c then Inr () else Inl e)"

lemma require_Inr [simp]: "require c e = Inr u \<longleftrightarrow> c"
  by (simp add: require_def)

fun check_each :: "('a \<Rightarrow> 'b result) \<Rightarrow> 'a list \<Rightarrow> unit result" where
  "check_each f [] = Inr ()"
| "check_each f (x # xs) = and_then (f x) (\<lambda>_. check_each f xs)"

lemma check_each_Inr [simp]: "check_each f xs = Inr u \<longleftrightarrow> (\<forall>x \<in> set xs. \<exists>y. f x = Inr y)"
  by (induction xs) (auto simp: and_then_Inr)

section \<open>Inserting a crawl job\<close>

definition active_status :: "job_status \<Rightarrow> bool" where
  "active_status st \<longleftrightarrow> st = Pending \<or> st = Running"

definition final_status :: "job_status \<Rightarrow> bool" where
  "final_status st \<longleftrightarrow> st = Succeeded \<or> st = Failed \<or> st = Partial"

lemma final_iff_not_active: "final_status st \<longleftrightarrow> \<not> active_status st"
  by (cases st) (auto simp: active_status_def final_status_def)

text \<open>
  The value of a new primary key: one more than the largest id on SQLite, where the code computes
  it, and the next value of the table's sequence elsewhere.
\<close>

definition next_id :: "table_name \<Rightarrow> ('r \<Rightarrow> int) \<Rightarrow> 'r list \<Rightarrow> db \<Rightarrow> int" where
  "next_id tbl key rows d =
     (case db_dialect d of Sqlite \<Rightarrow> max_key key rows + 1 | Postgresql \<Rightarrow> db_seq d tbl + 1)"

definition bump_seq :: "table_name \<Rightarrow> db \<Rightarrow> db" where
  "bump_seq tbl d =
     (case db_dialect d of
        Sqlite \<Rightarrow> d
      | Postgresql \<Rightarrow> d\<lparr>db_seq := (db_seq d)(tbl := db_seq d tbl + 1)\<rparr>)"

text \<open>
  The constraints of crawl_job that an INSERT can break: the primary key, the two foreign keys, the
  unique retry_of_job_id and the partial unique index on source_site_id over active jobs.
\<close>

definition crawl_job_violation :: "crawl_job \<Rightarrow> db \<Rightarrow> integrity_constraint option" where
  "crawl_job_violation j d =
     (if cj_id j \<in> cj_id ` set (crawl_jobs d) then Some Pk_crawl_job
      else if cj_source_site_id j \<notin> ss_id ` set (source_sites d) then Some Fk_crawl_job_source_site
      else if (case cj_retry_of_job_id j of
                 None \<Rightarrow> False | Some k \<Rightarrow> k \<notin> cj_id ` set (crawl_jobs d))
        then Some Fk_crawl_job_retry_of
      else if \<exists>j' \<in> set (crawl_jobs d).
          cj_retry_of_job_id j \<noteq> None \<and> cj_retry_of_job_id j' = cj_retry_of_job_id j
        then Some Uq_crawl_job_retry_of_job_id
      else if active_status (cj_status j) \<and> (\<exists>j' \<in> set (crawl_jobs d).
          cj_source_site_id j' = cj_source_site_id j \<and> active_status (cj_status j'))
        then Some Uq_crawl_job_source_active
      else None)"

definition insert_crawl_job :: "crawl_job \<Rightarrow> db \<Rightarrow> db result" where
  "insert_crawl_job j d =
     (case crawl_job_violation j d of
        Some c \<Rightarrow> Inl (IntegrityError c)
      | None \<Rightarrow> Inr (bump_seq T_crawl_job (d\<lparr>crawl_jobs := add_row j (crawl_jobs d)\<rparr>)))"

text \<open>INSERT into source_site: the primary key and the unique code.\<close>

definition insert_source_site :: "source_site \<Rightarrow> db \<Rightarrow> db result" where
  "insert_source_site s d =
     (if ss_id s \<in> ss_id ` set (source_sites d) then Inl (IntegrityError Pk_source_site)
      else if ss_code s \<in> ss_code ` set (source_sites d) then Inl (IntegrityError Uq_source_site_code)
      else Inr (bump_seq T_source_site (d\<lparr>source_sites := add_row s (source_sites d)\<rparr>)))"

lemma bump_seq_simps [simp]:
  "crawl_jobs (bump_seq t d) = crawl_jobs d"
  "source_sites (bump_seq t d) = source_sites d"
  "db_dialect (bump_seq t d) = db_dialect d"
  "crawl_errors (bump_seq t d) = crawl_errors d"
  "raw_documents (bump_seq t d) = raw_documents d"
  "tender_notices (bump_seq t d) = tender_notices d"
  "notice_versions (bump_seq t d) = notice_versions d"
  "tender_attachments (bump_seq t d) = tender_attachments d"
  "health_rule_configs (bump_seq t d) = health_rule_configs d"
  by (auto simp: bump_seq_def split: dialect.split)

definition find_source :: "ustr \<Rightarrow> db \<Rightarrow> source_site option" where
  "find_source code d = find (\<lambda>s. ss_code s = code) (source_sites d)"

lemma find_source_Some: "find_source c d = Some s \<Longrightarrow> s \<in> set (source_sites d) \<and> ss_code s = c"
  by (auto simp: find_source_def find_Some_iff)

abbreviation get_job_row :: "int \<Rightarrow> db \<Rightarrow> crawl_job option" where
  "get_job_row k d \<equiv> get_row cj_id k (crawl_jobs d)"

definition update_job :: "int \<Rightarrow> (crawl_job \<Rightarrow> crawl_job) \<Rightarrow> db \<Rightarrow> db" where
  "update_job k f d = d\<lparr>crawl_jobs := update_row cj_id k f (crawl_jobs d)\<rparr>"

lemma update_job_simps [simp]:
  "crawl_jobs (update_job k f d) = update_row cj_id k f (crawl_jobs d)"
  "source_sites (update_job k f d) = source_sites d"
  "db_dialect (update_job k f d) = db_dialect d"
  "db_seq (update_job k f d) = db_seq d"
  "crawl_errors (update_job k f d) = crawl_errors d"
  by (auto simp: update_job_def)

lemma status_text_inj [simp]: "status_text a = status_text b \<longleftrightarrow> a = b"
  by (cases a; cases b) auto

lemma job_type_text_inj [simp]: "job_type_text a = job_type_text b \<longleftrightarrow> a = b"
  by (cases a; cases b) auto

end
