(* ===== verification/Adapters.thy ===== *)
theory Adapters
  imports Labels Schema
begin

text \<open>
  app/services/source_adapter_registry.py: the sources that have a spider, the legacy codes that
  are aliases of one of them, and which job types a source supports.
\<close>

record source_adapter_meta =
  am_source_code :: ustr
  am_spider_name :: ustr
  am_business_code :: ustr
  am_display_name :: ustr
  am_base_url :: ustr
  am_official_url :: ustr
  am_list_url :: ustr
  am_supported_job_types :: "ustr list"

definition adapter_job_types :: "ustr list" where
  "adapter_job_types = [lit ''manual'', lit ''manual_retry'', lit ''backfill'']"

definition integrated_adapters :: "(ustr \<times> source_adapter_meta) list" where
  "integrated_adapters =
    [(lit ''example_source'',
      \<lparr>am_source_code = lit ''example_source'', am_spider_name = lit ''example_source'',
       am_business_code = lit ''example_source'', am_display_name = zh_example_source_name,
       am_base_url = lit ''https://example.com/'', am_official_url = lit ''https://example.com/'',
       am_list_url = lit ''https://example.com/notices'',
       am_supported_job_types = adapter_job_types\<rparr>),
     (lit ''anhui_ggzy_zfcg'',
      \<lparr>am_source_code = lit ''anhui_ggzy_zfcg'', am_spider_name = lit ''anhui_ggzy_zfcg'',
       am_business_code = lit ''anhui_ggzy_zfcg'', am_display_name = zh_anhui_name,
       am_base_url = lit ''https://ggzy.ah.gov.cn/'', am_official_url = lit ''https://ggzy.ah.gov.cn/'',
       am_list_url = lit ''https://ggzy.ah.gov.cn/zfcg/list?bulletinNature=1&time=1'',
       am_supported_job_types = adapter_job_types\<rparr>),
     (lit ''ggzy_gov_cn_deal'',
      \<lparr>am_source_code = lit ''ggzy_gov_cn_deal'', am_spider_name = lit ''ggzy_gov_cn_deal'',
       am_business_code = lit ''ggzy_gov_cn_deal'', am_display_name = zh_ggzy_name,
       am_base_url = lit ''https://www.ggzy.gov.cn/'', am_official_url = lit ''https://www.ggzy.gov.cn/'',
       am_list_url = lit ''https://www.ggzy.gov.cn/deal/dealList.html?HEADER_DEAL_TYPE=02'',
       am_supported_job_types = adapter_job_types\<rparr>)]"

definition legacy_source_code_aliases :: "(ustr \<times> ustr) list" where
  "legacy_source_code_aliases =
    [(lit ''2'', lit ''ggzy_gov_cn_deal''), (lit ''ggzy_gov_cn'', lit ''ggzy_gov_cn_deal'')]"

definition normalize_source_code :: "ustr \<Rightarrow> ustr" where
  "normalize_source_code source_code =
     (let normalized = strip source_code
      in if normalized = [] then normalized
         else (case map_of legacy_source_code_aliases normalized of
                 None \<Rightarrow> normalized | Some code \<Rightarrow> code))"

definition get_source_adapter :: "ustr \<Rightarrow> source_adapter_meta option" where
  "get_source_adapter source_code = map_of integrated_adapters (normalize_source_code source_code)"

definition is_source_integrated :: "ustr \<Rightarrow> bool" where
  "is_source_integrated source_code = (get_source_adapter source_code \<noteq> None)"

definition resolve_spider_name :: "ustr \<Rightarrow> ustr option" where
  "resolve_spider_name source_code = map_option am_spider_name (get_source_adapter source_code)"

definition supports_job_type :: "ustr \<Rightarrow> ustr \<Rightarrow> bool" where
  "supports_job_type source_code job_type =
     (case get_source_adapter source_code of
        None \<Rightarrow> False
      | Some adapter \<Rightarrow> job_type \<in> set (am_supported_job_types adapter))"

text \<open>sorted() of texts is by code points, the lexicographic order of lists.\<close>

definition list_integrated_source_codes :: "ustr list" where
  "list_integrated_source_codes = sort (map fst integrated_adapters)"

section \<open>Normal forms of source codes\<close>

lemma strip_plain:
  assumes "\<And>c. c \<in> set s \<Longrightarrow> c = 95 \<or> (48 \<le> c \<and> c < 58) \<or> (97 \<le> c \<and> c < 123)"
  shows "strip s = s"
  by (rule strip_no_space) (use assms in \<open>fastforce simp: py_space_def space_points_def\<close>)

lemma strip_deal: "strip (lit ''ggzy_gov_cn_deal'') = lit ''ggzy_gov_cn_deal''"
  by (rule strip_plain) (auto simp: lit_def)

lemma normalize_source_code_cases:
  "normalize_source_code s = strip s \<or> normalize_source_code s = lit ''ggzy_gov_cn_deal''"
  by (auto simp: normalize_source_code_def Let_def legacy_source_code_aliases_def)

lemma normalize_source_code_idem [simp]:
  "normalize_source_code (normalize_source_code s) = normalize_source_code s"
proof -
  have "normalize_source_code (lit ''ggzy_gov_cn_deal'') = lit ''ggzy_gov_cn_deal''"
    by (simp add: normalize_source_code_def strip_deal legacy_source_code_aliases_def)
  then show ?thesis
    by (auto simp: normalize_source_code_def Let_def legacy_source_code_aliases_def)
qed

lemma normalize_source_code_Nil [simp]: "normalize_source_code s = [] \<longleftrightarrow> strip s = []"
  by (auto simp: normalize_source_code_def Let_def legacy_source_code_aliases_def)

lemma strip_normalize_source_code [simp]: "strip (normalize_source_code s) = normalize_source_code s"
  using normalize_source_code_cases [of s] strip_deal by fastforce

lemma get_source_adapter_normalize [simp]:
  "get_source_adapter (normalize_source_code s) = get_source_adapter s"
  by (simp add: get_source_adapter_def)

text \<open>Every adapter is registered under its own source code, and has a spider.\<close>

lemma get_source_adapter_Some:
  assumes "get_source_adapter s = Some a"
  shows "am_source_code a = normalize_source_code s" "am_spider_name a \<noteq> []"
    "am_supported_job_types a = adapter_job_types"
  using assms
  by (auto simp: get_source_adapter_def integrated_adapters_def split: if_splits)

lemma resolve_spider_name_Some:
  "get_source_adapter s = Some a \<Longrightarrow> resolve_spider_name s = Some (am_spider_name a)"
  by (simp add: resolve_spider_name_def)

end
