(* ===== verification/Payloads.thy ===== *)
theory Payloads
  imports Schema
begin

text \<open>
  app/services/crawl_job_payloads.py: the two JSON payloads a crawl job carries
  (job_params_json and runtime_stats_json) and the readers of their fields.

  A payload is a dict in insertion order; a builder starts from its obligatory keys and appends
  each optional key that was given.  The lemmas say which value every key has afterwards, so that a
  reader applied to a built payload returns what was put in.
\<close>

text \<open>\<open>payload[key] = value\<close> for a key that is not in the dict yet, if the value was given.\<close>

definition put_opt :: "ustr \<Rightarrow> pyval option \<Rightarrow> payload \<Rightarrow> payload" where
  "put_opt k v d = (case v of None \<Rightarrow> d | Some x \<Rightarrow> d @ [(k, x)])"

text \<open>An optional text that is put only when it is true in Python: given and not empty.\<close>

definition truthy_text :: "ustr option \<Rightarrow> pyval option" where
  "truthy_text t = (case t of None \<Rightarrow> None | Some s \<Rightarrow> if s = [] then None else Some (VStr s))"

definition build_job_params_payload ::
    "ustr \<Rightarrow> ustr \<Rightarrow> ustr option \<Rightarrow> int option \<Rightarrow> int option \<Rightarrow> int option \<Rightarrow> ustr option \<Rightarrow> payload" where
  "build_job_params_payload source_code job_type triggered_by max_pages backfill_year
      retry_of_job_id spider_name =
     put_opt (lit ''spider_name'') (truthy_text spider_name)
      (put_opt (lit ''retry_of_job_id'') (map_option VInt retry_of_job_id)
       (put_opt (lit ''backfill_year'') (map_option VInt backfill_year)
        (put_opt (lit ''max_pages'') (map_option VInt max_pages)
         (put_opt (lit ''triggered_by'') (truthy_text triggered_by)
          [(lit ''source_code'', VStr source_code), (lit ''job_type'', VStr job_type)]))))"

text \<open>The keyword arguments of build_runtime_stats_payload, all optional but run_stage.\<close>

record runtime_stats_args =
  rs_spider_name :: "ustr option"
  rs_pages_scraped :: "int option"
  rs_list_seen :: "int option"
  rs_list_unique :: "int option"
  rs_detail_requests :: "int option"
  rs_dedup_skipped :: "int option"
  rs_notices_written :: "int option"
  rs_raw_documents_written :: "int option"
  rs_first_publish_date_seen :: "ustr option"
  rs_last_publish_date_seen :: "ustr option"
  rs_return_code :: "int option"
  rs_timeout_stage :: "ustr option"
  rs_heartbeat_at :: "instant option"
  rs_timeout_at :: "instant option"

definition no_stats :: runtime_stats_args where
  "no_stats = \<lparr>rs_spider_name = None, rs_pages_scraped = None, rs_list_seen = None,
     rs_list_unique = None, rs_detail_requests = None, rs_dedup_skipped = None,
     rs_notices_written = None, rs_raw_documents_written = None,
     rs_first_publish_date_seen = None, rs_last_publish_date_seen = None, rs_return_code = None,
     rs_timeout_stage = None, rs_heartbeat_at = None, rs_timeout_at = None\<rparr>"

definition build_runtime_stats_payload :: "ustr \<Rightarrow> runtime_stats_args \<Rightarrow> payload" where
  "build_runtime_stats_payload run_stage a =
     put_opt (lit ''timeout_at'') (map_option (\<lambda>t. VStr (isoformat t)) (rs_timeout_at a))
     (put_opt (lit ''heartbeat_at'') (map_option (\<lambda>t. VStr (isoformat t)) (rs_heartbeat_at a))
     (put_opt (lit ''timeout_stage'') (truthy_text (rs_timeout_stage a))
     (put_opt (lit ''return_code'') (map_option VInt (rs_return_code a))
     (put_opt (lit ''last_publish_date_seen'') (truthy_text (rs_last_publish_date_seen a))
     (put_opt (lit ''first_publish_date_seen'') (truthy_text (rs_first_publish_date_seen a))
     (put_opt (lit ''raw_documents_written'') (map_option VInt (rs_raw_documents_written a))
     (put_opt (lit ''notices_written'') (map_option VInt (rs_notices_written a))
     (put_opt (lit ''dedup_skipped'') (map_option VInt (rs_dedup_skipped a))
     (put_opt (lit ''detail_requests'') (map_option VInt (rs_detail_requests a))
     (put_opt (lit ''list_unique'') (map_option VInt (rs_list_unique a))
     (put_opt (lit ''list_seen'') (map_option VInt (rs_list_seen a))
     (put_opt (lit ''pages_scraped'') (map_option VInt (rs_pages_scraped a))
     (put_opt (lit ''spider_name'') (truthy_text (rs_spider_name a))
      [(lit ''run_stage'', VStr run_stage)])))))))))))))"

text \<open>The readers; an absent key and a null value read the same.\<close>

definition read_payload_int :: "payload option \<Rightarrow> ustr \<Rightarrow> int option" where
  "read_payload_int p key =
     (case p of
        None \<Rightarrow> None
      | Some d \<Rightarrow> if d = [] then None
          else (case dict_get d key of VNone \<Rightarrow> None | v \<Rightarrow> py_int (strip (py_str v))))"

definition read_payload_text :: "payload option \<Rightarrow> ustr \<Rightarrow> ustr option" where
  "read_payload_text p key =
     (case p of
        None \<Rightarrow> None
      | Some d \<Rightarrow> if d = [] then None
          else (case dict_get d key of
                  VNone \<Rightarrow> None
                | v \<Rightarrow> (let t = strip (py_str v) in if t = [] then None else Some t)))"

section \<open>What the keys of a payload hold\<close>

lemma map_of_put_opt [simp]:
  "map_of (put_opt k v d) x =
     (case map_of d x of
        Some y \<Rightarrow> Some y
      | None \<Rightarrow> if x = k then v else None)"
  by (auto simp: put_opt_def map_add_def split: option.splits)

lemma put_opt_Nil [simp]: "put_opt k v d = [] \<longleftrightarrow> d = [] \<and> v = None"
  by (auto simp: put_opt_def split: option.splits)

lemma strip_show_int [simp]: "strip (show_int i) = show_int i"
proof (rule strip_no_space)
  fix c assume "c \<in> set (show_int i)"
  then have "c = 45 \<or> (48 \<le> c \<and> c < 58)"
    by (auto simp: show_int_def dest: show_nat_digits split: if_splits)
  then show "\<not> py_space c"
    by (auto simp: py_space_def space_points_def)
qed

lemma job_params_max_pages:
  "dict_get (build_job_params_payload sc jt tb mp bf rt sp) (lit ''max_pages'') =
     (case mp of None \<Rightarrow> VNone | Some n \<Rightarrow> VInt n)"
  by (simp add: dict_get_def build_job_params_payload_def split: option.splits)

lemma job_params_backfill_year:
  "dict_get (build_job_params_payload sc jt tb mp bf rt sp) (lit ''backfill_year'') =
     (case bf of None \<Rightarrow> VNone | Some n \<Rightarrow> VInt n)"
  by (simp add: dict_get_def build_job_params_payload_def split: option.splits)

lemma read_payload_int_VInt:
  assumes "\<bar>n\<bar> < 10 ^ int_digit_limit" "dict_get d k = VInt n"
  shows "read_payload_int (Some d) k = Some n"
proof -
  have "d \<noteq> []" using assms(2) by (auto simp: dict_get_def)
  then show ?thesis using assms by (simp add: read_payload_int_def)
qed

lemma read_payload_int_VNone: "dict_get d k = VNone \<Longrightarrow> read_payload_int (Some d) k = None"
  by (simp add: read_payload_int_def)

text \<open>A retry reads from the payload of the original job the page limit it was created with.\<close>

lemma read_back_max_pages:
  assumes "\<And>n. mp = Some n \<Longrightarrow> \<bar>n\<bar> < 10 ^ int_digit_limit"
  shows "read_payload_int (Some (build_job_params_payload sc jt tb mp bf rt sp)) (lit ''max_pages'') = mp"
proof (cases mp)
  case None
  then show ?thesis by (simp add: read_payload_int_VNone job_params_max_pages)
next
  case (Some n)
  with assms show ?thesis by (simp add: read_payload_int_VInt job_params_max_pages)
qed

lemma read_back_backfill_year:
  assumes "\<And>n. bf = Some n \<Longrightarrow> \<bar>n\<bar> < 10 ^ int_digit_limit"
  shows "read_payload_int (Some (build_job_params_payload sc jt tb mp bf rt sp)) (lit ''backfill_year'') = bf"
proof (cases bf)
  case None
  then show ?thesis by (simp add: read_payload_int_VNone job_params_backfill_year)
next
  case (Some n)
  with assms show ?thesis by (simp add: read_payload_int_VInt job_params_backfill_year)
qed

end
