(* ===== verification/JobService.thy ===== *)
theory JobService
  imports Adapters Payloads
begin

text \<open>
  app/services/crawl_job_service.py: the life cycle of a crawl job.

  Every \<open>..._in_session\<close> method is a function from the database to either an exception or its return
  value and the database the session then holds; the clock (datetime.now) is an argument.  The
  public methods run one of them in a session of their own: commit on success, nothing on an
  exception or when the method returns None (\<open>transact\<close>).
\<close>

named_theorems job_simps \<open>definitions of the single-row operations on crawl jobs\<close>

section \<open>Arguments, texts and enumerations\<close>

text \<open>An argument with the sentinel \<open>_UNSET\<close> as its default.\<close>

datatype 'a arg = Unset | Given 'a

fun given_or :: "'a arg \<Rightarrow> 'a \<Rightarrow> 'a" where
  "given_or Unset old = old"
| "given_or (Given v) old = v"

text \<open>\<open>a or b\<close> for values that are never false but None.\<close>

fun or_else :: "'a option \<Rightarrow> 'a option \<Rightarrow> 'a option" where
  "or_else None b = b"
| "or_else (Some a) b = Some a"

definition as_str :: "ustr option \<Rightarrow> ustr option" where
  "as_str v =
     (case v of None \<Rightarrow> None | Some s \<Rightarrow> (let t = strip s in if t = [] then None else Some t))"

definition crawl_job_types :: "job_type list" where
  "crawl_job_types = [Manual, Scheduled, Backfill, Manual_retry]"

definition crawl_job_statuses :: "job_status list" where
  "crawl_job_statuses = [Pending, Running, Succeeded, Failed, Partial]"

definition default_pending_lease_seconds :: int where
  "default_pending_lease_seconds = 120"

definition default_running_lease_seconds :: int where
  "default_running_lease_seconds = 1800"

definition normalize_job_type :: "ustr option \<Rightarrow> job_type result" where
  "normalize_job_type v =
     (case as_str v of
        None \<Rightarrow> Inl (ValueError (lit ''job_type is required''))
      | Some n \<Rightarrow> (case find (\<lambda>t. job_type_text t = n) crawl_job_types of
          None \<Rightarrow> Inl (ValueError (lit ''unsupported crawl job type: '' @ n))
        | Some t \<Rightarrow> Inr t))"

definition normalize_status :: "ustr option \<Rightarrow> job_status result" where
  "normalize_status v =
     (case as_str v of
        None \<Rightarrow> Inl (ValueError (lit ''status is required''))
      | Some n \<Rightarrow> (case find (\<lambda>t. status_text t = n) crawl_job_statuses of
          None \<Rightarrow> Inl (ValueError (lit ''unsupported crawl job status: '' @ n))
        | Some t \<Rightarrow> Inr t))"

text \<open>\<open>_ALLOWED_TRANSITIONS\<close> and \<open>_ensure_transition\<close>; the table has a row for every status.\<close>

fun allowed_transitions :: "job_status \<Rightarrow> job_status list" where
  "allowed_transitions Pending = [Running, Failed]"
| "allowed_transitions Running = [Succeeded, Failed, Partial]"
| "allowed_transitions Succeeded = [Succeeded]"
| "allowed_transitions Failed = [Failed]"
| "allowed_transitions Partial = [Partial]"

definition ensure_transition :: "job_status \<Rightarrow> job_status \<Rightarrow> unit result" where
  "ensure_transition current next =
     (if next \<in> set (allowed_transitions current) then Inr ()
      else Inl (ValueError (lit ''invalid crawl job status transition: '' @ status_text current
                            @ lit '' -> '' @ status_text next)))"

definition calculate_lease_expires_at :: "instant \<Rightarrow> int \<Rightarrow> instant result" where
  "calculate_lease_expires_at moment lease_seconds =
     (if lease_seconds < 1 then Inl (ValueError (lit ''lease_seconds must be >= 1''))
      else (case add_seconds moment lease_seconds of
              None \<Rightarrow> Inl OverflowError | Some t \<Rightarrow> Inr t))"

definition resolve_timeout_at :: "'a crawl_job_snapshot_scheme \<Rightarrow> instant option" where
  "resolve_timeout_at j = or_else (cj_timeout_at j) (cj_lease_expires_at j)"

section \<open>Counters\<close>

definition zero_counters :: job_counters where
  "zero_counters = \<lparr>pages_fetched = 0, documents_saved = 0, notices_upserted = 0,
     deduplicated_count = 0, error_count = 0, list_items_seen = 0, list_items_unique = 0,
     list_items_source_duplicates_skipped = 0, detail_pages_fetched = 0, records_inserted = 0,
     records_updated = 0, source_duplicates_suppressed = 0\<rparr>"

text \<open>The deltas by name, in the order the code validates them.\<close>

definition counter_fields :: "(string \<times> (job_counters \<Rightarrow> int)) list" where
  "counter_fields =
    [(''pages_fetched'', pages_fetched), (''documents_saved'', documents_saved),
     (''notices_upserted'', notices_upserted), (''deduplicated_count'', deduplicated_count),
     (''error_count'', error_count), (''list_items_seen'', list_items_seen),
     (''list_items_unique'', list_items_unique),
     (''list_items_source_duplicates_skipped'', list_items_source_duplicates_skipped),
     (''detail_pages_fetched'', detail_pages_fetched), (''records_inserted'', records_inserted),
     (''records_updated'', records_updated),
     (''source_duplicates_suppressed'', source_duplicates_suppressed)]"

definition add_counters :: "job_counters \<Rightarrow> job_counters \<Rightarrow> job_counters" where
  "add_counters a b = \<lparr>pages_fetched = pages_fetched a + pages_fetched b,
     documents_saved = documents_saved a + documents_saved b,
     notices_upserted = notices_upserted a + notices_upserted b,
     deduplicated_count = deduplicated_count a + deduplicated_count b,
     error_count = error_count a + error_count b,
     list_items_seen = list_items_seen a + list_items_seen b,
     list_items_unique = list_items_unique a + list_items_unique b,
     list_items_source_duplicates_skipped =
       list_items_source_duplicates_skipped a + list_items_source_duplicates_skipped b,
     detail_pages_fetched = detail_pages_fetched a + detail_pages_fetched b,
     records_inserted = records_inserted a + records_inserted b,
     records_updated = records_updated a + records_updated b,
     source_duplicates_suppressed = source_duplicates_suppressed a + source_duplicates_suppressed b\<rparr>"

definition normalize_deltas :: "job_counters \<Rightarrow> job_counters result" where
  "normalize_deltas c =
     (case find (\<lambda>(n, f). f c < 0) counter_fields of
        Some (n, f) \<Rightarrow> Inl (ValueError (lit (n @ '' must be >= 0'')))
      | None \<Rightarrow> Inr c)"

section \<open>Creating a job\<close>

definition ggzy_deal :: ustr where
  "ggzy_deal = lit ''ggzy_gov_cn_deal''"

text \<open>
  The source a code stands for: by the normalized code, by the code as given, and for the national
  platform also by its legacy codes or its name.
\<close>

definition lookup_source_site :: "ustr \<Rightarrow> ustr \<Rightarrow> db \<Rightarrow> source_site option" where
  "lookup_source_site raw_code code d =
     or_else (find_source code d)
      (or_else (if raw_code \<noteq> code then find_source raw_code d else None)
       (if code = ggzy_deal then
          or_else
            (first_row (order_by ss_id
               (filter (\<lambda>s. ss_code s \<in> {lit ''2'', lit ''ggzy_gov_cn''}) (source_sites d))))
            (first_row (order_by ss_id
               (filter (\<lambda>s. contains zh_ggzy_platform (ss_name s)) (source_sites d))))
        else None))"

definition text_or :: "ustr option \<Rightarrow> ustr \<Rightarrow> ustr" where
  "text_or t dflt = (case t of None \<Rightarrow> dflt | Some s \<Rightarrow> s)"

definition ensure_source_site ::
    "ustr \<Rightarrow> ustr option \<Rightarrow> ustr option \<Rightarrow> db \<Rightarrow> (source_site \<times> db) result" where
  "ensure_source_site source_code source_name source_url d =
     (case as_str (Some source_code) of
        None \<Rightarrow> Inl (ValueError (lit ''source_code is required''))
      | Some raw_code \<Rightarrow>
         (let code = normalize_source_code raw_code
          in case lookup_source_site raw_code code d of
               Some source \<Rightarrow>
                 (if ss_code source \<noteq> code \<and> find_source code d = None
                  then Inr (source\<lparr>ss_code := code\<rparr>,
                            d\<lparr>source_sites := update_row ss_id (ss_id source)
                                (\<lambda>s. s\<lparr>ss_code := code\<rparr>) (source_sites d)\<rparr>)
                  else Inr (source, d))
             | None \<Rightarrow>
                 (let url = text_or (as_str source_url) (lit ''https://example.com'');
                      source = \<lparr>ss_id = next_id T_source_site ss_id (source_sites d) d,
                        ss_code = code, ss_name = text_or (as_str source_name) code,
                        ss_base_url = url, ss_official_url = url, ss_list_url = url,
                        ss_description = Some (lit ''auto-created by crawl job service''),
                        ss_is_active = True, ss_supports_js_render = False,
                        ss_crawl_interval_minutes = 60, ss_default_max_pages = 50,
                        ss_schedule_enabled = False, ss_schedule_days = 1,
                        ss_last_scheduled_run_at = None, ss_next_scheduled_run_at = None,
                        ss_last_schedule_status = None\<rparr>
                  in case insert_source_site source d of
                       Inl e \<Rightarrow> Inl e
                     | Inr d' \<Rightarrow> Inr (source, d'))))"

record create_job_args =
  ca_source_code :: ustr
  ca_source_name :: "ustr option"
  ca_source_url :: "ustr option"
  ca_job_type :: ustr
  ca_triggered_by :: "ustr option"
  ca_retry_of_job_id :: "int option"
  ca_job_params_json :: "payload option"
  ca_runtime_stats_json :: "payload option"
  ca_failure_reason :: "ustr option"
  ca_message :: "ustr option"

definition new_crawl_job ::
    "instant \<Rightarrow> create_job_args \<Rightarrow> job_type \<Rightarrow> int \<Rightarrow> int \<Rightarrow> crawl_job" where
  "new_crawl_job now a jt source_id new_id =
     \<lparr>cj_id = new_id, cj_source_site_id = source_id, cj_job_type = jt, cj_status = Pending,
      cj_triggered_by = as_str (ca_triggered_by a), cj_retry_of_job_id = ca_retry_of_job_id a,
      cj_queued_at = Some now, cj_picked_at = None, cj_started_at = None, cj_finished_at = None,
      cj_heartbeat_at = None, cj_timeout_at = None, cj_lease_expires_at = None,
      cj_counters = zero_counters, cj_job_params_json = ca_job_params_json a,
      cj_runtime_stats_json = ca_runtime_stats_json a,
      cj_failure_reason = as_str (ca_failure_reason a), cj_message = as_str (ca_message a),
      cj_created_at = now\<rparr>"

definition create_job_in_session ::
    "instant \<Rightarrow> create_job_args \<Rightarrow> db \<Rightarrow> (crawl_job \<times> db) result" where
  "create_job_in_session now a d =
     (case normalize_job_type (Some (ca_job_type a)) of
        Inl e \<Rightarrow> Inl e
      | Inr jt \<Rightarrow>
       (case ensure_source_site (ca_source_code a) (ca_source_name a) (ca_source_url a) d of
          Inl e \<Rightarrow> Inl e
        | Inr (source, d1) \<Rightarrow>
           (case (case ca_retry_of_job_id a of
                    None \<Rightarrow> Inr ()
                  | Some k \<Rightarrow> if get_job_row k d1 = None
                      then Inl (ValueError (lit ''retry_of_job_id not found: '' @ show_int k))
                      else Inr ()) of
              Inl e \<Rightarrow> Inl e
            | Inr _ \<Rightarrow>
               (let job = new_crawl_job now a jt (ss_id source)
                            (next_id T_crawl_job cj_id (crawl_jobs d1) d1)
                in case insert_crawl_job job d1 of
                     Inl e \<Rightarrow> Inl e
                   | Inr d2 \<Rightarrow> Inr (job, d2)))))"

section \<open>Claiming and starting a job\<close>

text \<open>The WHERE clause of the claiming UPDATE, shared with the dispatcher's SELECT.\<close>

definition claimable :: "instant \<Rightarrow> 'a crawl_job_snapshot_scheme \<Rightarrow> bool" where
  "claimable moment j \<longleftrightarrow>
     cj_status j = Pending \<and>
     (cj_picked_at j = None \<or>
      (case resolve_timeout_at j of None \<Rightarrow> True | Some t \<Rightarrow> t \<le> moment))"

definition claim_row :: "instant \<Rightarrow> instant \<Rightarrow> crawl_job \<Rightarrow> crawl_job" where [job_simps]:
  "claim_row moment pending_timeout_at j =
     j\<lparr>cj_picked_at := Some moment, cj_heartbeat_at := Some moment,
       cj_timeout_at := Some pending_timeout_at, cj_lease_expires_at := Some pending_timeout_at\<rparr>"

definition claim_pending_job_in_session ::
    "instant \<Rightarrow> int \<Rightarrow> int \<Rightarrow> db \<Rightarrow> (crawl_job option \<times> db) result" where
  "claim_pending_job_in_session moment lease_seconds job_id d =
     (case calculate_lease_expires_at moment lease_seconds of
        Inl e \<Rightarrow> Inl e
      | Inr t \<Rightarrow>
         (case get_job_row job_id d of
            Some j \<Rightarrow>
              (if claimable moment j
               then Inr (Some (claim_row moment t j), update_job job_id (claim_row moment t) d)
               else Inr (None, d))
          | None \<Rightarrow> Inr (None, d)))"

record start_job_args =
  sa_started_at :: "instant option"
  sa_job_params_json :: "payload option arg"
  sa_runtime_stats_json :: "payload option arg"
  sa_failure_reason :: "ustr option arg"
  sa_message :: "ustr option"
  sa_lease_seconds :: int

definition start_row :: "instant \<Rightarrow> instant \<Rightarrow> start_job_args \<Rightarrow> crawl_job \<Rightarrow> crawl_job" where [job_simps]:
  "start_row now running_timeout_at a j =
     (let moment = (case sa_started_at a of None \<Rightarrow> now | Some t \<Rightarrow> t)
      in j\<lparr>cj_picked_at := or_else (cj_picked_at j) (Some moment),
           cj_started_at := or_else (cj_started_at j) (Some moment),
           cj_finished_at := None, cj_status := Running, cj_heartbeat_at := Some now,
           cj_timeout_at := Some running_timeout_at,
           cj_lease_expires_at := Some running_timeout_at,
           cj_message := or_else (as_str (sa_message a)) (cj_message j),
           cj_job_params_json := given_or (sa_job_params_json a) (cj_job_params_json j),
           cj_runtime_stats_json := given_or (sa_runtime_stats_json a) (cj_runtime_stats_json j),
           cj_failure_reason :=
             (case sa_failure_reason a of Unset \<Rightarrow> cj_failure_reason j | Given r \<Rightarrow> as_str r)\<rparr>)"

definition start_job_in_session ::
    "instant \<Rightarrow> start_job_args \<Rightarrow> int \<Rightarrow> db \<Rightarrow> (crawl_job option \<times> db) result" where
  "start_job_in_session now a job_id d =
     (case calculate_lease_expires_at now (sa_lease_seconds a) of
        Inl e \<Rightarrow> Inl e
      | Inr t \<Rightarrow>
         (case get_job_row job_id d of
            Some j \<Rightarrow>
              (if cj_status j = Pending
               then Inr (Some (start_row now t a j), update_job job_id (start_row now t a) d)
               else Inr (None, d))
          | None \<Rightarrow> Inr (None, d)))"

section \<open>Heartbeats and statistics\<close>

definition heartbeat_row :: "instant \<Rightarrow> instant \<Rightarrow> crawl_job \<Rightarrow> crawl_job" where [job_simps]:
  "heartbeat_row moment running_timeout_at j =
     j\<lparr>cj_picked_at := or_else (cj_picked_at j) (Some moment),
       cj_started_at := (if cj_started_at j = None \<and> cj_status j = Running then Some moment
                         else cj_started_at j),
       cj_heartbeat_at := Some moment, cj_timeout_at := Some running_timeout_at,
       cj_lease_expires_at := Some running_timeout_at\<rparr>"

definition heartbeat_job_in_session ::
    "instant \<Rightarrow> int \<Rightarrow> int \<Rightarrow> db \<Rightarrow> (crawl_job option \<times> db) result" where
  "heartbeat_job_in_session moment lease_seconds job_id d =
     (case get_job_row job_id d of
        None \<Rightarrow> Inr (None, d)
      | Some j \<Rightarrow>
         (if \<not> active_status (cj_status j) then Inr (Some j, d)
          else (case calculate_lease_expires_at moment lease_seconds of
                  Inl e \<Rightarrow> Inl e
                | Inr t \<Rightarrow> Inr (Some (heartbeat_row moment t j),
                                update_job job_id (heartbeat_row moment t) d))))"

definition count_row :: "job_counters \<Rightarrow> crawl_job \<Rightarrow> crawl_job" where [job_simps]:
  "count_row c j = j\<lparr>cj_counters := add_counters (cj_counters j) c\<rparr>"

definition record_stats_in_session ::
    "int option \<Rightarrow> job_counters \<Rightarrow> db \<Rightarrow> (crawl_job option \<times> db) result" where
  "record_stats_in_session job_id deltas d =
     (case job_id of
        None \<Rightarrow> Inr (None, d)
      | Some k \<Rightarrow>
         (case normalize_deltas deltas of
            Inl e \<Rightarrow> Inl e
          | Inr c \<Rightarrow>
             (if c = zero_counters then Inr (get_job_row k d, d)
              else (case get_job_row k d of
                      None \<Rightarrow> Inr (None, d)
                    | Some j \<Rightarrow> Inr (Some (count_row c j), update_job k (count_row c) d)))))"

section \<open>Finishing a job\<close>

record finish_job_args =
  fa_status :: "ustr option"
  fa_job_params_json :: "payload option arg"
  fa_runtime_stats_json :: "payload option arg"
  fa_failure_reason :: "ustr option arg"
  fa_message :: "ustr option"
  fa_finished_at :: "instant option"

definition infer_success_status :: "crawl_job \<Rightarrow> job_status" where
  "infer_success_status j = (if error_count (cj_counters j) > 0 then Partial else Succeeded)"

definition finish_row ::
    "instant \<Rightarrow> job_status \<Rightarrow> finish_job_args \<Rightarrow> crawl_job \<Rightarrow> crawl_job" where [job_simps]:
  "finish_row now target a j =
     (let picked = (if cj_status j = Running \<and> cj_picked_at j = None
                    then or_else (cj_started_at j) (Some now) else cj_picked_at j)
      in j\<lparr>cj_picked_at := picked,
           cj_started_at := (if cj_started_at j = None
                             then or_else picked (Some (cj_created_at j)) else cj_started_at j),
           cj_finished_at := Some now, cj_status := target, cj_heartbeat_at := Some now,
           cj_timeout_at := None, cj_lease_expires_at := None,
           cj_message := or_else (as_str (fa_message a)) (cj_message j),
           cj_job_params_json := given_or (fa_job_params_json a) (cj_job_params_json j),
           cj_runtime_stats_json := given_or (fa_runtime_stats_json a) (cj_runtime_stats_json j),
           cj_failure_reason :=
             (case fa_failure_reason a of Unset \<Rightarrow> cj_failure_reason j | Given r \<Rightarrow> as_str r)\<rparr>)"

definition finish_job_in_session ::
    "instant \<Rightarrow> finish_job_args \<Rightarrow> int \<Rightarrow> db \<Rightarrow> (crawl_job option \<times> db) result" where
  "finish_job_in_session clock a job_id d =
     (case get_job_row job_id d of
        None \<Rightarrow> Inr (None, d)
      | Some j \<Rightarrow>
         (case (if fa_status a = None \<or> fa_status a = Some []
                then Inr (infer_success_status j) else normalize_status (fa_status a)) of
            Inl e \<Rightarrow> Inl e
          | Inr target \<Rightarrow>
             (if \<not> final_status target
              then Inl (ValueError (lit ''finish_job requires final status, got: ''
                                    @ status_text target))
              else (case ensure_transition (cj_status j) target of
                      Inl e \<Rightarrow> Inl e
                    | Inr _ \<Rightarrow>
                       (let now = (case fa_finished_at a of None \<Rightarrow> clock | Some t \<Rightarrow> t)
                        in Inr (Some (finish_row now target a j),
                                update_job job_id (finish_row now target a) d))))))"

definition fail_job_if_active_in_session ::
    "instant \<Rightarrow> finish_job_args \<Rightarrow> int \<Rightarrow> db \<Rightarrow> (crawl_job option \<times> db) result" where
  "fail_job_if_active_in_session clock a job_id d =
     (case get_job_row job_id d of
        None \<Rightarrow> Inr (None, d)
      | Some j \<Rightarrow>
         (if final_status (cj_status j) then Inr (Some j, d)
          else finish_job_in_session clock (a\<lparr>fa_status := Some (lit ''failed'')\<rparr>) job_id d))"

section \<open>Expiring jobs whose lease ran out\<close>

definition expired_failure_reason :: "job_status \<Rightarrow> ustr" where
  "expired_failure_reason stage = (if stage = Pending then zh_start_timeout else zh_heartbeat_timeout)"

definition expired_message :: "job_status \<Rightarrow> ustr \<Rightarrow> ustr" where
  "expired_message stage failure_reason =
     (if stage = Pending then zh_start_abandoned else zh_run_timeout) @ failure_reason"

definition expire_row :: "instant \<Rightarrow> crawl_job \<Rightarrow> crawl_job" where [job_simps]:
  "expire_row now j =
     j\<lparr>cj_started_at := or_else (cj_started_at j) (or_else (cj_picked_at j) (Some (cj_created_at j))),
       cj_finished_at := Some now, cj_status := Failed, cj_heartbeat_at := Some now,
       cj_timeout_at := None, cj_lease_expires_at := None,
       cj_failure_reason := Some (expired_failure_reason (cj_status j)),
       cj_runtime_stats_json := Some (build_runtime_stats_payload (lit ''expired'')
          (no_stats\<lparr>rs_timeout_stage := Some (status_text (cj_status j)),
                    rs_heartbeat_at := cj_heartbeat_at j,
                    rs_timeout_at := resolve_timeout_at j\<rparr>)),
       cj_message := Some (expired_message (cj_status j) (expired_failure_reason (cj_status j)))\<rparr>"

definition expire_job :: "instant \<Rightarrow> crawl_job \<Rightarrow> crawl_job result" where
  "expire_job now j =
     (case ensure_transition (cj_status j) Failed of Inl e \<Rightarrow> Inl e | Inr _ \<Rightarrow> Inr (expire_row now j))"

definition lease_expired :: "instant \<Rightarrow> 'a crawl_job_snapshot_scheme \<Rightarrow> bool" where
  "lease_expired moment j \<longleftrightarrow>
     cj_status j = Running \<and> (case resolve_timeout_at j of None \<Rightarrow> False | Some t \<Rightarrow> t \<le> moment)"

definition timeout_order :: "crawl_job \<Rightarrow> instant \<times> int" where
  "timeout_order j = (case resolve_timeout_at j of None \<Rightarrow> 0 | Some t \<Rightarrow> t, cj_id j)"

definition expired_jobs :: "instant \<Rightarrow> int option \<Rightarrow> db \<Rightarrow> crawl_job list" where
  "expired_jobs moment limit d =
     limit_rows limit (order_by timeout_order (filter (lease_expired moment) (crawl_jobs d)))"

fun expire_each :: "instant \<Rightarrow> crawl_job list \<Rightarrow> db \<Rightarrow> (crawl_job list \<times> db) result" where
  "expire_each moment [] d = Inr ([], d)"
| "expire_each moment (j # js) d =
     (case expire_job moment j of
        Inl e \<Rightarrow> Inl e
      | Inr j' \<Rightarrow>
         (case expire_each moment js (update_job (cj_id j) (expire_row moment) d) of
            Inl e \<Rightarrow> Inl e
          | Inr (done, d') \<Rightarrow> Inr (j' # done, d')))"

definition reconcile_expired_jobs_in_session ::
    "instant \<Rightarrow> int option \<Rightarrow> db \<Rightarrow> (crawl_job list \<times> db) result" where
  "reconcile_expired_jobs_in_session moment limit d =
     expire_each moment (expired_jobs moment limit d) d"

section \<open>Snapshots and the public methods\<close>

definition snapshot :: "crawl_job \<Rightarrow> crawl_job_snapshot" where
  "snapshot j = (crawl_job_snapshot.truncate j)\<lparr>cj_timeout_at := resolve_timeout_at j\<rparr>"

text \<open>
  A session of its own around one \<open>..._in_session\<close> method: the result and the database as the next
  session sees it.  An exception and a None leave the database as it was.
\<close>

definition transact ::
    "(db \<Rightarrow> (crawl_job option \<times> db) result) \<Rightarrow> db \<Rightarrow> crawl_job_snapshot option result \<times> db" where
  "transact f d =
     (case f d of
        Inl e \<Rightarrow> (Inl e, d)
      | Inr (None, _) \<Rightarrow> (Inr None, d)
      | Inr (Some j, d') \<Rightarrow> (Inr (Some (snapshot j)), d'))"

definition create_job :: "instant \<Rightarrow> create_job_args \<Rightarrow> db \<Rightarrow> crawl_job_snapshot result \<times> db" where
  "create_job now a d =
     (case create_job_in_session now a d of
        Inl e \<Rightarrow> (Inl e, d)
      | Inr (j, d') \<Rightarrow> (Inr (snapshot j), d'))"

definition claim_pending_job ::
    "instant \<Rightarrow> int \<Rightarrow> int \<Rightarrow> db \<Rightarrow> crawl_job_snapshot option result \<times> db" where
  "claim_pending_job now lease job_id = transact (claim_pending_job_in_session now lease job_id)"

definition start_job ::
    "instant \<Rightarrow> start_job_args \<Rightarrow> int \<Rightarrow> db \<Rightarrow> crawl_job_snapshot option result \<times> db" where
  "start_job now a job_id = transact (start_job_in_session now a job_id)"

definition heartbeat_job ::
    "instant \<Rightarrow> int \<Rightarrow> int \<Rightarrow> db \<Rightarrow> crawl_job_snapshot option result \<times> db" where
  "heartbeat_job now lease job_id = transact (heartbeat_job_in_session now lease job_id)"

definition record_stats ::
    "int \<Rightarrow> job_counters \<Rightarrow> db \<Rightarrow> crawl_job_snapshot option result \<times> db" where
  "record_stats job_id deltas = transact (record_stats_in_session (Some job_id) deltas)"

definition finish_job ::
    "instant \<Rightarrow> finish_job_args \<Rightarrow> int \<Rightarrow> db \<Rightarrow> crawl_job_snapshot option result \<times> db" where
  "finish_job now a job_id = transact (finish_job_in_session now a job_id)"

definition fail_job_if_active ::
    "instant \<Rightarrow> finish_job_args \<Rightarrow> int \<Rightarrow> db \<Rightarrow> crawl_job_snapshot option result \<times> db" where
  "fail_job_if_active now a job_id = transact (fail_job_if_active_in_session now a job_id)"

definition reconcile_expired_jobs ::
    "instant \<Rightarrow> int option \<Rightarrow> db \<Rightarrow> crawl_job_snapshot list result \<times> db" where
  "reconcile_expired_jobs now limit d =
     (case reconcile_expired_jobs_in_session now limit d of
        Inl e \<Rightarrow> (Inl e, d)
      | Inr (jobs, d') \<Rightarrow> (Inr (map snapshot jobs), if jobs = [] then d else d'))"

definition get_job :: "int \<Rightarrow> db \<Rightarrow> crawl_job_snapshot option" where
  "get_job job_id d = map_option snapshot (get_job_row job_id d)"

end
