(* ===== verification/Commands.thy ===== *)
theory Commands
  imports JobService
begin

text \<open>
  The argument vectors of app/services/source_crawl_trigger_service.py: the checks on every fragment,
  the command that starts a detached worker and the command that runs a spider, and the checks on
  the finished vectors before they are launched.

  The path of the Python interpreter is found in the file system (app/core/python_runtime.py) and is
  an argument here; a path is absolute when it starts with a slash (POSIX).
\<close>

section \<open>Fragments\<close>

definition control_free :: "ustr \<Rightarrow> bool" where
  "control_free s = list_all (\<lambda>c. c \<notin> {0, 13, 10}) s"

definition validate_subprocess_fragment :: "ustr \<Rightarrow> ustr \<Rightarrow> ustr result" where
  "validate_subprocess_fragment value label =
     (let t = strip value
      in if t = [] then Inl (ValueError (label @ lit '' must not be empty''))
         else if \<not> control_free t
         then Inl (ValueError (label @ lit '' contains unsupported control characters''))
         else Inr t)"

text \<open>The character classes [a-z0-9_] and [a-z].\<close>

definition code_char :: "nat \<Rightarrow> bool" where
  "code_char c = (97 \<le> c \<and> c \<le> 122 \<or> 48 \<le> c \<and> c \<le> 57 \<or> c = 95)"

definition lower_letter :: "nat \<Rightarrow> bool" where
  "lower_letter c = (97 \<le> c \<and> c \<le> 122)"

definition source_code_pattern :: "ustr \<Rightarrow> bool" where
  "source_code_pattern s = (s \<noteq> [] \<and> list_all code_char s)"

definition spider_name_pattern :: "ustr \<Rightarrow> bool" where
  "spider_name_pattern s = (case s of [] \<Rightarrow> False | c # cs \<Rightarrow> lower_letter c \<and> list_all code_char cs)"

definition spider_arg_key_pattern :: "ustr \<Rightarrow> bool" where
  "spider_arg_key_pattern = spider_name_pattern"

definition allowed_dispatch_job_types :: "ustr list" where
  "allowed_dispatch_job_types = [lit ''manual'', lit ''scheduled'', lit ''backfill'', lit ''manual_retry'']"

definition allowed_spider_arg_keys :: "ustr list" where
  "allowed_spider_arg_keys = [lit ''job_type'', lit ''max_pages'', lit ''backfill_year'']"

definition validate_database_url :: "ustr \<Rightarrow> ustr result" where
  "validate_database_url url = validate_subprocess_fragment url (lit ''database_url'')"

definition validate_source_code :: "ustr \<Rightarrow> ustr result" where
  "validate_source_code source_code =
     and_then (validate_subprocess_fragment source_code (lit ''source_code'')) (\<lambda>n.
       if source_code_pattern n then Inr n
       else Inl (ValueError (lit ''source_code contains unsupported characters'')))"

definition validate_job_type :: "ustr \<Rightarrow> ustr result" where
  "validate_job_type job_type =
     and_then (validate_subprocess_fragment job_type (lit ''job_type'')) (\<lambda>n.
       if n \<in> set allowed_dispatch_job_types then Inr n
       else Inl (ValueError (lit ''unsupported job_type for subprocess dispatch: '' @ n)))"

definition validate_spider_name :: "ustr \<Rightarrow> ustr result" where
  "validate_spider_name spider =
     and_then (validate_subprocess_fragment spider (lit ''spider'')) (\<lambda>n.
       if spider_name_pattern n then Inr n
       else Inl (ValueError (lit ''spider contains unsupported characters'')))"

type_synonym spider_args = "(ustr \<times> ustr) list"

definition validate_spider_arg :: "ustr \<times> ustr \<Rightarrow> ustr result" where
  "validate_spider_arg kv =
     and_then (validate_subprocess_fragment (fst kv) (lit ''spider arg key'')) (\<lambda>k.
       if \<not> spider_arg_key_pattern k
       then Inl (ValueError (lit ''unsupported spider arg key: '' @ k))
       else if k \<notin> set allowed_spider_arg_keys
       then Inl (ValueError (lit ''spider arg is not allowed for subprocess dispatch: '' @ k))
       else validate_subprocess_fragment (snd kv) (lit ''spider arg value['' @ k @ lit '']''))"

definition validate_spider_args :: "spider_args \<Rightarrow> unit result" where
  "validate_spider_args = check_each validate_spider_arg"

section \<open>Finished vectors\<close>

definition is_absolute :: "ustr \<Rightarrow> bool" where
  "is_absolute path = starts_with (lit ''/'') path"

definition validate_scrapy_command :: "ustr list \<Rightarrow> unit result" where
  "validate_scrapy_command command =
     and_then (require (6 \<le> length command) (ValueError (lit ''scrapy command is incomplete''))) (\<lambda>_.
     and_then (validate_subprocess_fragment (hd command) (lit ''python executable'')) (\<lambda>exe.
     and_then (require (is_absolute exe) (ValueError (lit ''python executable must be absolute''))) (\<lambda>_.
     and_then (require (take 3 (drop 1 command) = [lit ''-m'', lit ''scrapy'', lit ''crawl''])
                (ValueError (lit ''unexpected scrapy command prefix''))) (\<lambda>_.
     check_each (\<lambda>a. validate_subprocess_fragment a (lit ''scrapy argv'')) (drop 1 command)))))"

definition validate_worker_command :: "ustr list \<Rightarrow> unit result" where
  "validate_worker_command command =
     and_then (require (8 \<le> length command) (ValueError (lit ''worker command is incomplete''))) (\<lambda>_.
     and_then (validate_subprocess_fragment (hd command) (lit ''python executable'')) (\<lambda>exe.
     and_then (require (is_absolute exe) (ValueError (lit ''python executable must be absolute''))) (\<lambda>_.
     and_then (require (take 2 (drop 1 command) = [lit ''-m'', lit ''app.run_crawl_job''])
                (ValueError (lit ''unexpected worker command prefix''))) (\<lambda>_.
     check_each (\<lambda>a. validate_subprocess_fragment a (lit ''worker argv'')) (drop 3 command)))))"

section \<open>The two commands\<close>

record dispatch_request =
  dr_source_code :: ustr
  dr_crawl_job_id :: int
  dr_job_type :: ustr
  dr_max_pages :: "int option"
  dr_backfill_year :: "int option"
  dr_triggered_by :: "ustr option"

definition at_least :: "int \<Rightarrow> int option \<Rightarrow> bool" where
  "at_least low v = (case v of None \<Rightarrow> True | Some n \<Rightarrow> low \<le> n)"

definition build_worker_command :: "ustr \<Rightarrow> ustr \<Rightarrow> dispatch_request \<Rightarrow> ustr list result" where
  "build_worker_command python database_url r =
     and_then (validate_source_code (dr_source_code r)) (\<lambda>_.
     and_then (validate_job_type (dr_job_type r)) (\<lambda>_.
     and_then (validate_database_url database_url) (\<lambda>_.
     and_then (require (at_least 1 (dr_max_pages r)) (ValueError (lit ''max_pages must be >= 1''))) (\<lambda>_.
     and_then (require (at_least 2000 (dr_backfill_year r))
                (ValueError (lit ''backfill_year must be >= 2000''))) (\<lambda>_.
     Inr ([python, lit ''-m'', lit ''app.run_crawl_job'', lit ''--database-url'', database_url,
           lit ''--source-code'', dr_source_code r, lit ''--crawl-job-id'', show_int (dr_crawl_job_id r),
           lit ''--job-type'', dr_job_type r]
          @ (case dr_max_pages r of None \<Rightarrow> [] | Some n \<Rightarrow> [lit ''--max-pages'', show_int n])
          @ (case dr_backfill_year r of None \<Rightarrow> [] | Some n \<Rightarrow> [lit ''--backfill-year'', show_int n])))))))"

definition build_spider_command ::
    "ustr \<Rightarrow> ustr \<Rightarrow> ustr \<Rightarrow> int \<Rightarrow> spider_args \<Rightarrow> ustr list result" where
  "build_spider_command python database_url spider crawl_job_id args =
     and_then (validate_spider_name spider) (\<lambda>_.
     and_then (validate_database_url database_url) (\<lambda>_.
     and_then (validate_spider_args args) (\<lambda>_.
     Inr ([python, lit ''-m'', lit ''scrapy'', lit ''crawl'', spider, lit ''-a'',
           lit ''crawl_job_id='' @ show_int crawl_job_id, lit ''-s'',
           lit ''CRAWLER_WRITER_BACKEND=sqlalchemy'', lit ''-s'', lit ''CRAWLER_DATABASE_URL='' @ database_url]
          @ concat (map (\<lambda>(k, v). [lit ''-a'', k @ lit ''='' @ v]) args)))))"

definition build_spider_args :: "int option \<Rightarrow> int option \<Rightarrow> ustr \<Rightarrow> spider_args result" where
  "build_spider_args max_pages backfill_year job_type =
     and_then (require (at_least 1 max_pages) (ValueError (lit ''max_pages must be >= 1''))) (\<lambda>_.
     and_then (require (at_least 2000 backfill_year)
                (ValueError (lit ''backfill_year must be >= 2000''))) (\<lambda>_.
     Inr ((case max_pages of None \<Rightarrow> [] | Some n \<Rightarrow> [(lit ''max_pages'', show_int n)])
          @ (case backfill_year of None \<Rightarrow> [] | Some n \<Rightarrow> [(lit ''backfill_year'', show_int n)])
          @ [(lit ''job_type'', job_type)])))"

text \<open>\<open>_as_int_or_none(spider_args.get(key))\<close>.\<close>

definition spider_arg_int :: "spider_args \<Rightarrow> ustr \<Rightarrow> int option" where
  "spider_arg_int args key = (case map_of args key of None \<Rightarrow> None | Some v \<Rightarrow> py_int (strip v))"

section \<open>A built command passes the final checks\<close>

definition good_fragment :: "ustr \<Rightarrow> bool" where
  "good_fragment s \<longleftrightarrow> strip s \<noteq> [] \<and> control_free (strip s)"

lemma fragment_Inr: "validate_subprocess_fragment s l = Inr t \<longleftrightarrow> t = strip s \<and> good_fragment s"
  by (auto simp: validate_subprocess_fragment_def good_fragment_def Let_def)

lemma good_fragment_plain:
  assumes "s \<noteq> []" "list_all (\<lambda>c. 32 < c \<and> c < 127) s"
  shows "good_fragment s" "strip s = s"
proof -
  show "strip s = s"
    by (rule strip_no_space)
      (use assms(2) in \<open>fastforce simp: list_all_iff py_space_def space_points_def\<close>)
  then show "good_fragment s"
    using assms by (fastforce simp: good_fragment_def control_free_def list_all_iff)
qed

lemma good_fragment_show_int [simp]: "good_fragment (show_int i)"
  by (rule good_fragment_plain(1))
    (auto simp: show_int_def list_all_iff dest!: show_nat_digits)

lemma good_options [simp]:
  "good_fragment (lit ''--database-url'')" "good_fragment (lit ''--source-code'')"
  "good_fragment (lit ''--crawl-job-id'')" "good_fragment (lit ''--job-type'')"
  "good_fragment (lit ''--max-pages'')" "good_fragment (lit ''--backfill-year'')"
  by code_simp+

lemma validate_source_code_good: "validate_source_code s = Inr n \<Longrightarrow> good_fragment s"
  by (auto simp: validate_source_code_def and_then_Inr fragment_Inr)

lemma validate_job_type_good: "validate_job_type s = Inr n \<Longrightarrow> good_fragment s"
  by (auto simp: validate_job_type_def and_then_Inr fragment_Inr)

lemma validate_database_url_good: "validate_database_url s = Inr n \<Longrightarrow> good_fragment s"
  by (simp add: validate_database_url_def fragment_Inr)

text \<open>
A worker command that was built is launchable: with an absolute interpreter path free of white
space at its ends and of control characters, the vector always passes the check before Popen, so the
retry loop of the dispatcher is only ever about the operating system; it has the request's job id.\<close>

lemma built_worker_command_is_valid:
  assumes "build_worker_command python database_url r = Inr command"
    "is_absolute python" "strip python = python" "control_free python"
  shows "validate_worker_command command = Inr () \<and> hd command = python \<and>
    command ! 8 = show_int (dr_crawl_job_id r)"
proof -
  have "python \<noteq> []" using assms(2) by (auto simp: is_absolute_def starts_with_def)
  then have "good_fragment python"
    using assms(3,4) by (simp add: good_fragment_def)
  show ?thesis
    using assms(1-3) \<open>good_fragment python\<close>
    by (auto simp: build_worker_command_def and_then_Inr validate_worker_command_def fragment_Inr
        dest: validate_source_code_good validate_job_type_good validate_database_url_good
        split: option.splits)
qed

lemma built_worker_command_is_valid_witness:
  "\<exists>command. build_worker_command (lit ''/usr/bin/python'') (lit ''sqlite:///x.db'')
      \<lparr>dr_source_code = lit ''ggzy_gov_cn_deal'', dr_crawl_job_id = 7, dr_job_type = lit ''backfill'',
       dr_max_pages = Some 3, dr_backfill_year = Some 2024, dr_triggered_by = None\<rparr> = Inr command \<and>
    validate_worker_command command = Inr ()"
proof -
  let ?r = "\<lparr>dr_source_code = lit ''ggzy_gov_cn_deal'', dr_crawl_job_id = 7,
    dr_job_type = lit ''backfill'', dr_max_pages = Some 3, dr_backfill_year = Some 2024,
    dr_triggered_by = None\<rparr>"
  let ?b = "build_worker_command (lit ''/usr/bin/python'') (lit ''sqlite:///x.db'') ?r"
  have "(case ?b of Inl e \<Rightarrow> False | Inr c \<Rightarrow> True)" by code_simp
  then obtain c where c: "?b = Inr c" by (cases ?b) auto
  have "is_absolute (lit ''/usr/bin/python'')" "strip (lit ''/usr/bin/python'') = lit ''/usr/bin/python''"
    "control_free (lit ''/usr/bin/python'')"
    by code_simp+
  from built_worker_command_is_valid [OF c this] c show ?thesis by blast
qed

end
