(* ===== verification/Systems.thy ===== *)
theory Systems
  imports Main
begin

text \<open>
  Two contracts that several components share.  \<open>invariant_system\<close>: a predicate that every step
  keeps holds after any number of steps.  \<open>evolving_rows\<close>: rows of a store that no step removes and
  that only change along a preorder do so over any number of steps.
\<close>

locale invariant_system =
  fixes step :: "'s \<Rightarrow> 's \<Rightarrow> bool"
    and inv :: "'s \<Rightarrow> bool"
  assumes step_inv: "inv s \<Longrightarrow> step s t \<Longrightarrow> inv t"
begin

lemma steps_inv: "step\<^sup>*\<^sup>* s t \<Longrightarrow> inv s \<Longrightarrow> inv t"
  by (induction rule: rtranclp_induct) (auto intro: step_inv)

end

locale evolving_rows = invariant_system step inv
  for step :: "'s \<Rightarrow> 's \<Rightarrow> bool" and inv :: "'s \<Rightarrow> bool" +
  fixes look :: "int \<Rightarrow> 's \<Rightarrow> 'r option"
    and le :: "'r \<Rightarrow> 'r \<Rightarrow> bool"
  assumes le_refl: "le r r"
    and le_trans: "le r r' \<Longrightarrow> le r' r'' \<Longrightarrow> le r r''"
    and step_row: "inv s \<Longrightarrow> step s t \<Longrightarrow> look k s = Some r \<Longrightarrow> \<exists>r'. look k t = Some r' \<and> le r r'"
begin

lemma steps_row:
  assumes "step\<^sup>*\<^sup>* s t" "inv s" "look k s = Some r"
  shows "\<exists>r'. look k t = Some r' \<and> le r r'"
  using assms(1)
proof (induction rule: rtranclp_induct)
  case base
  then show ?case using assms(3) le_refl by blast
next
  case (step t u)
  moreover have "inv t" using step.hyps(1) assms(2) by (rule steps_inv)
  ultimately show ?case using step_row le_trans by blast
qed

text \<open>A property of rows that the preorder keeps is never lost.\<close>

lemma steps_stable:
  assumes "step\<^sup>*\<^sup>* s t" "inv s" "look k s = Some r" "P r" "\<And>a b. le a b \<Longrightarrow> P a \<Longrightarrow> P b"
  shows "\<exists>r'. look k t = Some r' \<and> P r'"
  using steps_row [OF assms(1-3)] assms(4,5) by blast

end

end
