(* ===== verification/JobFacts.thy ===== *)
theory JobFacts
  imports JobService Systems
begin

text \<open>
  What the crawl job service guarantees.  The invariant of the database (\<open>db_ok\<close>): primary keys are
  unique, foreign keys resolve, a source has at most one active job, a job is retried at most once,
  and every row has the timestamps its status calls for.  \<open>job_step\<close> is one call of a public method
  by any process; any interleaving of web requests, dispatchers, workers and schedulers is a sequence
  of such steps, because every method is one transaction.
\<close>

section \<open>The invariant\<close>

definition nonneg_counters :: "job_counters \<Rightarrow> bool" where
  "nonneg_counters c \<longleftrightarrow> (\<forall>(n, f) \<in> set counter_fields. 0 \<le> f c)"

definition counters_le :: "job_counters \<Rightarrow> job_counters \<Rightarrow> bool" where
  "counters_le a b \<longleftrightarrow> (\<forall>(n, f) \<in> set counter_fields. f a \<le> f b)"

definition job_ok :: "'a crawl_job_snapshot_scheme \<Rightarrow> bool" where
  "job_ok j \<longleftrightarrow>
     nonneg_counters (cj_counters j) \<and> cj_timeout_at j = cj_lease_expires_at j \<and>
     (case cj_status j of
        Pending \<Rightarrow> cj_started_at j = None \<and> cj_finished_at j = None \<and>
                   (cj_picked_at j = None \<longleftrightarrow> cj_timeout_at j = None)
      | Running \<Rightarrow> cj_started_at j \<noteq> None \<and> cj_finished_at j = None \<and>
                   cj_picked_at j \<noteq> None \<and> cj_timeout_at j \<noteq> None
      | _ \<Rightarrow> cj_started_at j \<noteq> None \<and> cj_finished_at j \<noteq> None \<and> cj_timeout_at j = None)"

definition one_active_per_source :: "crawl_job list \<Rightarrow> bool" where
  "one_active_per_source jobs \<longleftrightarrow>
     (\<forall>j \<in> set jobs. \<forall>j' \<in> set jobs. cj_source_site_id j = cj_source_site_id j' \<longrightarrow>
        active_status (cj_status j) \<longrightarrow> active_status (cj_status j') \<longrightarrow> j = j')"

definition retried_once :: "crawl_job list \<Rightarrow> bool" where
  "retried_once jobs \<longleftrightarrow>
     (\<forall>j \<in> set jobs. \<forall>j' \<in> set jobs. cj_retry_of_job_id j \<noteq> None \<longrightarrow>
        cj_retry_of_job_id j = cj_retry_of_job_id j' \<longrightarrow> j = j')"

definition refs_ok :: "db \<Rightarrow> bool" where
  "refs_ok d \<longleftrightarrow>
     (\<forall>j \<in> set (crawl_jobs d). cj_source_site_id j \<in> ss_id ` set (source_sites d) \<and>
        (\<forall>k. cj_retry_of_job_id j = Some k \<longrightarrow> k \<in> cj_id ` set (crawl_jobs d)))"

definition db_ok :: "db \<Rightarrow> bool" where
  "db_ok d \<longleftrightarrow>
     distinct (map cj_id (crawl_jobs d)) \<and> distinct (map ss_id (source_sites d)) \<and>
     distinct (map ss_code (source_sites d)) \<and> refs_ok d \<and>
     one_active_per_source (crawl_jobs d) \<and> retried_once (crawl_jobs d) \<and>
     (\<forall>j \<in> set (crawl_jobs d). job_ok j)"

lemma db_ok_empty: "db_ok (empty_db dia)"
  by (simp add: db_ok_def empty_db_def refs_ok_def one_active_per_source_def retried_once_def)

lemma db_ok_row: "db_ok d \<Longrightarrow> get_job_row k d = Some j \<Longrightarrow> job_ok j"
  by (auto simp: db_ok_def dest: get_row_mem)

section \<open>How a job may change\<close>

fun status_le :: "job_status \<Rightarrow> job_status \<Rightarrow> bool" where
  "status_le Pending b = True"
| "status_le Running b = (b \<noteq> Pending)"
| "status_le a b = (a = b)"

definition job_le :: "crawl_job \<Rightarrow> crawl_job \<Rightarrow> bool" where
  "job_le j j' \<longleftrightarrow>
     cj_id j' = cj_id j \<and> cj_source_site_id j' = cj_source_site_id j \<and>
     cj_job_type j' = cj_job_type j \<and> cj_triggered_by j' = cj_triggered_by j \<and>
     cj_retry_of_job_id j' = cj_retry_of_job_id j \<and> cj_queued_at j' = cj_queued_at j \<and>
     cj_created_at j' = cj_created_at j \<and> status_le (cj_status j) (cj_status j') \<and>
     counters_le (cj_counters j) (cj_counters j') \<and>
     (cj_started_at j \<noteq> None \<longrightarrow> cj_started_at j' = cj_started_at j)"

lemma status_le_refl [simp]: "status_le a a"
  by (cases a) auto

lemma status_le_trans: "status_le a b \<Longrightarrow> status_le b c \<Longrightarrow> status_le a c"
  by (cases a; cases b; cases c) auto

lemma status_le_final: "status_le a b \<Longrightarrow> final_status a \<Longrightarrow> b = a"
  by (cases a) (auto simp: final_status_def)

lemma ensure_transition_Inr: "ensure_transition a b = Inr u \<longleftrightarrow> b \<in> set (allowed_transitions a)"
  by (auto simp: ensure_transition_def)

lemma allowed_status_le: "b \<in> set (allowed_transitions a) \<Longrightarrow> status_le a b"
  by (cases a) auto

lemma counters_le_refl [simp]: "counters_le a a"
  by (simp add: counters_le_def case_prod_unfold)

lemma counters_le_trans: "counters_le a b \<Longrightarrow> counters_le b c \<Longrightarrow> counters_le a c"
  unfolding counters_le_def case_prod_unfold by (blast intro: order_trans)

lemma job_le_refl: "job_le j j"
  by (simp add: job_le_def)

lemma job_le_trans: "job_le a b \<Longrightarrow> job_le b c \<Longrightarrow> job_le a c"
  by (auto simp: job_le_def intro: status_le_trans counters_le_trans)

lemma normalize_deltas_Inr: "normalize_deltas c = Inr c' \<longleftrightarrow> c' = c \<and> nonneg_counters c"
proof (cases "find (\<lambda>(n, f). f c < 0) counter_fields")
  case None
  then have "nonneg_counters c"
    by (auto simp: find_None_iff nonneg_counters_def not_less)
  with None show ?thesis by (auto simp: normalize_deltas_def)
next
  case (Some nf)
  then have "\<not> nonneg_counters c"
    using find_Some_iff [of _ counter_fields nf]
    by (force simp: nonneg_counters_def case_prod_unfold dest: nth_mem)
  with Some show ?thesis by (auto simp: normalize_deltas_def case_prod_unfold)
qed

lemma counters_le_add: "nonneg_counters c \<Longrightarrow> counters_le a (add_counters a c)"
  by (simp add: counters_le_def nonneg_counters_def counter_fields_def add_counters_def)

lemma nonneg_add: "nonneg_counters a \<Longrightarrow> nonneg_counters c \<Longrightarrow> nonneg_counters (add_counters a c)"
  by (simp add: nonneg_counters_def counter_fields_def add_counters_def)

lemma nonneg_zero [simp]: "nonneg_counters zero_counters"
  by (simp add: nonneg_counters_def counter_fields_def zero_counters_def)

lemma or_else_None [simp]: "or_else a b = None \<longleftrightarrow> a = None \<and> b = None"
  by (cases a) auto

lemma or_else_right [simp]: "or_else a None = a"
  by (cases a) auto

section \<open>Each row operation keeps the row well formed and moves it forward\<close>

lemma final_in: "final_status st \<Longrightarrow> st \<in> set (allowed_transitions st0) \<Longrightarrow>
    st = Succeeded \<or> st = Failed \<or> st = Partial"
  by (auto simp: final_status_def)

lemma claim_row_ok: "job_ok j \<Longrightarrow> claimable m j \<Longrightarrow> job_ok (claim_row m t j)"
  by (auto simp: job_ok_def claim_row_def claimable_def)

lemma claim_row_le: "job_le j (claim_row m t j)"
  by (simp add: job_le_def claim_row_def)

lemma start_row_ok: "job_ok j \<Longrightarrow> cj_status j = Pending \<Longrightarrow> job_ok (start_row now t a j)"
  by (auto simp: job_ok_def start_row_def Let_def)

lemma start_row_le: "cj_status j = Pending \<Longrightarrow> job_le j (start_row now t a j)"
  by (auto simp: job_le_def start_row_def Let_def)

lemma heartbeat_row_ok:
  "job_ok j \<Longrightarrow> active_status (cj_status j) \<Longrightarrow> job_ok (heartbeat_row m t j)"
  by (auto simp: job_ok_def heartbeat_row_def active_status_def)

lemma heartbeat_row_le: "job_le j (heartbeat_row m t j)"
  by (auto simp: job_le_def heartbeat_row_def)

lemma count_row_ok: "job_ok j \<Longrightarrow> nonneg_counters c \<Longrightarrow> job_ok (count_row c j)"
  by (cases "cj_status j"; cases "cj_lease_expires_at j")
    (auto simp: job_ok_def count_row_def nonneg_add)

lemma count_row_le: "nonneg_counters c \<Longrightarrow> job_le j (count_row c j)"
  by (simp add: job_le_def count_row_def counters_le_add)

lemma finish_row_ok: "job_ok j \<Longrightarrow> final_status st \<Longrightarrow> job_ok (finish_row now st a j)"
  by (auto simp: job_ok_def finish_row_def Let_def final_status_def)

lemma finish_row_le:
  "st \<in> set (allowed_transitions (cj_status j)) \<Longrightarrow> job_le j (finish_row now st a j)"
  by (auto simp: job_le_def finish_row_def Let_def allowed_status_le)

lemma expire_row_ok: "job_ok j \<Longrightarrow> job_ok (expire_row now j)"
  by (auto simp: job_ok_def expire_row_def)

lemma expire_row_le: "cj_status j = Running \<Longrightarrow> job_le j (expire_row now j)"
  by (auto simp: job_le_def expire_row_def)

lemma row_keys [simp]:
  "cj_id (claim_row m t j) = cj_id j" "cj_id (start_row now t a j) = cj_id j"
  "cj_id (heartbeat_row m t j) = cj_id j" "cj_id (count_row c j) = cj_id j"
  "cj_id (finish_row now st fa j) = cj_id j" "cj_id (expire_row now j) = cj_id j"
  by (simp_all add: job_simps Let_def)

section \<open>Updating one row of a well-formed database\<close>

lemma job_le_active: "job_le j j' \<Longrightarrow> active_status (cj_status j') \<Longrightarrow> active_status (cj_status j)"
  by (cases "cj_status j") (auto simp: job_le_def active_status_def)

lemma db_ok_update_job:
  assumes ok: "db_ok d" and row: "get_job_row k d = Some j"
    and key: "\<And>r. cj_id (f r) = cj_id r" and le: "job_le j (f j)" and ok': "job_ok (f j)"
  shows "db_ok (update_job k f d)"
proof -
  let ?J = "crawl_jobs d" and ?J' = "crawl_jobs (update_job k f d)"
  have dist: "distinct (map cj_id ?J)" using ok by (simp add: db_ok_def)
  have j: "j \<in> set ?J" using row by (rule get_row_mem)
  have set': "set ?J' = insert (f j) (set ?J - {j})"
    using set_update_row [OF key dist row] by simp
  have keys: "map cj_id ?J' = map cj_id ?J" by (simp add: map_key_update_row key)
  have ids: "cj_id ` set ?J' = cj_id ` set ?J"
    using arg_cong [OF keys, of set] by simp
  have same: "cj_source_site_id (f j) = cj_source_site_id j"
      "cj_retry_of_job_id (f j) = cj_retry_of_job_id j"
    using le by (auto simp: job_le_def)
  have "refs_ok (update_job k f d)"
    using ok j same unfolding db_ok_def refs_ok_def ids unfolding set' by auto
  moreover have "one_active_per_source ?J'"
    using ok j same job_le_active [OF le] unfolding db_ok_def one_active_per_source_def set'
    by (metis (no_types, lifting) DiffE insert_iff)
  moreover have "retried_once ?J'"
    using ok j same unfolding db_ok_def retried_once_def set'
    by (metis (no_types, lifting) DiffE insert_iff)
  moreover have "\<forall>x \<in> set ?J'. job_ok x"
    using ok ok' unfolding db_ok_def set' by auto
  ultimately show ?thesis using ok keys by (simp add: db_ok_def)
qed

lemma update_job_row:
  assumes "\<And>r. cj_id (f r) = cj_id r" "get_job_row k d = Some j" "job_le j (f j)"
    "get_job_row l d = Some r"
  shows "\<exists>r'. get_job_row l (update_job k f d) = Some r' \<and> job_le r r'"
  using assms job_rows.get_upd [OF assms(1)] job_le_refl by auto

end
