(* ===== verification/JobSteps.thy ===== *)
theory JobSteps
  imports JobFacts
begin

text \<open>
  The crawl job service as a transition system.  Every method keeps the invariant \<open>db_ok\<close> and moves
  every job forward along \<open>job_le\<close>; both are discharged once per method, and the two contracts of
  theory Systems lift them to any interleaving of calls.
\<close>

section \<open>Creating rows\<close>

lemma crawl_job_violation_None:
  "crawl_job_violation j d = None \<longleftrightarrow>
     cj_id j \<notin> cj_id ` set (crawl_jobs d) \<and>
     cj_source_site_id j \<in> ss_id ` set (source_sites d) \<and>
     (\<forall>k. cj_retry_of_job_id j = Some k \<longrightarrow> k \<in> cj_id ` set (crawl_jobs d)) \<and>
     (\<forall>j' \<in> set (crawl_jobs d). cj_retry_of_job_id j \<noteq> None \<longrightarrow>
        cj_retry_of_job_id j' \<noteq> cj_retry_of_job_id j) \<and>
     (active_status (cj_status j) \<longrightarrow> (\<forall>j' \<in> set (crawl_jobs d).
        cj_source_site_id j' = cj_source_site_id j \<longrightarrow> \<not> active_status (cj_status j')))"
  unfolding crawl_job_violation_def by (auto split: option.splits)

lemma insert_crawl_job_ok:
  assumes "insert_crawl_job j d = Inr d'" "db_ok d" "job_ok j"
  shows "db_ok d'"
proof -
  have v: "crawl_job_violation j d = None"
    and d': "d' = bump_seq T_crawl_job (d\<lparr>crawl_jobs := add_row j (crawl_jobs d)\<rparr>)"
    using assms(1) by (auto simp: insert_crawl_job_def split: option.splits)
  note V = v [unfolded crawl_job_violation_None]
  have "refs_ok d'"
    using assms(2) V by (auto simp: db_ok_def refs_ok_def d' add_row_def)
  moreover have "one_active_per_source (crawl_jobs d')"
    using assms(2) V unfolding db_ok_def one_active_per_source_def d' add_row_def
    by simp (metis (no_types, lifting))
  moreover have "retried_once (crawl_jobs d')"
    using assms(2) V unfolding db_ok_def retried_once_def d' add_row_def
    by simp (metis (no_types, lifting))
  ultimately show ?thesis
    using assms(2,3) V by (auto simp: db_ok_def d' add_row_def)
qed

lemma insert_crawl_job_row:
  "insert_crawl_job j d = Inr d' \<Longrightarrow> get_job_row k d = Some r \<Longrightarrow> get_job_row k d' = Some r"
  by (auto simp: insert_crawl_job_def job_rows.get_add_kept split: option.splits)

lemma insert_crawl_job_new:
  assumes "insert_crawl_job j d = Inr d'"
  shows "get_job_row (cj_id j) d = None" "get_job_row (cj_id j) d' = Some j"
  using assms job_rows.get_add_same [of j "crawl_jobs d"]
  by (auto simp: insert_crawl_job_def crawl_job_violation_None get_row_None_iff split: option.splits)

lemma insert_source_site_ok:
  assumes "insert_source_site s d = Inr d'" "db_ok d"
  shows "db_ok d'"
  using assms
  by (auto simp: insert_source_site_def db_ok_def refs_ok_def add_row_def split: if_splits)

lemma insert_source_site_jobs:
  "insert_source_site s d = Inr d' \<Longrightarrow> crawl_jobs d' = crawl_jobs d"
  by (auto simp: insert_source_site_def split: if_splits)

text \<open>Changing the columns of a source other than its id, to a code no other source has.\<close>

lemma db_ok_sources:
  assumes "db_ok d" "crawl_jobs d' = crawl_jobs d"
    "map ss_id (source_sites d') = map ss_id (source_sites d)"
    "distinct (map ss_code (source_sites d'))"
  shows "db_ok d'"
proof -
  have "ss_id ` set (source_sites d') = ss_id ` set (source_sites d)"
    using arg_cong [OF assms(3), of set] by simp
  then show ?thesis using assms by (simp add: db_ok_def refs_ok_def)
qed

lemma distinct_recode:
  assumes "distinct (map ss_code ss)" "distinct (map ss_id ss)" "\<forall>s \<in> set ss. ss_code s \<noteq> c"
  shows "distinct (map ss_code (update_row ss_id k (\<lambda>s. s\<lparr>ss_code := c\<rparr>) ss))"
  using assms
proof (induction ss)
  case (Cons s ss)
  show ?case
  proof (cases "ss_id s = k")
    case True
    then have "update_row ss_id k (\<lambda>s. s\<lparr>ss_code := c\<rparr>) ss = ss"
      using Cons.prems(2) by (intro update_row_id) (auto simp: get_row_None_iff)
    with True Cons.prems show ?thesis by (auto simp: update_row_def)
  next
    case False
    with Cons show ?thesis by (auto simp: update_row_def split: if_splits)
  qed
qed (simp add: update_row_def)

lemma recode_source_ok:
  assumes "db_ok d" "find_source c d = None"
  shows "db_ok (d\<lparr>source_sites := update_row ss_id k (\<lambda>s. s\<lparr>ss_code := c\<rparr>) (source_sites d)\<rparr>)"
proof (rule db_ok_sources [OF assms(1)])
  show "distinct (map ss_code (source_sites
      (d\<lparr>source_sites := update_row ss_id k (\<lambda>s. s\<lparr>ss_code := c\<rparr>) (source_sites d)\<rparr>)))"
    using assms by (simp add: db_ok_def distinct_recode find_source_def find_None_iff)
qed (simp_all add: row_simps)

lemma ensure_source_site_db:
  assumes "ensure_source_site c n u d = Inr (s, d')"
  shows "d' = d \<or>
    (\<exists>k c'. find_source c' d = None \<and>
       d' = d\<lparr>source_sites := update_row ss_id k (\<lambda>s. s\<lparr>ss_code := c'\<rparr>) (source_sites d)\<rparr>) \<or>
    (\<exists>s'. insert_source_site s' d = Inr d')"
proof -
  obtain raw where raw: "as_str (Some c) = Some raw"
    using assms by (auto simp: ensure_source_site_def split: option.splits)
  show ?thesis
  proof (cases "lookup_source_site raw (normalize_source_code raw) d")
    case None
    then show ?thesis
      using assms raw by (simp add: ensure_source_site_def Let_def split: sum.splits) blast
  next
    case (Some s0)
    then show ?thesis
      using assms raw by (auto simp: ensure_source_site_def Let_def split: if_splits)
  qed
qed

lemma ensure_source_site_ok:
  assumes "ensure_source_site c n u d = Inr (s, d')" "db_ok d"
  shows "db_ok d'"
  using ensure_source_site_db [OF assms(1)] assms(2) recode_source_ok insert_source_site_ok by blast

lemma ensure_source_site_jobs:
  assumes "ensure_source_site c n u d = Inr (s, d')"
  shows "crawl_jobs d' = crawl_jobs d"
  using ensure_source_site_db [OF assms] insert_source_site_jobs by auto

lemma new_crawl_job_ok: "job_ok (new_crawl_job now a jt sid k)"
  by (simp add: job_ok_def new_crawl_job_def)

lemma create_job_ok:
  assumes "create_job_in_session now a d = Inr (j, d')" "db_ok d"
  shows "db_ok d'"
  using assms ensure_source_site_ok insert_crawl_job_ok [OF _ _ new_crawl_job_ok]
  by (auto simp: create_job_in_session_def Let_def split: sum.splits prod.splits option.splits if_splits)

lemma create_job_row:
  assumes "create_job_in_session now a d = Inr (j, d')" "db_ok d" "get_job_row k d = Some r"
  shows "get_job_row k d' = Some r"
  using assms ensure_source_site_jobs insert_crawl_job_row
  by (fastforce simp: create_job_in_session_def Let_def
      split: sum.splits prod.splits option.splits if_splits)

section \<open>Expiring\<close>

lemma expire_job_running: "cj_status j = Running \<Longrightarrow> expire_job m j = Inr (expire_row m j)"
  by (simp add: expire_job_def ensure_transition_def)

definition expire_all :: "instant \<Rightarrow> crawl_job list \<Rightarrow> db \<Rightarrow> db" where
  "expire_all m js d = fold (\<lambda>j. update_job (cj_id j) (expire_row m)) js d"

lemma expire_each_running:
  "\<forall>j \<in> set js. cj_status j = Running \<Longrightarrow>
   expire_each m js d = Inr (map (expire_row m) js, expire_all m js d)"
  by (induction js arbitrary: d) (auto simp: expire_job_running expire_all_def)

lemma expire_all_sources [simp]: "source_sites (expire_all m js d) = source_sites d"
  by (induction js arbitrary: d) (auto simp: expire_all_def)

lemma expire_all_row:
  "distinct (map cj_id js) \<Longrightarrow> get_job_row k (expire_all m js d) =
     (if k \<in> cj_id ` set js then map_option (expire_row m) (get_job_row k d) else get_job_row k d)"
  by (induction js arbitrary: d) (auto simp: expire_all_def job_rows.get_upd)

lemma expire_all_ok:
  assumes "db_ok d" "distinct (map cj_id js)"
    "\<forall>j \<in> set js. get_job_row (cj_id j) d = Some j \<and> cj_status j = Running"
  shows "db_ok (expire_all m js d)"
  using assms
proof (induction js arbitrary: d)
  case (Cons j js)
  then have j: "get_job_row (cj_id j) d = Some j" "cj_status j = Running" by auto
  have "db_ok (update_job (cj_id j) (expire_row m) d)"
    by (rule db_ok_update_job [OF Cons.prems(1) j(1)])
      (simp_all add: expire_row_le j expire_row_ok [OF db_ok_row [OF Cons.prems(1) j(1)]])
  moreover have "\<forall>i \<in> set js. get_job_row (cj_id i) (update_job (cj_id j) (expire_row m) d) = Some i
      \<and> cj_status i = Running"
    using Cons.prems(2,3) by (auto simp: job_rows.get_upd)
  ultimately show ?case using Cons by (simp add: expire_all_def)
qed (simp add: expire_all_def)

lemma expired_jobs_mem:
  "j \<in> set (expired_jobs m lm d) \<Longrightarrow> j \<in> set (crawl_jobs d) \<and> lease_expired m j"
  using set_limit_rows by (fastforce simp: expired_jobs_def)

lemma expired_jobs_all: "set (expired_jobs m None d) = {j \<in> set (crawl_jobs d). lease_expired m j}"
  by (auto simp: expired_jobs_def)

lemma distinct_map_order_by: "distinct (map f xs) \<Longrightarrow> distinct (map f (order_by k xs))"
  by (simp add: distinct_map order_by_def)

lemma expired_jobs_distinct:
  "distinct (map cj_id (crawl_jobs d)) \<Longrightarrow> distinct (map cj_id (expired_jobs m lm d))"
  unfolding expired_jobs_def limit_rows_def
  by (auto intro!: distinct_map_order_by distinct_map_filter distinct_take
      simp: take_map [symmetric] split: option.split)

lemma expired_jobs_rows:
  assumes "db_ok d" "j \<in> set (expired_jobs m lm d)"
  shows "get_job_row (cj_id j) d = Some j" "cj_status j = Running"
proof -
  have "j \<in> set (crawl_jobs d)" "lease_expired m j" using expired_jobs_mem [OF assms(2)] by auto
  then show "get_job_row (cj_id j) d = Some j" "cj_status j = Running"
    using assms(1) get_row_distinct [of cj_id "crawl_jobs d"]
    by (auto simp: db_ok_def lease_expired_def)
qed

lemma reconcile_eq:
  "reconcile_expired_jobs_in_session m lm d =
     Inr (map (expire_row m) (expired_jobs m lm d), expire_all m (expired_jobs m lm d) d)"
  using expire_each_running [of "expired_jobs m lm d"] expired_jobs_mem
  by (auto simp: reconcile_expired_jobs_in_session_def lease_expired_def)

lemma reconcile_ok:
  assumes "reconcile_expired_jobs_in_session m lm d = Inr (js, d')" "db_ok d"
  shows "db_ok d'"
proof -
  have "d' = expire_all m (expired_jobs m lm d) d" using assms(1) by (simp add: reconcile_eq)
  moreover have "distinct (map cj_id (expired_jobs m lm d))"
    using assms(2) by (simp add: db_ok_def expired_jobs_distinct)
  ultimately show ?thesis
    using assms(2) expire_all_ok expired_jobs_rows [OF assms(2)] by blast
qed

lemma reconcile_row:
  assumes "reconcile_expired_jobs_in_session m lm d = Inr (js, d')" "db_ok d"
    "get_job_row k d = Some r"
  shows "get_job_row k d' =
    Some (if r \<in> set (expired_jobs m lm d) then expire_row m r else r)"
proof -
  have d': "d' = expire_all m (expired_jobs m lm d) d" using assms(1) by (simp add: reconcile_eq)
  have dist: "distinct (map cj_id (expired_jobs m lm d))"
    using assms(2) by (simp add: db_ok_def expired_jobs_distinct)
  have "k \<in> cj_id ` set (expired_jobs m lm d) \<longleftrightarrow> r \<in> set (expired_jobs m lm d)"
    using expired_jobs_rows(1) [OF assms(2)] assms(3) get_row_key by (force simp: image_iff)
  then show ?thesis using assms(3) by (simp add: d' expire_all_row [OF dist])
qed

section \<open>The transition system\<close>

text \<open>
  One call of an \<open>..._in_session\<close> method, or a write that leaves the crawl jobs, the source ids and
  the source codes alone (the settings of a source, any other table).
\<close>

inductive job_step :: "db \<Rightarrow> db \<Rightarrow> bool" where
  step_register: "insert_source_site s d = Inr d' \<Longrightarrow> job_step d d'"
| step_other: "crawl_jobs d' = crawl_jobs d \<Longrightarrow>
    map ss_id (source_sites d') = map ss_id (source_sites d) \<Longrightarrow>
    map ss_code (source_sites d') = map ss_code (source_sites d) \<Longrightarrow> job_step d d'"
| step_create: "create_job_in_session now ca d = Inr (j, d') \<Longrightarrow> job_step d d'"
| step_claim: "claim_pending_job_in_session now lease k d = Inr (r, d') \<Longrightarrow> job_step d d'"
| step_start: "start_job_in_session now sa k d = Inr (r, d') \<Longrightarrow> job_step d d'"
| step_heartbeat: "heartbeat_job_in_session now lease k d = Inr (r, d') \<Longrightarrow> job_step d d'"
| step_stats: "record_stats_in_session ko c d = Inr (r, d') \<Longrightarrow> job_step d d'"
| step_finish: "finish_job_in_session now fa k d = Inr (r, d') \<Longrightarrow> job_step d d'"
| step_fail: "fail_job_if_active_in_session now fa k d = Inr (r, d') \<Longrightarrow> job_step d d'"
| step_reconcile: "reconcile_expired_jobs_in_session now m d = Inr (js, d') \<Longrightarrow> job_step d d'"

inductive_cases job_stepE: "job_step d d'"

text \<open>Every single-row method leaves the database alone or updates one row along \<open>job_le\<close>.\<close>

definition row_move :: "int \<Rightarrow> db \<Rightarrow> db \<Rightarrow> bool" where
  "row_move k d d' \<longleftrightarrow> d' = d \<or>
     (\<exists>j f. get_job_row k d = Some j \<and> d' = update_job k f d \<and> (\<forall>r. cj_id (f r) = cj_id r) \<and>
        job_le j (f j) \<and> (job_ok j \<longrightarrow> job_ok (f j)))"

lemma row_move_ok: "row_move k d d' \<Longrightarrow> db_ok d \<Longrightarrow> db_ok d'"
  unfolding row_move_def using db_ok_update_job db_ok_row by metis

lemma row_move_row:
  "row_move k d d' \<Longrightarrow> get_job_row l d = Some r \<Longrightarrow> \<exists>r'. get_job_row l d' = Some r' \<and> job_le r r'"
  unfolding row_move_def using update_job_row job_le_refl by metis

lemma row_moveI:
  "get_job_row k d = Some j \<Longrightarrow> (\<And>r. cj_id (f r) = cj_id r) \<Longrightarrow> job_le j (f j) \<Longrightarrow>
   (job_ok j \<Longrightarrow> job_ok (f j)) \<Longrightarrow> row_move k d (update_job k f d)"
  unfolding row_move_def by blast

lemma row_move_refl [simp]: "row_move k d d"
  by (simp add: row_move_def)

lemma claim_move: "claim_pending_job_in_session now lease k d = Inr (r, d') \<Longrightarrow> row_move k d d'"
  by (auto simp: claim_pending_job_in_session_def claim_row_ok claim_row_le intro!: row_moveI
      split: sum.splits option.splits if_splits)

lemma start_move: "start_job_in_session now a k d = Inr (r, d') \<Longrightarrow> row_move k d d'"
  by (auto simp: start_job_in_session_def start_row_ok start_row_le intro!: row_moveI
      split: sum.splits option.splits if_splits)

lemma heartbeat_move: "heartbeat_job_in_session now lease k d = Inr (r, d') \<Longrightarrow> row_move k d d'"
  by (auto simp: heartbeat_job_in_session_def heartbeat_row_ok heartbeat_row_le intro!: row_moveI
      split: sum.splits option.splits if_splits)

lemma stats_move: "record_stats_in_session ko c d = Inr (r, d') \<Longrightarrow> \<exists>k. row_move k d d'"
proof (cases ko)
  case (Some k)
  assume "record_stats_in_session ko c d = Inr (r, d')"
  with Some have "row_move k d d'"
    by (auto simp: record_stats_in_session_def count_row_ok count_row_le normalize_deltas_Inr
        intro!: row_moveI split: sum.splits option.splits if_splits)
  then show ?thesis ..
qed (auto simp: record_stats_in_session_def)

lemma finish_move: "finish_job_in_session now a k d = Inr (r, d') \<Longrightarrow> row_move k d d'"
  by (auto simp: finish_job_in_session_def Let_def finish_row_ok finish_row_le ensure_transition_Inr
      intro!: row_moveI split: sum.splits option.splits if_splits)

lemma fail_move: "fail_job_if_active_in_session now a k d = Inr (r, d') \<Longrightarrow> row_move k d d'"
  by (auto simp: fail_job_if_active_in_session_def dest: finish_move split: option.splits if_splits)

lemmas row_moves = claim_move start_move heartbeat_move finish_move fail_move

lemma job_step_ok:
  assumes "job_step d d'" "db_ok d"
  shows "db_ok d'"
  using assms(1)
proof (cases rule: job_step.cases)
  case (step_other)
  then show ?thesis using db_ok_sources [OF assms(2)] assms(2) by (simp add: db_ok_def)
qed (use assms(2) in \<open>auto intro: insert_source_site_ok create_job_ok reconcile_ok row_move_ok
      dest: row_moves stats_move\<close>)

lemma job_step_row:
  assumes "job_step d d'" "db_ok d" "get_job_row k d = Some r"
  shows "\<exists>r'. get_job_row k d' = Some r' \<and> job_le r r'"
  using assms(1)
proof (cases rule: job_step.cases)
  case (step_register s)
  then show ?thesis using assms(3) by (simp add: insert_source_site_jobs job_le_refl)
next
  case step_other
  then show ?thesis using assms(3) by (simp add: job_le_refl)
next
  case (step_create now ca j)
  then show ?thesis using create_job_row [OF _ assms(2,3)] job_le_refl by blast
next
  case (step_stats ko c r)
  then show ?thesis using stats_move row_move_row assms(3) by blast
next
  case (step_reconcile now m js)
  have "job_le r (if r \<in> set (expired_jobs now m d) then expire_row now r else r)"
    using expired_jobs_rows(2) [OF assms(2)] by (auto intro: job_le_refl expire_row_le)
  then show ?thesis using reconcile_row [OF step_reconcile assms(2,3)] by blast
qed (rule row_moves [THEN row_move_row, OF _ assms(3)], assumption)+

interpretation job_system: evolving_rows job_step db_ok get_job_row job_le
  by unfold_locales
    (auto intro: job_step_ok job_le_refl job_le_trans job_step_row)

section \<open>The public methods that touch one row\<close>

lemma row_move_other: "row_move k d d' \<Longrightarrow> l \<noteq> k \<Longrightarrow> get_job_row l d' = get_job_row l d"
  by (auto simp: row_move_def job_rows.get_upd)

lemma transact_move:
  "(\<And>r d'. f d = Inr (r, d') \<Longrightarrow> row_move k d d') \<Longrightarrow> row_move k d (snd (transact f d))"
  by (auto simp: transact_def split: sum.splits option.splits)

lemma claim_pending_job_move: "row_move k d (snd (claim_pending_job now lease k d))"
  unfolding claim_pending_job_def by (rule transact_move) (rule claim_move)

lemma start_job_move: "row_move k d (snd (start_job now a k d))"
  unfolding start_job_def by (rule transact_move) (rule start_move)

lemma heartbeat_job_move: "row_move k d (snd (heartbeat_job now lease k d))"
  unfolding heartbeat_job_def by (rule transact_move) (rule heartbeat_move)

lemma finish_job_move: "row_move k d (snd (finish_job now a k d))"
  unfolding finish_job_def by (rule transact_move) (rule finish_move)

lemma fail_job_if_active_move: "row_move k d (snd (fail_job_if_active now a k d))"
  unfolding fail_job_if_active_def by (rule transact_move) (rule fail_move)

lemmas public_moves = claim_pending_job_move start_job_move heartbeat_job_move finish_job_move
  fail_job_if_active_move

lemma transact_step:
  assumes "\<And>r d'. f d = Inr (r, d') \<Longrightarrow> job_step d d'"
  shows "job_step\<^sup>*\<^sup>* d (snd (transact f d))"
  using assms by (auto simp: transact_def split: sum.splits option.splits)

lemma public_steps:
  "job_step\<^sup>*\<^sup>* d (snd (create_job now ca d))"
  "job_step\<^sup>*\<^sup>* d (snd (claim_pending_job now lease k d))"
  "job_step\<^sup>*\<^sup>* d (snd (start_job now sa k d))"
  "job_step\<^sup>*\<^sup>* d (snd (heartbeat_job now lease k d))"
  "job_step\<^sup>*\<^sup>* d (snd (record_stats k c d))"
  "job_step\<^sup>*\<^sup>* d (snd (finish_job now fa k d))"
  "job_step\<^sup>*\<^sup>* d (snd (fail_job_if_active now fa k d))"
  "job_step\<^sup>*\<^sup>* d (snd (reconcile_expired_jobs now m d))"
  unfolding claim_pending_job_def start_job_def heartbeat_job_def record_stats_def finish_job_def
    fail_job_if_active_def
  by (auto simp: create_job_def reconcile_expired_jobs_def split: sum.splits
      intro: transact_step job_step.intros)

lemma get_job_row_update:
  "(\<And>r. cj_id (f r) = cj_id r) \<Longrightarrow> get_job_row l (update_job k f d) =
     (if k = l then map_option f (get_job_row l d) else get_job_row l d)"
  by (simp add: job_rows.get_upd)

lemma normalize_status_text [simp]: "normalize_status (Some (status_text st)) = Inr st"
  by (induct st; code_simp)

text \<open>Failing an active job, as one equation.\<close>

lemma fail_active_eq:
  assumes "get_job_row k d = Some j" "\<not> final_status (cj_status j)"
  shows "\<exists>t a'. fa_failure_reason a' = fa_failure_reason a \<and> fa_message a' = fa_message a \<and>
    fail_job_if_active now a k d =
      (Inr (Some (snapshot (finish_row t Failed a' j))), update_job k (finish_row t Failed a') d)"
proof -
  let ?a = "a\<lparr>fa_status := Some (lit ''failed'')\<rparr>"
  let ?t = "case fa_finished_at a of None \<Rightarrow> now | Some t \<Rightarrow> t"
  have "normalize_status (Some (lit ''failed'')) = Inr Failed"
    using normalize_status_text [of Failed] by simp
  moreover have "Failed \<in> set (allowed_transitions (cj_status j))"
    using assms(2) by (cases "cj_status j") (auto simp: final_status_def)
  ultimately have "fail_job_if_active now a k d =
      (Inr (Some (snapshot (finish_row ?t Failed ?a j))), update_job k (finish_row ?t Failed ?a) d)"
    using assms by (simp add: fail_job_if_active_def transact_def fail_job_if_active_in_session_def
        finish_job_in_session_def ensure_transition_def Let_def final_status_def [of Failed])
  then show ?thesis by (intro exI [of _ ?t] exI [of _ ?a]) simp
qed

lemma finish_row_fields [simp]:
  "cj_status (finish_row t st a j) = st" "cj_timeout_at (finish_row t st a j) = None"
  "cj_lease_expires_at (finish_row t st a j) = None" "cj_finished_at (finish_row t st a j) = Some t"
  "cj_failure_reason (finish_row t st a j) =
     (case fa_failure_reason a of Unset \<Rightarrow> cj_failure_reason j | Given r \<Rightarrow> as_str r)"
  by (simp_all add: finish_row_def Let_def)

end
