(* ===== verification/Dispatch.thy ===== *)
theory Dispatch
  imports Commands JobSteps
begin

text \<open>
  Handing pending jobs to worker processes: the dispatchers of
  app/services/source_crawl_trigger_service.py and the sweep of
  app/services/crawl_job_dispatch_service.py.

  The interface is the locale \<open>crawl_job_dispatcher\<close> (the Protocol CrawlJobDispatcher): a request
  and the database give a result (an exception or nothing) and the database afterwards.  What the
  operating system does (creating the log directory, opening the log, Popen) is the record
  \<open>launch_env\<close>; a text is the str() of the exception it raises.
\<close>

section \<open>The dispatchers\<close>

definition noop_dispatch :: "dispatch_request \<Rightarrow> db \<Rightarrow> unit result \<times> db" where
  "noop_dispatch r d = (Inr (), d)"

record launch_env =
  le_claimed_at :: instant
  le_failed_at :: instant
  le_python :: ustr
  le_database_url :: ustr
  le_prepare :: "pyerror option"
  le_open_log :: "nat \<Rightarrow> ustr option"
  le_popen :: "nat \<Rightarrow> ustr option"
  le_max_attempts :: int

definition default_dispatch_retry_attempts :: int where
  "default_dispatch_retry_attempts = 3"

text \<open>One attempt; None is success.  The only exception the check of the vector has is ValueError.\<close>

definition launch_attempt :: "launch_env \<Rightarrow> ustr list \<Rightarrow> nat \<Rightarrow> ustr option" where
  "launch_attempt env command n =
     (case le_open_log env n of
        Some t \<Rightarrow> Some t
      | None \<Rightarrow> (case validate_worker_command command of
                   Inl (ValueError m) \<Rightarrow> Some m
                 | _ \<Rightarrow> le_popen env n))"

text \<open>Attempts n, n+1, ... while \<open>left\<close> remain; the text of the last failure when all failed.\<close>

fun launch :: "launch_env \<Rightarrow> ustr list \<Rightarrow> nat \<Rightarrow> nat \<Rightarrow> ustr option" where
  "launch env command n 0 = None"
| "launch env command n (Suc left) =
     (case launch_attempt env command n of
        None \<Rightarrow> None
      | Some t \<Rightarrow> if left = 0 then Some t else launch env command (Suc n) left)"

text \<open>\<open>a or b\<close> for optional texts.\<close>

definition text_or_else :: "ustr option \<Rightarrow> ustr option \<Rightarrow> ustr option" where
  "text_or_else a b = (case a of None \<Rightarrow> b | Some s \<Rightarrow> if s = [] then b else a)"

definition dispatch_failure_message :: "dispatch_request \<Rightarrow> ustr \<Rightarrow> ustr" where
  "dispatch_failure_message r failure_reason = dr_job_type r @ zh_dispatch_failed @ failure_reason"

definition dispatch_failure_runtime_stats :: payload where
  "dispatch_failure_runtime_stats = build_runtime_stats_payload (lit ''dispatch_abandoned'') no_stats"

definition dispatch_failure_args :: "dispatch_request \<Rightarrow> crawl_job_snapshot \<Rightarrow> ustr \<Rightarrow> finish_job_args" where
  "dispatch_failure_args r claimed exc =
     \<lparr>fa_status = None,
      fa_job_params_json = Given (Some (build_job_params_payload (dr_source_code r) (dr_job_type r)
        (text_or_else (dr_triggered_by r) (cj_triggered_by claimed)) (dr_max_pages r)
        (dr_backfill_year r) (cj_retry_of_job_id claimed) None)),
      fa_runtime_stats_json = Given (Some dispatch_failure_runtime_stats),
      fa_failure_reason = Given (Some (zh_background_dispatch_failed @ exc)),
      fa_message = Some (dispatch_failure_message r (zh_background_dispatch_failed @ exc)),
      fa_finished_at = None\<rparr>"

definition subprocess_dispatch :: "launch_env \<Rightarrow> dispatch_request \<Rightarrow> db \<Rightarrow> unit result \<times> db" where
  "subprocess_dispatch env r d =
     (case claim_pending_job (le_claimed_at env) default_pending_lease_seconds (dr_crawl_job_id r) d of
        (Inl e, d1) \<Rightarrow> (Inl e, d1)
      | (Inr None, d1) \<Rightarrow> (Inr (), d1)
      | (Inr (Some claimed), d1) \<Rightarrow>
         (case le_prepare env of
            Some e \<Rightarrow> (Inl e, d1)
          | None \<Rightarrow>
             (case build_worker_command (le_python env) (le_database_url env) r of
                Inl e \<Rightarrow> (Inl e, d1)
              | Inr command \<Rightarrow>
                 (case launch env command 1 (nat (max (le_max_attempts env) 1)) of
                    None \<Rightarrow> (Inr (), d1)
                  | Some exc \<Rightarrow>
                     (case fail_job_if_active (le_failed_at env) (dispatch_failure_args r claimed exc)
                             (dr_crawl_job_id r) d1 of
                        (Inl e, d2) \<Rightarrow> (Inl e, d2)
                      | (Inr _, d2) \<Rightarrow> (Inr (), d2))))))"

section \<open>The sweep over pending jobs\<close>

text \<open>ORDER BY queued_at ASC NULLS FIRST, id ASC.\<close>

definition queue_order :: "crawl_job \<Rightarrow> int \<times> instant \<times> int" where
  "queue_order j =
     (case cj_queued_at j of None \<Rightarrow> (0, 0, cj_id j) | Some t \<Rightarrow> (1, t, cj_id j))"

definition source_code_of :: "db \<Rightarrow> crawl_job \<Rightarrow> ustr option" where
  "source_code_of d j = map_option ss_code (get_row ss_id (cj_source_site_id j) (source_sites d))"

definition pending_jobs :: "instant \<Rightarrow> int \<Rightarrow> db \<Rightarrow> crawl_job list" where
  "pending_jobs now limit d =
     limit_rows (Some limit) (order_by queue_order
       (filter (\<lambda>j. source_code_of d j \<noteq> None \<and> claimable now j) (crawl_jobs d)))"

definition candidate_request :: "db \<Rightarrow> crawl_job \<Rightarrow> dispatch_request" where
  "candidate_request d j =
     \<lparr>dr_source_code = (case source_code_of d j of None \<Rightarrow> [] | Some c \<Rightarrow> c),
      dr_crawl_job_id = cj_id j, dr_job_type = job_type_text (cj_job_type j),
      dr_max_pages = read_payload_int (cj_job_params_json j) (lit ''max_pages''),
      dr_backfill_year = read_payload_int (cj_job_params_json j) (lit ''backfill_year''),
      dr_triggered_by = map_option strip (cj_triggered_by j)\<rparr>"

definition load_candidates :: "instant \<Rightarrow> int \<Rightarrow> db \<Rightarrow> dispatch_request list" where
  "load_candidates now limit d = map (candidate_request d) (pending_jobs now limit d)"

record sweep_result =
  sw_scanned :: nat
  sw_handoff :: nat
  sw_abandoned :: nat

fun sweep ::
    "(dispatch_request \<Rightarrow> db \<Rightarrow> unit result \<times> db) \<Rightarrow> dispatch_request list \<Rightarrow> sweep_result \<Rightarrow> db \<Rightarrow>
     sweep_result \<times> db" where
  "sweep dispatch [] res d = (res, d)"
| "sweep dispatch (r # rs) res d =
     (let res1 = res\<lparr>sw_scanned := sw_scanned res + 1\<rparr>
      in case dispatch r d of
           (Inl e, d1) \<Rightarrow> sweep dispatch rs (res1\<lparr>sw_abandoned := sw_abandoned res1 + 1\<rparr>) d1
         | (Inr _, d1) \<Rightarrow> sweep dispatch rs (res1\<lparr>sw_handoff := sw_handoff res1 + 1\<rparr>) d1)"

definition dispatch_pending_jobs ::
    "(dispatch_request \<Rightarrow> db \<Rightarrow> unit result \<times> db) \<Rightarrow> instant \<Rightarrow> int \<Rightarrow> db \<Rightarrow> sweep_result \<times> db" where
  "dispatch_pending_jobs dispatch now limit d =
     sweep dispatch (load_candidates now (max limit 1) d)
       \<lparr>sw_scanned = 0, sw_handoff = 0, sw_abandoned = 0\<rparr> d"

section \<open>The contract of a dispatcher\<close>

locale crawl_job_dispatcher =
  fixes dispatch :: "dispatch_request \<Rightarrow> db \<Rightarrow> unit result \<times> db"
  assumes dispatch_steps: "job_step\<^sup>*\<^sup>* d (snd (dispatch r d))"
    and dispatch_other: "l \<noteq> dr_crawl_job_id r \<Longrightarrow> get_job_row l (snd (dispatch r d)) = get_job_row l d"
    and dispatch_taken: "get_job_row (dr_crawl_job_id r) d = Some j \<Longrightarrow> cj_status j \<noteq> Pending \<Longrightarrow>
      snd (dispatch r d) = d"
begin

lemma dispatch_ok: "db_ok d \<Longrightarrow> db_ok (snd (dispatch r d))"
  using job_system.steps_inv dispatch_steps by blast

lemma dispatch_started:
  assumes "get_job_row k d = Some j" "cj_status j \<noteq> Pending"
  shows "get_job_row k (snd (dispatch r d)) = Some j"
  using assms dispatch_other [of k r d] dispatch_taken [of r d j]
  by (cases "k = dr_crawl_job_id r") auto

lemma sweep_steps: "job_step\<^sup>*\<^sup>* d (snd (sweep dispatch rs res d))"
proof (induction rs arbitrary: res d)
  case (Cons r rs)
  show ?case
    using dispatch_steps [of d r] Cons
    by (auto simp: Let_def split: prod.splits sum.splits) (metis rtranclp_trans snd_conv)+
qed simp

lemma sweep_started:
  assumes "get_job_row k d = Some j" "cj_status j \<noteq> Pending"
  shows "get_job_row k (snd (sweep dispatch rs res d)) = Some j"
  using assms
proof (induction rs arbitrary: res d)
  case (Cons r rs)
  have "get_job_row k (snd (dispatch r d)) = Some j" using dispatch_started Cons.prems by blast
  then show ?case
    using Cons by (auto simp: Let_def split: prod.splits sum.splits)
qed simp

lemma sweep_counts:
  "sw_scanned (fst (sweep dispatch rs res d)) = sw_scanned res + length rs \<and>
   sw_handoff (fst (sweep dispatch rs res d)) + sw_abandoned (fst (sweep dispatch rs res d)) =
     sw_handoff res + sw_abandoned res + length rs"
  by (induction rs arbitrary: res d) (auto simp: Let_def split: prod.split sum.split)

lemma sweep_other:
  "k \<notin> dr_crawl_job_id ` set rs \<Longrightarrow>
   get_job_row k (snd (sweep dispatch rs res d)) = get_job_row k d"
proof (induction rs arbitrary: res d)
  case (Cons r rs)
  then show ?case
    using dispatch_other [of k r d] by (auto simp: Let_def split: prod.splits sum.splits)
qed simp

end

interpretation noop: crawl_job_dispatcher noop_dispatch
  by unfold_locales (simp_all add: noop_dispatch_def)

section \<open>The subprocess dispatcher keeps the contract\<close>

text \<open>Every outcome of a dispatch is a claim, possibly followed by a failing of the same job.\<close>

lemma subprocess_dispatch_db:
  "\<exists>d1. d1 = snd (claim_pending_job (le_claimed_at env) default_pending_lease_seconds
              (dr_crawl_job_id r) d) \<and>
     (snd (subprocess_dispatch env r d) = d1 \<or>
      (\<exists>a. snd (subprocess_dispatch env r d) =
         snd (fail_job_if_active (le_failed_at env) a (dr_crawl_job_id r) d1)))"
  by (auto simp: subprocess_dispatch_def split: prod.splits sum.splits option.splits)
    (metis snd_conv)+

lemma claim_taken:
  "get_job_row k d = Some j \<Longrightarrow> cj_status j \<noteq> Pending \<Longrightarrow>
   (\<exists>r. claim_pending_job now lease k d = (r, d) \<and> (\<forall>s. r \<noteq> Inr (Some s)))"
  by (auto simp: claim_pending_job_def transact_def claim_pending_job_in_session_def claimable_def
      split: sum.splits option.splits)

interpretation worker: crawl_job_dispatcher "subprocess_dispatch env" for env
proof unfold_locales
  show "job_step\<^sup>*\<^sup>* d (snd (subprocess_dispatch env r d))" for r d
    using subprocess_dispatch_db [of env r d] public_steps(2,7) by (metis rtranclp_trans)
  show "get_job_row l (snd (subprocess_dispatch env r d)) = get_job_row l d"
    if "l \<noteq> dr_crawl_job_id r" for l r d
    using subprocess_dispatch_db [of env r d] row_move_other [OF claim_pending_job_move that]
      row_move_other [OF fail_job_if_active_move that] by metis
  show "snd (subprocess_dispatch env r d) = d"
    if "get_job_row (dr_crawl_job_id r) d = Some j" "cj_status j \<noteq> Pending" for r d j
    using claim_taken [OF that, of "le_claimed_at env" default_pending_lease_seconds]
    by (auto simp: subprocess_dispatch_def split: sum.splits option.splits)
qed

section \<open>What a sweep does\<close>

lemma length_limit_rows: "length (limit_rows (Some n) xs) = min (nat n) (length xs)"
  by (simp add: limit_rows_def)

lemma filter_joined:
  assumes "db_ok d"
  shows "filter (\<lambda>j. source_code_of d j \<noteq> None \<and> P j) (crawl_jobs d) = filter P (crawl_jobs d)"
proof (rule filter_cong [OF refl])
  fix j assume "j \<in> set (crawl_jobs d)"
  then have "cj_source_site_id j \<in> ss_id ` set (source_sites d)"
    using assms by (simp add: db_ok_def refs_ok_def)
  then have "source_code_of d j \<noteq> None"
    using get_row_None_iff [of ss_id "cj_source_site_id j" "source_sites d"]
    by (auto simp: source_code_of_def)
  then show "(source_code_of d j \<noteq> None \<and> P j) = P j" by simp
qed

text \<open>
C7. A sweep of the dispatch service accounts for every job it looked at (each is either handed off or
abandoned), looks at every dispatchable job up to the limit (at least one), keeps the database
consistent, and leaves every job that is no longer pending exactly as it was.\<close>

theorem dispatch_sweep_is_safe:
  assumes "db_ok d" "dispatch_pending_jobs (subprocess_dispatch env) now limit d = (res, d')"
  shows "sw_scanned res = sw_handoff res + sw_abandoned res \<and>
    sw_scanned res = min (nat (max limit 1)) (length (filter (claimable now) (crawl_jobs d))) \<and>
    db_ok d' \<and>
    list_all (\<lambda>j. cj_status j = Pending \<or> get_job_row (cj_id j) d' = Some j) (crawl_jobs d)"
proof -
  let ?z = "\<lparr>sw_scanned = 0, sw_handoff = 0, sw_abandoned = 0\<rparr> :: sweep_result"
  let ?rs = "load_candidates now (max limit 1) d"
  have res: "res = fst (sweep (subprocess_dispatch env) ?rs ?z d)"
    and d': "d' = snd (sweep (subprocess_dispatch env) ?rs ?z d)"
    using assms(2) by (simp_all add: dispatch_pending_jobs_def prod_eq_iff)
  have len: "length ?rs = min (nat (max limit 1)) (length (filter (claimable now) (crawl_jobs d)))"
    using filter_joined [OF assms(1), of "claimable now"]
    by (simp add: load_candidates_def pending_jobs_def length_limit_rows order_by_def)
  have "db_ok d'"
    unfolding d' using job_system.steps_inv [OF worker.sweep_steps assms(1)] .
  moreover have "get_job_row (cj_id j) d' = Some j"
    if "j \<in> set (crawl_jobs d)" "cj_status j \<noteq> Pending" for j
    unfolding d' using that assms(1) get_row_distinct [of cj_id "crawl_jobs d" j]
    by (intro worker.sweep_started) (auto simp: db_ok_def)
  ultimately show ?thesis
    using worker.sweep_counts [of env ?rs ?z d] len unfolding res by (auto simp: list_all_iff)
qed

definition sample_env :: launch_env where
  "sample_env = \<lparr>le_claimed_at = 5000, le_failed_at = 6000, le_python = lit ''/usr/bin/python'',
     le_database_url = lit ''sqlite:///x.db'', le_prepare = None, le_open_log = (\<lambda>_. None),
     le_popen = (\<lambda>n. if n < 4 then Some (lit ''no memory'') else None), le_max_attempts = 3\<rparr>"

definition sample_pending :: db where
  "sample_pending = snd (create_job 1000 \<lparr>ca_source_code = lit ''ggzy_gov_cn_deal'',
     ca_source_name = None, ca_source_url = None, ca_job_type = lit ''manual'', ca_triggered_by = None,
     ca_retry_of_job_id = None, ca_job_params_json = None, ca_runtime_stats_json = None,
     ca_failure_reason = None, ca_message = None\<rparr> (empty_db Sqlite))"

lemma sample_pending_ok: "db_ok sample_pending"
  unfolding sample_pending_def using job_system.steps_inv [OF public_steps(1) db_ok_empty] .

lemma dispatch_sweep_is_safe_witness:
  "let (res, d') = dispatch_pending_jobs (subprocess_dispatch sample_env) 5000 10 sample_pending
   in sw_scanned res = 1 \<and> sw_handoff res = 1 \<and> db_ok d' \<and> map cj_status (crawl_jobs d') = [Failed]"
proof -
  have "map cj_status (crawl_jobs (snd (dispatch_pending_jobs (subprocess_dispatch sample_env) 5000 10
      sample_pending))) = [Failed]"
    "sw_scanned (fst (dispatch_pending_jobs (subprocess_dispatch sample_env) 5000 10 sample_pending)) = 1"
    "sw_handoff (fst (dispatch_pending_jobs (subprocess_dispatch sample_env) 5000 10 sample_pending)) = 1"
    by code_simp+
  with dispatch_sweep_is_safe [OF sample_pending_ok prod.collapse [symmetric]]
  show ?thesis by (auto simp: case_prod_unfold)
qed

section \<open>What one dispatch leaves behind\<close>

lemma launch_None:
  "0 < left \<Longrightarrow> launch env c n left = None \<longleftrightarrow> list_ex (\<lambda>i. launch_attempt env c i = None) [n..<n + left]"
  by (induction left arbitrary: n)
    (auto simp: upt_conv_Cons simp del: upt_Suc split: option.splits)

text \<open>
C8. Dispatching a pending job that is free to claim settles it: with a log directory and a request
that makes a valid command, the call returns normally and the job is then either claimed with a lease
of 120 seconds (when one of the attempts started the worker), or failed for good with the text of the
last exception in its reason (when all of them failed).\<close>

theorem dispatch_claims_or_fails:
  assumes "get_job_row (dr_crawl_job_id r) d = Some j" "claimable (le_claimed_at env) j"
    "le_claimed_at env + 120 * second \<le> max_instant" "le_prepare env = None"
    "build_worker_command (le_python env) (le_database_url env) r = Inr command"
  shows "fst (subprocess_dispatch env r d) = Inr () \<and>
    (\<exists>j'. get_job_row (dr_crawl_job_id r) (snd (subprocess_dispatch env r d)) = Some j' \<and>
       (if list_ex (\<lambda>n. launch_attempt env command n = None)
             [1..<Suc (nat (max (le_max_attempts env) 1))]
        then cj_status j' = Pending \<and> cj_timeout_at j' = Some (le_claimed_at env + 120 * second)
        else cj_status j' = Failed \<and> cj_timeout_at j' = None \<and>
          (\<exists>exc. launch env command 1 (nat (max (le_max_attempts env) 1)) = Some exc \<and>
             cj_failure_reason j' = as_str (Some (zh_background_dispatch_failed @ exc)))))"
proof -
  let ?k = "dr_crawl_job_id r" and ?n = "nat (max (le_max_attempts env) 1)"
  let ?t = "le_claimed_at env + 120 * second"
  let ?j1 = "claim_row (le_claimed_at env) ?t j" and ?d1 = "update_job ?k (claim_row (le_claimed_at env) ?t) d"
  have st: "cj_status j = Pending" using assms(2) by (simp add: claimable_def)
  have claim: "claim_pending_job (le_claimed_at env) default_pending_lease_seconds ?k d =
      (Inr (Some (snapshot ?j1)), ?d1)"
    using assms(1-3) by (simp add: claim_pending_job_def transact_def claim_pending_job_in_session_def
        calculate_lease_expires_at_def add_seconds_def default_pending_lease_seconds_def)
  have row1: "get_job_row ?k ?d1 = Some ?j1" using assms(1) by (simp add: job_rows.get_upd)
  have st1: "cj_status ?j1 = Pending" "cj_timeout_at ?j1 = Some ?t"
    using st by (simp_all add: claim_row_def)
  let ?a = "dispatch_failure_args r (snapshot ?j1)"
  have failed: "\<exists>s d2 j'. fail_job_if_active (le_failed_at env) (?a exc) ?k ?d1 = (Inr (Some s), d2) \<and>
      get_job_row ?k d2 = Some j' \<and> cj_status j' = Failed \<and> cj_timeout_at j' = None \<and>
      cj_failure_reason j' = as_str (Some (zh_background_dispatch_failed @ exc))" for exc
    using fail_active_eq [OF row1, of "?a exc" "le_failed_at env"] row1 st1(1)
    by (auto simp: get_job_row_update final_status_def dispatch_failure_args_def
        simp del: update_job_simps(1))
  have tried: "launch env command 1 ?n = None \<longleftrightarrow>
      list_ex (\<lambda>n. launch_attempt env command n = None) [1..<Suc ?n]"
    using launch_None [of ?n env command 1] by (simp del: upt_Suc)
  show ?thesis
  proof (cases "launch env command 1 ?n")
    case None
    then have "subprocess_dispatch env r d = (Inr (), ?d1)"
      using claim assms(4,5) by (simp add: subprocess_dispatch_def)
    then show ?thesis using None row1 st1 unfolding tried by (simp del: upt_Suc update_job_simps)
  next
    case (Some exc)
    obtain s d2 j' where f: "fail_job_if_active (le_failed_at env) (?a exc) ?k ?d1 = (Inr (Some s), d2)"
      "get_job_row ?k d2 = Some j'" "cj_status j' = Failed" "cj_timeout_at j' = None"
      "cj_failure_reason j' = as_str (Some (zh_background_dispatch_failed @ exc))"
      using failed [of exc] by blast
    then have "subprocess_dispatch env r d = (Inr (), d2)"
      using claim assms(4,5) Some by (simp add: subprocess_dispatch_def)
    then show ?thesis using Some f tried by (simp del: upt_Suc update_job_simps)
  qed
qed

lemma dispatch_claims_or_fails_witness:
  "\<exists>j'. get_job_row 1 (snd (subprocess_dispatch sample_env
      (candidate_request sample_pending (hd (crawl_jobs sample_pending))) sample_pending)) = Some j' \<and>
     cj_status j' = Failed"
proof -
  let ?r = "candidate_request sample_pending (hd (crawl_jobs sample_pending))"
  let ?b = "build_worker_command (le_python sample_env) (le_database_url sample_env) ?r"
  have k: "dr_crawl_job_id ?r = 1" by code_simp
  obtain j where j: "get_job_row (dr_crawl_job_id ?r) sample_pending = Some j"
      "claimable (le_claimed_at sample_env) j"
    by (rule that [of "hd (crawl_jobs sample_pending)"]) code_simp+
  have "le_claimed_at sample_env + 120 * second \<le> max_instant" "le_prepare sample_env = None"
    by (simp_all add: sample_env_def second_def max_instant_def)
  note hyps = j this
  have "(case ?b of Inl e \<Rightarrow> False
      | Inr c \<Rightarrow> \<not> list_ex (\<lambda>n. launch_attempt sample_env c n = None) [1..<4])" by code_simp
  then obtain c where c: "?b = Inr c" "\<not> list_ex (\<lambda>n. launch_attempt sample_env c n = None) [1..<4]"
    by (cases ?b) auto
  have "Suc (nat (max (le_max_attempts sample_env) 1)) = 4" by (simp add: sample_env_def)
  from dispatch_claims_or_fails [OF hyps c(1), unfolded this k] c(2) show ?thesis
    by (auto simp del: upt_Suc)
qed

end
