(* ===== verification/Trigger.thy ===== *)
theory Trigger
  imports Dispatch
begin

text \<open>
  app/services/source_crawl_trigger_service.py: creating, queueing and executing crawl jobs.

  A public method runs in the session of its caller, which discards what was not committed when an
  exception comes out; so a method here returns its result and the committed database.  Every session
  of the program is opened with autoflush=False: a SELECT sees the rows as they were flushed, not the
  changes pending in the session.  \<open>create_crawl_job\<close> therefore has two databases, the flushed rows
  \<open>d\<close> it queries and the working rows of the session.

  The spider process is an argument (\<open>re_runner\<close>): it gets the command and the database and returns
  its exit code, or the exception of the runner, with the database it leaves behind.
\<close>

section \<open>Looking up jobs and building conflicts\<close>

definition active_job_for_source :: "int \<Rightarrow> db \<Rightarrow> crawl_job option" where
  "active_job_for_source source_id d =
     first_row (order_by_desc cj_id
       (filter (\<lambda>j. cj_source_site_id j = source_id \<and> active_status (cj_status j)) (crawl_jobs d)))"

definition retry_job_for_original_job :: "int \<Rightarrow> db \<Rightarrow> crawl_job option" where
  "retry_job_for_original_job k d =
     first_row (order_by_desc cj_id (filter (\<lambda>j. cj_retry_of_job_id j = Some k) (crawl_jobs d)))"

definition source_active_job_conflict :: "source_site \<Rightarrow> crawl_job option \<Rightarrow> pyerror" where
  "source_active_job_conflict source active =
     SourceActiveCrawlJobConflictError (ss_code source) (ss_id source)
       (map_option cj_id active) (map_option cj_status active)"

definition retry_conflict :: "int \<Rightarrow> crawl_job option \<Rightarrow> pyerror" where
  "retry_conflict original existing = CrawlJobRetryConflictError original (map_option cj_id existing)"

definition resolve_spider_name_for_source :: "source_site \<Rightarrow> ustr \<Rightarrow> ustr result" where
  "resolve_spider_name_for_source source job_type =
     (case get_source_adapter (ss_code source) of
        None \<Rightarrow> Inl (ValueError zh_not_integrated)
      | Some adapter \<Rightarrow>
         (if job_type \<noteq> lit ''scheduled'' \<and> \<not> supports_job_type (ss_code source) job_type
          then Inl (ValueError (lit ''source='' @ ss_code source @ zh_unsupported_job_type @ job_type
                 @ zh_supported_modes @ join (lit '' / '') (am_supported_job_types adapter)))
          else (case resolve_spider_name (ss_code source) of
                  None \<Rightarrow> Inl (ValueError (lit ''source='' @ ss_code source @ zh_no_spider))
                | Some name \<Rightarrow>
                    if name = [] then Inl (ValueError (lit ''source='' @ ss_code source @ zh_no_spider))
                    else Inr name)))"

section \<open>Creating a job\<close>

text \<open>
  What an IntegrityError of the INSERT becomes, looked up after the rollback: a retry conflict when
  the original job has a retry by now or its unique constraint was broken, a source conflict when
  the index on active jobs was broken, else the error itself.
\<close>

definition resolve_integrity_error ::
    "source_site \<Rightarrow> int option \<Rightarrow> integrity_constraint \<Rightarrow> db \<Rightarrow> pyerror" where
  "resolve_integrity_error source retry_of c d =
     (case (case retry_of of
              None \<Rightarrow> None
            | Some k \<Rightarrow>
               (case retry_job_for_original_job k d of
                  Some j \<Rightarrow> Some (retry_conflict k (Some j))
                | None \<Rightarrow> if c = Uq_crawl_job_retry_of_job_id then Some (retry_conflict k None)
                          else None)) of
        Some e \<Rightarrow> e
      | None \<Rightarrow>
         (if c = Uq_crawl_job_source_active
          then source_active_job_conflict source (active_job_for_source (ss_id source) d)
          else IntegrityError c))"

definition creation_error :: "source_site \<Rightarrow> int option \<Rightarrow> pyerror \<Rightarrow> db \<Rightarrow> pyerror" where
  "creation_error source retry_of e d =
     (case e of IntegrityError c \<Rightarrow> resolve_integrity_error source retry_of c d | _ \<Rightarrow> e)"

text \<open>
  \<open>rival\<close> is the job another session commits between the check for an active job and the INSERT, if
  any: the constraints are what decides that race.
\<close>

definition rival_commit :: "instant \<Rightarrow> create_job_args option \<Rightarrow> db \<Rightarrow> db" where
  "rival_commit now rival d = (case rival of None \<Rightarrow> d | Some a \<Rightarrow> snd (create_job now a d))"

definition create_crawl_job ::
    "instant \<Rightarrow> create_job_args option \<Rightarrow> source_site \<Rightarrow> create_job_args \<Rightarrow> db \<Rightarrow>
     crawl_job_snapshot result \<times> db" where
  "create_crawl_job now rival source a d =
     (case resolve_spider_name_for_source source (ca_job_type a) of
        Inl e \<Rightarrow> (Inl e, d)
      | Inr _ \<Rightarrow>
       (case reconcile_expired_jobs_in_session now None d of
          Inl e \<Rightarrow> (Inl e, d)
        | Inr (expired, w) \<Rightarrow>
           (case active_job_for_source (ss_id source) d of
              Some j \<Rightarrow> (Inl (source_active_job_conflict source (get_job_row (cj_id j) w)), d)
            | None \<Rightarrow>
               (let d1 = rival_commit now rival d
                in case expire_each now (expired_jobs now None d) d1 of
                     Inl e \<Rightarrow> (Inl e, d1)
                   | Inr (_, w1) \<Rightarrow>
                      (case create_job_in_session now a w1 of
                         Inl e \<Rightarrow> (Inl (creation_error source (ca_retry_of_job_id a) e d1), d1)
                       | Inr (job, w2) \<Rightarrow>
                          (case get_job (cj_id job) w2 of
                             None \<Rightarrow> (Inl (RuntimeError (lit ''crawl_job not found after creation: ''
                                          @ show_int (cj_id job))), w2)
                           | Some s \<Rightarrow> (Inr s, w2)))))))"

section \<open>Queueing a job\<close>

definition job_params :: "ustr \<Rightarrow> ustr \<Rightarrow> ustr option \<Rightarrow> spider_args \<Rightarrow> int option \<Rightarrow> ustr option \<Rightarrow> payload" where
  "job_params source_code job_type triggered_by args retry_of spider_name =
     build_job_params_payload source_code job_type triggered_by
       (spider_arg_int args (lit ''max_pages'')) (spider_arg_int args (lit ''backfill_year''))
       retry_of spider_name"

definition page_parts :: "spider_args \<Rightarrow> ustr list" where
  "page_parts args =
     (case spider_arg_int args (lit ''max_pages'') of
        None \<Rightarrow> [] | Some n \<Rightarrow> [zh_max_pages @ show_int n])
     @ (case spider_arg_int args (lit ''backfill_year'') of
          None \<Rightarrow> [] | Some n \<Rightarrow> [zh_backfill_year @ show_int n])"

definition queued_job_message :: "ustr \<Rightarrow> spider_args \<Rightarrow> ustr" where
  "queued_job_message job_type args = join zh_comma ((job_type @ zh_queued) # page_parts args)"

definition running_job_message :: "ustr \<Rightarrow> ustr \<Rightarrow> spider_args \<Rightarrow> ustr" where
  "running_job_message job_type spider_name args =
     join zh_comma ((job_type @ zh_running @ spider_name @ zh_rparen) # page_parts args)"

definition failure_message :: "ustr \<Rightarrow> ustr \<Rightarrow> ustr \<Rightarrow> ustr" where
  "failure_message job_type run_stage failure_reason =
     job_type @ zh_task_in @ run_stage @ zh_stage_failed @ failure_reason"

definition queued_job_args ::
    "source_site \<Rightarrow> ustr \<Rightarrow> ustr \<Rightarrow> int option \<Rightarrow> spider_args \<Rightarrow> ustr \<Rightarrow> create_job_args" where
  "queued_job_args source triggered_by job_type retry_of args message =
     \<lparr>ca_source_code = ss_code source, ca_source_name = Some (ss_name source),
      ca_source_url = Some (ss_base_url source), ca_job_type = job_type,
      ca_triggered_by = Some triggered_by, ca_retry_of_job_id = retry_of,
      ca_job_params_json = Some (job_params (ss_code source) job_type (Some triggered_by) args retry_of None),
      ca_runtime_stats_json = Some (build_runtime_stats_payload (lit ''queued'') no_stats),
      ca_failure_reason = None, ca_message = Some message\<rparr>"

text \<open>
  The surroundings of a call: its clock, the rival of its INSERT, and the dispatcher.
\<close>

record enqueue_env =
  ee_now :: instant
  ee_rival :: "create_job_args option"
  ee_dispatch :: "dispatch_request \<Rightarrow> db \<Rightarrow> unit result \<times> db"

definition enqueue_crawl ::
    "enqueue_env \<Rightarrow> source_site \<Rightarrow> ustr \<Rightarrow> ustr \<Rightarrow> int option \<Rightarrow> spider_args \<Rightarrow> db \<Rightarrow>
     crawl_job_snapshot result \<times> db" where
  "enqueue_crawl env source triggered_by job_type retry_of args d =
     (case create_crawl_job (ee_now env) (ee_rival env) source
             (queued_job_args source triggered_by job_type retry_of args (queued_job_message job_type args)) d of
        (Inl e, d1) \<Rightarrow> (Inl e, d1)
      | (Inr job, d1) \<Rightarrow>
         (Inr job, snd (ee_dispatch env
            \<lparr>dr_source_code = ss_code source, dr_crawl_job_id = cj_id job, dr_job_type = job_type,
             dr_max_pages = spider_arg_int args (lit ''max_pages''),
             dr_backfill_year = spider_arg_int args (lit ''backfill_year''),
             dr_triggered_by = Some triggered_by\<rparr> d1)))"

definition queue_manual_crawl ::
    "enqueue_env \<Rightarrow> source_site \<Rightarrow> int option \<Rightarrow> ustr \<Rightarrow> db \<Rightarrow> crawl_job_snapshot result \<times> db" where
  "queue_manual_crawl env source max_pages triggered_by d =
     (case build_spider_args max_pages None (lit ''manual'') of
        Inl e \<Rightarrow> (Inl e, d)
      | Inr args \<Rightarrow> enqueue_crawl env source triggered_by (lit ''manual'') None args d)"

definition create_manual_crawl_job ::
    "enqueue_env \<Rightarrow> source_site \<Rightarrow> int option \<Rightarrow> ustr \<Rightarrow> ustr \<Rightarrow> db \<Rightarrow> crawl_job_snapshot result \<times> db" where
  "create_manual_crawl_job env source max_pages triggered_by message d =
     (case resolve_spider_name_for_source source (lit ''manual'') of
        Inl e \<Rightarrow> (Inl e, d)
      | Inr _ \<Rightarrow>
         (case build_spider_args max_pages None (lit ''manual'') of
            Inl e \<Rightarrow> (Inl e, d)
          | Inr args \<Rightarrow> create_crawl_job (ee_now env) (ee_rival env) source
              (queued_job_args source triggered_by (lit ''manual'') None args message) d))"

definition queue_backfill_crawl ::
    "enqueue_env \<Rightarrow> source_site \<Rightarrow> int \<Rightarrow> int option \<Rightarrow> ustr \<Rightarrow> db \<Rightarrow> crawl_job_snapshot result \<times> db" where
  "queue_backfill_crawl env source backfill_year max_pages triggered_by d =
     (if backfill_year < 2000 then (Inl (ValueError (lit ''backfill_year must be >= 2000'')), d)
      else (case build_spider_args max_pages (Some backfill_year) (lit ''backfill'') of
              Inl e \<Rightarrow> (Inl e, d)
            | Inr args \<Rightarrow> enqueue_crawl env source triggered_by (lit ''backfill'') None args d))"

definition queue_retry_crawl ::
    "enqueue_env \<Rightarrow> source_site \<Rightarrow> int \<Rightarrow> int option \<Rightarrow> int option \<Rightarrow> ustr \<Rightarrow> db \<Rightarrow>
     crawl_job_snapshot result \<times> db" where
  "queue_retry_crawl env source retry_of max_pages backfill_year triggered_by d =
     (case build_spider_args max_pages backfill_year (lit ''manual_retry'') of
        Inl e \<Rightarrow> (Inl e, d)
      | Inr args \<Rightarrow> enqueue_crawl env source triggered_by (lit ''manual_retry'') (Some retry_of) args d)"

text \<open>\<open>inherited or default\<close> for numbers: None and 0 fall through.\<close>

definition int_or :: "int option \<Rightarrow> int \<Rightarrow> int" where
  "int_or v dflt = (case v of None \<Rightarrow> dflt | Some n \<Rightarrow> if n = 0 then dflt else n)"

definition queue_retry_crawl_for_job ::
    "enqueue_env \<Rightarrow> int \<Rightarrow> int option \<Rightarrow> ustr \<Rightarrow> db \<Rightarrow> crawl_job_snapshot result \<times> db" where
  "queue_retry_crawl_for_job env crawl_job_id max_pages triggered_by d =
     (case get_job_row crawl_job_id d of
        None \<Rightarrow> (Inl (CrawlJobRetryNotFoundError (lit ''crawl_job not found'')), d)
      | Some job \<Rightarrow>
         (if cj_status job \<noteq> Failed \<and> cj_status job \<noteq> Partial
          then (Inl (CrawlJobRetryValidationError (lit ''only failed or partial job can be retried'')), d)
          else if cj_retry_of_job_id job \<noteq> None
          then (Inl (CrawlJobRetryValidationError (lit ''retry job cannot be retried again'')), d)
          else (case get_row ss_id (cj_source_site_id job) (source_sites d) of
                  None \<Rightarrow> (Inl (CrawlJobRetryNotFoundError (lit ''source not found'')), d)
                | Some source \<Rightarrow>
                   (case retry_job_for_original_job (cj_id job) d of
                      Some existing \<Rightarrow> (Inl (retry_conflict (cj_id job) (Some existing)), d)
                    | None \<Rightarrow>
                       (let inherited_year = read_payload_int (cj_job_params_json job) (lit ''backfill_year'');
                            inherited_pages = read_payload_int (cj_job_params_json job) (lit ''max_pages'');
                            pages = (case max_pages of
                                       Some n \<Rightarrow> n
                                     | None \<Rightarrow> int_or inherited_pages (ss_default_max_pages source))
                        in case build_spider_args (Some pages) inherited_year (lit ''manual_retry'') of
                             Inl e \<Rightarrow> (Inl e, d)
                           | Inr args \<Rightarrow> enqueue_crawl env source triggered_by (lit ''manual_retry'')
                               (Some (cj_id job)) args d)))))"

end
