(* ===== verification/Execute.thy ===== *)
theory Execute
  imports Trigger
begin

text \<open>
  Running a crawl job (app/services/source_crawl_trigger_service.py from _run_existing_crawl_job on)
  and the worker process app/run_crawl_job.py around it: start the job, run the spider, read what the
  spider stored, infer the outcome and finish the job.
\<close>

section \<open>What the spider left behind\<close>

text \<open>\<open>str(v or "")\<close>: the values that are false in Python give the empty text.\<close>

definition str_or_empty :: "pyval \<Rightarrow> ustr" where
  "str_or_empty v =
     (case v of
        VNone \<Rightarrow> [] | VBool b \<Rightarrow> if b then py_str v else [] | VInt i \<Rightarrow> if i = 0 then [] else py_str v
      | VDict s kvs \<Rightarrow> if kvs = [] then [] else s
      | _ \<Rightarrow> py_str v)"

definition normalize_iso_date :: "pyval \<Rightarrow> ustr option" where
  "normalize_iso_date v =
     (case v of
        VNone \<Rightarrow> None
      | _ \<Rightarrow> (let t = strip (py_str v)
             in if 10 \<le> length t \<and> t ! 4 = 45 \<and> t ! 7 = 45 then Some (take 10 t) else None))"

definition list_page_dates :: "payload \<Rightarrow> ustr option list" where
  "list_page_dates meta = map (\<lambda>k. normalize_iso_date (dict_get meta k))
     [lit ''list_page_publish_date_max'', lit ''list_page_publish_date_min'',
      lit ''first_publish_date_seen_total'', lit ''last_publish_date_seen_total'']"

record page_stats =
  ps_pages :: int
  ps_first :: "ustr option"
  ps_last :: "ustr option"

definition see_date :: "ustr option \<Rightarrow> page_stats \<Rightarrow> page_stats" where
  "see_date v s =
     (case v of
        None \<Rightarrow> s
      | Some x \<Rightarrow>
         s\<lparr>ps_first := (case ps_first s of None \<Rightarrow> Some x | Some y \<Rightarrow> if x > y then Some x else Some y),
           ps_last := (case ps_last s of None \<Rightarrow> Some x | Some y \<Rightarrow> if x < y then Some x else Some y)\<rparr>)"

definition see_meta :: "payload option \<Rightarrow> page_stats \<Rightarrow> page_stats" where
  "see_meta meta s =
     (case meta of
        None \<Rightarrow> s
      | Some m \<Rightarrow>
         (if py_lower (str_or_empty (dict_get m (lit ''role''))) \<noteq> lit ''list'' then s
          else fold see_date (list_page_dates m) (s\<lparr>ps_pages := ps_pages s + 1\<rparr>)))"

definition collect_list_page_stats :: "int \<Rightarrow> db \<Rightarrow> page_stats" where
  "collect_list_page_stats crawl_job_id d =
     fold see_meta
       (map rd_extra_meta (filter (\<lambda>r. rd_crawl_job_id r = Some crawl_job_id) (raw_documents d)))
       \<lparr>ps_pages = 0, ps_first = None, ps_last = None\<rparr>"

definition pages_metric :: "'a crawl_job_snapshot_scheme \<Rightarrow> int \<Rightarrow> int" where
  "pages_metric s pages_scraped =
     (if pages_scraped > 0 then pages_scraped else pages_fetched (cj_counters s))"

definition final_runtime_stats :: "'a crawl_job_snapshot_scheme \<Rightarrow> page_stats \<Rightarrow> int \<Rightarrow> payload" where
  "final_runtime_stats s ps return_code =
     build_runtime_stats_payload (lit ''finished'')
       (no_stats\<lparr>rs_pages_scraped := Some (pages_metric s (ps_pages ps)),
          rs_list_seen := Some (list_items_seen (cj_counters s)),
          rs_list_unique := Some (list_items_unique (cj_counters s)),
          rs_detail_requests := Some (detail_pages_fetched (cj_counters s)),
          rs_dedup_skipped := Some (list_items_source_duplicates_skipped (cj_counters s)
                                    + source_duplicates_suppressed (cj_counters s)),
          rs_notices_written := Some (notices_upserted (cj_counters s)),
          rs_raw_documents_written := Some (documents_saved (cj_counters s)),
          rs_first_publish_date_seen := ps_first ps,
          rs_last_publish_date_seen := ps_last ps,
          rs_return_code := Some return_code\<rparr>)"

definition stat_text :: "payload \<Rightarrow> string \<Rightarrow> ustr" where
  "stat_text p key = show_int (int_or (read_payload_int (Some p) (lit key)) 0)"

definition job_summary_message ::
    "ustr \<Rightarrow> ustr \<Rightarrow> 'a crawl_job_snapshot_scheme \<Rightarrow> page_stats \<Rightarrow> int \<Rightarrow> ustr \<Rightarrow> ustr" where
  "job_summary_message final_st job_type s ps return_code failure_reason =
     (let p = final_runtime_stats s ps return_code;
          reason = strip failure_reason
      in join zh_comma
          ([job_type @ zh_ended, zh_status @ final_st, zh_list_pages @ stat_text p ''pages_scraped'',
            zh_list_items @ stat_text p ''list_unique'' @ lit ''/'' @ stat_text p ''list_seen'',
            zh_detail_requests @ stat_text p ''detail_requests'',
            zh_notices @ stat_text p ''notices_written'',
            zh_archived @ stat_text p ''raw_documents_written'',
            zh_dedup_skipped @ stat_text p ''dedup_skipped'']
           @ (case ps_first ps of None \<Rightarrow> [] | Some t \<Rightarrow> if t = [] then [] else [zh_earliest_date @ t])
           @ (case ps_last ps of None \<Rightarrow> [] | Some t \<Rightarrow> if t = [] then [] else [zh_latest_date @ t])
           @ (if reason \<noteq> [] \<and> reason \<noteq> lit ''-'' then [zh_anomaly @ reason] else [])
           @ (if return_code \<noteq> 0 then [zh_exit_code @ show_int return_code] else [])))"

section \<open>The outcome\<close>

definition prefix_failure_reason :: "ustr \<Rightarrow> ustr \<Rightarrow> ustr" where
  "prefix_failure_reason prefix reason =
     (let r = strip reason
      in if r = [] then prefix
         else if r = prefix \<or> starts_with (prefix @ lit '':'') r then r
         else prefix @ lit '': '' @ r)"

definition stage_is :: "string \<Rightarrow> crawl_error \<Rightarrow> bool" where
  "stage_is st e = (py_lower (ce_stage e) = lit st)"

definition infer_failure_reason :: "int \<Rightarrow> 'a crawl_job_snapshot_scheme \<Rightarrow> int \<Rightarrow> int \<Rightarrow> db \<Rightarrow> ustr" where
  "infer_failure_reason crawl_job_id s pages_scraped return_code d =
     (if return_code \<noteq> 0 then zh_spider_exited @ show_int return_code @ lit '')''
      else
        (let errors = filter (\<lambda>e. ce_crawl_job_id e = Some crawl_job_id) (crawl_errors d);
             error_messages = filter (\<lambda>m. m \<noteq> []) (map (\<lambda>e. strip (ce_error_message e)) errors);
             fetch_errors = map ce_error_message
               (filter (\<lambda>e. stage_is ''fetch'' e \<and> ce_error_message e \<noteq> []) errors);
             parse_errors = map ce_error_message
               (filter (\<lambda>e. stage_is ''parse'' e \<and> ce_error_message e \<noteq> []) errors);
             detail_parse_errors = filter (\<lambda>m. contains zh_detail m \<or> contains (lit ''detail'') (py_lower m))
               parse_errors;
             seen = list_items_seen (cj_counters s)
         in if fetch_errors \<noteq> [] \<and> pages_scraped \<le> 0
            then prefix_failure_reason zh_page_fetch_failed (hd fetch_errors)
            else if fetch_errors \<noteq> [] \<and> seen \<le> 0
            then prefix_failure_reason zh_page_fetch_failed (hd fetch_errors)
            else if seen \<le> 0 then zh_list_parsed_to_zero
            else if detail_parse_errors \<noteq> []
            then prefix_failure_reason zh_detail_parse_failed (hd detail_parse_errors)
            else if detail_pages_fetched (cj_counters s) \<le> 0 \<and> parse_errors \<noteq> []
            then prefix_failure_reason zh_detail_parse_failed (hd parse_errors)
            else if error_messages \<noteq> []
            then prefix_failure_reason zh_detail_parse_failed (hd error_messages)
            else lit ''-''))"

definition infer_final_status :: "'a crawl_job_snapshot_scheme \<Rightarrow> ustr \<Rightarrow> int \<Rightarrow> job_status" where
  "infer_final_status s failure_reason return_code =
     (if return_code \<noteq> 0 then Failed
      else if starts_with zh_page_fetch_failed (strip failure_reason) then Failed
      else if error_count (cj_counters s) > 0 then Partial
      else Succeeded)"

section \<open>Running an existing job\<close>

record run_env =
  re_started_at :: instant
  re_finished_at :: instant
  re_python :: ustr
  re_database_url :: ustr
  re_runner :: "ustr list \<Rightarrow> db \<Rightarrow> int result \<times> db"
  re_exc_text :: "pyerror \<Rightarrow> ustr"

definition start_args ::
    "source_site \<Rightarrow> ustr \<Rightarrow> ustr \<Rightarrow> crawl_job \<Rightarrow> spider_args \<Rightarrow> start_job_args" where
  "start_args source job_type spider_name job args =
     \<lparr>sa_started_at = None,
      sa_job_params_json = Given (Some (job_params (ss_code source) job_type (cj_triggered_by job) args
        (cj_retry_of_job_id job) (Some spider_name))),
      sa_runtime_stats_json = Given (Some (build_runtime_stats_payload (lit ''running'')
        (no_stats\<lparr>rs_spider_name := Some spider_name\<rparr>))),
      sa_failure_reason = Given None,
      sa_message = Some (running_job_message job_type spider_name args),
      sa_lease_seconds = default_running_lease_seconds\<rparr>"

definition runner_error_args ::
    "source_site \<Rightarrow> ustr \<Rightarrow> ustr \<Rightarrow> crawl_job \<Rightarrow> spider_args \<Rightarrow> ustr \<Rightarrow> finish_job_args" where
  "runner_error_args source job_type spider_name job args exc =
     \<lparr>fa_status = Some (lit ''failed''),
      fa_job_params_json = Given (Some (job_params (ss_code source) job_type (cj_triggered_by job) args
        (cj_retry_of_job_id job) (Some spider_name))),
      fa_runtime_stats_json = Given (Some (build_runtime_stats_payload (lit ''runner_error'')
        (no_stats\<lparr>rs_spider_name := Some spider_name\<rparr>))),
      fa_failure_reason = Given (Some (zh_command_failed @ exc)),
      fa_message = Some (failure_message job_type (lit ''runner_error'') (zh_command_failed @ exc)),
      fa_finished_at = None\<rparr>"

definition final_args ::
    "source_site \<Rightarrow> ustr \<Rightarrow> ustr \<Rightarrow> crawl_job \<Rightarrow> spider_args \<Rightarrow> int \<Rightarrow> int \<Rightarrow>
     crawl_job_snapshot \<Rightarrow> db \<Rightarrow> finish_job_args" where
  "final_args source job_type spider_name job args crawl_job_id return_code s d =
     (let ps = collect_list_page_stats crawl_job_id d;
          reason = infer_failure_reason crawl_job_id s (pages_metric s (ps_pages ps)) return_code d;
          st = status_text (infer_final_status s reason return_code)
      in \<lparr>fa_status = Some st,
          fa_job_params_json = Given (Some (job_params (ss_code source) job_type (cj_triggered_by job) args
            (cj_retry_of_job_id job) (Some spider_name))),
          fa_runtime_stats_json = Given (Some (final_runtime_stats s ps return_code)),
          fa_failure_reason = Given (if reason = lit ''-'' then None else Some reason),
          fa_message = Some (job_summary_message st job_type s ps return_code reason),
          fa_finished_at = None\<rparr>)"

definition job_not_found :: "string \<Rightarrow> int \<Rightarrow> pyerror" where
  "job_not_found text k = RuntimeError (lit text @ show_int k)"

text \<open>From the launch of the spider on: the started job, and the database it is committed in.\<close>

definition run_started_job ::
    "run_env \<Rightarrow> source_site \<Rightarrow> int \<Rightarrow> ustr \<Rightarrow> ustr \<Rightarrow> spider_args \<Rightarrow> crawl_job \<Rightarrow> db \<Rightarrow>
     (crawl_job_snapshot \<times> ustr list \<times> int) result \<times> db" where
  "run_started_job env source k job_type spider_name args job d1 =
     (case build_spider_command (re_python env) (re_database_url env) spider_name k args of
        Inl e \<Rightarrow> (Inl e, d1)
      | Inr command \<Rightarrow>
         (case re_runner env command d1 of
            (Inl exc, d2) \<Rightarrow>
              (case finish_job (re_finished_at env)
                      (runner_error_args source job_type spider_name job args (re_exc_text env exc)) k d2 of
                 (Inl e, d3) \<Rightarrow> (Inl e, d3)
               | (Inr None, d3) \<Rightarrow> (Inl (job_not_found ''crawl_job not found when command runner failed: '' k), d3)
               | (Inr (Some _), d3) \<Rightarrow> (Inl exc, d3))
          | (Inr return_code, d2) \<Rightarrow>
              (case get_job k d2 of
                 None \<Rightarrow> (Inl (job_not_found ''crawl_job not found after spider finished: '' k), d2)
               | Some s \<Rightarrow>
                  (case finish_job (re_finished_at env)
                          (final_args source job_type spider_name job args k return_code s d2) k d2 of
                     (Inl e, d3) \<Rightarrow> (Inl e, d3)
                   | (Inr None, d3) \<Rightarrow> (Inl (job_not_found ''crawl_job not found when finalizing: '' k), d3)
                   | (Inr (Some done), d3) \<Rightarrow> (Inr (done, command, return_code), d3)))))"

definition run_existing_crawl_job ::
    "run_env \<Rightarrow> source_site \<Rightarrow> int \<Rightarrow> ustr \<Rightarrow> spider_args \<Rightarrow> db \<Rightarrow>
     (crawl_job_snapshot \<times> ustr list \<times> int) result \<times> db" where
  "run_existing_crawl_job env source k job_type args d =
     (case resolve_spider_name_for_source source job_type of
        Inl e \<Rightarrow> (Inl e, d)
      | Inr spider_name \<Rightarrow>
         (case get_job_row k d of
            None \<Rightarrow> (Inl (job_not_found ''crawl_job not found: '' k), d)
          | Some job \<Rightarrow>
             (if cj_source_site_id job \<noteq> ss_id source
              then (Inl (ValueError (lit ''crawl_job source mismatch: crawl_job_id='' @ show_int k
                     @ lit '', source_site_id='' @ show_int (cj_source_site_id job)
                     @ lit '', expected='' @ show_int (ss_id source))), d)
              else if job_type_text (cj_job_type job) \<noteq> job_type
              then (Inl (ValueError (lit ''crawl_job job_type mismatch: crawl_job_id='' @ show_int k
                     @ lit '', job_type='' @ job_type_text (cj_job_type job)
                     @ lit '', expected='' @ job_type)), d)
              else (case start_job_in_session (re_started_at env)
                            (start_args source job_type spider_name job args) k d of
                      Inl e \<Rightarrow> (Inl e, d)
                    | Inr (None, _) \<Rightarrow> (Inl (CrawlJobStartConflictError k (cj_status job)), d)
                    | Inr (Some started, d1) \<Rightarrow>
                        run_started_job env source k job_type spider_name args started d1))))"

definition execute_crawl_job ::
    "run_env \<Rightarrow> source_site \<Rightarrow> int \<Rightarrow> ustr \<Rightarrow> int option \<Rightarrow> int option \<Rightarrow> db \<Rightarrow>
     (crawl_job_snapshot \<times> ustr list \<times> int) result \<times> db" where
  "execute_crawl_job env source k job_type max_pages backfill_year d =
     (case build_spider_args max_pages backfill_year job_type of
        Inl e \<Rightarrow> (Inl e, d)
      | Inr args \<Rightarrow> run_existing_crawl_job env source k job_type args d)"

definition trigger_crawl ::
    "enqueue_env \<Rightarrow> run_env \<Rightarrow> source_site \<Rightarrow> ustr \<Rightarrow> ustr \<Rightarrow> int option \<Rightarrow> spider_args \<Rightarrow> db \<Rightarrow>
     (crawl_job_snapshot \<times> ustr list \<times> int) result \<times> db" where
  "trigger_crawl env renv source triggered_by job_type retry_of args d =
     (case create_crawl_job (ee_now env) (ee_rival env) source
             (queued_job_args source triggered_by job_type retry_of args (queued_job_message job_type args)) d of
        (Inl e, d1) \<Rightarrow> (Inl e, d1)
      | (Inr job, d1) \<Rightarrow> run_existing_crawl_job renv source (cj_id job) job_type args d1)"

definition trigger_manual_crawl where
  "trigger_manual_crawl env renv source max_pages triggered_by d =
     (case build_spider_args max_pages None (lit ''manual'') of
        Inl e \<Rightarrow> (Inl e, d)
      | Inr args \<Rightarrow> trigger_crawl env renv source triggered_by (lit ''manual'') None args d)"

definition trigger_backfill_crawl where
  "trigger_backfill_crawl env renv source backfill_year max_pages triggered_by d =
     (if (backfill_year :: int) < 2000
      then (Inl (ValueError (lit ''backfill_year must be >= 2000'')), d)
      else (case build_spider_args max_pages (Some backfill_year) (lit ''backfill'') of
              Inl e \<Rightarrow> (Inl e, d)
            | Inr args \<Rightarrow> trigger_crawl env renv source triggered_by (lit ''backfill'') None args d))"

definition trigger_scheduled_crawl where
  "trigger_scheduled_crawl env renv source max_pages triggered_by d =
     (case build_spider_args max_pages None (lit ''scheduled'') of
        Inl e \<Rightarrow> (Inl e, d)
      | Inr args \<Rightarrow> trigger_crawl env renv source triggered_by (lit ''scheduled'') None args d)"

definition trigger_retry_crawl where
  "trigger_retry_crawl env renv source retry_of max_pages backfill_year triggered_by d =
     (case build_spider_args max_pages backfill_year (lit ''manual_retry'') of
        Inl e \<Rightarrow> (Inl e, d)
      | Inr args \<Rightarrow> trigger_crawl env renv source triggered_by (lit ''manual_retry'') (Some retry_of) args d)"

section \<open>The runner of the spider process\<close>

text \<open>
  SubprocessCrawlCommandRunner: the process runs while the runner waits; every wait that times out
  sends a heartbeat whose failure is only logged.  What the process stores meanwhile (statistics of
  the job, raw documents, crawl errors) and the moments of the timeouts are the list of ticks; the
  last wait returns the exit code.
\<close>

datatype spider_write =
    Write_stats job_counters
  | Write_raw_document raw_document
  | Write_crawl_error crawl_error

fun apply_write :: "int \<Rightarrow> spider_write \<Rightarrow> db \<Rightarrow> db" where
  "apply_write k (Write_stats c) d = snd (record_stats k c d)"
| "apply_write k (Write_raw_document r) d = d\<lparr>raw_documents := add_row r (raw_documents d)\<rparr>"
| "apply_write k (Write_crawl_error e) d = d\<lparr>crawl_errors := add_row e (crawl_errors d)\<rparr>"

fun wait_process :: "int \<Rightarrow> (spider_write list \<times> instant) list \<Rightarrow> db \<Rightarrow> db" where
  "wait_process k [] d = d"
| "wait_process k ((writes, t) # ticks) d =
     wait_process k ticks
       (snd (heartbeat_job t default_running_lease_seconds k (fold (apply_write k) writes d)))"

record spider_process =
  sp_ticks :: "(spider_write list \<times> instant) list"
  sp_last_writes :: "spider_write list"
  sp_exit_code :: int
  sp_popen_error :: "pyerror option"

definition subprocess_runner :: "int \<Rightarrow> spider_process \<Rightarrow> ustr list \<Rightarrow> db \<Rightarrow> int result \<times> db" where
  "subprocess_runner k p command d =
     (case validate_scrapy_command command of
        Inl e \<Rightarrow> (Inl e, d)
      | Inr _ \<Rightarrow>
         (case sp_popen_error p of
            Some e \<Rightarrow> (Inl e, d)
          | None \<Rightarrow> (Inr (sp_exit_code p),
              fold (apply_write k) (sp_last_writes p) (wait_process k (sp_ticks p) d))))"

section \<open>The worker process\<close>

definition worker_failure_message :: "ustr \<Rightarrow> ustr \<Rightarrow> ustr" where
  "worker_failure_message job_type failure_reason = job_type @ zh_execution_failed @ failure_reason"

record worker_args =
  wa_source_code :: ustr
  wa_crawl_job_id :: int
  wa_job_type :: ustr
  wa_max_pages :: "int option"
  wa_backfill_year :: "int option"

definition worker_error_args :: "worker_args \<Rightarrow> ustr option \<Rightarrow> ustr \<Rightarrow> finish_job_args" where
  "worker_error_args w triggered_by failure_reason =
     \<lparr>fa_status = None,
      fa_job_params_json = Given (Some (build_job_params_payload (wa_source_code w) (wa_job_type w)
        triggered_by (wa_max_pages w) (wa_backfill_year w) None None)),
      fa_runtime_stats_json = Given (Some (build_runtime_stats_payload (lit ''worker_error'') no_stats)),
      fa_failure_reason = Given (Some failure_reason),
      fa_message = Some (worker_failure_message (wa_job_type w) failure_reason),
      fa_finished_at = None\<rparr>"

text \<open>The exit code of the worker, or the exception that ends it, with the database it leaves.\<close>

definition worker_main :: "run_env \<Rightarrow> worker_args \<Rightarrow> db \<Rightarrow> int result \<times> db" where
  "worker_main env w d =
     (let k = wa_crawl_job_id w;
          triggered_by = (case get_job k d of None \<Rightarrow> None | Some s \<Rightarrow> cj_triggered_by s);
          give_up = (\<lambda>reason d1. case fail_job_if_active (re_finished_at env)
                                       (worker_error_args w triggered_by reason) k d1 of
                                   (Inl e, d2) \<Rightarrow> (Inl e, d2) | (Inr _, d2) \<Rightarrow> (Inr 1, d2))
      in case find_source (wa_source_code w) d of
           None \<Rightarrow> give_up zh_worker_source_missing d
         | Some source \<Rightarrow>
            (case execute_crawl_job env source k (wa_job_type w) (wa_max_pages w) (wa_backfill_year w) d of
               (Inr _, d1) \<Rightarrow> (Inr 0, d1)
             | (Inl (CrawlJobStartConflictError _ _), d1) \<Rightarrow> (Inr 0, d1)
             | (Inl e, d1) \<Rightarrow> give_up (zh_worker_failed @ re_exc_text env e) d1))"

end
