(* ===== verification/RunScript.thy ===== *)
theory RunScript
  imports Execute Urls "HOL-Library.AList"
begin

text \<open>
  The command line script scripts/run_crawl_job.py: it creates a job, starts it, runs the spider and finishes the job,
  all in one process and without the dispatcher.

  The environment is an argument: the clock at each call of the job service, the interpreter (app/core/python_runtime.py
  looks for it in the file system), the texts of the two environment variables and of the settings, what other processes
  commit between the creation and the start of the job, and the run of the spider process.  What the script prints is
  left out, but for the form in which it shows its command.
\<close>

record cli_args =
  xa_spider :: ustr
  xa_source_code :: "ustr option"
  xa_source_name :: "ustr option"
  xa_source_url :: "ustr option"
  xa_job_type :: ustr
  xa_triggered_by :: ustr
  xa_message :: "ustr option"
  xa_database_url :: "ustr option"
  xa_writer_backend :: ustr
  xa_spider_arg :: "ustr list"
  xa_setting :: "ustr list"
  xa_fail_on_partial :: bool

record script_env =
  se_created_at :: instant
  se_started_at :: instant
  se_finished_at :: instant
  se_refreshed_at :: instant
  se_python :: ustr
  se_crawler_database_url :: ustr
  se_database_url :: ustr
  se_settings_url :: ustr
  se_between :: "db \<Rightarrow> db"
  se_run :: "ustr list \<Rightarrow> db \<Rightarrow> int result \<times> db"

section \<open>The arguments\<close>

definition spider_choices :: "ustr list" where
  "spider_choices = sort (remdups (List.map_filter resolve_spider_name list_integrated_source_codes))"

definition writer_choices :: "ustr list" where
  "writer_choices = map lit [''sqlalchemy'', ''jsonl'', ''noop'']"

definition accepted_choices :: "cli_args \<Rightarrow> bool" where
  "accepted_choices a \<longleftrightarrow>
     xa_spider a \<in> set spider_choices \<and> xa_job_type a \<in> set (map job_type_text crawl_job_types) \<and>
     xa_writer_backend a \<in> set writer_choices"

definition resolve_database_url :: "script_env \<Rightarrow> ustr option \<Rightarrow> ustr" where
  "resolve_database_url env explicit_url =
     (let url = strip (text_or explicit_url []); crawler = strip (se_crawler_database_url env);
          general = strip (se_database_url env)
      in if url \<noteq> [] then url else if crawler \<noteq> [] then crawler else if general \<noteq> [] then general
         else se_settings_url env)"

text \<open>\<open>_validate_subprocess_fragment\<close> of the script.\<close>

definition script_fragment :: "bool \<Rightarrow> ustr \<Rightarrow> ustr \<Rightarrow> ustr result" where
  "script_fragment allow_empty value label =
     (let t = strip value
      in if t = [] \<and> \<not> allow_empty then Inl (ValueError (label @ lit '' must not be empty''))
         else if \<not> control_free t then Inl (ValueError (label @ lit '' contains unsupported control characters''))
         else Inr t)"

definition not_key_value :: "ustr \<Rightarrow> ustr \<Rightarrow> pyerror" where
  "not_key_value flag value = ValueError (flag @ lit '' must be KEY=VALUE, got: '' @ value)"

definition validate_key_value :: "ustr \<Rightarrow> ustr list \<Rightarrow> unit result" where
  "validate_key_value flag = check_each (\<lambda>v. require (61 \<in> set v) (not_key_value flag v))"

definition parse_key_value_map :: "ustr list \<Rightarrow> (ustr \<times> ustr) list" where
  "parse_key_value_map items =
     fold (\<lambda>raw m. case partition_on 61 raw of
             (k, found, v) \<Rightarrow> if \<not> found \<or> strip k = [] then m else AList.update (strip k) (strip v) m) items []"

text \<open>The character classes [A-Za-z_] and [A-Za-z0-9_.].\<close>

definition setting_start :: "nat \<Rightarrow> bool" where
  "setting_start c \<longleftrightarrow> 65 \<le> c \<and> c \<le> 90 \<or> 97 \<le> c \<and> c \<le> 122 \<or> c = 95"

definition setting_key_pattern :: "ustr \<Rightarrow> bool" where
  "setting_key_pattern s \<longleftrightarrow>
     (case s of [] \<Rightarrow> False
      | c # cs \<Rightarrow> setting_start c \<and> list_all (\<lambda>x. setting_start x \<or> 48 \<le> x \<and> x \<le> 57 \<or> x = 46) cs)"

definition validate_key_value_items :: "ustr \<Rightarrow> (ustr \<Rightarrow> bool) \<Rightarrow> ustr list \<Rightarrow> unit result" where
  "validate_key_value_items flag key_pattern =
     check_each (\<lambda>raw. case partition_on 61 raw of
        (key, found, value) \<Rightarrow>
          if \<not> found then Inl (not_key_value flag raw)
          else if strip key = [] \<or> \<not> key_pattern (strip key)
          then Inl (ValueError (flag @ lit '' key contains unsupported characters: '' @ key))
          else script_fragment True value (flag @ lit '' value['' @ strip key @ lit '']''))"

definition validate_spider_identity :: "ustr \<Rightarrow> ustr \<Rightarrow> ustr \<Rightarrow> ustr result" where
  "validate_spider_identity spider source_code job_type =
     and_then (script_fragment False source_code (lit ''source_code'')) (\<lambda>t.
       let code = normalize_source_code t
       in if \<not> source_code_pattern code then Inl (ValueError (lit ''source_code contains unsupported characters''))
          else (case resolve_spider_name code of
                  None \<Rightarrow> Inl (ValueError (lit ''source_code is not integrated: '' @ code))
                | Some expected \<Rightarrow>
                    and_then (script_fragment False spider (lit ''spider'')) (\<lambda>n.
                      if \<not> spider_name_pattern n then Inl (ValueError (lit ''spider contains unsupported characters''))
                      else if n \<noteq> expected
                      then Inl (ValueError (lit ''spider/source_code mismatch: source_code='' @ code @
                             lit '', spider='' @ expected))
                      else if job_type \<noteq> lit ''scheduled'' \<and> \<not> supports_job_type code job_type
                      then Inl (ValueError (lit ''job_type is not supported for source_code='' @ code @ lit '': '' @ job_type))
                      else Inr code)))"

record script_plan =
  sp_source_code :: ustr
  sp_database_url :: ustr
  sp_effective_args :: "ustr list"
  sp_args_map :: "(ustr \<times> ustr) list"

text \<open>What main settles before it creates the job.\<close>

definition plan_script :: "script_env \<Rightarrow> cli_args \<Rightarrow> script_plan result" where
  "plan_script env a =
     (let given = parse_key_value_map (xa_spider_arg a);
          add = (map_of given (lit ''job_type'') = None);
          url = resolve_database_url env (xa_database_url a)
      in and_then (validate_key_value (lit ''--spider-arg'') (xa_spider_arg a)) (\<lambda>_.
         and_then (validate_key_value (lit ''--setting'') (xa_setting a)) (\<lambda>_.
         and_then (validate_key_value_items (lit ''--spider-arg'') spider_arg_key_pattern (xa_spider_arg a)) (\<lambda>_.
         and_then (validate_key_value_items (lit ''--setting'') setting_key_pattern (xa_setting a)) (\<lambda>_.
         and_then (script_fragment False url (lit ''database_url'')) (\<lambda>_.
         and_then (validate_spider_identity (xa_spider a)
             (strip (case xa_source_code a of None \<Rightarrow> xa_spider a | Some c \<Rightarrow> if c = [] then xa_spider a else c))
             (xa_job_type a)) (\<lambda>code.
         Inr \<lparr>sp_source_code = code, sp_database_url = url,
              sp_effective_args = xa_spider_arg a @ (if add then [lit ''job_type='' @ xa_job_type a] else []),
              sp_args_map = (if add then AList.update (lit ''job_type'') (xa_job_type a) given else given)\<rparr>)))))))"

section \<open>The command\<close>

definition build_scrapy_command :: "script_env \<Rightarrow> cli_args \<Rightarrow> script_plan \<Rightarrow> int \<Rightarrow> ustr list result" where
  "build_scrapy_command env a p k =
     and_then (script_fragment False (xa_spider a) (lit ''spider'')) (\<lambda>_.
     and_then (require (spider_name_pattern (xa_spider a)) (ValueError (lit ''spider contains unsupported characters''))) (\<lambda>_.
     and_then (require (1 \<le> k) (ValueError (lit ''crawl_job_id must be >= 1''))) (\<lambda>_.
     and_then (script_fragment False (xa_writer_backend a) (lit ''writer_backend'')) (\<lambda>_.
     and_then (if sp_database_url p = [] then Inr [] else script_fragment False (sp_database_url p) (lit ''database_url'')) (\<lambda>_.
     and_then (check_each (\<lambda>v. script_fragment True v (lit ''spider_arg'')) (sp_effective_args p)) (\<lambda>_.
     and_then (check_each (\<lambda>v. script_fragment True v (lit ''setting'')) (xa_setting a)) (\<lambda>_.
     Inr ([se_python env, lit ''-m'', lit ''scrapy'', lit ''crawl'', xa_spider a, lit ''-a'',
           lit ''crawl_job_id='' @ show_int k]
          @ concat (map (\<lambda>v. [lit ''-a'', v]) (sp_effective_args p))
          @ [lit ''-s'', lit ''CRAWLER_WRITER_BACKEND='' @ xa_writer_backend a]
          @ (if sp_database_url p = [] then [] else [lit ''-s'', lit ''CRAWLER_DATABASE_URL='' @ sp_database_url p])
          @ concat (map (\<lambda>v. [lit ''-s'', v]) (xa_setting a))))))))))"

definition format_command_for_display :: "ustr list \<Rightarrow> ustr" where
  "format_command_for_display command =
     join (lit '' '') (map (\<lambda>v. if starts_with (lit ''CRAWLER_DATABASE_URL='') v
       then lit ''CRAWLER_DATABASE_URL=<redacted>'' else v) command)"

section \<open>The outcome\<close>

text \<open>The script has its own copy of the reading of the list pages.\<close>

definition script_page_stats :: "int \<Rightarrow> db \<Rightarrow> page_stats" where
  "script_page_stats k d =
     fold see_meta (map rd_extra_meta (filter (\<lambda>r. rd_crawl_job_id r = Some k) (raw_documents d)))
       \<lparr>ps_pages = 0, ps_first = None, ps_last = None\<rparr>"

definition error_texts :: "string \<Rightarrow> crawl_error list \<Rightarrow> ustr list" where
  "error_texts stage errors =
     map (\<lambda>e. strip (ce_error_message e)) (filter (\<lambda>e. stage_is stage e \<and> ce_error_message e \<noteq> []) errors)"

definition script_failure_reason :: "int \<Rightarrow> 'a crawl_job_snapshot_scheme \<Rightarrow> int \<Rightarrow> int \<Rightarrow> db \<Rightarrow> ustr" where
  "script_failure_reason k s pages_scraped return_code d =
     (if return_code \<noteq> 0 then zh_spider_exited @ show_int return_code @ lit '')''
      else
        (let errors = filter (\<lambda>e. ce_crawl_job_id e = Some k) (crawl_errors d);
             fetch_errors = error_texts ''fetch'' errors;
             parse_errors = error_texts ''parse'' errors;
             detail_parse_errors = filter (\<lambda>m. contains zh_detail m \<or> contains (lit ''detail'') (py_lower m)) parse_errors;
             seen = list_items_seen (cj_counters s)
         in if fetch_errors \<noteq> [] \<and> pages_scraped \<le> 0 then zh_page_fetch_failed @ lit '': '' @ hd fetch_errors
            else if fetch_errors \<noteq> [] \<and> seen \<le> 0 then zh_page_fetch_failed @ lit '': '' @ hd fetch_errors
            else if seen \<le> 0 then zh_list_parsed_to_zero
            else if detail_parse_errors \<noteq> [] then zh_detail_parse_failed @ lit '': '' @ hd detail_parse_errors
            else if detail_pages_fetched (cj_counters s) \<le> 0 \<and> parse_errors \<noteq> []
            then zh_detail_parse_failed @ lit '': '' @ hd parse_errors
            else lit ''-''))"

definition map_text :: "(ustr \<times> ustr) list \<Rightarrow> string \<Rightarrow> ustr" where
  "map_text m k = strip (text_or (map_of m (lit k)) [])"

definition date_or_dash :: "ustr option \<Rightarrow> ustr" where
  "date_or_dash t = (case t of None \<Rightarrow> lit ''-'' | Some x \<Rightarrow> if x = [] then lit ''-'' else x)"

definition script_summary ::
    "cli_args \<Rightarrow> (ustr \<times> ustr) list \<Rightarrow> 'a crawl_job_snapshot_scheme \<Rightarrow> page_stats \<Rightarrow> ustr \<Rightarrow> ustr" where
  "script_summary a args s ps failure_reason =
     (let c = cj_counters s;
          part = (\<lambda>k t. lit k @ lit ''='' @ t);
          number = (\<lambda>k n. part k (show_int n))
      in join (lit ''; '')
          ([part ''spider'' (xa_spider a), part ''job_type'' (xa_job_type a)]
           @ (if map_text args ''max_pages'' = [] then [] else [part ''max_pages'' (map_text args ''max_pages'')])
           @ (if map_text args ''backfill_year'' = [] then [] else [part ''backfill_year'' (map_text args ''backfill_year'')])
           @ [number ''pages_scraped'' (pages_metric s (ps_pages ps)), number ''list_seen'' (list_items_seen c),
              number ''list_unique'' (list_items_unique c), number ''detail_requests'' (detail_pages_fetched c),
              number ''dedup_skipped'' (list_items_source_duplicates_skipped c + source_duplicates_suppressed c),
              number ''notices_written'' (notices_upserted c), number ''raw_documents_written'' (documents_saved c),
              part ''first_publish_date_seen'' (date_or_dash (ps_first ps)),
              part ''last_publish_date_seen'' (date_or_dash (ps_last ps)), part ''failure_reason'' failure_reason]))"

section \<open>The run\<close>

definition script_job_args :: "cli_args \<Rightarrow> ustr \<Rightarrow> create_job_args" where
  "script_job_args a code =
     \<lparr>ca_source_code = code, ca_source_name = xa_source_name a, ca_source_url = xa_source_url a,
      ca_job_type = xa_job_type a, ca_triggered_by = Some (xa_triggered_by a), ca_retry_of_job_id = None,
      ca_job_params_json = None, ca_runtime_stats_json = None, ca_failure_reason = None, ca_message = xa_message a\<rparr>"

definition script_start_args :: "cli_args \<Rightarrow> start_job_args" where
  "script_start_args a =
     \<lparr>sa_started_at = None, sa_job_params_json = Unset, sa_runtime_stats_json = Unset, sa_failure_reason = Unset,
      sa_message = Some (lit ''spider='' @ xa_spider a), sa_lease_seconds = default_running_lease_seconds\<rparr>"

definition script_finish_args :: "ustr option \<Rightarrow> ustr \<Rightarrow> finish_job_args" where
  "script_finish_args status message =
     \<lparr>fa_status = status, fa_job_params_json = Unset, fa_runtime_stats_json = Unset, fa_failure_reason = Unset,
      fa_message = Some message, fa_finished_at = None\<rparr>"

definition exit_finish_args :: "int \<Rightarrow> finish_job_args" where
  "exit_finish_args code =
     (if code = 0 then script_finish_args None (lit ''scrapy finished'')
      else script_finish_args (Some (lit ''failed'')) (lit ''scrapy exited with code '' @ show_int code))"

definition script_exit_code :: "cli_args \<Rightarrow> job_status \<Rightarrow> int \<Rightarrow> int" where
  "script_exit_code a st code =
     (if st = Failed then (if code = 0 then 1 else code)
      else if xa_fail_on_partial a \<and> st = Partial then 2 else 0)"

definition finalize_script :: "script_env \<Rightarrow> cli_args \<Rightarrow> script_plan \<Rightarrow> int \<Rightarrow> int \<Rightarrow> db \<Rightarrow> int result \<times> db" where
  "finalize_script env a p k code d =
     (case finish_job (se_finished_at env) (exit_finish_args code) k d of
        (Inl e, d1) \<Rightarrow> (Inl e, d1)
      | (Inr None, d1) \<Rightarrow> (Inr 1, d1)
      | (Inr (Some final), d1) \<Rightarrow>
         (let ps = script_page_stats (cj_id final) d1;
              reason = script_failure_reason (cj_id final) final (ps_pages ps) code d1;
              summary = script_summary a (sp_args_map p) final ps reason
          in case finish_job (se_refreshed_at env)
                    (script_finish_args (Some (status_text (cj_status final))) summary) (cj_id final) d1 of
               (Inl e, d2) \<Rightarrow> (Inl e, d2)
             | (Inr refreshed, d2) \<Rightarrow>
                 (Inr (script_exit_code a (cj_status (case refreshed of None \<Rightarrow> final | Some s \<Rightarrow> s)) code), d2)))"

text \<open>The answer of start_job is not looked at.\<close>

definition run_created_job :: "script_env \<Rightarrow> cli_args \<Rightarrow> script_plan \<Rightarrow> int \<Rightarrow> db \<Rightarrow> int result \<times> db" where
  "run_created_job env a p k d =
     (case start_job (se_started_at env) (script_start_args a) k d of
        (Inl e, d1) \<Rightarrow> (Inl e, d1)
      | (Inr _, d1) \<Rightarrow>
         (case build_scrapy_command env a p k of
            Inl e \<Rightarrow> (Inl e, d1)
          | Inr command \<Rightarrow>
             (case se_run env command d1 of
                (Inl e, d2) \<Rightarrow> (Inl e, d2)
              | (Inr code, d2) \<Rightarrow> finalize_script env a p k code d2)))"

text \<open>The exit code, or the exception that ends the script; argparse ends it with the code 2.\<close>

definition script_main :: "script_env \<Rightarrow> cli_args \<Rightarrow> db \<Rightarrow> int result \<times> db" where
  "script_main env a d =
     (if \<not> accepted_choices a then (Inr 2, d)
      else (case plan_script env a of
              Inl e \<Rightarrow> (Inl e, d)
            | Inr p \<Rightarrow>
               (case create_job (se_created_at env) (script_job_args a (sp_source_code p)) d of
                  (Inl e, d1) \<Rightarrow> (Inl e, d1)
                | (Inr job, d1) \<Rightarrow> run_created_job env a p (cj_id job) (se_between env d1))))"

text \<open>A run of the spider process: what the spider stores, and the sweeps of other processes meanwhile.\<close>

datatype run_event = Spider_stores spider_write | Sweep instant

fun happen :: "int \<Rightarrow> run_event \<Rightarrow> db \<Rightarrow> db" where
  "happen k (Spider_stores w) d = apply_write k w d"
| "happen k (Sweep m) d = snd (reconcile_expired_jobs m None d)"

definition script_spider :: "int \<Rightarrow> run_event list \<Rightarrow> int \<Rightarrow> ustr list \<Rightarrow> db \<Rightarrow> int result \<times> db" where
  "script_spider k events code command d = (Inr code, fold (happen k) events d)"

end
