(* ===== verification/JobProps.thy ===== *)
theory JobProps
  imports JobSteps
begin

text \<open>
  The properties of the crawl job service that hold for any interleaving of its callers, and the
  outcome of each method on every branch.
\<close>

lemma reachable_ok: "job_step\<^sup>*\<^sup>* (empty_db dia) d \<Longrightarrow> db_ok d"
  using job_system.steps_inv db_ok_empty by blast

lemma snapshot_fields [simp]:
  "cj_id (snapshot j) = cj_id j" "cj_status (snapshot j) = cj_status j"
  "cj_source_site_id (snapshot j) = cj_source_site_id j"
  "cj_started_at (snapshot j) = cj_started_at j" "cj_finished_at (snapshot j) = cj_finished_at j"
  "cj_timeout_at (snapshot j) = resolve_timeout_at j" "cj_counters (snapshot j) = cj_counters j"
  "cj_failure_reason (snapshot j) = cj_failure_reason j" "cj_message (snapshot j) = cj_message j"
  "cj_lease_expires_at (snapshot j) = cj_lease_expires_at j"
  "cj_picked_at (snapshot j) = cj_picked_at j" "cj_heartbeat_at (snapshot j) = cj_heartbeat_at j"
  by (simp_all add: snapshot_def crawl_job_snapshot.defs)

lemma get_job_update:
  "(\<And>r. cj_id (f r) = cj_id r) \<Longrightarrow> get_job l (update_job k f d) =
     (if k = l then map_option (\<lambda>j. snapshot (f j)) (get_job_row l d) else get_job l d)"
  by (simp add: get_job_def job_rows.get_upd option.map_comp o_def)

lemma transact_Some:
  "transact f d = (Inr (Some s), d') \<longleftrightarrow> (\<exists>j. f d = Inr (Some j, d') \<and> s = snapshot j)"
  by (auto simp: transact_def split: sum.splits option.splits)

section \<open>Sample data for the concrete instances\<close>

definition sample_create :: create_job_args where
  "sample_create = \<lparr>ca_source_code = lit ''ggzy_gov_cn_deal'', ca_source_name = None,
     ca_source_url = None, ca_job_type = lit ''manual'', ca_triggered_by = None,
     ca_retry_of_job_id = None, ca_job_params_json = None, ca_runtime_stats_json = None,
     ca_failure_reason = None, ca_message = None\<rparr>"

definition sample_start :: start_job_args where
  "sample_start = \<lparr>sa_started_at = None, sa_job_params_json = Unset, sa_runtime_stats_json = Unset,
     sa_failure_reason = Unset, sa_message = None, sa_lease_seconds = 1800\<rparr>"

definition sample_finish :: finish_job_args where
  "sample_finish = \<lparr>fa_status = None, fa_job_params_json = Unset, fa_runtime_stats_json = Unset,
     fa_failure_reason = Unset, fa_message = None, fa_finished_at = None\<rparr>"

text \<open>A database after one job was created, the same job running, and finished.\<close>

definition sample_queued :: db where
  "sample_queued = snd (create_job 1000 sample_create (empty_db Sqlite))"

definition sample_running :: db where
  "sample_running = snd (start_job 2000 sample_start 1 sample_queued)"

definition sample_finished :: db where
  "sample_finished = snd (finish_job 3000 sample_finish 1 sample_running)"

definition sample_again :: db where
  "sample_again = snd (create_job 4000 sample_create sample_finished)"

lemma sample_reach:
  "job_step\<^sup>*\<^sup>* (empty_db Sqlite) sample_queued" "job_step\<^sup>*\<^sup>* sample_queued sample_running"
  "job_step\<^sup>*\<^sup>* sample_running sample_finished" "job_step\<^sup>*\<^sup>* sample_finished sample_again"
  by (simp_all add: sample_queued_def sample_running_def sample_finished_def sample_again_def
      public_steps)

lemma sample_reach_again: "job_step\<^sup>*\<^sup>* (empty_db Sqlite) sample_again"
  using sample_reach by (meson rtranclp_trans)

lemma sample_ok: "db_ok sample_queued" "db_ok sample_running" "db_ok sample_finished"
  using sample_reach rtranclp_trans [of job_step] reachable_ok by metis+

lemma sample_statuses:
  "map (\<lambda>j. (cj_id j, cj_status j)) (crawl_jobs sample_queued) = [(1, Pending)]"
  "map (\<lambda>j. (cj_id j, cj_status j)) (crawl_jobs sample_running) = [(1, Running)]"
  "map (\<lambda>j. (cj_id j, cj_status j)) (crawl_jobs sample_finished) = [(1, Succeeded)]"
  by code_simp+

section \<open>Any interleaving\<close>

text \<open>
C1. Whatever sequence of service calls and administrative writes has run since the empty database,
two active (pending or running) jobs of one source are the same job, and a job is the retry_of of at
most one job.\<close>

theorem one_active_job_one_retry:
  assumes "job_step\<^sup>*\<^sup>* (empty_db dia) d" "j \<in> set (crawl_jobs d)" "j' \<in> set (crawl_jobs d)"
    "j \<noteq> j'"
  shows "\<not> (cj_source_site_id j = cj_source_site_id j' \<and> active_status (cj_status j) \<and>
              active_status (cj_status j')) \<and>
         \<not> (cj_retry_of_job_id j \<noteq> None \<and> cj_retry_of_job_id j = cj_retry_of_job_id j')"
  using reachable_ok [OF assms(1)] assms(2-4)
  by (auto simp: db_ok_def one_active_per_source_def retried_once_def)

lemma one_active_job_one_retry_witness:
  "let j = crawl_jobs sample_again ! 0; j' = crawl_jobs sample_again ! 1
   in \<not> (cj_source_site_id j = cj_source_site_id j' \<and> active_status (cj_status j) \<and>
           active_status (cj_status j')) \<and>
      \<not> (cj_retry_of_job_id j \<noteq> None \<and> cj_retry_of_job_id j = cj_retry_of_job_id j')"
proof -
  have "2 = length (crawl_jobs sample_again)" by code_simp
  moreover have "crawl_jobs sample_again ! 0 \<noteq> crawl_jobs sample_again ! 1" by code_simp
  ultimately show ?thesis
    unfolding Let_def by (intro one_active_job_one_retry [OF sample_reach_again]) auto
qed

text \<open>
C2. A finished job stays as it was decided: once a job is succeeded, failed or partial, no sequence of
service calls gives it another status, removes it or reassigns it to another source.\<close>

theorem final_status_is_final:
  assumes "db_ok d" "job_step\<^sup>*\<^sup>* d d'" "get_job_row k d = Some j" "final_status (cj_status j)"
  shows "\<exists>j'. get_job_row k d' = Some j' \<and> cj_status j' = cj_status j \<and>
    cj_source_site_id j' = cj_source_site_id j \<and> cj_retry_of_job_id j' = cj_retry_of_job_id j"
  using job_system.steps_row [OF assms(2,1,3)] assms(4)
  by (auto simp: job_le_def dest: status_le_final)

lemma final_status_is_final_witness:
  "\<exists>j'. get_job_row 1 sample_again = Some j' \<and> cj_status j' = Succeeded"
proof -
  obtain j where j: "get_job_row 1 sample_finished = Some j" "cj_status j = Succeeded"
    by (rule that [of "hd (crawl_jobs sample_finished)"]) code_simp+
  then show ?thesis
    using final_status_is_final [OF sample_ok(3) sample_reach(4), of 1 j]
    by (auto simp: final_status_def)
qed

text \<open>
The twelve counters of a job never decrease and its start time, once set, never changes, over any
sequence of service calls.\<close>

theorem counters_never_decrease:
  assumes "db_ok d" "job_step\<^sup>*\<^sup>* d d'" "get_job_row k d = Some j"
  shows "\<exists>j'. get_job_row k d' = Some j' \<and>
    list_all (\<lambda>(n, f). 0 \<le> f (cj_counters j) \<and> f (cj_counters j) \<le> f (cj_counters j'))
      counter_fields \<and>
    (cj_started_at j = None \<or> cj_started_at j' = cj_started_at j)"
proof -
  obtain j' where "get_job_row k d' = Some j'" "job_le j j'"
    using job_system.steps_row [OF assms(2,1,3)] by blast
  moreover have "nonneg_counters (cj_counters j)"
    using db_ok_row [OF assms(1,3)] by (simp add: job_ok_def)
  ultimately show ?thesis
    by (auto simp: job_le_def counters_le_def nonneg_counters_def list_all_iff)
qed

lemma counters_never_decrease_witness:
  "\<exists>j'. get_job_row 1 sample_finished = Some j' \<and> cj_started_at j' = Some 2000"
proof -
  obtain j where j: "get_job_row 1 sample_running = Some j" "cj_started_at j = Some 2000"
    by (rule that [of "hd (crawl_jobs sample_running)"]) code_simp+
  then show ?thesis
    using counters_never_decrease [OF sample_ok(2) sample_reach(3), of 1 j] by auto
qed

text \<open>
C3. A job runs at most once: after one start_job call has returned the job, every later start_job on
it, by any process and after any other calls, returns no job and changes nothing.\<close>

theorem job_starts_at_most_once:
  assumes "db_ok d" "start_job now a k d = (Inr (Some s), d1)" "job_step\<^sup>*\<^sup>* d1 d2"
  shows "(\<forall>s'. fst (start_job now' a' k d2) \<noteq> Inr (Some s')) \<and> snd (start_job now' a' k d2) = d2"
proof -
  obtain j where j: "start_job_in_session now a k d = Inr (Some j, d1)"
    using assms(2) by (auto simp: start_job_def transact_Some)
  then have row: "get_job_row k d1 = Some j" "cj_status j \<noteq> Pending"
    by (auto simp: start_job_in_session_def start_row_def Let_def job_rows.get_upd
        split: sum.splits option.splits if_splits)
  have "db_ok d1" using job_step_ok [OF step_start [OF j]] assms(1) by blast
  moreover have "cj_status b \<noteq> Pending" if "job_le a b" "cj_status a \<noteq> Pending" for a b
    using that by (cases "cj_status a") (auto simp: job_le_def)
  ultimately obtain j2 where "get_job_row k d2 = Some j2" "cj_status j2 \<noteq> Pending"
    using job_system.steps_stable [OF assms(3) _ row(1), of "\<lambda>j. cj_status j \<noteq> Pending"] row(2)
    by blast
  then show ?thesis
    by (auto simp: start_job_def transact_def start_job_in_session_def split: sum.splits)
qed

lemma job_starts_at_most_once_witness:
  "snd (start_job 9000 sample_start 1 sample_finished) = sample_finished"
proof -
  obtain s where "fst (start_job 2000 sample_start 1 sample_queued) = Inr (Some s)"
    by (rule that [of "snapshot (hd (crawl_jobs sample_running))"]) code_simp
  then have "start_job 2000 sample_start 1 sample_queued = (Inr (Some s), sample_running)"
    by (simp add: sample_running_def prod_eq_iff)
  from job_starts_at_most_once [OF sample_ok(1) this sample_reach(3)] show ?thesis by blast
qed

section \<open>Claims, leases and reconciliation\<close>

text \<open>A series of claims of one job by competing dispatchers, each with its clock and its lease.\<close>

fun claim_each :: "(instant \<times> int) list \<Rightarrow> int \<Rightarrow> db \<Rightarrow> crawl_job_snapshot option result list \<times> db" where
  "claim_each [] k d = ([], d)"
| "claim_each ((m, lease) # cs) k d =
     (case claim_pending_job m lease k d of
        (r, d1) \<Rightarrow> (case claim_each cs k d1 of (rs, d2) \<Rightarrow> (r # rs, d2)))"

lemma claim_refused:
  assumes "get_job_row k d = Some j" "\<not> claimable m j"
  shows "(\<forall>s. fst (claim_pending_job m lease k d) \<noteq> Inr (Some s)) \<and>
    snd (claim_pending_job m lease k d) = d"
  using assms
  by (auto simp: claim_pending_job_def transact_def claim_pending_job_in_session_def
      split: sum.splits)

lemma claim_granted:
  assumes "claim_pending_job m lease k d = (Inr (Some s), d1)"
  shows "\<exists>j. get_job_row k d1 = Some j \<and> 1 \<le> lease \<and> cj_status j = Pending \<and>
    cj_timeout_at j = Some (m + lease * second) \<and> cj_picked_at j = Some m"
  using assms
  by (auto simp: claim_pending_job_def transact_Some claim_pending_job_in_session_def claim_row_def
      claimable_def job_rows.get_upd calculate_lease_expires_at_def add_seconds_Some
      split: sum.splits option.splits if_splits)

text \<open>
C4. A claimed job belongs to its dispatcher until the lease ends: after a successful claim at m for
lease seconds, every claim before m + lease is refused and changes nothing, and a claim of a valid
lease from that moment on takes the job over (the previous dispatcher being presumed dead).\<close>

theorem claim_is_exclusive_until_expiry:
  assumes "claim_pending_job m lease k d = (Inr (Some s), d1)"
    "\<forall>(m', l') \<in> set cs. m' < m + lease * second"
  shows "snd (claim_each cs k d1) = d1 \<and>
    (\<forall>r \<in> set (fst (claim_each cs k d1)). \<forall>s'. r \<noteq> Inr (Some s')) \<and>
    (m + lease * second \<le> m2 \<and> 1 \<le> l2 \<and> m2 + l2 * second \<le> max_instant \<longrightarrow>
       (\<exists>s2. fst (claim_pending_job m2 l2 k (snd (claim_each cs k d1))) = Inr (Some s2) \<and>
             cj_timeout_at s2 = Some (m2 + l2 * second)))"
proof -
  obtain j where j: "get_job_row k d1 = Some j" "cj_status j = Pending"
      "cj_timeout_at j = Some (m + lease * second)" "cj_picked_at j = Some m"
    using claim_granted [OF assms(1)] by blast
  have "\<not> claimable m' j" if "m' < m + lease * second" for m'
    using that j by (simp add: claimable_def resolve_timeout_at_def)
  note refused = claim_refused [OF j(1) this]
  have "snd (claim_each cs k d1) = d1 \<and>
      (\<forall>r \<in> set (fst (claim_each cs k d1)). \<forall>s'. r \<noteq> Inr (Some s'))"
    using assms(2)
  proof (induction cs)
    case (Cons c cs)
    obtain m' l' where c: "c = (m', l')" by (cases c)
    have "snd (claim_pending_job m' l' k d1) = d1" "\<forall>s. fst (claim_pending_job m' l' k d1) \<noteq> Inr (Some s)"
      using refused [of m' l'] Cons.prems c by auto
    with Cons c show ?case by (auto split: prod.splits)
  qed simp
  moreover have "\<exists>s2. fst (claim_pending_job m2 l2 k d1) = Inr (Some s2) \<and>
      cj_timeout_at s2 = Some (m2 + l2 * second)"
    if "m + lease * second \<le> m2 \<and> 1 \<le> l2 \<and> m2 + l2 * second \<le> max_instant"
    using that j
    by (auto simp: claim_pending_job_def transact_def claim_pending_job_in_session_def claimable_def
        resolve_timeout_at_def calculate_lease_expires_at_def add_seconds_def claim_row_def)
  ultimately show ?thesis by simp
qed

lemma claim_is_exclusive_until_expiry_witness:
  "list_all (\<lambda>r. case r of Inr (Some s') \<Rightarrow> False | _ \<Rightarrow> True)
     (fst (claim_each [(1500, 60), (60000999, 120)] 1 (snd (claim_pending_job 1000 60 1 sample_queued))))"
proof -
  let ?c = "claim_pending_job 1000 60 1 sample_queued"
  obtain s where "fst ?c = Inr (Some s)"
    by (rule that [of "snapshot (hd (crawl_jobs (snd ?c)))"]) code_simp
  then have "?c = (Inr (Some s), snd ?c)" by (simp add: prod_eq_iff)
  from claim_is_exclusive_until_expiry [OF this, of "[(1500, 60), (60000999, 120)]"]
  show ?thesis
    by (auto simp: second_def list_all_iff simp del: claim_each.simps split: sum.splits option.splits)
qed

text \<open>
C5. A heartbeat keeps a running job alive: after a successful heartbeat at m for lease seconds, a
reconciliation of expired jobs at any moment before m + lease leaves the job exactly as the heartbeat
returned it, whatever else it expires.\<close>

theorem heartbeat_protects_running_job:
  assumes "db_ok d" "heartbeat_job m lease k d = (Inr (Some s), d1)" "cj_status s = Running"
    "m' < m + lease * second"
  shows "get_job k (snd (reconcile_expired_jobs m' n d1)) = Some s \<and>
    cj_timeout_at s = Some (m + lease * second)"
proof -
  obtain j where j: "heartbeat_job_in_session m lease k d = Inr (Some j, d1)" "s = snapshot j"
    using assms(2) by (auto simp: heartbeat_job_def transact_Some)
  then have row: "get_job_row k d1 = Some j" "cj_timeout_at j = Some (m + lease * second)"
    using assms(3)
    by (auto simp: heartbeat_job_in_session_def heartbeat_row_def job_rows.get_upd active_status_def
        calculate_lease_expires_at_def add_seconds_Some split: sum.splits option.splits if_splits)
  have ok: "db_ok d1" using job_step_ok [OF step_heartbeat [OF j(1)] assms(1)] .
  have "j \<notin> set (expired_jobs m' n d1)"
    using expired_jobs_mem row(2) assms(4)
    by (fastforce simp: lease_expired_def resolve_timeout_at_def)
  then have "get_job_row k (expire_all m' (expired_jobs m' n d1) d1) = Some j"
    using reconcile_row [OF reconcile_eq ok row(1)] by simp
  then show ?thesis
    using row j(2)
    by (auto simp: reconcile_expired_jobs_def reconcile_eq get_job_def resolve_timeout_at_def)
qed

lemma heartbeat_protects_running_job_witness:
  "\<exists>s. get_job 1 (snd (reconcile_expired_jobs 60000999 None
      (snd (heartbeat_job 5000 60 1 sample_running)))) = Some s \<and> cj_status s = Running"
proof -
  let ?c = "heartbeat_job 5000 60 1 sample_running"
  obtain s where s: "fst ?c = Inr (Some s)" "cj_status s = Running"
    by (rule that [of "snapshot (hd (crawl_jobs (snd ?c)))"]) code_simp+
  then have "?c = (Inr (Some s), snd ?c)" by (simp add: prod_eq_iff)
  from heartbeat_protects_running_job [OF sample_ok(2) this s(2), of 60000999 None] s(2)
  show ?thesis by (simp add: second_def)
qed

lemma expire_row_not_expired [simp]: "\<not> lease_expired m (expire_row m j)"
  by (simp add: lease_expired_def expire_row_def)

lemma reconcile_db:
  "snd (reconcile_expired_jobs m n d) = expire_all m (expired_jobs m n d) d"
  by (auto simp: reconcile_expired_jobs_def reconcile_eq expire_all_def)

lemma reconcile_all_row:
  assumes "db_ok d"
  shows "get_job_row k (snd (reconcile_expired_jobs m None d)) =
    map_option (\<lambda>j. if lease_expired m j then expire_row m j else j) (get_job_row k d)"
proof (cases "get_job_row k d")
  case None
  have "distinct (map cj_id (expired_jobs m None d))"
    using assms by (simp add: db_ok_def expired_jobs_distinct)
  then show ?thesis using None by (simp add: reconcile_db expire_all_row)
next
  case (Some j)
  then have "j \<in> set (expired_jobs m None d) \<longleftrightarrow> lease_expired m j"
    by (auto simp: expired_jobs_all dest: get_row_mem)
  then show ?thesis
    using reconcile_row [OF reconcile_eq assms Some, of m None] Some by (simp add: reconcile_db)
qed

lemma rows_from_get:
  assumes "distinct (map cj_id (crawl_jobs d))" "j \<in> set (crawl_jobs d)"
  shows "get_job_row (cj_id j) d = Some j"
  using get_row_distinct [of cj_id "crawl_jobs d"] assms by simp

lemma reconcile_all_ok: "db_ok d \<Longrightarrow> db_ok (snd (reconcile_expired_jobs m None d))"
  using job_system.steps_inv public_steps(8) by blast

lemma reconcile_leaves_none:
  assumes "db_ok d" "j \<in> set (crawl_jobs (snd (reconcile_expired_jobs m None d)))"
  shows "\<not> lease_expired m j"
proof -
  have "distinct (map cj_id (crawl_jobs (snd (reconcile_expired_jobs m None d))))"
    using reconcile_all_ok [OF assms(1)] by (simp add: db_ok_def)
  then show ?thesis
    using rows_from_get [OF _ assms(2)] reconcile_all_row [OF assms(1), of "cj_id j" m]
    by (auto split: if_splits) (metis expire_row_not_expired)
qed

text \<open>
C6. reconcile_expired_jobs without a limit fails exactly the running jobs whose timeout has passed:
it never raises, every such job becomes failed with the moment as its finishing time and a failure
reason, every other job is untouched, no expired job is left, and a second call at the same moment
finds nothing and changes nothing.\<close>

theorem reconcile_fails_exactly_the_expired:
  assumes "db_ok d" "reconcile_expired_jobs m None d = (r, d')"
  shows "(\<exists>ss. r = Inr ss \<and> set (map cj_id ss) = {cj_id j |j. j \<in> set (crawl_jobs d) \<and> lease_expired m j} \<and>
            list_all (\<lambda>s. cj_status s = Failed \<and> cj_finished_at s = Some m \<and>
                          cj_failure_reason s = Some zh_heartbeat_timeout) ss) \<and>
    list_all (\<lambda>j. get_job_row (cj_id j) d' = Some (if lease_expired m j then expire_row m j else j))
      (crawl_jobs d) \<and>
    \<not> list_ex (lease_expired m) (crawl_jobs d') \<and>
    reconcile_expired_jobs m None d' = (Inr [], d')"
proof -
  have d': "d' = snd (reconcile_expired_jobs m None d)" using assms(2) by simp
  have ok': "db_ok d'" using assms(1) unfolding d' by (rule reconcile_all_ok)
  have dist: "distinct (map cj_id (crawl_jobs d))" "distinct (map cj_id (crawl_jobs d'))"
    using assms(1) ok' by (auto simp: db_ok_def)
  have none: "\<not> lease_expired m j" if "j \<in> set (crawl_jobs d')" for j
    using reconcile_leaves_none [OF assms(1)] that unfolding d' by blast
  have "set (expired_jobs m None d') = {}" using none by (auto simp: expired_jobs_all)
  then have again: "reconcile_expired_jobs m None d' = (Inr [], d')"
    by (simp add: reconcile_expired_jobs_def reconcile_eq)
  have rows: "get_job_row (cj_id j) d' = Some (if lease_expired m j then expire_row m j else j)"
    if "j \<in> set (crawl_jobs d)" for j
    using rows_from_get [OF dist(1) that] reconcile_all_row [OF assms(1), of "cj_id j" m]
    unfolding d' [symmetric] by simp
  let ?ss = "map snapshot (map (expire_row m) (expired_jobs m None d))"
  have "r = Inr ?ss" using assms(2) by (simp add: reconcile_expired_jobs_def reconcile_eq)
  moreover have "set (map cj_id ?ss) = {cj_id j |j. j \<in> set (crawl_jobs d) \<and> lease_expired m j}"
    by (auto simp: expired_jobs_all image_iff)
  moreover have "list_all (\<lambda>s. cj_status s = Failed \<and> cj_finished_at s = Some m \<and>
      cj_failure_reason s = Some zh_heartbeat_timeout) ?ss"
    by (auto simp: list_all_iff expired_jobs_all expire_row_def lease_expired_def
        expired_failure_reason_def)
  ultimately have "\<exists>ss. r = Inr ss \<and>
      set (map cj_id ss) = {cj_id j |j. j \<in> set (crawl_jobs d) \<and> lease_expired m j} \<and>
      list_all (\<lambda>s. cj_status s = Failed \<and> cj_finished_at s = Some m \<and>
        cj_failure_reason s = Some zh_heartbeat_timeout) ss"
    by blast
  then show ?thesis using none rows again by (simp add: list_all_iff list_ex_iff)
qed

lemma reconcile_fails_exactly_the_expired_witness:
  "let d' = snd (reconcile_expired_jobs 1800002000 None sample_running)
   in map_option cj_status (get_job_row 1 d') = Some Failed \<and>
      \<not> list_ex (lease_expired 1800002000) (crawl_jobs d') \<and>
      reconcile_expired_jobs 1800002000 None d' = (Inr [], d')"
proof -
  obtain j where j: "crawl_jobs sample_running = [j]" "cj_id j = 1" "lease_expired 1800002000 j"
    by (rule that [of "hd (crawl_jobs sample_running)"]) code_simp+
  then show ?thesis
    using reconcile_fails_exactly_the_expired
      [OF sample_ok(2) prod.collapse [symmetric], of 1800002000]
    by (simp add: Let_def expire_row_def)
qed

section \<open>Finishing\<close>

text \<open>
finish_job with a given status succeeds exactly when that status is final and the job is running,
or it repeats the job's own final status, or it fails a pending job; otherwise it raises ValueError
and the database is unchanged.\<close>

lemma finish_job_accepts_legal_transitions:
  assumes "get_job_row k d = Some j" "fa_status a = Some (status_text st)"
  shows "if final_status st \<and> (cj_status j = Running \<or> cj_status j = st \<or>
             (cj_status j = Pending \<and> st = Failed))
    then \<exists>s. fst (finish_job now a k d) = Inr (Some s) \<and> cj_status s = st
    else (\<exists>msg. finish_job now a k d = (Inl (ValueError msg), d))"
proof -
  have "status_text st \<noteq> []" by (cases st) auto
  then have eq: "finish_job_in_session now a k d =
      (if \<not> final_status st then Inl (ValueError (lit ''finish_job requires final status, got: ''
            @ status_text st))
       else if st \<in> set (allowed_transitions (cj_status j))
         then (let clock = (case fa_finished_at a of None \<Rightarrow> now | Some t \<Rightarrow> t)
               in Inr (Some (finish_row clock st a j), update_job k (finish_row clock st a) d))
       else Inl (ValueError (lit ''invalid crawl job status transition: ''
              @ status_text (cj_status j) @ lit '' -> '' @ status_text st)))"
    using assms by (simp add: finish_job_in_session_def ensure_transition_def)
  have legal: "final_status st \<and> (cj_status j = Running \<or> cj_status j = st \<or>
      (cj_status j = Pending \<and> st = Failed)) \<longleftrightarrow>
      final_status st \<and> st \<in> set (allowed_transitions (cj_status j))"
    by (cases st; cases "cj_status j") (simp_all add: final_status_def)
  show ?thesis
  proof (cases "final_status st \<and> st \<in> set (allowed_transitions (cj_status j))")
    case True
    then show ?thesis unfolding legal by (simp add: finish_job_def transact_def eq Let_def)
  next
    case False
    then have "\<exists>msg. finish_job_in_session now a k d = Inl (ValueError msg)" by (auto simp: eq)
    then show ?thesis using False unfolding legal by (auto simp: finish_job_def transact_def)
  qed
qed

lemma finish_job_accepts_legal_transitions_witness:
  "\<exists>msg. finish_job 5 (sample_finish\<lparr>fa_status := Some (lit ''failed'')\<rparr>) 1 sample_finished =
     (Inl (ValueError msg), sample_finished)"
proof -
  obtain j where j: "get_job_row 1 sample_finished = Some j" "cj_status j = Succeeded"
    by (rule that [of "hd (crawl_jobs sample_finished)"]) code_simp+
  then show ?thesis
    using finish_job_accepts_legal_transitions
      [OF j(1), of "sample_finish\<lparr>fa_status := Some (lit ''failed'')\<rparr>" Failed 5]
    by (simp add: final_status_def)
qed

text \<open>
Finishing a running job without a status decides it by its error counter (partial when errors were
counted, succeeded otherwise), releases the lease, records the finishing time, keeps its counters and
start time, stores what it returns, and touches no other job.\<close>

theorem finish_job_infers_outcome:
  assumes "db_ok d" "get_job_row k d = Some j" "cj_status j = Running" "fa_status a = None"
  shows "\<exists>s d'. finish_job now a k d = (Inr (Some s), d') \<and> get_job k d' = Some s \<and>
    cj_status s = (if error_count (cj_counters j) > 0 then Partial else Succeeded) \<and>
    cj_timeout_at s = None \<and> cj_lease_expires_at s = None \<and>
    cj_finished_at s = or_else (fa_finished_at a) (Some now) \<and>
    cj_started_at s = cj_started_at j \<and> cj_counters s = cj_counters j \<and>
    (\<forall>l. l \<noteq> k \<longrightarrow> get_job l d' = get_job l d)"
proof -
  have "cj_started_at j \<noteq> None" using db_ok_row [OF assms(1,2)] assms(3) by (simp add: job_ok_def)
  then show ?thesis
    using assms
    by (auto simp: finish_job_def transact_def finish_job_in_session_def infer_success_status_def
        ensure_transition_def final_status_def Let_def get_job_update finish_row_def
        resolve_timeout_at_def split: option.split)
qed

lemma finish_job_infers_outcome_witness:
  "\<exists>s d'. finish_job 3000 sample_finish 1 sample_running = (Inr (Some s), d') \<and>
     cj_status s = Succeeded \<and> cj_started_at s = Some 2000"
proof -
  obtain j where j: "get_job_row 1 sample_running = Some j" "cj_status j = Running"
      "cj_started_at j = Some 2000" "error_count (cj_counters j) = 0"
    by (rule that [of "hd (crawl_jobs sample_running)"]) code_simp+
  then show ?thesis
    using finish_job_infers_outcome [OF sample_ok(2) j(1,2), of sample_finish 3000]
    by (auto simp: sample_finish_def)
qed

text \<open>
  fail_job_if_active never raises: a job that is already finished is returned as it is with the
database unchanged, an active one is failed.\<close>

theorem fail_job_if_active_settles:
  assumes "get_job_row k d = Some j"
  shows "\<exists>s. fst (fail_job_if_active now a k d) = Inr (Some s) \<and>
    get_job k (snd (fail_job_if_active now a k d)) = Some s \<and>
    (if final_status (cj_status j)
     then s = snapshot j \<and> snd (fail_job_if_active now a k d) = d
     else cj_status s = Failed \<and> cj_timeout_at s = None)"
proof -
  have "normalize_status (Some (lit ''failed'')) = Inr Failed"
    using normalize_status_text [of Failed] by simp
  moreover have "\<not> final_status (cj_status j) \<Longrightarrow> Failed \<in> set (allowed_transitions (cj_status j))"
    by (cases "cj_status j") (auto simp: final_status_def)
  ultimately show ?thesis
    using assms
    by (auto simp: fail_job_if_active_def transact_def fail_job_if_active_in_session_def
        finish_job_in_session_def ensure_transition_def Let_def get_job_update get_job_def [of k d]
        finish_row_def resolve_timeout_at_def final_status_def)
qed

lemma fail_job_if_active_settles_witness:
  "\<exists>s. fst (fail_job_if_active 7 sample_finish 1 sample_finished) = Inr (Some s) \<and>
     cj_status s = Succeeded"
proof -
  obtain j where j: "get_job_row 1 sample_finished = Some j" "cj_status j = Succeeded"
    by (rule that [of "hd (crawl_jobs sample_finished)"]) code_simp+
  then show ?thesis
    using fail_job_if_active_settles [OF j(1), of 7 sample_finish] by (auto simp: final_status_def)
qed

text \<open>
A pending job can always be driven to its end: when it may be claimed, claiming it, starting it
and finishing it with no status, with leases that fit in a datetime, return the job each time, and it
ends as succeeded when it has counted no error.\<close>

lemma claimable_job_can_be_completed:
  assumes "db_ok d" "get_job_row k d = Some j" "claimable m1 j" "error_count (cj_counters j) = 0"
    "1 \<le> l1" "m1 + l1 * second \<le> max_instant"
    "1 \<le> sa_lease_seconds sa" "m2 + sa_lease_seconds sa * second \<le> max_instant"
    "fa_status fa = None"
  shows "\<exists>s1 d1 s2 d2 s3 d3. claim_pending_job m1 l1 k d = (Inr (Some s1), d1) \<and>
    start_job m2 sa k d1 = (Inr (Some s2), d2) \<and> cj_status s2 = Running \<and>
    finish_job m3 fa k d2 = (Inr (Some s3), d3) \<and> cj_status s3 = Succeeded"
proof -
  have st: "cj_status j = Pending" using assms(3) by (simp add: claimable_def)
  let ?j1 = "claim_row m1 (m1 + l1 * second) j" and ?d1 = "update_job k (claim_row m1 (m1 + l1 * second)) d"
  let ?t2 = "m2 + sa_lease_seconds sa * second"
  let ?j2 = "start_row m2 ?t2 sa ?j1" and ?d2 = "update_job k (start_row m2 ?t2 sa) ?d1"
  have claim: "claim_pending_job m1 l1 k d = (Inr (Some (snapshot ?j1)), ?d1)"
    using assms by (simp add: claim_pending_job_def transact_def claim_pending_job_in_session_def
        calculate_lease_expires_at_def add_seconds_def)
  have row1: "get_job_row k ?d1 = Some ?j1" using assms(2) by (simp add: job_rows.get_upd)
  have start: "start_job m2 sa k ?d1 = (Inr (Some (snapshot ?j2)), ?d2)"
    using assms st row1 by (simp add: start_job_def transact_def start_job_in_session_def
        calculate_lease_expires_at_def add_seconds_def claim_row_def del: update_job_simps)
  have row2: "get_job_row k ?d2 = Some ?j2" using assms(2) by (simp add: job_rows.get_upd)
  have "error_count (cj_counters ?j2) = 0" "cj_status ?j2 = Running"
    using assms(4) by (simp_all add: start_row_def claim_row_def Let_def)
  then have "\<exists>s3 d3. finish_job m3 fa k ?d2 = (Inr (Some s3), d3) \<and> cj_status s3 = Succeeded"
    using row2 assms(9) by (simp add: finish_job_def transact_def finish_job_in_session_def
        infer_success_status_def ensure_transition_def final_status_def Let_def finish_row_def
        del: update_job_simps)
  with claim start show ?thesis using \<open>cj_status ?j2 = Running\<close> by auto
qed

lemma claimable_job_can_be_completed_witness:
  "\<exists>s1 d1 s2 d2 s3 d3. claim_pending_job 1500 60 1 sample_queued = (Inr (Some s1), d1) \<and>
    start_job 2000 sample_start 1 d1 = (Inr (Some s2), d2) \<and> cj_status s2 = Running \<and>
    finish_job 3000 sample_finish 1 d2 = (Inr (Some s3), d3) \<and> cj_status s3 = Succeeded"
proof -
  obtain j where j: "get_job_row 1 sample_queued = Some j" "claimable 1500 j"
      "error_count (cj_counters j) = 0"
    by (rule that [of "hd (crawl_jobs sample_queued)"]) code_simp+
  show ?thesis
    by (rule claimable_job_can_be_completed [OF sample_ok(1) j])
      (simp_all add: second_def max_instant_def sample_start_def sample_finish_def)
qed

end
