(* ===== verification/TriggerFacts.thy ===== *)
theory TriggerFacts
  imports Trigger JobProps
begin

text \<open>
  What creating, queueing and retrying crawl jobs guarantees.
\<close>

section \<open>The rows a query finds\<close>

lemma active_job_for_source_None:
  "active_job_for_source sid d = None \<longleftrightarrow>
     (\<forall>j \<in> set (crawl_jobs d). cj_source_site_id j = sid \<longrightarrow> \<not> active_status (cj_status j))"
  by (auto simp: active_job_for_source_def filter_empty_conv)

lemma active_job_for_source_Some:
  "active_job_for_source sid d = Some j \<Longrightarrow>
     j \<in> set (crawl_jobs d) \<and> cj_source_site_id j = sid \<and> active_status (cj_status j)"
  unfolding active_job_for_source_def by (drule first_row_Some) simp

lemma active_job_unique:
  assumes "db_ok d" "j \<in> set (crawl_jobs d)" "cj_source_site_id j = sid" "active_status (cj_status j)"
  shows "active_job_for_source sid d = Some j"
proof (cases "active_job_for_source sid d")
  case None
  then show ?thesis using assms by (simp add: active_job_for_source_None)
next
  case (Some i)
  then show ?thesis
    using active_job_for_source_Some [OF Some] assms
    by (auto simp: db_ok_def one_active_per_source_def)
qed

lemma retry_job_None:
  "retry_job_for_original_job k d = None \<longleftrightarrow>
     (\<forall>j \<in> set (crawl_jobs d). cj_retry_of_job_id j \<noteq> Some k)"
  by (auto simp: retry_job_for_original_job_def filter_empty_conv)

lemma retry_job_Some:
  "retry_job_for_original_job k d = Some j \<Longrightarrow>
     j \<in> set (crawl_jobs d) \<and> cj_retry_of_job_id j = Some k"
  unfolding retry_job_for_original_job_def by (drule first_row_Some) simp

lemma retry_job_unique:
  assumes "db_ok d" "j \<in> set (crawl_jobs d)" "cj_retry_of_job_id j = Some k"
  shows "retry_job_for_original_job k d = Some j"
proof (cases "retry_job_for_original_job k d")
  case None
  then show ?thesis using assms by (simp add: retry_job_None)
next
  case (Some i)
  then show ?thesis
    using retry_job_Some [OF Some] assms by (auto simp: db_ok_def retried_once_def)
qed

section \<open>Every method is a sequence of job steps\<close>

lemma create_job_rows:
  assumes "create_job_in_session now a d = Inr (j, d')"
  shows "crawl_jobs d' = crawl_jobs d @ [j] \<and> cj_status j = Pending"
  using assms ensure_source_site_jobs
  by (fastforce simp: create_job_in_session_def Let_def insert_crawl_job_def add_row_def new_crawl_job_def
      split: sum.splits prod.splits option.splits if_splits)

lemma rival_commit_rows:
  "crawl_jobs (rival_commit now rival d) = crawl_jobs d \<or>
   (\<exists>j. crawl_jobs (rival_commit now rival d) = crawl_jobs d @ [j] \<and> cj_status j = Pending)"
  using create_job_rows
  by (auto simp: rival_commit_def create_job_def split: option.split sum.split)

lemma rival_commit_steps: "job_step\<^sup>*\<^sup>* d (rival_commit now rival d)"
  by (auto simp: rival_commit_def public_steps split: option.split)

lemma expired_jobs_rival: "expired_jobs now m (rival_commit now' rival d) = expired_jobs now m d"
  using rival_commit_rows [of now' rival d]
  by (auto simp: expired_jobs_def lease_expired_def)

lemma rival_reconcile:
  "reconcile_expired_jobs_in_session now None (rival_commit now rival d) =
     Inr (map (expire_row now) (expired_jobs now None d),
          expire_all now (expired_jobs now None d) (rival_commit now rival d))"
  by (simp add: reconcile_eq expired_jobs_rival)

lemma expire_each_expired:
  "expire_each now (expired_jobs now None d) d1 =
     Inr (map (expire_row now) (expired_jobs now None d), expire_all now (expired_jobs now None d) d1)"
  using expire_each_running [of "expired_jobs now None d"] expired_jobs_mem
  by (auto simp: lease_expired_def)

text \<open>The method without its dead branches.\<close>

lemma create_crawl_job_eq:
  "create_crawl_job now rival source a d =
     (case resolve_spider_name_for_source source (ca_job_type a) of
        Inl e \<Rightarrow> (Inl e, d)
      | Inr _ \<Rightarrow>
         (case active_job_for_source (ss_id source) d of
            Some j \<Rightarrow> (Inl (source_active_job_conflict source
               (get_job_row (cj_id j) (expire_all now (expired_jobs now None d) d))), d)
          | None \<Rightarrow>
             (let d1 = rival_commit now rival d; w1 = expire_all now (expired_jobs now None d) d1
              in case create_job_in_session now a w1 of
                   Inl e \<Rightarrow> (Inl (creation_error source (ca_retry_of_job_id a) e d1), d1)
                 | Inr (job, w2) \<Rightarrow>
                    (case get_job (cj_id job) w2 of
                       None \<Rightarrow> (Inl (RuntimeError (lit ''crawl_job not found after creation: ''
                                    @ show_int (cj_id job))), w2)
                     | Some s \<Rightarrow> (Inr s, w2)))))"
  by (cases "resolve_spider_name_for_source source (ca_job_type a)";
      cases "active_job_for_source (ss_id source) d")
    (simp_all add: create_crawl_job_def reconcile_eq expire_each_expired Let_def)

lemma create_crawl_job_steps: "job_step\<^sup>*\<^sup>* d (snd (create_crawl_job now rival source a d))"
proof -
  let ?d1 = "rival_commit now rival d" and ?w1 = "expire_all now (expired_jobs now None d) (rival_commit now rival d)"
  have "job_step ?d1 ?w1" using step_reconcile [OF rival_reconcile] .
  then have "job_step\<^sup>*\<^sup>* d ?w1" using rival_commit_steps [of d now rival] by simp
  then have "job_step\<^sup>*\<^sup>* d w2" if "create_job_in_session now a ?w1 = Inr (job, w2)" for job w2
    using step_create [OF that] by simp
  then show ?thesis
    unfolding create_crawl_job_eq
    by (auto simp: Let_def rival_commit_steps split: sum.splits option.splits prod.splits)
qed

section \<open>Creating for a registered source\<close>

lemma normalize_job_type_text [simp]: "normalize_job_type (Some (job_type_text t)) = Inr t"
  by (induct t; code_simp)

lemma resolve_spider_code:
  assumes "resolve_spider_name_for_source source jt = Inr name"
  shows "normalize_source_code (ss_code source) \<noteq> []"
  using assms
  by (auto simp: resolve_spider_name_for_source_def get_source_adapter_def integrated_adapters_def
      simp del: normalize_source_code_Nil split: option.splits if_splits)

lemma find_source_registered:
  assumes "distinct (map ss_code (source_sites d))" "s \<in> set (source_sites d)"
  shows "find_source (ss_code s) d = Some s"
proof -
  obtain s' where s': "find_source (ss_code s) d = Some s'"
    using assms(2) by (cases "find_source (ss_code s) d") (auto simp: find_source_def find_None_iff)
  with find_source_Some have "s' \<in> set (source_sites d)" "ss_code s' = ss_code s" by blast+
  then have "s' = s" using assms by (metis distinct_map inj_onD)
  with s' show ?thesis by simp
qed

lemma ensure_registered:
  assumes "distinct (map ss_code (source_sites d))" "s \<in> set (source_sites d)"
    "normalize_source_code (ss_code s) = ss_code s" "ss_code s \<noteq> []"
  shows "ensure_source_site (ss_code s) n u d = Inr (s, d)"
proof -
  have "strip (ss_code s) = ss_code s" using strip_normalize_source_code assms(3) by metis
  then show ?thesis
    using assms find_source_registered [OF assms(1,2)]
    by (simp add: ensure_source_site_def as_str_def lookup_source_site_def)
qed

definition fresh_ids :: "db \<Rightarrow> bool" where
  "fresh_ids d \<longleftrightarrow> db_dialect d = Sqlite \<or> max_key cj_id (crawl_jobs d) \<le> db_seq d T_crawl_job"

lemma next_job_id_fresh:
  assumes "fresh_ids d"
  shows "next_id T_crawl_job cj_id (crawl_jobs d) d \<notin> cj_id ` set (crawl_jobs d)"
proof
  assume "next_id T_crawl_job cj_id (crawl_jobs d) d \<in> cj_id ` set (crawl_jobs d)"
  then have "next_id T_crawl_job cj_id (crawl_jobs d) d \<le> max_key cj_id (crawl_jobs d)"
    using max_key_ge [of _ "crawl_jobs d" cj_id] by auto
  then show False
    using assms by (auto simp: fresh_ids_def next_id_def split: dialect.splits)
qed

lemma expire_all_frame:
  "map cj_id (crawl_jobs (expire_all now js d)) = map cj_id (crawl_jobs d)"
  "db_dialect (expire_all now js d) = db_dialect d" "db_seq (expire_all now js d) = db_seq d"
  by (induction js arbitrary: d) (simp_all add: expire_all_def row_simps)

lemma expire_all_ids:
  "cj_id ` set (crawl_jobs (expire_all now js d)) = cj_id ` set (crawl_jobs d)"
  "max_key cj_id (crawl_jobs (expire_all now js d)) = max_key cj_id (crawl_jobs d)"
proof -
  note eq = expire_all_frame(1) [of now js d]
  from arg_cong [OF eq, of set]
  show ids: "cj_id ` set (crawl_jobs (expire_all now js d)) = cj_id ` set (crawl_jobs d)" by simp
  from arg_cong [OF eq, of length] have "crawl_jobs (expire_all now js d) = [] \<longleftrightarrow> crawl_jobs d = []"
    by auto
  with ids show "max_key cj_id (crawl_jobs (expire_all now js d)) = max_key cj_id (crawl_jobs d)"
    by (simp add: max_key_def)
qed

lemma create_registered:
  assumes "db_ok d" "s \<in> set (source_sites d)" "normalize_source_code (ss_code s) = ss_code s"
    "ss_code s \<noteq> []" "ca_source_code a = ss_code s" "ca_job_type a = job_type_text t"
    "ca_retry_of_job_id a = None"
  shows "create_job_in_session now a d =
    (let j = new_crawl_job now a t (ss_id s) (next_id T_crawl_job cj_id (crawl_jobs d) d)
     in case insert_crawl_job j d of Inl e \<Rightarrow> Inl e | Inr d2 \<Rightarrow> Inr (j, d2))"
  using assms ensure_registered [of d s] by (simp add: create_job_in_session_def db_ok_def)


definition sample_source :: source_site where
  "sample_source = hd (source_sites sample_finished)"

lemma sample_source_ok:
  "sample_source \<in> set (source_sites sample_finished)" "sample_source \<in> set (source_sites sample_running)"
  "normalize_source_code (ss_code sample_source) = ss_code sample_source" "ss_id sample_source = 1"
  "resolve_spider_name_for_source sample_source (lit ''manual'') = Inr (lit ''ggzy_gov_cn_deal'')"
  by code_simp+


text \<open>
C10. A source whose running job has expired still refuses new jobs: create_crawl_job marks the expired
job failed in its session first, but its query for an active job reads the flushed rows (autoflush is
off), so it raises the conflict, naming the job with the status failed, and the expiry is lost with
the transaction.\<close>

theorem expired_job_still_blocks_its_source:
  assumes "db_ok d" "j \<in> set (crawl_jobs d)" "lease_expired now j" "ss_id source = cj_source_site_id j"
    "resolve_spider_name_for_source source (ca_job_type a) = Inr name"
  shows "create_crawl_job now rival source a d =
    (Inl (SourceActiveCrawlJobConflictError (ss_code source) (ss_id source) (Some (cj_id j)) (Some Failed)), d)"
proof -
  have "active_status (cj_status j)" using assms(3) by (simp add: lease_expired_def active_status_def)
  then have active: "active_job_for_source (ss_id source) d = Some j"
    using assms by (intro active_job_unique) auto
  have "get_job_row (cj_id j) d = Some j" using assms(1,2) by (simp add: db_ok_def rows_from_get)
  moreover have "j \<in> set (expired_jobs now None d)" using assms(2,3) by (simp add: expired_jobs_all)
  ultimately have "get_job_row (cj_id j) (expire_all now (expired_jobs now None d) d) = Some (expire_row now j)"
    using reconcile_row [OF reconcile_eq assms(1)] by simp
  then show ?thesis
    using assms(5) active
    by (simp add: create_crawl_job_eq source_active_job_conflict_def) (simp add: expire_row_def)
qed

lemma expired_job_still_blocks_its_source_witness:
  "create_crawl_job 1800002000 None sample_source
      (queued_job_args sample_source (lit ''api'') (lit ''manual'') None [] (lit ''go'')) sample_running =
    (Inl (SourceActiveCrawlJobConflictError (ss_code sample_source) 1 (Some 1) (Some Failed)), sample_running)"
proof -
  obtain j where j: "crawl_jobs sample_running = [j]" "lease_expired 1800002000 j" "cj_id j = 1"
      "cj_source_site_id j = 1"
    by (rule that [of "hd (crawl_jobs sample_running)"]) code_simp+
  then show ?thesis
    using expired_job_still_blocks_its_source [OF sample_ok(2), of j 1800002000 sample_source]
      sample_source_ok(4,5) by (simp add: queued_job_args_def)
qed

text \<open>
C11. Of two requests that race to create a job for one source, the loser is told about the winner: if
another session commits a job for the source between the check and the INSERT, the unique index
refuses the second row, the caller gets the conflict with the winner's id and status, and the
database holds the winner's job only.\<close>

theorem race_for_source_has_one_winner:
  assumes "db_ok d" "fresh_ids d1" "source \<in> set (source_sites d)"
    "normalize_source_code (ss_code source) = ss_code source"
    "resolve_spider_name_for_source source (job_type_text t) = Inr name"
    "active_job_for_source (ss_id source) d = None"
    "create_job now ra d = (Inr winner, d1)" "cj_source_site_id winner = ss_id source"
    "source \<in> set (source_sites d1)"
  shows "create_crawl_job now (Some ra) source
      (queued_job_args source who (job_type_text t) None args msg) d =
    (Inl (SourceActiveCrawlJobConflictError (ss_code source) (ss_id source)
            (Some (cj_id winner)) (Some Pending)), d1)"
proof -
  let ?a = "queued_job_args source who (job_type_text t) None args msg"
  obtain wj where wj: "create_job_in_session now ra d = Inr (wj, d1)" "winner = snapshot wj"
    using assms(7) by (auto simp: create_job_def split: sum.splits prod.splits)
  have d1: "db_ok d1" using create_job_ok [OF wj(1) assms(1)] .
  have rows: "crawl_jobs d1 = crawl_jobs d @ [wj]" "cj_status wj = Pending"
    using create_job_rows [OF wj(1)] by auto
  have active: "active_job_for_source (ss_id source) d1 = Some wj"
    using rows assms(8) d1 wj(2) by (intro active_job_unique) (simp_all add: active_status_def)
  let ?w = "expire_all now (expired_jobs now None d) d1"
  have r: "rival_commit now (Some ra) d = d1" using assms(7) by (simp add: rival_commit_def)
  have w: "job_step d1 ?w" using step_reconcile [OF rival_reconcile [of now "Some ra" d]] r by simp
  then have wd: "db_ok ?w" using job_step_ok d1 by blast
  have "wj \<notin> set (expired_jobs now None d)"
    using expired_jobs_mem [of wj now None d] rows(2) by (auto simp: lease_expired_def)
  moreover have "get_job_row (cj_id wj) d1 = Some wj"
    by (rule rows_from_get) (use d1 rows in \<open>simp_all add: db_ok_def\<close>)
  moreover have "expired_jobs now None d1 = expired_jobs now None d"
    using expired_jobs_rival [of now None now "Some ra" d] r by simp
  ultimately have "get_job_row (cj_id wj) ?w = Some wj"
    using reconcile_row [OF reconcile_eq [of now None] d1, of "cj_id wj" wj] by simp
  then have in_w: "wj \<in> set (crawl_jobs ?w)" by (rule get_row_mem)
  have "fresh_ids ?w" using assms(2) by (simp add: fresh_ids_def expire_all_ids expire_all_frame)
  note fresh = next_job_id_fresh [OF this]
  let ?j = "new_crawl_job now ?a t (ss_id source) (next_id T_crawl_job cj_id (crawl_jobs ?w) ?w)"
  have "crawl_job_violation ?j ?w = Some Uq_crawl_job_source_active"
    using fresh assms(8,9) in_w wj(2) rows(2)
    by (auto simp: crawl_job_violation_def new_crawl_job_def queued_job_args_def active_status_def
        intro!: bexI [of _ wj])
  then have "insert_crawl_job ?j ?w = Inl (IntegrityError Uq_crawl_job_source_active)"
    by (simp add: insert_crawl_job_def)
  moreover have "ss_code source \<noteq> []" using resolve_spider_code [OF assms(5)] assms(4) by simp
  ultimately have "create_job_in_session now ?a ?w = Inl (IntegrityError Uq_crawl_job_source_active)"
    using create_registered [of ?w source ?a t now] wd assms(4,9) by (simp add: queued_job_args_def)
  then show ?thesis
    using assms(5,6) r active wj(2) rows(2)
    by (simp add: create_crawl_job_eq Let_def queued_job_args_def creation_error_def
        resolve_integrity_error_def source_active_job_conflict_def)
qed

lemma race_for_source_has_one_winner_witness:
  "fst (create_crawl_job 5000 (Some sample_create) sample_source
      (queued_job_args sample_source (lit ''api'') (lit ''manual'') None [] (lit ''go'')) sample_finished) =
    Inl (SourceActiveCrawlJobConflictError (ss_code sample_source) 1 (Some 2) (Some Pending))"
proof -
  let ?c = "create_job 5000 sample_create sample_finished"
  obtain w where w: "fst ?c = Inr w" "cj_id w = 2" "cj_source_site_id w = 1"
    by (rule that [of "snapshot (crawl_jobs (snd ?c) ! 1)"]) code_simp+
  then have c: "?c = (Inr w, snd ?c)" by (simp add: prod_eq_iff)
  have "fresh_ids (snd ?c)" "sample_source \<in> set (source_sites (snd ?c))"
    "active_job_for_source (ss_id sample_source) sample_finished = None"
    by code_simp+
  then show ?thesis
    using race_for_source_has_one_winner
      [OF sample_ok(3) _ sample_source_ok(1,3) _ _ c, of Manual] sample_source_ok(4,5) w(2,3)
    by fastforce
qed

section \<open>Queueing and retrying\<close>

context crawl_job_dispatcher begin

lemma enqueue_steps:
  assumes "ee_dispatch env = dispatch"
  shows "job_step\<^sup>*\<^sup>* d (snd (enqueue_crawl env source who jt rt args d))"
  using create_crawl_job_steps [of d "ee_now env" "ee_rival env" source
      "queued_job_args source who jt rt args (queued_job_message jt args)"]
  by (auto simp: enqueue_crawl_def assms split: prod.splits sum.splits
      intro: rtranclp_trans [OF _ dispatch_steps])

lemma queue_steps:
  assumes "ee_dispatch env = dispatch"
  shows "job_step\<^sup>*\<^sup>* d (snd (queue_manual_crawl env source mp who d))"
    "job_step\<^sup>*\<^sup>* d (snd (queue_backfill_crawl env source y mp who d))"
    "job_step\<^sup>*\<^sup>* d (snd (queue_retry_crawl env source k mp by who d))"
    "job_step\<^sup>*\<^sup>* d (snd (queue_retry_crawl_for_job env k mp who d))"
  using enqueue_steps [OF assms]
  by (auto simp: queue_manual_crawl_def queue_backfill_crawl_def queue_retry_crawl_def
      queue_retry_crawl_for_job_def Let_def split: sum.split option.split)

end

lemma create_crawl_job_Inr:
  assumes "create_crawl_job now rival source a d = (Inr s, d')"
  shows "\<exists>j. get_job_row (cj_id s) d' = Some j \<and> s = snapshot j \<and> cj_status j = Pending \<and>
    cj_retry_of_job_id j = ca_retry_of_job_id a"
proof -
  let ?w = "expire_all now (expired_jobs now None d) (rival_commit now rival d)"
  obtain job where job: "create_job_in_session now a ?w = Inr (job, d')" "get_job (cj_id job) d' = Some s"
    using assms by (auto simp: create_crawl_job_eq Let_def split: sum.splits option.splits prod.splits)
  then obtain d0 where d0: "insert_crawl_job job d0 = Inr d'" "cj_status job = Pending"
      "cj_retry_of_job_id job = ca_retry_of_job_id a"
    by (auto simp: create_job_in_session_def Let_def new_crawl_job_def
        split: sum.splits prod.splits option.splits if_splits)
  have "get_job_row (cj_id job) d' = Some job" using insert_crawl_job_new(2) [OF d0(1)] .
  then show ?thesis using job(2) d0 by (auto simp: get_job_def)
qed

text \<open>
C12. A job is retried at most once: after queue_retry_crawl_for_job has returned a retry job for it,
every later call for the same job, after any other activity of the system, raises the retry conflict
with that retry job's id and changes nothing.\<close>

theorem job_is_retried_at_most_once:
  assumes "db_ok d" "queue_retry_crawl_for_job env k mp who d = (Inr s, d1)"
    "ee_dispatch env = subprocess_dispatch lenv" "job_step\<^sup>*\<^sup>* d1 d2"
  shows "queue_retry_crawl_for_job env' k mp' who' d2 =
    (Inl (CrawlJobRetryConflictError k (Some (cj_id s))), d2)"
proof -
  obtain j where j: "get_job_row k d = Some j" "cj_status j = Failed \<or> cj_status j = Partial"
      "cj_retry_of_job_id j = None"
    using assms(2)
    by (auto simp: queue_retry_crawl_for_job_def split: option.splits if_splits)
  then have kj: "cj_id j = k" by (auto dest: get_row_key)
  have steps1: "job_step\<^sup>*\<^sup>* d d1"
    using worker.queue_steps(4) [OF assms(3), of d k mp who] assms(2) by simp
  obtain source args where enq: "enqueue_crawl env source who (lit ''manual_retry'') (Some k) args d = (Inr s, d1)"
    using assms(2) j kj
    by (auto simp: queue_retry_crawl_for_job_def Let_def split: option.splits if_splits sum.splits)
  then obtain d0 r where c: "create_crawl_job (ee_now env) (ee_rival env) source
        (queued_job_args source who (lit ''manual_retry'') (Some k) args
          (queued_job_message (lit ''manual_retry'') args)) d = (Inr s, d0)"
      and d1: "d1 = snd (ee_dispatch env r d0)"
    by (auto simp: enqueue_crawl_def split: prod.splits sum.splits)
  from create_crawl_job_Inr [OF c] obtain rj where rj: "get_job_row (cj_id s) d0 = Some rj"
      "cj_retry_of_job_id rj = Some k" by (auto simp: queued_job_args_def)
  have d0: "db_ok d0" using job_system.steps_inv [OF create_crawl_job_steps assms(1)] c by (metis snd_conv)
  have steps2: "job_step\<^sup>*\<^sup>* d0 d2"
    using worker.dispatch_steps [of d0 lenv r] assms(3,4) d1 by simp
  have d2: "db_ok d2" using job_system.steps_inv [OF steps2 d0] .
  obtain rj' where rj': "get_job_row (cj_id s) d2 = Some rj'" "cj_retry_of_job_id rj' = Some k"
    using job_system.steps_stable [OF steps2 d0 rj(1), of "\<lambda>j. cj_retry_of_job_id j = Some k"] rj(2)
    by (auto simp: job_le_def)
  obtain j2 where j2: "get_job_row k d2 = Some j2" "job_le j j2"
    using job_system.steps_row [OF _ assms(1) j(1), of d2] steps1 assms(4) by (metis rtranclp_trans)
  then have "cj_status j2 = Failed \<or> cj_status j2 = Partial" "cj_retry_of_job_id j2 = None" "cj_id j2 = k"
    using j kj by (auto simp: job_le_def)
  moreover obtain src where "get_row ss_id (cj_source_site_id j2) (source_sites d2) = Some src"
    using d2 get_row_mem [OF j2(1)] get_row_None_iff [of ss_id "cj_source_site_id j2" "source_sites d2"]
    by (cases "get_row ss_id (cj_source_site_id j2) (source_sites d2)") (auto simp: db_ok_def refs_ok_def)
  moreover have "retry_job_for_original_job k d2 = Some rj'"
    using retry_job_unique [OF d2 get_row_mem [OF rj'(1)] rj'(2)] .
  moreover have "cj_id rj' = cj_id s" using rj'(1) by (rule get_row_key)
  ultimately show ?thesis
    using j2(1) by (auto simp: queue_retry_crawl_for_job_def retry_conflict_def)
qed

definition sample_failed :: db where
  "sample_failed = snd (fail_job_if_active 3000 sample_finish 1 sample_running)"

lemma sample_failed_ok: "db_ok sample_failed"
  unfolding sample_failed_def using job_system.steps_inv [OF public_steps(7) sample_ok(2)] .

definition sample_enqueue :: enqueue_env where
  "sample_enqueue = \<lparr>ee_now = 4000, ee_rival = None, ee_dispatch = subprocess_dispatch sample_env\<rparr>"

lemma job_is_retried_at_most_once_witness:
  "let d1 = snd (queue_retry_crawl_for_job sample_enqueue 1 (Some 5) (lit ''admin'') sample_failed)
   in queue_retry_crawl_for_job sample_enqueue 1 None (lit ''api'') d1 =
     (Inl (CrawlJobRetryConflictError 1 (Some 2)), d1)"
proof -
  let ?q = "queue_retry_crawl_for_job sample_enqueue 1 (Some 5) (lit ''admin'') sample_failed"
  have "(case fst ?q of Inl e \<Rightarrow> False | Inr s \<Rightarrow> cj_id s = 2)" by code_simp
  then obtain s where s: "fst ?q = Inr s" "cj_id s = 2" by (auto split: sum.splits)
  then have q: "?q = (Inr s, snd ?q)" by (simp add: prod_eq_iff)
  have "ee_dispatch sample_enqueue = subprocess_dispatch sample_env" by (simp add: sample_enqueue_def)
  from job_is_retried_at_most_once [OF sample_failed_ok q this] s(2) show ?thesis
    by (auto simp: Let_def)
qed



end
