(* ===== verification/ExecuteFacts.thy ===== *)
theory ExecuteFacts
  imports Execute TriggerFacts
begin

text \<open>
  What running a job and the worker process guarantee, for any runner that changes the crawl jobs
  only through the job service (locale \<open>crawl_command_runner\<close>, the Protocol CrawlCommandRunner).
\<close>

section \<open>The contract of a runner\<close>

locale crawl_command_runner =
  fixes run :: "ustr list \<Rightarrow> db \<Rightarrow> int result \<times> db"
  assumes run_steps: "job_step\<^sup>*\<^sup>* d (snd (run command d))"
begin

lemma run_ok: "db_ok d \<Longrightarrow> db_ok (snd (run command d))"
  using job_system.steps_inv run_steps by blast

text \<open>A job that was started is still there afterwards, and not pending.\<close>

lemma run_started:
  assumes "db_ok d" "get_job_row k d = Some j" "cj_status j \<noteq> Pending" "run command d = (r, d')"
  shows "\<exists>j'. get_job_row k d' = Some j' \<and> cj_status j' \<noteq> Pending"
proof -
  have "job_step\<^sup>*\<^sup>* d d'" using run_steps [of d command] assms(4) by simp
  moreover have "cj_status b \<noteq> Pending" if "job_le a b" "cj_status a \<noteq> Pending" for a b
    using that by (cases "cj_status a") (auto simp: job_le_def)
  ultimately show ?thesis
    using job_system.steps_stable [of d d' k j "\<lambda>j. cj_status j \<noteq> Pending"] assms(1-3) by blast
qed

end

lemma apply_write_steps: "job_step\<^sup>*\<^sup>* d (apply_write k w d)"
  by (cases w) (auto simp: public_steps intro!: r_into_rtranclp step_other)

lemma fold_steps:
  "(\<And>x d. job_step\<^sup>*\<^sup>* d (f x d)) \<Longrightarrow> job_step\<^sup>*\<^sup>* d (fold f xs d)"
  by (induction xs arbitrary: d) (auto intro: rtranclp_trans)

lemma wait_process_steps: "job_step\<^sup>*\<^sup>* d (wait_process k ticks d)"
proof (induction k ticks d rule: wait_process.induct)
  case (2 k writes t ticks d)
  have "job_step\<^sup>*\<^sup>* d (fold (apply_write k) writes d)" by (rule fold_steps) (rule apply_write_steps)
  then show ?case using 2 public_steps(4) by (metis (no_types, lifting) rtranclp_trans wait_process.simps(2))
qed simp

interpretation subprocess: crawl_command_runner "subprocess_runner k p" for k p
proof unfold_locales
  show "job_step\<^sup>*\<^sup>* d (snd (subprocess_runner k p command d))" for d command
    using rtranclp_trans [OF wait_process_steps [of d k "sp_ticks p"]
        fold_steps [of "apply_write k", OF apply_write_steps]]
    by (auto simp: subprocess_runner_def split: sum.split option.split)
qed

section \<open>Finishing a job that is no longer pending\<close>

lemma finish_status_cases:
  assumes "get_job_row k d = Some j" "cj_status j \<noteq> Pending" "fa_status a = Some (status_text st)"
    "final_status st"
  shows "\<exists>j'. get_job_row k (snd (finish_job now a k d)) = Some j' \<and> final_status (cj_status j') \<and>
    (case fst (finish_job now a k d) of
       Inl e \<Rightarrow> snd (finish_job now a k d) = d \<and> cj_status j \<noteq> st
     | Inr s \<Rightarrow> s = Some (snapshot j') \<and> cj_status j' = st)"
proof -
  have st: "status_text st \<noteq> []" by (cases st) auto
  show ?thesis
  proof (cases "st \<in> set (allowed_transitions (cj_status j))")
    case True
    then have "finish_job now a k d =
        (let t = case fa_finished_at a of None \<Rightarrow> now | Some t \<Rightarrow> t
         in (Inr (Some (snapshot (finish_row t st a j))), update_job k (finish_row t st a) d))"
      using assms st by (simp add: finish_job_def transact_def finish_job_in_session_def
          ensure_transition_def Let_def)
    then show ?thesis
      using assms(1,4) by (simp add: Let_def get_job_row_update del: update_job_simps(1))
  next
    case False
    then have "\<exists>m. finish_job now a k d = (Inl (ValueError m), d)" "cj_status j \<noteq> st"
      using assms st
      by (auto simp: finish_job_def transact_def finish_job_in_session_def ensure_transition_def)
        (cases "cj_status j"; auto simp: final_status_def)+
    moreover have "final_status (cj_status j)"
      using False assms(2,4) by (cases st; cases "cj_status j") (auto simp: final_status_def)
    ultimately show ?thesis using assms(1) by auto
  qed
qed

lemma infer_final_status_final: "final_status (infer_final_status s reason code)"
  by (simp add: infer_final_status_def final_status_def)

lemma build_spider_command_Inl:
  assumes "build_spider_command python url spider k args = Inl e"
  shows "\<exists>m. e = ValueError m"
proof -
  have fragment: "validate_subprocess_fragment v l = Inl e \<Longrightarrow> \<exists>m. e = ValueError m" for v l
    by (auto simp: validate_subprocess_fragment_def Let_def split: if_splits)
  have "validate_spider_args as = Inl e \<Longrightarrow> \<exists>m. e = ValueError m" for as
    unfolding validate_spider_args_def
    by (induction as)
      (auto simp: validate_spider_arg_def and_then_def split: sum.splits if_splits dest: fragment)
  then show ?thesis
    using assms
    by (auto simp: build_spider_command_def and_then_def validate_spider_name_def
        validate_database_url_def split: sum.splits if_splits dest: fragment)
qed

context crawl_command_runner begin

text \<open>After the launch of the spider the job is finished, unless the command could not be built.\<close>

lemma run_started_job_settles:
  assumes "db_ok d1" "get_job_row k d1 = Some j" "cj_status j = Running" "re_runner env = run"
    "run_started_job env source k jt spider args job d1 = (r, d3)"
  shows "\<exists>j'. get_job_row k d3 = Some j' \<and>
    (final_status (cj_status j') \<or> (\<exists>e. r = Inl (ValueError e) \<and> d3 = d1))"
proof (cases "build_spider_command (re_python env) (re_database_url env) spider k args")
  case (Inl e)
  then have "\<exists>m. e = ValueError m" by (rule build_spider_command_Inl)
  then show ?thesis using Inl assms by (auto simp: run_started_job_def)
next
  case (Inr command)
  obtain rr d2 where run: "run command d1 = (rr, d2)" by (cases "run command d1")
  obtain j2 where j2: "get_job_row k d2 = Some j2" "cj_status j2 \<noteq> Pending"
    using run_started [OF assms(1,2) _ run] assms(3) by auto
  show ?thesis
  proof (cases rr)
    case (Inl exc)
    let ?a = "runner_error_args source jt spider job args (re_exc_text env exc)"
    have "fa_status ?a = Some (status_text Failed)" by (simp add: runner_error_args_def)
    note fin = finish_status_cases [OF j2 this, of "re_finished_at env"]
    show ?thesis
      using fin assms(4,5) Inr run Inl
      by (auto simp: run_started_job_def final_status_def split: prod.splits sum.splits option.splits)
  next
    case (Inr code)
    let ?s = "snapshot j2"
    let ?a = "final_args source jt spider job args k code ?s d2"
    obtain st where st: "fa_status ?a = Some (status_text st)" "final_status st"
      by (auto simp: final_args_def Let_def infer_final_status_final)
    note fin = finish_status_cases [OF j2 st, of "re_finished_at env"]
    show ?thesis
      using fin assms(4,5) \<open>build_spider_command _ _ _ _ _ = Inr command\<close> run Inr j2(1)
      by (auto simp: run_started_job_def get_job_def split: prod.splits sum.splits option.splits)
  qed
qed

end

section \<open>Executing\<close>

lemma start_pending:
  assumes "get_job_row k d = Some j" "cj_status j = Pending"
  shows "(\<exists>e. start_job_in_session now a k d = Inl e \<and> (\<forall>x y. e \<noteq> CrawlJobStartConflictError x y)) \<or>
    (\<exists>j1 d1. start_job_in_session now a k d = Inr (Some j1, d1) \<and> get_job_row k d1 = Some j1 \<and>
       cj_status j1 = Running)"
  using assms
  by (auto simp: start_job_in_session_def calculate_lease_expires_at_def get_job_row_update
      start_row_def Let_def simp del: update_job_simps(1) split: option.splits if_splits)

context crawl_command_runner begin

lemma run_existing_settles:
  assumes "db_ok d" "get_job_row k d = Some j" "cj_status j = Pending" "re_runner env = run"
    "run_existing_crawl_job env source k jt args d = (r, d')"
  shows "\<exists>j'. get_job_row k d' = Some j' \<and>
    (final_status (cj_status j') \<or> (\<exists>e. r = Inl e \<and> (\<forall>x y. e \<noteq> CrawlJobStartConflictError x y)))"
proof (cases "resolve_spider_name_for_source source jt")
  case (Inl e)
  then have "\<exists>m. e = ValueError m"
    by (auto simp: resolve_spider_name_for_source_def split: option.splits if_splits)
  then show ?thesis using Inl assms by (auto simp: run_existing_crawl_job_def)
next
  case (Inr spider)
  show ?thesis
  proof (cases "cj_source_site_id j = ss_id source \<and> job_type_text (cj_job_type j) = jt")
    case False
    then show ?thesis
      using assms Inr by (cases "cj_source_site_id j = ss_id source") (auto simp: run_existing_crawl_job_def)
  next
    case True
    consider (err) e where "start_job_in_session (re_started_at env) (start_args source jt spider j args) k d = Inl e"
        "\<forall>x y. e \<noteq> CrawlJobStartConflictError x y"
      | (ok) j1 d1 where
        "start_job_in_session (re_started_at env) (start_args source jt spider j args) k d = Inr (Some j1, d1)"
        "get_job_row k d1 = Some j1" "cj_status j1 = Running"
      using start_pending [OF assms(2,3)] by blast
    then show ?thesis
    proof cases
      case err
      then show ?thesis using assms True Inr by (auto simp: run_existing_crawl_job_def)
    next
      case ok
      have "db_ok d1" using job_step_ok [OF step_start [OF ok(1)] assms(1)] .
      moreover have "run_started_job env source k jt spider args j1 d1 = (r, d')"
        using assms True Inr ok(1) by (simp add: run_existing_crawl_job_def)
      ultimately show ?thesis
        using run_started_job_settles [OF _ ok(2,3) assms(4)] by blast
    qed
  qed
qed

lemma execute_settles:
  assumes "db_ok d" "get_job_row k d = Some j" "cj_status j = Pending" "re_runner env = run"
    "execute_crawl_job env source k jt mp by d = (r, d')"
  shows "\<exists>j'. get_job_row k d' = Some j' \<and>
    (final_status (cj_status j') \<or> (\<exists>e. r = Inl e \<and> (\<forall>x y. e \<noteq> CrawlJobStartConflictError x y)))"
proof (cases "build_spider_args mp by jt")
  case (Inl e)
  then have "\<exists>m. e = ValueError m"
    by (auto simp: build_spider_args_def and_then_def require_def split: if_splits)
  then show ?thesis using Inl assms by (auto simp: execute_crawl_job_def)
next
  case (Inr args)
  then show ?thesis using run_existing_settles [OF assms(1-4)] assms(5) by (simp add: execute_crawl_job_def)
qed

lemma worker_settles:
  assumes "db_ok d" "get_job_row (wa_crawl_job_id w) d = Some j" "cj_status j = Pending"
    "re_runner env = run" "worker_main env w d = (r, d')"
  shows "\<exists>j' code. get_job_row (wa_crawl_job_id w) d' = Some j' \<and> final_status (cj_status j') \<and>
    r = Inr code \<and> (code = 0 \<or> code = 1)"
proof -
  let ?k = "wa_crawl_job_id w"
  have give_up: "\<exists>s j'. fst (fail_job_if_active now a ?k d1) = Inr s \<and>
      get_job_row ?k (snd (fail_job_if_active now a ?k d1)) = Some j' \<and> final_status (cj_status j')"
    if "get_job_row ?k d1 = Some j1" for now a d1 j1
  proof (cases "final_status (cj_status j1)")
    case True
    then show ?thesis
      using that by (simp add: fail_job_if_active_def transact_def fail_job_if_active_in_session_def)
  next
    case False
    then show ?thesis
      using fail_active_eq [OF that False, of a now] that
      by (auto simp: get_job_row_update final_status_def simp del: update_job_simps(1))
  qed
  show ?thesis
  proof (cases "find_source (wa_source_code w) d")
    case None
    then show ?thesis
      using assms(5) give_up [OF assms(2)]
      by (auto simp: worker_main_def Let_def split: prod.splits sum.splits) (metis fst_conv snd_conv sum.distinct(1))+
  next
    case (Some source)
    obtain re d1 where ex: "execute_crawl_job env source ?k (wa_job_type w) (wa_max_pages w) (wa_backfill_year w) d = (re, d1)"
      by (cases "execute_crawl_job env source ?k (wa_job_type w) (wa_max_pages w) (wa_backfill_year w) d")
    from execute_settles [OF assms(1-4) ex] obtain j1 where j1: "get_job_row ?k d1 = Some j1"
        "final_status (cj_status j1) \<or> (\<exists>e. re = Inl e \<and> (\<forall>x y. e \<noteq> CrawlJobStartConflictError x y))"
      by blast
    show ?thesis
    proof (cases re)
      case (Inr x)
      then show ?thesis using assms(5) Some ex j1 by (auto simp: worker_main_def)
    next
      case (Inl e)
      show ?thesis
      proof (cases "\<exists>x y. e = CrawlJobStartConflictError x y")
        case True
        then show ?thesis using assms(5) Some ex j1 Inl by (auto simp: worker_main_def)
      next
        case False
        then have "worker_main env w d =
            (case fail_job_if_active (re_finished_at env) (worker_error_args w
                (case get_job ?k d of None \<Rightarrow> None | Some s \<Rightarrow> cj_triggered_by s)
                (zh_worker_failed @ re_exc_text env e)) ?k d1 of
               (Inl e, d2) \<Rightarrow> (Inl e, d2) | (Inr _, d2) \<Rightarrow> (Inr 1, d2))"
          using Some ex Inl by (cases e) (auto simp: worker_main_def Let_def)
        then show ?thesis
          using assms(5) give_up [OF j1(1)]
          by (auto split: prod.splits sum.splits) (metis fst_conv snd_conv sum.distinct(1))+
      qed
    qed
  qed
qed

end

text \<open>
C14. A worker never leaves its job behind: started for a pending job, with the program's own process
runner, the worker returns the exit code 0 or 1 and the job is finished (succeeded, failed or
partial), whatever the spider stored, whichever step failed, and also when the source is gone or the
clock is at the end of time.\<close>

theorem worker_finishes_its_job:
  assumes "db_ok d" "get_job_row (wa_crawl_job_id w) d = Some j" "cj_status j = Pending"
    "re_runner env = subprocess_runner (wa_crawl_job_id w) p" "worker_main env w d = (r, d')"
  shows "\<exists>j' code. get_job_row (wa_crawl_job_id w) d' = Some j' \<and> final_status (cj_status j') \<and>
    r = Inr code \<and> (code = 0 \<or> code = 1)"
  using assms by (rule subprocess.worker_settles)

definition sample_run :: run_env where
  "sample_run = \<lparr>re_started_at = 2000, re_finished_at = 3000, re_python = lit ''/usr/bin/python'',
     re_database_url = lit ''sqlite:///x.db'', re_runner = subprocess_runner 1
       \<lparr>sp_ticks = [([Write_stats (zero_counters\<lparr>list_items_seen := 4\<rparr>)], 2500)],
        sp_last_writes = [], sp_exit_code = 0, sp_popen_error = None\<rparr>,
     re_exc_text = (\<lambda>_. [])\<rparr>"

definition sample_worker :: worker_args where
  "sample_worker = \<lparr>wa_source_code = lit ''ggzy_gov_cn_deal'', wa_crawl_job_id = 1,
     wa_job_type = lit ''manual'', wa_max_pages = Some 2, wa_backfill_year = None\<rparr>"

lemma worker_finishes_its_job_witness:
  "\<exists>j'. get_job_row 1 (snd (worker_main sample_run sample_worker sample_queued)) = Some j' \<and>
     final_status (cj_status j')"
proof -
  obtain j where j: "get_job_row 1 sample_queued = Some j" "cj_status j = Pending"
    by (rule that [of "hd (crawl_jobs sample_queued)"]) code_simp+
  have k: "wa_crawl_job_id sample_worker = 1" by (simp add: sample_worker_def)
  have "re_runner sample_run = subprocess_runner (wa_crawl_job_id sample_worker)
       \<lparr>sp_ticks = [([Write_stats (zero_counters\<lparr>list_items_seen := 4\<rparr>)], 2500)],
        sp_last_writes = [], sp_exit_code = 0, sp_popen_error = None\<rparr>"
    by (simp add: sample_run_def k)
  from worker_finishes_its_job [OF sample_ok(1) _ j(2) this prod.collapse [symmetric]] j(1) k
  show ?thesis by auto
qed

section \<open>The reported outcome\<close>

text \<open>
C15. The outcome of an execution that returns is the stored one and follows from the spider: a
non-zero exit code means failed; succeeded is reported only for exit code 0 without counted errors;
partial only for exit code 0 with counted errors.\<close>

theorem execution_outcome_follows_spider:
  assumes "execute_crawl_job env source k jt mp by d = (Inr (s, command, code), d')"
  shows "get_job k d' = Some s \<and> final_status (cj_status s) \<and>
    (code = 0 \<or> cj_status s = Failed) \<and>
    (cj_status s \<noteq> Succeeded \<or> code = 0 \<and> error_count (cj_counters s) \<le> 0) \<and>
    (cj_status s \<noteq> Partial \<or> code = 0 \<and> error_count (cj_counters s) > 0)"
proof -
  obtain spider args j1 d1 where run: "run_started_job env source k jt spider args j1 d1 = (Inr (s, command, code), d')"
    using assms
    by (auto simp: execute_crawl_job_def run_existing_crawl_job_def
        split: sum.splits option.splits prod.splits if_splits)
  then obtain d2 s2 where d2: "get_job k d2 = Some s2"
      and fin: "finish_job (re_finished_at env) (final_args source jt spider j1 args k code s2 d2) k d2 = (Inr (Some s), d')"
    by (auto simp: run_started_job_def split: sum.splits option.splits prod.splits)
  let ?a = "final_args source jt spider j1 args k code s2 d2"
  obtain j2 where j2: "get_job_row k d2 = Some j2" "s2 = snapshot j2" using d2 by (auto simp: get_job_def)
  obtain reason where st: "fa_status ?a = Some (status_text (infer_final_status s2 reason code))"
    by (auto simp: final_args_def Let_def)
  have "status_text (infer_final_status s2 reason code) \<noteq> []"
    by (cases "infer_final_status s2 reason code") auto
  with st have ne: "fa_status ?a \<noteq> None" "fa_status ?a \<noteq> Some []" by simp_all
  obtain t where row: "s = snapshot (finish_row t (infer_final_status s2 reason code) ?a j2)"
      "d' = update_job k (finish_row t (infer_final_status s2 reason code) ?a) d2"
    using fin j2(1) st ne
    by (auto simp: finish_job_def transact_Some finish_job_in_session_def Let_def
        split: option.splits sum.splits if_splits)
  have "cj_counters s = cj_counters s2" using row(1) j2(2) by (simp add: finish_row_def Let_def)
  moreover have "cj_status s = infer_final_status s2 reason code" using row(1) by simp
  moreover have "get_job k d' = Some s" using row j2(1) by (simp add: get_job_update)
  ultimately show ?thesis by (auto simp: infer_final_status_def final_status_def)
qed

lemma execution_outcome_follows_spider_witness:
  "\<exists>s command d'. execute_crawl_job sample_run sample_source 1 (lit ''manual'') (Some 2) None sample_queued =
     (Inr (s, command, 0), d') \<and> get_job 1 d' = Some s"
proof -
  let ?e = "execute_crawl_job sample_run sample_source 1 (lit ''manual'') (Some 2) None sample_queued"
  have "(case fst ?e of Inl _ \<Rightarrow> False | Inr (s, command, code) \<Rightarrow> code = 0)" by code_simp
  then obtain s command where "fst ?e = Inr (s, command, 0)" by (auto split: sum.splits)
  then have e: "?e = (Inr (s, command, 0), snd ?e)" by (simp add: prod_eq_iff)
  from execution_outcome_follows_spider [OF this] e show ?thesis by blast
qed

section \<open>Dates seen on list pages\<close>

definition list_page_metas :: "int \<Rightarrow> db \<Rightarrow> payload list" where
  "list_page_metas k d = filter (\<lambda>m. py_lower (str_or_empty (dict_get m (lit ''role''))) = lit ''list'')
     (List.map_filter id (map rd_extra_meta (filter (\<lambda>r. rd_crawl_job_id r = Some k) (raw_documents d))))"

definition dates_seen :: "payload list \<Rightarrow> ustr list" where
  "dates_seen ms = List.map_filter id (concat (map list_page_dates ms))"

text \<open>The running maximum and minimum of the dates so far.\<close>

definition spans :: "ustr list \<Rightarrow> page_stats \<Rightarrow> bool" where
  "spans ds s \<longleftrightarrow>
     (case (ps_first s, ps_last s) of
        (None, None) \<Rightarrow> ds = []
      | (Some x, Some y) \<Rightarrow> x \<in> set ds \<and> y \<in> set ds \<and> list_all (\<lambda>z. y \<le> z \<and> z \<le> x) ds
      | _ \<Rightarrow> False)"

lemma spans_see_date:
  "spans ds s \<Longrightarrow> spans (ds @ (case v of None \<Rightarrow> [] | Some x \<Rightarrow> [x])) (see_date v s)"
  by (cases "ps_first s"; cases "ps_last s")
    (auto simp: spans_def see_date_def list_all_iff split: option.splits)

lemma spans_fold_dates:
  "spans ds s \<Longrightarrow> spans (ds @ List.map_filter id vs) (fold see_date vs s)"
proof (induction vs arbitrary: ds s)
  case (Cons v vs)
  show ?case
    using Cons.IH [OF spans_see_date [OF Cons.prems, of v]]
    by (cases v) (simp_all add: map_filter_simps)
qed (simp add: map_filter_simps)

lemma see_date_pages [simp]: "ps_pages (fold see_date vs s) = ps_pages s"
  by (induction vs arbitrary: s) (auto simp: see_date_def split: option.split)

lemma map_filter_append: "List.map_filter f (xs @ ys) = List.map_filter f xs @ List.map_filter f ys"
  by (simp add: List.map_filter_def)

lemma see_meta_spans:
  "spans ds s \<Longrightarrow>
   (let ms = filter (\<lambda>m. py_lower (str_or_empty (dict_get m (lit ''role''))) = lit ''list'')
               (List.map_filter id metas);
        s' = fold see_meta metas s
    in spans (ds @ dates_seen ms) s' \<and> ps_pages s' = ps_pages s + int (length ms))"
proof (induction metas arbitrary: ds s)
  case (Cons m metas)
  show ?case
  proof (cases "\<exists>x. m = Some x \<and> py_lower (str_or_empty (dict_get x (lit ''role''))) = lit ''list''")
    case True
    then obtain x where m: "m = Some x" "py_lower (str_or_empty (dict_get x (lit ''role''))) = lit ''list''" by blast
    let ?s = "fold see_date (list_page_dates x) (s\<lparr>ps_pages := ps_pages s + 1\<rparr>)"
    have "spans ds (s\<lparr>ps_pages := ps_pages s + 1\<rparr>)" using Cons.prems by (simp add: spans_def)
    from Cons.IH [OF spans_fold_dates [OF this, of "list_page_dates x"]]
    show ?thesis using m by (simp add: see_meta_def Let_def dates_seen_def map_filter_simps map_filter_append)
  next
    case False
    then show ?thesis
      using Cons.IH [OF Cons.prems] by (cases m) (auto simp: see_meta_def Let_def map_filter_simps)
  qed
qed (simp add: map_filter_simps dates_seen_def)

text \<open>
The page statistics of a finished job are those of its list pages: as many pages as stored list
documents, and of the dates on them the first is the latest and the last is the earliest (list pages
run from the newest notice to the oldest).\<close>

theorem page_stats_span_the_dates:
  "let ps = collect_list_page_stats k d; ds = dates_seen (list_page_metas k d)
   in ps_pages ps = int (length (list_page_metas k d)) \<and>
      (case (ps_first ps, ps_last ps) of
         (None, None) \<Rightarrow> ds = []
       | (Some newest, Some oldest) \<Rightarrow>
           newest \<in> set ds \<and> oldest \<in> set ds \<and> list_all (\<lambda>t. oldest \<le> t \<and> t \<le> newest) ds
       | _ \<Rightarrow> False)"
  using see_meta_spans [of "[]" "\<lparr>ps_pages = 0, ps_first = None, ps_last = None\<rparr>"
      "map rd_extra_meta (filter (\<lambda>r. rd_crawl_job_id r = Some k) (raw_documents d))"]
  by (simp add: collect_list_page_stats_def list_page_metas_def Let_def) (simp add: spans_def)

lemma normalize_iso_date_length: "normalize_iso_date v = Some t \<Longrightarrow> length t = 10"
  by (cases v) (auto simp: normalize_iso_date_def Let_def min_def split: if_splits)

lemma dates_seen_nonempty:
  assumes "t \<in> set (dates_seen ms)"
  shows "t \<noteq> []"
proof -
  obtain m where "Some t \<in> set (list_page_dates m)"
    using assms by (auto simp: dates_seen_def List.map_filter_def)
  then obtain v where "normalize_iso_date v = Some t"
    unfolding list_page_dates_def set_map image_iff by metis
  then show ?thesis by (auto dest: normalize_iso_date_length)
qed

text \<open>
The summary of a finished job labels its dates the wrong way round: the text after the label
"earliest publication date" is the latest date seen on the list pages and the text after "latest
publication date" is the earliest.\<close>

lemma summary_swaps_earliest_and_latest:
  assumes "ps = collect_list_page_stats k d" "ps_first ps = Some x" "ps_last ps = Some y"
  shows "contains (zh_earliest_date @ x) (job_summary_message st jt s ps code reason) \<and>
    contains (zh_latest_date @ y) (job_summary_message st jt s ps code reason) \<and> y \<le> x \<and>
    list_all (\<lambda>t. y \<le> t \<and> t \<le> x) (dates_seen (list_page_metas k d))"
proof -
  have span: "x \<in> set (dates_seen (list_page_metas k d))" "y \<in> set (dates_seen (list_page_metas k d))"
      "list_all (\<lambda>t. y \<le> t \<and> t \<le> x) (dates_seen (list_page_metas k d))"
    using see_meta_spans [of "[]" "\<lparr>ps_pages = 0, ps_first = None, ps_last = None\<rparr>"
        "map rd_extra_meta (filter (\<lambda>r. rd_crawl_job_id r = Some k) (raw_documents d))"] assms
    by (auto simp: collect_list_page_stats_def list_page_metas_def Let_def spans_def)
  then have ne: "x \<noteq> []" "y \<noteq> []" using dates_seen_nonempty by blast+
  have "y \<le> x" using span by (simp add: list_all_iff)
  moreover have "contains (zh_earliest_date @ x) (job_summary_message st jt s ps code reason)"
    unfolding job_summary_message_def Let_def using ne(1) assms(2) by (intro contains_join) simp
  moreover have "contains (zh_latest_date @ y) (job_summary_message st jt s ps code reason)"
    unfolding job_summary_message_def Let_def using ne(2) assms(3) by (intro contains_join) simp
  ultimately show ?thesis using span(3) by blast
qed

lemma summary_swaps_earliest_and_latest_witness:
  "let m = (\<lambda>newest oldest. Some [(lit ''role'', VStr (lit ''list'')),
         (lit ''list_page_publish_date_max'', VStr newest), (lit ''list_page_publish_date_min'', VStr oldest)]);
       row = (\<lambda>meta. \<lparr>rd_id = 1, rd_source_site_id = 1, rd_crawl_job_id = Some 1, rd_url = [],
         rd_normalized_url = [], rd_url_hash = [], rd_content_hash = None, rd_source_duplicate_key = None,
         rd_source_list_item_fingerprint = None, rd_document_type = [], rd_http_status = None,
         rd_mime_type = None, rd_charset = None, rd_title = None, rd_fetched_at = 0, rd_storage_uri = [],
         rd_content_length = None, rd_is_duplicate_url = False, rd_is_duplicate_content = False,
         rd_extra_meta = meta\<rparr>);
       ps = collect_list_page_stats 1 (empty_db Sqlite\<lparr>raw_documents :=
         [row (m (lit ''2024-03-09'') (lit ''2024-03-01''))]\<rparr>)
   in contains (zh_earliest_date @ lit ''2024-03-09'')
        (job_summary_message (lit ''succeeded'') (lit ''manual'') (snapshot (hd (crawl_jobs sample_running))) ps 0 [])"
  unfolding Let_def
  by (rule conjunct1 [OF summary_swaps_earliest_and_latest [OF refl, where y = "lit ''2024-03-01''"]])
    code_simp+

end
