(* ===== verification/RunScriptFacts.thy ===== *)
theory RunScriptFacts
  imports RunScript ExecuteFacts
begin

text \<open>
  The command line script beside the worker: its exit code tells what became of the job, its process only changes the
  database through the job service, and it sends no heartbeat while the spider runs.
\<close>

section \<open>The run of the spider\<close>

lemma happen_steps: "job_step\<^sup>*\<^sup>* d (happen k e d)"
  by (cases e) (simp_all add: apply_write_steps public_steps)

interpretation script: crawl_command_runner "script_spider k events code" for k events code
proof unfold_locales
  show "job_step\<^sup>*\<^sup>* d (snd (script_spider k events code command d))" for d command
    using fold_steps [of "happen k", OF happen_steps] by (simp add: script_spider_def)
qed

text \<open>While it runs, a job keeps the timeout of its start, or it has been given up.\<close>

definition left_alone :: "instant \<Rightarrow> crawl_job \<Rightarrow> bool" where
  "left_alone t j \<longleftrightarrow> cj_status j = Running \<and> resolve_timeout_at j = Some t"

definition given_up :: "crawl_job \<Rightarrow> bool" where
  "given_up j \<longleftrightarrow> cj_status j = Failed \<and> cj_failure_reason j = Some zh_heartbeat_timeout"

lemma apply_write_row:
  assumes "get_job_row k d = Some j"
  obtains j' where "get_job_row k (apply_write l w d) = Some j'" "cj_status j' = cj_status j"
    "resolve_timeout_at j' = resolve_timeout_at j" "cj_failure_reason j' = cj_failure_reason j"
proof (cases w)
  case (Write_stats c)
  have "\<exists>j'. get_job_row k (snd (record_stats l c d)) = Some j' \<and> (j' = j \<or> (\<exists>c. j' = count_row c j))"
    using assms
    by (auto simp: record_stats_def transact_def record_stats_in_session_def get_job_row_update
        simp del: update_job_simps(1) split: sum.split option.split)
  then show ?thesis
    using that Write_stats by (auto simp: count_row_def resolve_timeout_at_def)
qed (use that assms in \<open>auto simp: get_row_def\<close>)

lemma run_event_row:
  assumes "db_ok d" "get_job_row k d = Some j" "left_alone t j \<or> given_up j"
  shows "\<exists>j'. get_job_row k (happen l e d) = Some j' \<and> (left_alone t j' \<or> given_up j') \<and>
    (given_up j \<longrightarrow> given_up j') \<and> (\<forall>m. e = Sweep m \<and> t \<le> m \<longrightarrow> given_up j')"
proof (cases e)
  case (Spider_stores w)
  obtain j' where "get_job_row k (apply_write l w d) = Some j'" "cj_status j' = cj_status j"
    "resolve_timeout_at j' = resolve_timeout_at j" "cj_failure_reason j' = cj_failure_reason j"
    using apply_write_row [OF assms(2)] .
  then show ?thesis using assms(3) Spider_stores by (auto simp: left_alone_def given_up_def)
next
  case (Sweep m)
  have "get_job_row k (happen l e d) = Some (if lease_expired m j then expire_row m j else j)"
    using reconcile_all_row [OF assms(1), of k m] assms(2) Sweep by simp
  moreover have "lease_expired m j \<Longrightarrow> given_up (expire_row m j)"
    by (simp add: given_up_def expire_row_def lease_expired_def expired_failure_reason_def)
  moreover have "lease_expired m j \<or> given_up j" if "t \<le> m"
    using assms(3) that by (auto simp: left_alone_def lease_expired_def)
  moreover have "lease_expired m j \<Longrightarrow> \<not> given_up j" by (simp add: given_up_def lease_expired_def)
  ultimately show ?thesis using assms(3) Sweep by auto
qed

lemma run_events_row:
  assumes "db_ok d" "get_job_row k d = Some j" "left_alone t j \<or> given_up j"
  shows "\<exists>j'. get_job_row k (fold (happen l) es d) = Some j' \<and> (left_alone t j' \<or> given_up j') \<and>
    (given_up j \<longrightarrow> given_up j') \<and> (\<forall>m. Sweep m \<in> set es \<and> t \<le> m \<longrightarrow> given_up j')"
  using assms
proof (induction es arbitrary: d j)
  case (Cons e es)
  obtain j1 where j1: "get_job_row k (happen l e d) = Some j1" "left_alone t j1 \<or> given_up j1"
    "given_up j \<longrightarrow> given_up j1" "\<forall>m. e = Sweep m \<and> t \<le> m \<longrightarrow> given_up j1"
    using run_event_row [OF Cons.prems, of l e] by auto
  have "db_ok (happen l e d)" using job_system.steps_inv [OF happen_steps Cons.prems(1)] .
  from Cons.IH [OF this j1(1,2)] j1(3,4) show ?case by auto
qed simp

section \<open>The exit code\<close>

lemma finish_target:
  assumes "get_job_row k d = Some j" "final_status st"
    "(if fa_status a = None then st = infer_success_status j else fa_status a = Some (status_text st))"
  shows "if st \<in> set (allowed_transitions (cj_status j))
    then \<exists>t. finish_job now a k d = (Inr (Some (snapshot (finish_row t st a j))), update_job k (finish_row t st a) d)
    else \<exists>t. finish_job now a k d = (Inl (ValueError t), d)"
proof -
  have "status_text st \<noteq> []" by (cases st) auto
  then show ?thesis
    using assms
    by (auto simp: finish_job_def transact_def finish_job_in_session_def ensure_transition_def Let_def split: if_splits)
qed

lemma infer_success_final [simp]: "final_status (infer_success_status j)"
  by (simp add: infer_success_status_def final_status_def)

definition exit_status :: "crawl_job \<Rightarrow> int \<Rightarrow> job_status" where
  "exit_status j code = (if code = 0 then infer_success_status j else Failed)"

lemma exit_status_final [simp]: "final_status (exit_status j code)"
  by (simp add: exit_status_def final_status_def [of Failed])

lemma finalize_cases:
  assumes "get_job_row k d = Some j"
  shows "if exit_status j code \<in> set (allowed_transitions (cj_status j))
    then \<exists>j' d'. finalize_script env a p k code d = (Inr (script_exit_code a (exit_status j code) code), d') \<and>
      get_job_row k d' = Some j' \<and> cj_status j' = exit_status j code \<and> cj_failure_reason j' = cj_failure_reason j
    else \<exists>t. finalize_script env a p k code d = (Inl (ValueError t), d)"
proof -
  let ?st = "exit_status j code" and ?a = "exit_finish_args code"
  have args: "if fa_status ?a = None then ?st = infer_success_status j else fa_status ?a = Some (status_text ?st)"
    "fa_failure_reason ?a = Unset"
    by (simp_all add: exit_finish_args_def script_finish_args_def exit_status_def)
  note first = finish_target [OF assms exit_status_final args(1), of "se_finished_at env"]
  show ?thesis
  proof (cases "?st \<in> set (allowed_transitions (cj_status j))")
    case False
    then show ?thesis using first by (auto simp: finalize_script_def)
  next
    case True
    then obtain t where t: "finish_job (se_finished_at env) ?a k d =
        (Inr (Some (snapshot (finish_row t ?st ?a j))), update_job k (finish_row t ?st ?a) d)"
      using first by auto
    let ?j = "finish_row t ?st ?a j" and ?d = "update_job k (finish_row t ?st ?a) d"
    have row: "get_job_row k ?d = Some ?j"
      using assms by (simp add: get_job_row_update del: update_job_simps(1))
    have id: "cj_id ?j = k" using get_row_key [of cj_id] assms by simp
    have allowed: "?st \<in> set (allowed_transitions (cj_status ?j))"
      using exit_status_final [of j code] by (cases ?st) (simp_all add: final_status_def)
    define summary where "summary = script_summary a (sp_args_map p) (snapshot ?j) (script_page_stats k ?d)
      (script_failure_reason k (snapshot ?j) (ps_pages (script_page_stats k ?d)) code ?d)"
    define b where "b = script_finish_args (Some (status_text ?st)) summary"
    have b: "if fa_status b = None then ?st = infer_success_status ?j else fa_status b = Some (status_text ?st)"
      "fa_failure_reason b = Unset"
      by (simp_all add: b_def script_finish_args_def)
    obtain u where u: "finish_job (se_refreshed_at env) b k ?d =
        (Inr (Some (snapshot (finish_row u ?st b ?j))), update_job k (finish_row u ?st b) ?d)"
      using finish_target [OF row exit_status_final b(1), of "se_refreshed_at env"] allowed by auto
    have "finalize_script env a p k code d =
        (Inr (script_exit_code a ?st code), update_job k (finish_row u ?st b) ?d)"
      using t u id by (simp add: finalize_script_def Let_def b_def summary_def del: update_job_simps)
    moreover have "get_job_row k (update_job k (finish_row u ?st b) ?d) = Some (finish_row u ?st b ?j)"
      using assms by (simp add: get_job_row_update del: update_job_simps(1))
    ultimately show ?thesis using True args(2) b(2) by auto
  qed
qed

text \<open>A script that returns has settled its job, and its exit code says how.\<close>

lemma start_job_row:
  assumes "get_job_row k d = Some j" "start_job now a k d = (Inr r, d1)"
  shows "\<exists>j1. get_job_row k d1 = Some j1 \<and> cj_status j1 \<noteq> Pending"
  using assms
  by (auto simp: start_job_def transact_def start_job_in_session_def get_job_row_update start_row_def Let_def
      simp del: update_job_simps(1) split: sum.splits option.splits if_splits)

context crawl_command_runner begin

lemma exit_code_tells_the_outcome:
  assumes "se_run env = run" "db_ok d" "get_job_row k d = Some j" "run_created_job env a p k d = (Inr c, d')"
  shows "\<exists>j' code. get_job_row k d' = Some j' \<and> final_status (cj_status j') \<and>
    c = script_exit_code a (cj_status j') code \<and> (code \<noteq> 0 \<longrightarrow> cj_status j' = Failed)"
proof -
  obtain r d1 command code d2 where steps: "start_job (se_started_at env) (script_start_args a) k d = (Inr r, d1)"
    "run command d1 = (Inr code, d2)" "finalize_script env a p k code d2 = (Inr c, d')"
    using assms(1,4) by (auto simp: run_created_job_def split: prod.splits sum.splits)
  obtain j1 where j1: "get_job_row k d1 = Some j1" "cj_status j1 \<noteq> Pending"
    using start_job_row [OF assms(3) steps(1)] by blast
  have "db_ok d1" using job_system.steps_inv [OF public_steps(3) assms(2)] steps(1) by (metis snd_conv)
  then obtain j2 where j2: "get_job_row k d2 = Some j2" using run_started [OF _ j1 steps(2)] by blast
  from finalize_cases [OF j2, of code env a p] steps(3) show ?thesis
    by (auto simp: exit_status_def split: if_splits) (metis infer_success_final final_status_def)+
qed

end

section \<open>No heartbeat\<close>

text \<open>
C40. The command line script sends no heartbeat while its spider runs: if any other process sweeps the expired jobs half an
hour or more after the start, the job is failed with the reason that its heartbeat was lost although the spider still
runs; when the spider then ends without an error, the script cannot finish the job and dies with an uncaught ValueError,
and the job stays failed.
\<close>

theorem long_script_run_is_declared_failed:
  assumes "db_ok d" "accepted_choices a" "plan_script env a = Inr p"
    "create_job (se_created_at env) (script_job_args a (sp_source_code p)) d = (Inr job, d1)" "se_between env d1 = d1"
    "start_job (se_started_at env) (script_start_args a) (cj_id job) d1 = (Inr (Some started), d2)"
    "build_scrapy_command env a p (cj_id job) = Inr command"
    "se_run env = script_spider (cj_id job) events code"
    "Sweep m \<in> set events" "se_started_at env + 1800 * second \<le> m"
  shows "\<exists>j. get_job_row (cj_id job) (snd (script_main env a d)) = Some j \<and> cj_status j = Failed \<and>
    cj_failure_reason j = Some zh_heartbeat_timeout \<and>
    (if code = 0 then \<exists>t. fst (script_main env a d) = Inl (ValueError t) else fst (script_main env a d) = Inr code)"
proof -
  let ?k = "cj_id job" and ?t = "se_started_at env + 1800 * second"
  have ok: "db_ok d2"
    using job_system.steps_inv [OF public_steps(3) job_system.steps_inv [OF public_steps(1) assms(1)]] assms(4,6)
    by (metis snd_conv)
  obtain j2 where j2: "get_job_row ?k d2 = Some j2" "left_alone ?t j2"
    using assms(6)
    by (auto simp: start_job_def transact_Some start_job_in_session_def get_job_row_update start_row_def Let_def
        left_alone_def resolve_timeout_at_def calculate_lease_expires_at_def add_seconds_Some script_start_args_def
        default_running_lease_seconds_def simp del: update_job_simps(1) split: sum.splits option.splits if_splits)
  let ?d = "fold (happen ?k) events d2"
  obtain j3 where j3: "get_job_row ?k ?d = Some j3" "given_up j3"
    using run_events_row [OF ok j2(1), of ?t ?k events] j2(2) assms(9,10) by auto
  have main: "script_main env a d = finalize_script env a p ?k code ?d"
    using assms by (simp add: script_main_def run_created_job_def script_spider_def)
  show ?thesis
    using finalize_cases [OF j3(1), of code env a p] j3 unfolding main
    by (auto simp: exit_status_def given_up_def infer_success_status_def script_exit_code_def split: if_splits)
qed

definition sample_script :: cli_args where
  "sample_script = \<lparr>xa_spider = lit ''ggzy_gov_cn_deal'', xa_source_code = None, xa_source_name = None,
     xa_source_url = None, xa_job_type = lit ''manual'', xa_triggered_by = lit ''cli'', xa_message = None,
     xa_database_url = Some (lit ''sqlite:///x.db''), xa_writer_backend = lit ''sqlalchemy'',
     xa_spider_arg = [lit ''max_pages=3''], xa_setting = [], xa_fail_on_partial = False\<rparr>"

definition sample_script_env :: script_env where
  "sample_script_env = \<lparr>se_created_at = 1000, se_started_at = 2000, se_finished_at = 1900000000, se_refreshed_at = 1900000001,
     se_python = lit ''/usr/bin/python'', se_crawler_database_url = [], se_database_url = [], se_settings_url = [],
     se_between = (\<lambda>d. d), se_run = script_spider 1
       [Spider_stores (Write_stats (zero_counters\<lparr>list_items_seen := 4\<rparr>)), Sweep 1800002000] 0\<rparr>"

lemma long_script_run_is_declared_failed_witness:
  "\<exists>j t. get_job_row 1 (snd (script_main sample_script_env sample_script (empty_db Sqlite))) = Some j \<and>
    cj_status j = Failed \<and> fst (script_main sample_script_env sample_script (empty_db Sqlite)) = Inl (ValueError t)"
proof -
  let ?p = "\<lparr>sp_source_code = lit ''ggzy_gov_cn_deal'', sp_database_url = lit ''sqlite:///x.db'',
    sp_effective_args = [lit ''max_pages=3'', lit ''job_type=manual''],
    sp_args_map = [(lit ''max_pages'', lit ''3''), (lit ''job_type'', lit ''manual'')]\<rparr>"
  let ?c = "create_job 1000 (script_job_args sample_script (lit ''ggzy_gov_cn_deal'')) (empty_db Sqlite)"
  let ?events = "[Spider_stores (Write_stats (zero_counters\<lparr>list_items_seen := 4\<rparr>)), Sweep 1800002000]"
  let ?s = "start_job 2000 (script_start_args sample_script) 1 (snd ?c)"
  have plan: "plan_script sample_script_env sample_script = Inr ?p" by code_simp
  obtain job where job: "fst ?c = Inr job" "cj_id job = 1" by (rule that [of "snapshot (hd (crawl_jobs (snd ?c)))"]) code_simp+
  obtain started where started: "fst ?s = Inr (Some started)"
    by (rule that [of "snapshot (hd (crawl_jobs (snd ?s)))"]) code_simp
  obtain command where command: "build_scrapy_command sample_script_env sample_script ?p 1 = Inr command"
    by (rule that) code_simp
  have accepted: "accepted_choices sample_script" by code_simp
  have env: "se_created_at sample_script_env = 1000" "se_started_at sample_script_env = 2000"
    "se_between sample_script_env (snd ?c) = snd ?c" "se_run sample_script_env = script_spider 1 ?events 0"
    by (simp_all add: sample_script_env_def)
  have created: "create_job (se_created_at sample_script_env) (script_job_args sample_script (sp_source_code ?p)) (empty_db Sqlite)
      = (Inr job, snd ?c)"
    using job env by (simp add: prod_eq_iff)
  have run: "start_job (se_started_at sample_script_env) (script_start_args sample_script) (cj_id job) (snd ?c)
      = (Inr (Some started), snd ?s)"
    "build_scrapy_command sample_script_env sample_script ?p (cj_id job) = Inr command"
    "se_run sample_script_env = script_spider (cj_id job) ?events 0" "Sweep 1800002000 \<in> set ?events"
    "se_started_at sample_script_env + 1800 * second \<le> 1800002000"
    using job started command env by (simp_all add: prod_eq_iff second_def)
  from long_script_run_is_declared_failed [OF db_ok_empty accepted plan created env(3) run]
  show ?thesis using job by auto
qed

end
