(* ===== verification/Health.thy ===== *)
theory Health
  imports Trigger
begin

text \<open>
  app/services/health_rule_service.py and app/services/source_health_service.py: the configurable
  thresholds, the health status of a source, and the summary the operations pages show.

  The thresholds are one row of health_rule_config, created with the defaults when it is missing.
  A value of an update that is neither a bool, an int nor a str is converted by the argument
  \<open>other\<close>: what int() and bool() make of it.
\<close>

section \<open>The rules\<close>

definition default_health_rules :: health_rule_config where
  "default_health_rules = \<lparr>hr_id = 1, hr_recent_error_warning_threshold = 3,
     hr_recent_error_critical_threshold = 6, hr_consecutive_failure_warning_threshold = 1,
     hr_consecutive_failure_critical_threshold = 1, hr_partial_warning_enabled = True\<rparr>"

definition ensure_config :: "db \<Rightarrow> health_rule_config \<times> db" where
  "ensure_config d =
     (case first_row (order_by hr_id (health_rule_configs d)) of
        Some r \<Rightarrow> (r, d)
      | None \<Rightarrow> (default_health_rules, d\<lparr>health_rule_configs := add_row default_health_rules (health_rule_configs d)\<rparr>))"

definition get_rules :: "db \<Rightarrow> health_rule_config \<times> db" where
  "get_rules d = ensure_config d"

record other_values =
  ov_int :: "ustr \<Rightarrow> int result"
  ov_bool :: "ustr \<Rightarrow> bool"

definition coerce_int_value :: "other_values \<Rightarrow> pyval \<Rightarrow> int result" where
  "coerce_int_value other v =
     (case v of
        VBool b \<Rightarrow> Inr (if b then 1 else 0)
      | VInt i \<Rightarrow> Inr i
      | VStr s \<Rightarrow> (case py_int (strip s) of
                    None \<Rightarrow> Inl (ValueError (lit ''invalid literal for int() with base 10'')) | Some i \<Rightarrow> Inr i)
      | VOther s \<Rightarrow> ov_int other s
      | VNone \<Rightarrow> Inl (TypeError (lit ''cannot coerce NoneType to int''))
      | VDict _ _ \<Rightarrow> Inl (TypeError (lit ''cannot coerce dict to int''))
      | VTime _ _ \<Rightarrow> Inl (TypeError (lit ''cannot coerce datetime to int'')))"

definition py_bool :: "other_values \<Rightarrow> pyval \<Rightarrow> bool" where
  "py_bool other v = py_true (ov_bool other) v"

definition apply_rule_update ::
    "other_values \<Rightarrow> ustr \<times> pyval \<Rightarrow> health_rule_config \<Rightarrow> health_rule_config result" where
  "apply_rule_update other kv c =
     (let k = fst kv; n = coerce_int_value other (snd kv)
      in if k = lit ''partial_warning_enabled''
         then Inr (c\<lparr>hr_partial_warning_enabled := py_bool other (snd kv)\<rparr>)
         else if k = lit ''recent_error_warning_threshold''
         then and_then n (\<lambda>i. Inr (c\<lparr>hr_recent_error_warning_threshold := i\<rparr>))
         else if k = lit ''recent_error_critical_threshold''
         then and_then n (\<lambda>i. Inr (c\<lparr>hr_recent_error_critical_threshold := i\<rparr>))
         else if k = lit ''consecutive_failure_warning_threshold''
         then and_then n (\<lambda>i. Inr (c\<lparr>hr_consecutive_failure_warning_threshold := i\<rparr>))
         else if k = lit ''consecutive_failure_critical_threshold''
         then and_then n (\<lambda>i. Inr (c\<lparr>hr_consecutive_failure_critical_threshold := i\<rparr>))
         else Inr c)"

fun apply_rule_updates ::
    "other_values \<Rightarrow> (ustr \<times> pyval) list \<Rightarrow> health_rule_config \<Rightarrow> health_rule_config result" where
  "apply_rule_updates other [] c = Inr c"
| "apply_rule_updates other (u # us) c =
     and_then (apply_rule_update other u c) (apply_rule_updates other us)"

definition validate_rules :: "health_rule_config \<Rightarrow> unit result" where
  "validate_rules c =
     and_then (require (0 \<le> hr_recent_error_warning_threshold c)
       (ValueError (lit ''recent_error_warning_threshold must be >= 0''))) (\<lambda>_.
     and_then (require (0 \<le> hr_recent_error_critical_threshold c)
       (ValueError (lit ''recent_error_critical_threshold must be >= 0''))) (\<lambda>_.
     and_then (require (0 \<le> hr_consecutive_failure_warning_threshold c)
       (ValueError (lit ''consecutive_failure_warning_threshold must be >= 0''))) (\<lambda>_.
     and_then (require (0 \<le> hr_consecutive_failure_critical_threshold c)
       (ValueError (lit ''consecutive_failure_critical_threshold must be >= 0''))) (\<lambda>_.
     and_then (require (hr_recent_error_warning_threshold c \<le> hr_recent_error_critical_threshold c)
       (ValueError (lit ''recent_error_warning_threshold cannot be greater than recent_error_critical_threshold''))) (\<lambda>_.
     require (hr_consecutive_failure_warning_threshold c \<le> hr_consecutive_failure_critical_threshold c)
       (ValueError (lit ''consecutive_failure_warning_threshold cannot be greater than consecutive_failure_critical_threshold'')))))))"

definition update_rules ::
    "other_values \<Rightarrow> (ustr \<times> pyval) list \<Rightarrow> db \<Rightarrow> health_rule_config result \<times> db" where
  "update_rules other updates d =
     (let (model, d1) = ensure_config d
      in case apply_rule_updates other updates model of
           Inl e \<Rightarrow> (Inl e, d1)
         | Inr c \<Rightarrow>
            (case validate_rules c of
               Inl e \<Rightarrow> (Inl e, d1)
             | Inr _ \<Rightarrow> (Inr c, d1\<lparr>health_rule_configs :=
                 update_row hr_id (hr_id model) (\<lambda>_. c) (health_rule_configs d1)\<rparr>)))"

section \<open>The status of a source\<close>

datatype health_status = Normal | Warning | Critical

definition evaluate_health_status ::
    "health_rule_config \<Rightarrow> job_status option \<Rightarrow> int \<Rightarrow> int \<Rightarrow> health_status" where
  "evaluate_health_status rules latest_status recent_7d_error_count consecutive_failure_count =
     (if recent_7d_error_count \<ge> hr_recent_error_critical_threshold rules then Critical
      else if consecutive_failure_count \<ge> hr_consecutive_failure_critical_threshold rules then Critical
      else if latest_status = Some Failed \<and> consecutive_failure_count \<ge> 1
        then (if hr_consecutive_failure_critical_threshold rules \<le> 1 then Critical else Warning)
      else if recent_7d_error_count \<ge> hr_recent_error_warning_threshold rules then Warning
      else if consecutive_failure_count \<ge> hr_consecutive_failure_warning_threshold rules then Warning
      else if latest_status = Some Partial
        then (if hr_partial_warning_enabled rules then Warning else Normal)
      else if latest_status = Some Succeeded then Normal
      else Warning)"

fun health_status_label :: "health_status \<Rightarrow> ustr" where
  "health_status_label Normal = zh_normal"
| "health_status_label Warning = zh_warning"
| "health_status_label Critical = zh_critical"

fun job_status_label :: "job_status \<Rightarrow> ustr" where
  "job_status_label Pending = zh_pending"
| "job_status_label Running = zh_in_progress"
| "job_status_label Succeeded = zh_success"
| "job_status_label Failed = zh_failed"
| "job_status_label Partial = zh_partial"

section \<open>The summary\<close>

definition jobs_of_source :: "int \<Rightarrow> db \<Rightarrow> crawl_job list" where
  "jobs_of_source sid d = filter (\<lambda>j. cj_source_site_id j = sid) (crawl_jobs d)"

definition latest_job :: "int \<Rightarrow> db \<Rightarrow> crawl_job option" where
  "latest_job sid d = first_row (order_by_desc cj_id (jobs_of_source sid d))"

definition seven_days_before :: "instant \<Rightarrow> instant" where
  "seven_days_before now = now - 7 * day"

definition recent_7d_job_stats :: "instant \<Rightarrow> int \<Rightarrow> db \<Rightarrow> int \<times> int" where
  "recent_7d_job_stats now sid d =
     (let js = filter (\<lambda>j. seven_days_before now \<le> cj_created_at j) (jobs_of_source sid d)
      in (int (length js), int (length (filter (\<lambda>j. cj_status j = Failed) js))))"

definition recent_7d_error_count :: "instant \<Rightarrow> int \<Rightarrow> db \<Rightarrow> int" where
  "recent_7d_error_count now sid d =
     int (length (filter (\<lambda>e. ce_source_site_id e = sid \<and> seven_days_before now \<le> ce_created_at e) (crawl_errors d)))"

definition latest_error_reason :: "int \<Rightarrow> db \<Rightarrow> ustr option" where
  "latest_error_reason sid d =
     (case first_row (order_by_desc (\<lambda>e. (ce_created_at e, ce_id e))
             (filter (\<lambda>e. ce_source_site_id e = sid) (crawl_errors d))) of
        None \<Rightarrow> None
      | Some e \<Rightarrow> if strip (ce_error_message e) = [] then None else Some (ce_error_message e))"

text \<open>coalesce(picked_at, queued_at, started_at, created_at).\<close>

definition job_moment :: "crawl_job \<Rightarrow> instant" where
  "job_moment j =
     (case or_else (cj_picked_at j) (or_else (cj_queued_at j) (cj_started_at j)) of
        None \<Rightarrow> cj_created_at j | Some t \<Rightarrow> t)"

definition latest_failed_job_reason :: "int \<Rightarrow> db \<Rightarrow> ustr option" where
  "latest_failed_job_reason sid d =
     (case first_row (order_by_desc (\<lambda>j. (job_moment j, cj_id j))
             (filter (\<lambda>j. cj_status j = Failed \<or> cj_status j = Partial) (jobs_of_source sid d))) of
        None \<Rightarrow> None
      | Some j \<Rightarrow> (case cj_failure_reason j of
                    None \<Rightarrow> None | Some m \<Rightarrow> if strip m = [] then None else Some m))"

definition consecutive_failure_count :: "int \<Rightarrow> db \<Rightarrow> int" where
  "consecutive_failure_count sid d =
     int (length (takeWhile (\<lambda>j. cj_status j = Failed)
       (limit_rows (Some 10) (order_by_desc cj_id (jobs_of_source sid d)))))"

record source_health =
  sh_source_id :: int
  sh_source_code :: ustr
  sh_health_status :: health_status
  sh_health_status_label :: ustr
  sh_latest_job_id :: "int option"
  sh_latest_job_status :: "job_status option"
  sh_latest_job_status_label :: ustr
  sh_latest_job_started_at :: "instant option"
  sh_latest_counters :: job_counters
  sh_recent_7d_job_count :: int
  sh_recent_7d_failed_count :: int
  sh_recent_7d_error_count :: int
  sh_consecutive_failed :: bool
  sh_latest_failure_reason :: ustr

definition latest_failure_reason :: "int \<Rightarrow> db \<Rightarrow> ustr" where
  "latest_failure_reason sid d =
     (case text_or_else (latest_error_reason sid d)
             (text_or_else (latest_failed_job_reason sid d)
               (case latest_job sid d of
                  None \<Rightarrow> None
                | Some j \<Rightarrow> text_or_else (cj_failure_reason j) (cj_message j))) of
        None \<Rightarrow> lit ''-'' | Some r \<Rightarrow> if r = [] then lit ''-'' else r)"

definition source_health_of :: "health_rule_config \<Rightarrow> instant \<Rightarrow> int \<times> ustr \<Rightarrow> db \<Rightarrow> source_health" where
  "source_health_of rules now source d =
     (let sid = fst source; job = latest_job sid d; st = map_option cj_status job;
          failures = consecutive_failure_count sid d; errors = recent_7d_error_count now sid d;
          health = evaluate_health_status rules st errors failures
      in \<lparr>sh_source_id = sid, sh_source_code = snd source, sh_health_status = health,
          sh_health_status_label = health_status_label health,
          sh_latest_job_id = map_option cj_id job, sh_latest_job_status = st,
          sh_latest_job_status_label = (case st of None \<Rightarrow> lit ''-'' | Some s \<Rightarrow> job_status_label s),
          sh_latest_job_started_at = (case job of None \<Rightarrow> None
            | Some j \<Rightarrow> or_else (cj_picked_at j) (or_else (cj_started_at j) (cj_queued_at j))),
          sh_latest_counters = (case job of None \<Rightarrow> zero_counters | Some j \<Rightarrow> cj_counters j),
          sh_recent_7d_job_count = fst (recent_7d_job_stats now sid d),
          sh_recent_7d_failed_count = snd (recent_7d_job_stats now sid d),
          sh_recent_7d_error_count = errors, sh_consecutive_failed = (failures \<ge> 2),
          sh_latest_failure_reason = latest_failure_reason sid d\<rparr>)"

text \<open>
  The expired jobs are reconciled and committed first.  The result is one summary for each source of
  the list, in its order.
\<close>

definition build_health_map ::
    "instant \<Rightarrow> (int \<times> ustr) list \<Rightarrow> db \<Rightarrow> (int \<times> source_health) list \<times> db" where
  "build_health_map now sources d =
     (let d1 = snd (reconcile_expired_jobs now None d)
      in if sources = [] then ([], d1)
         else (let (rules, d2) = get_rules d1
               in (map (\<lambda>s. (fst s, source_health_of rules now s d2)) sources, d2)))"

definition get_source_health_by_code :: "instant \<Rightarrow> ustr \<Rightarrow> db \<Rightarrow> source_health option \<times> db" where
  "get_source_health_by_code now code d =
     (let d1 = snd (reconcile_expired_jobs now None d)
      in case find_source code d1 of
           None \<Rightarrow> (None, d1)
         | Some s \<Rightarrow> (let (m, d2) = build_health_map now [(ss_id s, ss_code s)] d1
                      in (map_of m (ss_id s), d2)))"

section \<open>The rules stay valid\<close>

definition rules_valid :: "health_rule_config \<Rightarrow> bool" where
  "rules_valid c \<longleftrightarrow>
     0 \<le> hr_recent_error_warning_threshold c \<and> 0 \<le> hr_consecutive_failure_warning_threshold c \<and>
     hr_recent_error_warning_threshold c \<le> hr_recent_error_critical_threshold c \<and>
     hr_consecutive_failure_warning_threshold c \<le> hr_consecutive_failure_critical_threshold c"

lemma validate_rules_iff: "validate_rules c = Inr u \<longleftrightarrow> rules_valid c"
  by (auto simp: validate_rules_def rules_valid_def and_then_Inr)

lemma apply_rule_updates_id:
  "apply_rule_updates other us c = Inr c' \<Longrightarrow> hr_id c' = hr_id c"
proof (induction us arbitrary: c)
  case (Cons u us)
  then obtain c1 where "apply_rule_update other u c = Inr c1" "apply_rule_updates other us c1 = Inr c'"
    by (auto simp: and_then_Inr)
  moreover have "hr_id c1 = hr_id c"
    using calculation(1) by (auto simp: apply_rule_update_def Let_def and_then_Inr split: if_splits)
  ultimately show ?case using Cons.IH by simp
qed simp

lemma ensure_config_row:
  assumes "ensure_config d = (r, d1)"
  shows "get_row hr_id (hr_id r) (health_rule_configs d1) \<noteq> None \<and>
    first_row (order_by hr_id (health_rule_configs d1)) = Some r"
proof (cases "first_row (order_by hr_id (health_rule_configs d))")
  case None
  then have "health_rule_configs d = []" by simp
  then show ?thesis
    using assms None by (auto simp: ensure_config_def add_row_def order_by_def first_row_def row_simps)
next
  case (Some x)
  then have "x \<in> set (health_rule_configs d)" by (auto dest: first_row_Some)
  then show ?thesis
    using assms Some by (auto simp: ensure_config_def get_row_None_iff)
qed

text \<open>
The health rules stay valid: when every stored configuration is valid (non-negative thresholds,
no warning threshold above its critical one), so is every one after update_rules, whether it accepts
or refuses; an accepted update is what get_rules returns next, a refused one changes no stored rule.\<close>

lemma health_rules_stay_valid:
  assumes "list_all rules_valid (health_rule_configs d)" "update_rules other updates d = (r, d')"
  shows "list_all rules_valid (health_rule_configs d') \<and>
    (case r of
       Inr c \<Rightarrow> rules_valid c \<and> fst (get_rules d') = c
     | Inl e \<Rightarrow> fst (get_rules d') = fst (get_rules d))"
proof -
  obtain m d1 where m: "ensure_config d = (m, d1)" by (cases "ensure_config d")
  have d1: "list_all rules_valid (health_rule_configs d1)"
    using m assms(1)
    by (auto simp: ensure_config_def add_row_def default_health_rules_def rules_valid_def split: option.splits)
  have again: "ensure_config d1 = (m, d1)" using ensure_config_row [OF m] by (simp add: ensure_config_def)
  show ?thesis
  proof (cases r)
    case (Inl e)
    then have "d' = d1"
      using assms(2) m by (auto simp: update_rules_def split: sum.splits)
    then show ?thesis using Inl d1 again m by (simp add: get_rules_def)
  next
    case (Inr c)
    then have c: "apply_rule_updates other updates m = Inr c" "rules_valid c"
        "d' = d1\<lparr>health_rule_configs := update_row hr_id (hr_id m) (\<lambda>_. c) (health_rule_configs d1)\<rparr>"
      using assms(2) m by (auto simp: update_rules_def validate_rules_iff split: sum.splits)
    have id: "hr_id c = hr_id m" using apply_rule_updates_id [OF c(1)] .
    let ?f = "\<lambda>r. if hr_id r = hr_id m then c else r"
    have first: "first_row (order_by hr_id (health_rule_configs d1)) = Some m"
      using ensure_config_row [OF m] by blast
    then have "m \<in> set (health_rule_configs d1)" by (auto dest: first_row_Some)
    then have c_in: "c \<in> set (health_rule_configs d')" unfolding c(3) update_row_def by force
    then obtain x where x: "first_row (order_by hr_id (health_rule_configs d')) = Some x"
      by (cases "first_row (order_by hr_id (health_rule_configs d'))") auto
    then have "x \<in> set (health_rule_configs d')" by (auto dest: first_row_Some)
    then obtain y where y: "y \<in> set (health_rule_configs d1)" "x = ?f y"
      unfolding c(3) update_row_def by auto
    have "hr_id y = hr_id m"
      using first_order_by_least [OF x c_in] first_order_by_least [OF first y(1)] y(2) id
      by (auto split: if_splits)
    then have "first_row (order_by hr_id (health_rule_configs d')) = Some c" using x y(2) by simp
    moreover have "list_all rules_valid (health_rule_configs d')"
      using d1 c(2,3) by (auto simp: list_all_iff update_row_def)
    ultimately show ?thesis using Inr c(2) by (simp add: get_rules_def ensure_config_def)
  qed
qed

definition sample_other :: other_values where
  "sample_other = \<lparr>ov_int = (\<lambda>_. Inl (TypeError [])), ov_bool = (\<lambda>_. True)\<rparr>"

lemma health_rules_stay_valid_witness:
  "fst (get_rules (snd (update_rules sample_other
      [(lit ''recent_error_warning_threshold'', VStr (lit '' 5 ''))] (empty_db Sqlite)))) =
     default_health_rules\<lparr>hr_recent_error_warning_threshold := 5\<rparr>"
proof -
  let ?u = "update_rules sample_other [(lit ''recent_error_warning_threshold'', VStr (lit '' 5 ''))] (empty_db Sqlite)"
  have "fst ?u = Inr (default_health_rules\<lparr>hr_recent_error_warning_threshold := 5\<rparr>)" by code_simp
  then have u: "?u = (Inr (default_health_rules\<lparr>hr_recent_error_warning_threshold := 5\<rparr>), snd ?u)"
    by (simp add: prod_eq_iff)
  have "list_all rules_valid (health_rule_configs (empty_db Sqlite))" by (simp add: empty_db_def)
  from health_rules_stay_valid [OF this u] show ?thesis by simp
qed

section \<open>The status follows the documented order\<close>

fun severity :: "health_status \<Rightarrow> nat" where
  "severity Normal = 0"
| "severity Warning = 1"
| "severity Critical = 2"

text \<open>The decision order of docs/source-health.md, section 2.1.\<close>

definition documented_health_status ::
    "health_rule_config \<Rightarrow> job_status option \<Rightarrow> int \<Rightarrow> int \<Rightarrow> health_status" where
  "documented_health_status r latest errors failures =
     (if hr_recent_error_critical_threshold r \<le> errors \<or> hr_consecutive_failure_critical_threshold r \<le> failures
      then Critical
      else if hr_recent_error_warning_threshold r \<le> errors \<or> hr_consecutive_failure_warning_threshold r \<le> failures
      then Warning
      else if latest = Some Partial \<and> hr_partial_warning_enabled r then Warning
      else if latest = Some Succeeded then Normal
      else Warning)"

text \<open>
The status computed for a source is the one of the documented decision order, except for a
partial latest job below every threshold with the partial warning switched off, which is normal;
the extra test of the code for a failed latest job never changes the outcome.\<close>

lemma health_status_follows_documentation:
  "evaluate_health_status r latest errors failures =
    (if latest = Some Partial \<and> \<not> hr_partial_warning_enabled r \<and>
        errors < hr_recent_error_critical_threshold r \<and> failures < hr_consecutive_failure_critical_threshold r \<and>
        errors < hr_recent_error_warning_threshold r \<and> failures < hr_consecutive_failure_warning_threshold r
     then Normal else documented_health_status r latest errors failures)"
  by (auto simp: evaluate_health_status_def documented_health_status_def)

text \<open>
  More trouble never makes a source look healthier: with more errors in the last seven days and
more consecutive failures, and the same latest job status, the status is at least as severe.\<close>

theorem health_status_is_monotone:
  assumes "errors \<le> errors'" "failures \<le> failures'"
  shows "severity (evaluate_health_status r latest errors failures) \<le>
         severity (evaluate_health_status r latest errors' failures')"
  using assms by (auto simp: evaluate_health_status_def)

lemma health_status_is_monotone_witness:
  "severity (evaluate_health_status default_health_rules (Some Succeeded) 2 0) \<le>
   severity (evaluate_health_status default_health_rules (Some Succeeded) 6 0) \<and>
   evaluate_health_status default_health_rules (Some Succeeded) 6 0 = Critical"
  using health_status_is_monotone [of 2 6 0 0 default_health_rules "Some Succeeded"] by simp code_simp

end
