(* ===== verification/Schedule.thy ===== *)
theory Schedule
  imports ExecuteFacts
begin

text \<open>
  app/services/source_schedule_service.py: keeping the jobs of the in-memory scheduler in step with
  the sources, and running one scheduled crawl.

  The scheduler (APScheduler) is third-party code: its state is a type variable and its operations
  are the record \<open>scheduler_ops\<close>.  What the program relies on is \<open>scheduler_laws\<close>, the documented
  behaviour of add_job with replace_existing, get_job, remove_job (a missing job is only an error the
  program ignores) and get_jobs.
\<close>

section \<open>The scheduler as the program uses it\<close>

record sched_job =
  sj_days :: int
  sj_next_run :: "instant option"

record 's scheduler_ops =
  so_get :: "ustr \<Rightarrow> 's \<Rightarrow> sched_job option"
  so_add :: "ustr \<Rightarrow> sched_job \<Rightarrow> 's \<Rightarrow> 's"
  so_remove :: "ustr \<Rightarrow> 's \<Rightarrow> 's"
  so_ids :: "'s \<Rightarrow> ustr list"

definition scheduler_laws :: "'s scheduler_ops \<Rightarrow> bool" where
  "scheduler_laws ops \<longleftrightarrow>
     (\<forall>s k l j. so_get ops l (so_add ops k j s) = (if k = l then Some j else so_get ops l s)) \<and>
     (\<forall>s k l. so_get ops l (so_remove ops k s) = (if k = l then None else so_get ops l s)) \<and>
     (\<forall>s k. k \<in> set (so_ids ops s) \<longleftrightarrow> so_get ops k s \<noteq> None)"

section \<open>Synchronising\<close>

definition schedule_day_options :: "int list" where
  "schedule_day_options = [1, 2, 3, 7]"

definition schedule_status_options :: "ustr list" where
  "schedule_status_options = [lit ''succeeded'', lit ''failed'', lit ''partial'', lit ''skipped'']"

definition schedule_job_prefix :: ustr where
  "schedule_job_prefix = lit ''source_schedule::''"

definition schedule_refresh_job_id :: ustr where
  "schedule_refresh_job_id = lit ''source_schedule_runtime::refresh''"

definition schedule_job_id :: "ustr \<Rightarrow> ustr" where
  "schedule_job_id source_code = schedule_job_prefix @ source_code"

definition should_schedule :: "source_site \<Rightarrow> bool" where
  "should_schedule s \<longleftrightarrow> ss_is_active s \<and> ss_schedule_enabled s \<and> ss_schedule_days s \<in> set schedule_day_options"

definition job_matches_source :: "sched_job \<Rightarrow> source_site \<Rightarrow> bool" where
  "job_matches_source j s \<longleftrightarrow> sj_days j = ss_schedule_days s"

definition resolve_next_run_time :: "instant \<Rightarrow> source_site \<Rightarrow> int \<Rightarrow> instant" where
  "resolve_next_run_time now s days =
     (case ss_next_scheduled_run_at s of
        None \<Rightarrow> now + days * day
      | Some t \<Rightarrow> if t \<le> now then now else t)"

definition set_next_run :: "int \<Rightarrow> instant option \<Rightarrow> db \<Rightarrow> db" where
  "set_next_run k t d =
     d\<lparr>source_sites := update_row ss_id k (\<lambda>s. s\<lparr>ss_next_scheduled_run_at := t\<rparr>) (source_sites d)\<rparr>"

definition sync_source_in_session ::
    "'s scheduler_ops \<Rightarrow> instant \<Rightarrow> source_site \<Rightarrow> 's \<times> db \<Rightarrow> 's \<times> db" where
  "sync_source_in_session ops now s st =
     (let (sched, d) = st; k = schedule_job_id (ss_code s); days = ss_schedule_days s
      in if \<not> should_schedule s then (so_remove ops k sched, set_next_run (ss_id s) None d)
         else (case so_get ops k sched of
                 Some j \<Rightarrow> if job_matches_source j s then (sched, set_next_run (ss_id s) (sj_next_run j) d)
                   else (let next = resolve_next_run_time now s days;
                             sched' = so_add ops k \<lparr>sj_days = days, sj_next_run = Some next\<rparr> sched
                         in (sched', set_next_run (ss_id s)
                              (case so_get ops k sched' of None \<Rightarrow> Some next | Some j' \<Rightarrow> sj_next_run j') d))
               | None \<Rightarrow>
                   (let next = resolve_next_run_time now s days;
                        sched' = so_add ops k \<lparr>sj_days = days, sj_next_run = Some next\<rparr> sched
                    in (sched', set_next_run (ss_id s)
                         (case so_get ops k sched' of None \<Rightarrow> Some next | Some j' \<Rightarrow> sj_next_run j') d))))"

definition remove_stale_source_jobs :: "'s scheduler_ops \<Rightarrow> ustr list \<Rightarrow> 's \<Rightarrow> 's" where
  "remove_stale_source_jobs ops codes sched =
     fold (so_remove ops)
       (filter (\<lambda>k. k \<noteq> schedule_refresh_job_id \<and> starts_with schedule_job_prefix k \<and>
                    k \<notin> schedule_job_id ` set codes) (so_ids ops sched)) sched"

definition restore_from_db :: "'s scheduler_ops \<Rightarrow> instant \<Rightarrow> 's \<times> db \<Rightarrow> 's \<times> db" where
  "restore_from_db ops now st =
     (let sources = source_sites (snd st);
          (sched, d) = fold (sync_source_in_session ops now) sources st
      in (remove_stale_source_jobs ops (map ss_code sources) sched, d))"

definition sync_source :: "'s scheduler_ops \<Rightarrow> instant \<Rightarrow> ustr \<Rightarrow> 's \<times> db \<Rightarrow> 's \<times> db" where
  "sync_source ops now code st =
     (case find_source code (snd st) of
        None \<Rightarrow> (so_remove ops (schedule_job_id code) (fst st), snd st)
      | Some s \<Rightarrow> sync_source_in_session ops now s st)"

definition calculate_next_scheduled_run :: "instant \<Rightarrow> bool \<Rightarrow> int \<Rightarrow> bool \<Rightarrow> instant option" where
  "calculate_next_scheduled_run now schedule_enabled schedule_days is_active =
     (if \<not> schedule_enabled \<or> \<not> is_active \<or> schedule_days \<notin> set schedule_day_options then None
      else Some (now + schedule_days * day))"

text \<open>The web process: write the column, then tell its scheduler if it has one (errors are ignored).\<close>

definition sync_source_schedule ::
    "'s scheduler_ops option \<Rightarrow> instant \<Rightarrow> ustr \<Rightarrow> 's \<times> db \<Rightarrow> 's \<times> db" where
  "sync_source_schedule runtime now code st =
     (let st1 = (case find_source code (snd st) of
                   None \<Rightarrow> st
                 | Some s \<Rightarrow> (fst st, set_next_run (ss_id s)
                     (calculate_next_scheduled_run now (ss_schedule_enabled s) (ss_schedule_days s)
                       (ss_is_active s)) (snd st)))
      in case runtime of None \<Rightarrow> st1 | Some ops \<Rightarrow> sync_source ops now code st1)"

section \<open>One scheduled run\<close>

definition record_schedule_result :: "int \<Rightarrow> ustr \<Rightarrow> instant option \<Rightarrow> db \<Rightarrow> db" where
  "record_schedule_result k status next d =
     d\<lparr>source_sites := update_row ss_id k
         (\<lambda>s. s\<lparr>ss_last_schedule_status := Some status, ss_next_scheduled_run_at := next\<rparr>) (source_sites d)\<rparr>"

definition schedule_status :: "(crawl_job_snapshot \<times> ustr list \<times> int) result \<Rightarrow> ustr" where
  "schedule_status r =
     (let status = (case r of
                      Inr (s, _) \<Rightarrow> status_text (cj_status s)
                    | Inl (SourceActiveCrawlJobConflictError _ _ _ _) \<Rightarrow> lit ''skipped''
                    | Inl _ \<Rightarrow> lit ''failed'')
      in if status \<in> set schedule_status_options then status else lit ''failed'')"

definition run_scheduled_source ::
    "'s scheduler_ops \<Rightarrow> enqueue_env \<Rightarrow> run_env \<Rightarrow> instant \<Rightarrow> ustr \<Rightarrow> 's \<times> db \<Rightarrow> 's \<times> db" where
  "run_scheduled_source ops env renv now code st =
     (let (sched, d) = st; k = schedule_job_id code
      in case find_source code d of
           None \<Rightarrow> (so_remove ops k sched, d)
         | Some s \<Rightarrow>
            (if \<not> should_schedule s then (so_remove ops k sched, set_next_run (ss_id s) None d)
             else
               (let s1 = s\<lparr>ss_last_scheduled_run_at := Some now\<rparr>;
                    d1 = d\<lparr>source_sites := update_row ss_id (ss_id s) (\<lambda>_. s1) (source_sites d)\<rparr>;
                    (r, d2) = trigger_scheduled_crawl env renv s1 (Some (ss_default_max_pages s1))
                                (lit ''scheduler'') d1;
                    target = (case r of Inr _ \<Rightarrow> Some (ss_id s) | Inl _ \<Rightarrow> map_option ss_id (find_source code d2))
                in case target of
                     None \<Rightarrow> (sched, d2)
                   | Some k' \<Rightarrow> (sched, record_schedule_result k' (schedule_status r)
                       (case so_get ops k sched of None \<Rightarrow> None | Some j \<Rightarrow> sj_next_run j) d2))))"

section \<open>The scheduler mirrors the sources\<close>

lemma sync_cases:
  assumes "scheduler_laws ops"
  shows "so_get ops k (fst (sync_source_in_session ops now s st)) =
    (if k = schedule_job_id (ss_code s)
     then (if should_schedule s
           then Some (case so_get ops k (fst st) of
                        Some j \<Rightarrow> if job_matches_source j s then j
                          else \<lparr>sj_days = ss_schedule_days s,
                                sj_next_run = Some (resolve_next_run_time now s (ss_schedule_days s))\<rparr>
                      | None \<Rightarrow> \<lparr>sj_days = ss_schedule_days s,
                                sj_next_run = Some (resolve_next_run_time now s (ss_schedule_days s))\<rparr>)
           else None)
     else so_get ops k (fst st))"
  using assms
  by (auto simp: scheduler_laws_def sync_source_in_session_def Let_def split: prod.split option.split)

lemma sync_sources [simp]:
  "map ss_id (source_sites (snd (sync_source_in_session ops now s st))) = map ss_id (source_sites (snd st))"
  by (auto simp: sync_source_in_session_def set_next_run_def Let_def row_simps split: prod.split option.split)

lemma schedule_job_id_inj [simp]: "schedule_job_id a = schedule_job_id b \<longleftrightarrow> a = b"
  by (simp add: schedule_job_id_def)

lemma fold_sync_other:
  assumes "scheduler_laws ops" "\<forall>s \<in> set ss. schedule_job_id (ss_code s) \<noteq> k"
  shows "so_get ops k (fst (fold (sync_source_in_session ops now) ss st)) = so_get ops k (fst st)"
  using assms(2)
  by (induction ss arbitrary: st) (auto simp: sync_cases [OF assms(1)])

lemma fold_sync_get:
  assumes "scheduler_laws ops" "distinct (map ss_code ss)" "s \<in> set ss"
  shows "(so_get ops (schedule_job_id (ss_code s)) (fst (fold (sync_source_in_session ops now) ss st)) \<noteq> None
            \<longleftrightarrow> should_schedule s) \<and>
    (\<forall>j. so_get ops (schedule_job_id (ss_code s)) (fst (fold (sync_source_in_session ops now) ss st)) = Some j
            \<longrightarrow> sj_days j = ss_schedule_days s)"
  using assms(2,3)
proof (induction ss arbitrary: st)
  case (Cons x xs)
  show ?case
  proof (cases "x = s")
    case True
    then have "\<forall>y \<in> set xs. schedule_job_id (ss_code y) \<noteq> schedule_job_id (ss_code s)"
      using Cons.prems(1) by (force simp: image_iff)
    then show ?thesis
      using True by (auto simp: fold_sync_other [OF assms(1)] sync_cases [OF assms(1)] job_matches_source_def
          split: option.split)
  next
    case False
    then show ?thesis using Cons by simp
  qed
qed simp

lemma fold_remove:
  assumes "scheduler_laws ops"
  shows "so_get ops k (fold (so_remove ops) ks s) = (if k \<in> set ks then None else so_get ops k s)"
  using assms
proof (induction ks arbitrary: s)
  case (Cons x xs)
  have "so_get ops k (so_remove ops x s) = (if x = k then None else so_get ops k s)"
    using assms by (simp add: scheduler_laws_def)
  with Cons show ?case by auto
qed simp

text \<open>
After restore_from_db the scheduler holds, among the ids of source jobs, exactly one job for each
source that is active, enabled and has an allowed interval, with that interval, and none for any
other source or for a deleted one; every other scheduler job is kept.\<close>

lemma restore_mirrors_sources:
  assumes "scheduler_laws ops" "distinct (map ss_code (source_sites d))"
    "restore_from_db ops now (sched, d) = (sched', d')"
  shows "(\<forall>code. case find_source code d of
       None \<Rightarrow> so_get ops (schedule_job_id code) sched' = None
     | Some s \<Rightarrow> (if should_schedule s
                   then map_option sj_days (so_get ops (schedule_job_id code) sched') = Some (ss_schedule_days s)
                   else so_get ops (schedule_job_id code) sched' = None)) \<and>
    (\<forall>k. starts_with schedule_job_prefix k \<or> so_get ops k sched' = so_get ops k sched)"
proof -
  let ?f = "fold (sync_source_in_session ops now) (source_sites d) (sched, d)"
  let ?stale = "\<lambda>k. k \<noteq> schedule_refresh_job_id \<and> starts_with schedule_job_prefix k \<and>
      k \<notin> schedule_job_id ` ss_code ` set (source_sites d)"
  have got: "so_get ops k sched' = (if ?stale k \<and> so_get ops k (fst ?f) \<noteq> None then None else so_get ops k (fst ?f))" for k
    using assms(1,3)
    by (auto simp: restore_from_db_def remove_stale_source_jobs_def Let_def case_prod_unfold
        fold_remove [OF assms(1)]) (auto simp: scheduler_laws_def)
  have prefixed: "starts_with schedule_job_prefix (schedule_job_id c)" for c
    by (simp add: schedule_job_id_def starts_with_def)
  have refresh: "\<not> starts_with schedule_job_prefix schedule_refresh_job_id" by code_simp
  have "case find_source code d of
       None \<Rightarrow> so_get ops (schedule_job_id code) sched' = None
     | Some s \<Rightarrow> (if should_schedule s
                   then map_option sj_days (so_get ops (schedule_job_id code) sched') = Some (ss_schedule_days s)
                   else so_get ops (schedule_job_id code) sched' = None)" for code
  proof (cases "find_source code d")
    case None
    then have "\<forall>s \<in> set (source_sites d). ss_code s \<noteq> code"
      by (auto simp: find_source_def find_None_iff)
    moreover have "schedule_job_id code \<noteq> schedule_refresh_job_id" using prefixed refresh by metis
    ultimately have "?stale (schedule_job_id code)" using prefixed by auto
    then show ?thesis using None got by simp
  next
    case (Some s)
    then have s: "s \<in> set (source_sites d)" "ss_code s = code" by (auto dest: find_source_Some)
    then have "\<not> ?stale (schedule_job_id code)" by auto
    then show ?thesis
      using Some s fold_sync_get [OF assms(1,2) s(1), of now "(sched, d)"] got by auto
  qed
  moreover have "so_get ops k sched' = so_get ops k sched" if "\<not> starts_with schedule_job_prefix k" for k
  proof -
    have "\<forall>s \<in> set (source_sites d). schedule_job_id (ss_code s) \<noteq> k" using that prefixed by auto
    then show ?thesis using got that fold_sync_other [OF assms(1), of "source_sites d" k now "(sched, d)"] by simp
  qed
  ultimately show ?thesis by blast
qed

definition table_scheduler :: "(ustr \<times> sched_job) list scheduler_ops" where
  "table_scheduler = \<lparr>so_get = (\<lambda>k s. map_of s k), so_add = (\<lambda>k j s. (k, j) # s),
     so_remove = (\<lambda>k s. filter (\<lambda>(l, _). l \<noteq> k) s), so_ids = map fst\<rparr>"

lemma table_scheduler_laws: "scheduler_laws table_scheduler"
proof -
  have "map_of (filter (\<lambda>(l, _). l \<noteq> k) s) l = (if k = l then None else map_of s l)"
    for s :: "(ustr \<times> sched_job) list" and k l
    by (induction s) auto
  moreover have "k \<in> set (map fst s) \<longleftrightarrow> map_of s k \<noteq> None" for s :: "(ustr \<times> sched_job) list" and k
    by (simp add: map_of_eq_None_iff)
  ultimately show ?thesis by (simp add: scheduler_laws_def table_scheduler_def)
qed

definition sample_scheduled :: db where
  "sample_scheduled = sample_finished\<lparr>source_sites := map (\<lambda>s. s\<lparr>ss_schedule_enabled := True,
     ss_schedule_days := 7\<rparr>) (source_sites sample_finished)\<rparr>"

lemma restore_mirrors_sources_witness:
  "let stale = (schedule_job_id (lit ''gone''), \<lparr>sj_days = 1, sj_next_run = None\<rparr>);
       sched' = fst (restore_from_db table_scheduler 9000 ([stale], sample_scheduled))
   in so_get table_scheduler (schedule_job_id (lit ''gone'')) sched' = None \<and>
      map_option sj_days (so_get table_scheduler (schedule_job_id (lit ''ggzy_gov_cn_deal'')) sched') = Some 7"
proof -
  let ?stale = "(schedule_job_id (lit ''gone''), \<lparr>sj_days = 1, sj_next_run = None\<rparr>)"
  let ?r = "restore_from_db table_scheduler 9000 ([?stale], sample_scheduled)"
  have "distinct (map ss_code (source_sites sample_scheduled))"
    "find_source (lit ''gone'') sample_scheduled = None" by code_simp+
  moreover obtain s where "find_source (lit ''ggzy_gov_cn_deal'') sample_scheduled = Some s"
      "should_schedule s" "ss_schedule_days s = 7"
    by (rule that [of "hd (source_sites sample_scheduled)"]) code_simp+
  ultimately show ?thesis
    using restore_mirrors_sources [OF table_scheduler_laws _ prod.collapse [symmetric],
        of sample_scheduled 9000 "[?stale]"]
    by (auto simp: Let_def dest: spec [where x = "lit ''gone''"] spec [where x = "lit ''ggzy_gov_cn_deal''"])
qed

end
