(* ===== verification/Auth.thy ===== *)
theory Auth
  imports Labels
begin

text \<open>
  app/core/auth.py: HTTP Basic authentication against the configured users, the three roles, and the
  signed CSRF token of the admin pages.

  The parsed configuration (json and pydantic) is an argument, and so is the keyed digest
  \<open>sign\<close>: the hexadecimal HMAC-SHA256 of a payload under the process's secret.  secrets.compare_digest
  raises TypeError on a text with a non-ASCII character; the result None of \<open>compare_digest\<close> is that
  exception, which the program does not catch.
\<close>

section \<open>Roles\<close>

datatype user_role = Viewer | Ops | Admin

fun role_level :: "user_role \<Rightarrow> nat" where
  "role_level Viewer = 1"
| "role_level Ops = 2"
| "role_level Admin = 3"

fun role_text :: "user_role \<Rightarrow> ustr" where
  "role_text Viewer = lit ''viewer''"
| "role_text Ops = lit ''ops''"
| "role_text Admin = lit ''admin''"

instantiation user_role :: linorder
begin

definition less_eq_user_role :: "user_role \<Rightarrow> user_role \<Rightarrow> bool" where
  "less_eq_user_role a b \<longleftrightarrow> role_level a \<le> role_level b"

definition less_user_role :: "user_role \<Rightarrow> user_role \<Rightarrow> bool" where
  "less_user_role a b \<longleftrightarrow> role_level a < role_level b"

instance
proof
  fix a b :: user_role
  show "a \<le> b \<Longrightarrow> b \<le> a \<Longrightarrow> a = b"
    by (cases a; cases b) (auto simp: less_eq_user_role_def)
qed (auto simp: less_eq_user_role_def less_user_role_def)

end

definition has_required_role :: "user_role \<Rightarrow> user_role \<Rightarrow> bool" where
  "has_required_role user_role required_role \<longleftrightarrow> required_role \<le> user_role"

section \<open>Authentication\<close>

record configured_user =
  cu_username :: ustr
  cu_password :: ustr
  cu_role :: user_role

record authenticated_user =
  au_username :: ustr
  au_role :: user_role

datatype auth_error =
    Http_error int ustr
  | Csrf_error ustr
  | Uncaught_type_error

definition ascii :: "ustr \<Rightarrow> bool" where
  "ascii s = list_all (\<lambda>c. c < 128) s"

definition compare_digest :: "ustr \<Rightarrow> ustr \<Rightarrow> bool option" where
  "compare_digest a b = (if ascii a \<and> ascii b then Some (a = b) else None)"

text \<open>Both comparisons are made before their results are combined.\<close>

fun match_user :: "configured_user list \<Rightarrow> ustr \<Rightarrow> ustr \<Rightarrow> auth_error + authenticated_user" where
  "match_user [] username password = Inl (Http_error 401 (lit ''invalid credentials''))"
| "match_user (u # us) username password =
     (case (compare_digest (cu_username u) username, compare_digest (cu_password u) password) of
        (Some name_ok, Some password_ok) \<Rightarrow>
          if name_ok \<and> password_ok then Inr \<lparr>au_username = cu_username u, au_role = cu_role u\<rparr>
          else match_user us username password
      | _ \<Rightarrow> Inl Uncaught_type_error)"

definition get_current_user ::
    "ustr + configured_user list \<Rightarrow> (ustr \<times> ustr) option \<Rightarrow> auth_error + authenticated_user" where
  "get_current_user users credentials =
     (case credentials of
        None \<Rightarrow> Inl (Http_error 401 (lit ''authentication required''))
      | Some (username, password) \<Rightarrow>
         (case users of
            Inl config_error \<Rightarrow> Inl (Http_error 503 config_error)
          | Inr [] \<Rightarrow> Inl (Http_error 401 (lit ''authentication required''))
          | Inr us \<Rightarrow> match_user us username password))"

definition require_min_role ::
    "user_role \<Rightarrow> auth_error + authenticated_user \<Rightarrow> auth_error + authenticated_user" where
  "require_min_role required_role current =
     (case current of
        Inl e \<Rightarrow> Inl e
      | Inr user \<Rightarrow> if has_required_role (au_role user) required_role then Inr user
          else Inl (Http_error 403 (role_text required_role @ lit '' role required'')))"

section \<open>The CSRF token\<close>

definition csrf_ttl_seconds :: int where
  "csrf_ttl_seconds = 12 * 60 * 60"

definition csrf_payload :: "ustr \<Rightarrow> int \<Rightarrow> ustr \<Rightarrow> ustr" where
  "csrf_payload username issued_at nonce = username @ lit '':'' @ show_int issued_at @ lit '':'' @ nonce"

definition sign_csrf_token :: "(ustr \<Rightarrow> ustr) \<Rightarrow> ustr \<Rightarrow> int \<Rightarrow> ustr \<Rightarrow> ustr" where
  "sign_csrf_token sign username issued_at nonce = sign (csrf_payload username issued_at nonce)"

text \<open>The clock and the fresh nonce (secrets.token_urlsafe) are arguments.\<close>

definition build_csrf_token ::
    "(ustr \<Rightarrow> ustr) \<Rightarrow> int \<Rightarrow> ustr \<Rightarrow> ustr \<Rightarrow> int option \<Rightarrow> ustr option \<Rightarrow> ustr" where
  "build_csrf_token sign now fresh username issued_at nonce =
     (let t = (case issued_at of None \<Rightarrow> now | Some i \<Rightarrow> if i = 0 then now else i);
          n = (case nonce of None \<Rightarrow> fresh | Some s \<Rightarrow> if s = [] then fresh else s)
      in show_int t @ lit ''.'' @ n @ lit ''.'' @ sign_csrf_token sign username t n)"

definition is_valid_csrf_token :: "(ustr \<Rightarrow> ustr) \<Rightarrow> int \<Rightarrow> ustr \<Rightarrow> ustr \<Rightarrow> bool option" where
  "is_valid_csrf_token sign now token username =
     (case split_on 46 token of
        [issued_raw, nonce, signature] \<Rightarrow>
          (if nonce = [] \<or> signature = [] then Some False
           else (case py_int issued_raw of
                   None \<Rightarrow> Some False
                 | Some issued_at \<Rightarrow>
                     (if issued_at > now + 60 then Some False
                      else if now - issued_at > csrf_ttl_seconds then Some False
                      else compare_digest signature (sign_csrf_token sign username issued_at nonce))))
      | _ \<Rightarrow> Some False)"

definition or_empty :: "ustr option \<Rightarrow> ustr" where
  "or_empty t = (case t of None \<Rightarrow> [] | Some s \<Rightarrow> s)"

text \<open>The token a page gets: the one cached on the request, a still valid cookie, or a new one.\<close>

definition get_or_create_csrf_token ::
    "(ustr \<Rightarrow> ustr) \<Rightarrow> int \<Rightarrow> ustr \<Rightarrow> ustr option \<Rightarrow> ustr option \<Rightarrow> ustr \<Rightarrow> auth_error + ustr" where
  "get_or_create_csrf_token sign now fresh cached cookie username =
     (if or_empty cached \<noteq> [] then Inr (or_empty cached)
      else (let c = strip (or_empty cookie);
                new = build_csrf_token sign now fresh username None None
            in if c = [] then Inr new
               else (case is_valid_csrf_token sign now c username of
                       None \<Rightarrow> Inl Uncaught_type_error
                     | Some ok \<Rightarrow> Inr (if ok then c else new))))"

text \<open>\<open>form\<close> holds the values of the field csrf_token in the submitted body (parse_qs).\<close>

definition require_admin_csrf ::
    "(ustr \<Rightarrow> ustr) \<Rightarrow> int \<Rightarrow> ustr option \<Rightarrow> ustr option \<Rightarrow> ustr list \<Rightarrow> ustr \<Rightarrow> auth_error + unit" where
  "require_admin_csrf sign now cookie header form username =
     (let c = strip (or_empty cookie);
          h = strip (or_empty header);
          t = (if h = [] then (case form of [] \<Rightarrow> [] | v # _ \<Rightarrow> strip v) else h)
      in if c = [] then Inl (Csrf_error zh_csrf_cookie_missing)
         else if t = [] then Inl (Csrf_error zh_csrf_token_missing)
         else (case compare_digest c t of
                 None \<Rightarrow> Inl Uncaught_type_error
               | Some False \<Rightarrow> Inl (Csrf_error zh_csrf_mismatch)
               | Some True \<Rightarrow>
                   (case is_valid_csrf_token sign now c username of
                      None \<Rightarrow> Inl Uncaught_type_error
                    | Some False \<Rightarrow> Inl (Csrf_error zh_csrf_invalid)
                    | Some True \<Rightarrow> Inr ())))"

section \<open>Who gets in\<close>

lemma match_user_Inr:
  "match_user us name pw = Inr user \<Longrightarrow>
   \<exists>u \<in> set us. cu_username u = name \<and> cu_password u = pw \<and> user = \<lparr>au_username = name, au_role = cu_role u\<rparr>"
  by (induction us) (auto simp: compare_digest_def split: option.splits if_splits)

lemma match_user_complete:
  assumes "\<forall>u \<in> set us. ascii (cu_username u) \<and> ascii (cu_password u)" "ascii name" "ascii pw"
    "\<exists>u \<in> set us. cu_username u = name \<and> cu_password u = pw"
  shows "\<exists>user. match_user us name pw = Inr user"
  using assms by (induction us) (auto simp: compare_digest_def)

text \<open>
C16. A protected endpoint lets in exactly the configured users of sufficient rank: an accepted request
carries the user name and password of a configured user, gets that user's role, and the role is at
least the required one; when every configured and submitted text is ASCII, a request with such
credentials is accepted.\<close>

theorem access_needs_configured_user_and_role:
  "(case require_min_role required (get_current_user (Inr us) (Some (name, pw))) of
      Inr user \<Rightarrow> au_username user = name \<and> required \<le> au_role user \<and>
        list_ex (\<lambda>u. cu_username u = name \<and> cu_password u = pw \<and> cu_role u = au_role user) us
    | Inl (Http_error code _) \<Rightarrow>
        (if code = 403
         then list_ex (\<lambda>u. cu_username u = name \<and> cu_password u = pw \<and> cu_role u < required) us
         else code = 401 \<and>
           \<not> (list_all (\<lambda>u. ascii (cu_username u) \<and> ascii (cu_password u)) us \<and> ascii name \<and> ascii pw \<and>
              list_ex (\<lambda>u. cu_username u = name \<and> cu_password u = pw) us))
    | Inl Uncaught_type_error \<Rightarrow>
        \<not> (list_all (\<lambda>u. ascii (cu_username u) \<and> ascii (cu_password u)) us \<and> ascii name \<and> ascii pw)
    | Inl (Csrf_error _) \<Rightarrow> False)"
proof -
  have errors: "match_user us name pw = Inl e \<Longrightarrow>
      e = Http_error 401 (lit ''invalid credentials'') \<or>
      e = Uncaught_type_error \<and> \<not> (list_all (\<lambda>u. ascii (cu_username u) \<and> ascii (cu_password u)) us \<and> ascii name \<and> ascii pw)"
    for e
    by (induction us) (auto simp: compare_digest_def split: option.splits if_splits)
  show ?thesis
  proof (cases us)
    case Nil
    then show ?thesis by (simp add: get_current_user_def require_min_role_def)
  next
    case Cons
    then have eq: "get_current_user (Inr us) (Some (name, pw)) = match_user us name pw"
      by (simp add: get_current_user_def)
    show ?thesis
    proof (cases "match_user us name pw")
      case (Inl e)
      then show ?thesis
        using errors [OF Inl] match_user_complete [of us name pw]
        by (auto simp: eq require_min_role_def list_all_iff list_ex_iff) blast
    next
      case (Inr user)
      then show ?thesis
        using match_user_Inr [OF Inr]
        by (auto simp: eq require_min_role_def has_required_role_def list_ex_iff not_le)
    qed
  qed
qed

section \<open>Tokens\<close>

lemma lit_point [simp]: "lit ''.'' = [46]" "lit '':'' = [58]"
  by code_simp+

lemma show_int_chars: "c \<in> set (show_int i) \<Longrightarrow> c = 45 \<or> 48 \<le> c \<and> c < 58"
  by (auto simp: show_int_def dest: show_nat_digits split: if_splits)

lemma show_int_no_dot: "46 \<notin> set (show_int i)" "58 \<notin> set (show_int i)"
  using show_int_chars by fastforce+

lemma split_token:
  assumes "46 \<notin> set nonce" "46 \<notin> set sig"
  shows "split_on 46 (show_int t @ lit ''.'' @ nonce @ lit ''.'' @ sig) = [show_int t, nonce, sig]"
  using assms split_on_sep [OF show_int_no_dot(1)] split_on_sep [OF assms(1)] split_on_plain by simp

text \<open>A name without a colon, the time and the nonce can be read back from the signed payload.\<close>

lemma prefix_colon:
  fixes a b x y :: ustr
  assumes "58 \<notin> set a" "58 \<notin> set b" "a @ 58 # x = b @ 58 # y"
  shows "a = b \<and> x = y"
proof -
  have "a # split_on 58 x = b # split_on 58 y"
    using split_on_sep [OF assms(1)] split_on_sep [OF assms(2)] assms(3) by metis
  then show ?thesis using assms(3) by simp
qed

lemma csrf_payload_inj:
  assumes "58 \<notin> set u" "58 \<notin> set v" "csrf_payload u i m = csrf_payload v j n"
  shows "u = v \<and> show_int i = show_int j \<and> m = n"
proof -
  from prefix_colon [OF assms(1,2), of "show_int i @ 58 # m" "show_int j @ 58 # n"] assms(3)
  have "u = v" "show_int i @ 58 # m = show_int j @ 58 # n" by (simp_all add: csrf_payload_def)
  then show ?thesis using prefix_colon show_int_no_dot(2) by blast
qed

text \<open>
C17. A freshly issued token is accepted for its user as long as it lives, and no longer: for a nonce
without a dot and a digest that is a non-empty ASCII text without a dot, the token built at t passes
the check at every time from 60 seconds before t to 12 hours after it, and fails at every other.\<close>

theorem csrf_token_lives_twelve_hours:
  assumes "0 < t" "t < 10 ^ int_digit_limit" "nonce \<noteq> []" "46 \<notin> set nonce"
    "\<And>p. sign p \<noteq> [] \<and> ascii (sign p) \<and> 46 \<notin> set (sign p)"
  shows "is_valid_csrf_token sign now (build_csrf_token sign t nonce username None None) username =
    Some (t - 60 \<le> now \<and> now \<le> t + 43200)"
proof -
  let ?sig = "sign_csrf_token sign username t nonce"
  have sig: "?sig \<noteq> []" "ascii ?sig" "46 \<notin> set ?sig" using assms(5) by (simp_all add: sign_csrf_token_def)
  have "split_on 46 (build_csrf_token sign t nonce username None None) = [show_int t, nonce, ?sig]"
    using split_token [OF assms(4) sig(3)] by (simp add: build_csrf_token_def Let_def)
  then show ?thesis
    using assms(1-3) sig by (auto simp: is_valid_csrf_token_def csrf_ttl_seconds_def compare_digest_def)
qed

text \<open>
A token is bound to its user: if the check accepts one token for two different user names without
a colon (HTTP Basic names have none), then the digest has a collision on two different payloads.\<close>

theorem csrf_token_is_bound_to_user:
  assumes "is_valid_csrf_token sign now token u = Some True" "is_valid_csrf_token sign now' token v = Some True"
    "58 \<notin> set u" "58 \<notin> set v" "u \<noteq> v"
  shows "\<exists>t nonce. csrf_payload u t nonce \<noteq> csrf_payload v t nonce \<and>
    sign (csrf_payload u t nonce) = sign (csrf_payload v t nonce)"
proof -
  have valid: "\<exists>raw nonce sig t. split_on 46 token = [raw, nonce, sig] \<and> py_int raw = Some t \<and>
      sig = sign (csrf_payload w t nonce)"
    if "is_valid_csrf_token sign n token w = Some True" for n w
    using that
    by (auto simp: is_valid_csrf_token_def compare_digest_def sign_csrf_token_def
        split: list.splits option.splits if_splits)
  obtain raw nonce sig t where "split_on 46 token = [raw, nonce, sig]" "py_int raw = Some t"
      "sig = sign (csrf_payload u t nonce)"
    using valid [OF assms(1)] by blast
  moreover from this have "sig = sign (csrf_payload v t nonce)" using valid [OF assms(2)] by auto
  moreover have "csrf_payload u t nonce \<noteq> csrf_payload v t nonce" using csrf_payload_inj assms(3-5) by blast
  ultimately show ?thesis by metis
qed

lemma csrf_token_lives_twelve_hours_witness:
  "is_valid_csrf_token (\<lambda>p. lit ''ab12'') 1700043200
     (build_csrf_token (\<lambda>p. lit ''ab12'') 1700000000 (lit ''nonce'') (lit ''amy'') None None) (lit ''amy'') = Some True \<and>
   is_valid_csrf_token (\<lambda>p. lit ''ab12'') 1700043201
     (build_csrf_token (\<lambda>p. lit ''ab12'') 1700000000 (lit ''nonce'') (lit ''amy'') None None) (lit ''amy'') = Some False"
proof -
  have "(1700000000 :: int) < 10 ^ 10" by simp
  also have "\<dots> \<le> 10 ^ int_digit_limit" by (rule power_increasing) (simp_all add: int_digit_limit_def)
  finally have big: "(1700000000 :: int) < 10 ^ int_digit_limit" .
  have "lit ''nonce'' \<noteq> []" "46 \<notin> set (lit ''nonce'')"
    "lit ''ab12'' \<noteq> [] \<and> ascii (lit ''ab12'') \<and> 46 \<notin> set (lit ''ab12'')"
    by code_simp+
  from csrf_token_lives_twelve_hours [OF _ big this(1,2), of "\<lambda>p. lit ''ab12''"] this(3)
  show ?thesis by simp
qed

lemma csrf_token_is_bound_to_user_witness:
  "\<exists>t nonce. csrf_payload (lit ''amy'') t nonce \<noteq> csrf_payload (lit ''bob'') t nonce"
proof -
  let ?sign = "\<lambda>p. lit ''ab12''"
  let ?token = "build_csrf_token ?sign 1700000000 (lit ''nonce'') (lit ''amy'') None None"
  have "is_valid_csrf_token ?sign 1700000000 ?token (lit ''amy'') = Some True"
    "is_valid_csrf_token ?sign 1700000000 ?token (lit ''bob'') = Some True"
    "58 \<notin> set (lit ''amy'')" "58 \<notin> set (lit ''bob'')" "lit ''amy'' \<noteq> lit ''bob''"
    by code_simp+
  from csrf_token_is_bound_to_user [OF this] show ?thesis by blast
qed

section \<open>A form that is not answered\<close>

text \<open>
An admin form whose token field holds a non-ASCII character is not refused as the program
refuses a wrong token: whenever the cookie is set and the submitted token has such a character, the
comparison raises TypeError, which nothing catches.\<close>

lemma non_ascii_csrf_token_is_uncaught:
  assumes "strip (or_empty cookie) \<noteq> []" "strip (or_empty header) = []" "\<not> ascii (strip v)"
  shows "require_admin_csrf sign now cookie header (v # vs) username = Inl Uncaught_type_error"
proof -
  have "strip v \<noteq> []" using assms(3) by (auto simp: ascii_def)
  then show ?thesis using assms by (simp add: require_admin_csrf_def compare_digest_def)
qed

lemma non_ascii_csrf_token_is_uncaught_witness:
  "require_admin_csrf (\<lambda>p. lit ''ab12'') 1700000000 (Some (lit ''1.n.s'')) None [zh_detail] (lit ''amy'') =
     Inl Uncaught_type_error"
  by (rule non_ascii_csrf_token_is_uncaught) code_simp+

end
