(* ===== verification/UrlFacts.thy ===== *)
theory UrlFacts
  imports Urls
begin

text \<open>
  What the URL functions of theory Urls undo: UTF-8 decoding undoes encoding, unquote_plus undoes
  quote_plus, parse_qsl undoes urlencode, and urlsplit finds the parts urlunsplit put together.
\<close>

section \<open>UTF-8\<close>

lemma utf8_tail_steps:
  "utf8_tail 1 lo hi acc (a # bs) = (if lo \<le> a \<and> a \<le> hi then (Some (acc * 64 + (a - 128)), bs) else (None, a # bs))"
  "utf8_tail 2 lo hi acc (a # bs) =
     (if lo \<le> a \<and> a \<le> hi then utf8_tail 1 128 191 (acc * 64 + (a - 128)) bs else (None, a # bs))"
  "utf8_tail 3 lo hi acc (a # bs) =
     (if lo \<le> a \<and> a \<le> hi then utf8_tail 2 128 191 (acc * 64 + (a - 128)) bs else (None, a # bs))"
  by (simp_all add: numeral_2_eq_2 numeral_3_eq_3)

lemma utf8_decode_bytes:
  assumes "scalar c"
  shows "utf8_decode (utf8_bytes c @ bs) = c # utf8_decode bs"
proof -
  have tail: "c div 64 * 64 + c mod 64 = c" by simp
  have mid: "c div 4096 * 64 + c div 64 mod 64 = c div 64"
    using div_mult_mod_eq [of "c div 64" 64] by (simp add: div_mult2_eq [symmetric])
  have sum3: "4096 * (c div 4096) + c div 64 mod 64 * 64 + c mod 64 = c"
    using mid tail by linarith
  have high: "c div 262144 * 64 + c div 4096 mod 64 = c div 4096"
    using div_mult_mod_eq [of "c div 4096" 64] by (simp add: div_mult2_eq [symmetric])
  have sum4: "262144 * (c div 262144) + c div 4096 mod 64 * 4096 + c div 64 mod 64 * 64 + c mod 64 = c"
    using high sum3 by linarith
  have small: "x mod 64 \<le> 63" for x :: nat using mod_less_divisor [of 64 x] by linarith
  consider "c < 128" | "128 \<le> c" "c < 2048" | "2048 \<le> c" "c < 65536" | "65536 \<le> c" "c < 1114112"
    using assms by (fastforce simp: scalar_def)
  then show ?thesis
  proof cases
    case 1
    then show ?thesis by (simp add: utf8_bytes_def)
  next
    case 2
    then have "2 \<le> c div 64" "c div 64 \<le> 31" by auto
    with 2 small [of c] show ?thesis
      by (simp add: utf8_bytes_def utf8_lead_def utf8_tail_steps del: One_nat_def)
  next
    case 3
    have d: "c div 4096 \<le> 15" using 3 by auto
    have lead: "utf8_lead (224 + c div 4096) =
        (if c div 4096 = 0 then Some (2, 160, 191, 0)
         else if c div 4096 = 13 then Some (2, 128, 159, 13) else Some (2, 128, 191, c div 4096))"
      using d by (auto simp: utf8_lead_def)
    have low: "c div 4096 = 0 \<Longrightarrow> 32 \<le> c div 64 mod 64"
      using 3 by (simp add: div_eq_0_iff)
    have up: "c div 4096 = 13 \<Longrightarrow> c div 64 mod 64 \<le> 31"
    proof -
      assume e: "c div 4096 = 13"
      then have "c < 57344" using div_mult_mod_eq [of c 4096] mod_less_divisor [of 4096 c] by linarith
      then have "c div 64 < 864" using assms e by (simp add: scalar_def less_mult_imp_div_less)
      then show ?thesis using e mid by linarith
    qed
    show ?thesis
      using 3 lead low up small [of c] small [of "c div 64"] mid sum3
      by (auto simp: utf8_bytes_def utf8_tail_steps simp del: One_nat_def)
  next
    case 4
    have d: "c div 262144 \<le> 4" using 4 by auto
    have lead: "utf8_lead (240 + c div 262144) =
        (if c div 262144 = 0 then Some (3, 144, 191, 0)
         else if c div 262144 = 4 then Some (3, 128, 143, 4) else Some (3, 128, 191, c div 262144))"
      using d by (auto simp: utf8_lead_def)
    have low: "c div 262144 = 0 \<Longrightarrow> 16 \<le> c div 4096 mod 64"
      using 4 by (simp add: div_eq_0_iff)
    have up: "c div 262144 = 4 \<Longrightarrow> c div 4096 mod 64 \<le> 15"
      using 4 high by simp
    show ?thesis
      using 4 lead low up small [of c] small [of "c div 64"] small [of "c div 4096"] sum4
      by (simp add: utf8_bytes_def utf8_tail_steps algebra_simps del: One_nat_def split: if_split_asm)
  qed
qed

lemma utf8_decode_encode: "list_all scalar s \<Longrightarrow> utf8_decode (utf8_encode s) = s"
  by (induction s) (auto simp: utf8_encode_def utf8_decode_bytes)

lemma utf8_bytes_bound: "scalar c \<Longrightarrow> b \<in> set (utf8_bytes c) \<Longrightarrow> b < 256"
  by (auto simp: utf8_bytes_def scalar_def split: if_splits)

lemma utf8_encode_bound: "list_all scalar s \<Longrightarrow> b \<in> set (utf8_encode s) \<Longrightarrow> b < 256"
  by (auto simp: utf8_encode_def list_all_iff dest: utf8_bytes_bound)

lemma utf8_tail_bounds:
  assumes "utf8_tail n 128 191 acc bs = (Some c, rest)"
  shows "acc * 64 ^ n \<le> c \<and> c < (acc + 1) * 64 ^ n"
  using assms
proof (induction n arbitrary: acc bs)
  case 0
  then show ?case by simp
next
  case (Suc n)
  then obtain b bs' where bs: "bs = b # bs'" "128 \<le> b" "b \<le> 191"
      and t: "utf8_tail n 128 191 (acc * 64 + (b - 128)) bs' = (Some c, rest)"
    by (cases bs) (auto split: if_splits)
  from Suc.IH [OF t]
  have *: "(acc * 64 + (b - 128)) * 64 ^ n \<le> c" "c < (acc * 64 + (b - 128) + 1) * 64 ^ n" by auto
  have "acc * 64 ^ Suc n \<le> (acc * 64 + (b - 128)) * 64 ^ n" by (simp add: algebra_simps)
  moreover have "(acc * 64 + (b - 128) + 1) * 64 ^ n \<le> (acc * 64 + 64) * 64 ^ n"
    using bs by (intro mult_right_mono) auto
  moreover have "(acc * 64 + 64) * 64 ^ n = (acc + 1) * 64 ^ Suc n" by (simp add: algebra_simps)
  ultimately show ?case using * by linarith
qed

lemma utf8_tail_first:
  assumes "utf8_tail (Suc n) lo hi acc bs = (Some c, rest)"
  shows "\<exists>b. lo \<le> b \<and> b \<le> hi \<and> (acc * 64 + (b - 128)) * 64 ^ n \<le> c \<and> c < (acc * 64 + (b - 128) + 1) * 64 ^ n"
proof -
  obtain b bs' where "lo \<le> b" "b \<le> hi" "utf8_tail n 128 191 (acc * 64 + (b - 128)) bs' = (Some c, rest)"
    using assms by (cases bs) (auto split: if_splits)
  then show ?thesis using utf8_tail_bounds by blast
qed

lemma utf8_lead_scalar:
  assumes "utf8_lead b = Some (n, lo, hi, acc)" "utf8_tail n lo hi acc bs = (Some c, rest)"
  shows "scalar c"
proof -
  consider "n = 1" "lo = 128" "hi = 191" "acc \<le> 31" | "n = 2" "lo = 160" "hi = 191" "acc = 0"
    | "n = 2" "lo = 128" "hi = 159" "acc = 13" | "n = 2" "lo = 128" "hi = 191" "acc \<le> 15" "acc \<noteq> 13"
    | "n = 3" "lo = 144" "hi = 191" "acc = 0" | "n = 3" "lo = 128" "hi = 191" "1 \<le> acc" "acc \<le> 3"
    | "n = 3" "lo = 128" "hi = 143" "acc = 4"
    using assms(1) by (auto simp: utf8_lead_def split: if_splits)
  then show ?thesis
  proof cases
    case 1
    with utf8_tail_first [of 0 lo hi acc bs c rest] assms(2) show ?thesis by (auto simp: scalar_def)
  qed (use utf8_tail_first [of 1 lo hi acc bs c rest] utf8_tail_first [of 2 lo hi acc bs c rest] assms(2)
       in \<open>auto simp: scalar_def numeral_2_eq_2 numeral_3_eq_3\<close>)
qed

lemma utf8_decode_scalar: "list_all scalar (utf8_decode bs)"
proof (induction bs rule: utf8_decode.induct)
  case (2 b bs)
  have "scalar 65533" by (simp add: scalar_def)
  then show ?case
    using 2 by (auto simp: scalar_def [of b] utf8_lead_scalar split: option.split prod.split)
qed simp

section \<open>quote_plus and unquote_plus\<close>

lemma hex_digit_char: "d < 16 \<Longrightarrow> hex_digit (hex_char d) = Some d"
  by (auto simp: hex_digit_def hex_char_def)

lemma hex_pair_chars: "b < 256 \<Longrightarrow> hex_pair (hex_char (b div 16)) (hex_char (b mod 16)) = Some b"
  by (simp add: hex_pair_def hex_digit_char less_mult_imp_div_less)

lemma unquote_bytes_Cons: "c \<noteq> 37 \<Longrightarrow> unquote_bytes (c # s) = c # unquote_bytes s"
  by (cases s; cases "tl s") auto

lemma hex_char_plain: "d < 16 \<Longrightarrow> hex_char d < 128 \<and> hex_char d \<noteq> 43"
  by (auto simp: hex_char_def)

lemma hex_char_unreserved: "d < 16 \<Longrightarrow> unreserved (hex_char d)"
  by (simp add: hex_char_def unreserved_def)

lemma quote_byte_chars: "b < 256 \<Longrightarrow> c \<in> set (quote_byte b) \<Longrightarrow> unreserved c \<or> c = 43 \<or> c = 37"
  using hex_char_unreserved [of "b div 16"] hex_char_unreserved [of "b mod 16"]
  by (auto simp: quote_byte_def less_mult_imp_div_less split: if_splits)

lemma unquote_quoted_byte:
  assumes "b < 256"
  shows "unquote_bytes (plus_to_space (quote_byte b) @ s) = b # unquote_bytes s"
proof -
  have d: "hex_char (b mod 16) \<noteq> 43" "hex_char (b div 16) \<noteq> 43"
    using assms hex_char_plain [of "b mod 16"] hex_char_plain [of "b div 16"] by auto
  consider "unreserved b" | "b = 32" "\<not> unreserved b" | "\<not> unreserved b" "b \<noteq> 32" by blast
  then show ?thesis
  proof cases
    case 1
    then have "b \<noteq> 43" "b \<noteq> 37" by (auto simp: unreserved_def)
    with 1 show ?thesis by (simp add: quote_byte_def plus_to_space_def unquote_bytes_Cons)
  qed (simp_all add: quote_byte_def plus_to_space_def unquote_bytes_Cons d hex_pair_chars [OF assms])
qed

lemma unquote_quoted:
  "list_all (\<lambda>b. b < 256) bs \<Longrightarrow> unquote_bytes (plus_to_space (concat (map quote_byte bs))) = bs"
proof (induction bs)
  case (Cons b bs)
  then show ?case
    using unquote_quoted_byte [of b "plus_to_space (concat (map quote_byte bs))"]
    by (simp add: plus_to_space_def)
qed (simp add: plus_to_space_def)

lemma unquote_ascii: "list_all (\<lambda>c. c < 128) s \<Longrightarrow> unquote s = utf8_decode (unquote_bytes s)"
  by (cases s) (auto simp: list_all_iff takeWhile_eq_all_conv [THEN iffD2] dropWhile_eq_Nil_conv [THEN iffD2])

lemma quote_plus_chars:
  assumes "list_all scalar s" "c \<in> set (quote_plus s)"
  shows "unreserved c \<or> c = 43 \<or> c = 37"
  using assms utf8_encode_bound quote_byte_chars unfolding quote_plus_def by fastforce

lemma quote_plus_ascii: "list_all scalar s \<Longrightarrow> list_all (\<lambda>c. c < 128) (quote_plus s)"
  using quote_plus_chars [of s] by (fastforce simp: list_all_iff unreserved_def)

lemma unquote_plus_quote_plus:
  assumes "list_all scalar s"
  shows "unquote_plus (quote_plus s) = s"
proof -
  have "list_all (\<lambda>c. c < 128) (plus_to_space (quote_plus s))"
    using quote_plus_ascii [OF assms] by (auto simp: plus_to_space_def list_all_iff)
  moreover have "list_all (\<lambda>b. b < 256) (utf8_encode s)"
    using utf8_encode_bound [OF assms] by (simp add: list_all_iff)
  ultimately show ?thesis
    using unquote_quoted assms
    by (simp add: unquote_plus_def unquote_ascii quote_plus_def utf8_decode_encode)
qed

section \<open>Query strings\<close>

lemma split_on_join:
  "fs \<noteq> [] \<Longrightarrow> list_all (\<lambda>f. c \<notin> set f) fs \<Longrightarrow> split_on c (join [c] fs) = fs"
  by (induction "[c]" fs rule: join.induct) (auto simp: split_on_plain split_on_sep)

lemma partition_on_sep: "c \<notin> set a \<Longrightarrow> partition_on c (a @ c # b) = (a, True, b)"
  by (auto simp: partition_on_def takeWhile_append dropWhile_append)

lemma partition_on_none: "c \<notin> set a \<Longrightarrow> partition_on c a = (a, False, [])"
proof -
  assume "c \<notin> set a"
  then have "takeWhile (\<lambda>x. x \<noteq> c) a = a \<and> dropWhile (\<lambda>x. x \<noteq> c) a = []" by (induction a) auto
  with \<open>c \<notin> set a\<close> show ?thesis by (simp only: partition_on_def) simp
qed

lemma cut_at_sep: "c \<notin> set a \<Longrightarrow> cut_at c (a @ c # b) = (a, b)"
  by (simp add: cut_at_def partition_on_sep)

lemma cut_at_none: "c \<notin> set a \<Longrightarrow> cut_at c a = (a, [])"
  by (simp add: cut_at_def partition_on_none)

lemma quote_plus_avoids:
  "list_all scalar s \<Longrightarrow> c \<in> {32, 35, 38, 61, 63} \<Longrightarrow> c \<notin> set (quote_plus s)"
  using quote_plus_chars [of s c] by (auto simp: unreserved_def)

definition scalar_pair :: "ustr \<times> ustr \<Rightarrow> bool" where
  "scalar_pair kv \<longleftrightarrow> list_all scalar (fst kv) \<and> list_all scalar (snd kv)"

lemma parse_qsl_urlencode:
  assumes "list_all scalar_pair kvs"
  shows "parse_qsl True (urlencode kvs) = kvs"
proof (cases "kvs = []")
  case True
  then show ?thesis by (simp add: parse_qsl_def urlencode_def)
next
  case False
  let ?field = "\<lambda>(k, v). quote_plus k @ [61] @ quote_plus v"
  have "split_on 38 (urlencode kvs) = map ?field kvs"
    unfolding urlencode_def using False assms
    by (intro split_on_join) (auto simp: list_all_iff scalar_pair_def quote_plus_avoids)
  moreover have "parse_field (?field kv) = kv" if "kv \<in> set kvs" for kv
    using that assms
    by (auto simp: parse_field_def partition_on_sep quote_plus_avoids list_all_iff scalar_pair_def
        unquote_plus_quote_plus split: prod.splits)
  ultimately show ?thesis
    by (simp add: parse_qsl_def filter_map o_def split: prod.splits) (auto intro!: map_idI)
qed

lemma unquote_scalar: "list_all scalar s \<Longrightarrow> list_all scalar (unquote s)"
proof (induction s rule: unquote.induct)
  case (2 c s)
  have "list_all scalar (dropWhile (\<lambda>x. x < 128) s)"
    using 2(3) by (auto simp: list_all_iff dest: set_dropWhileD)
  with 2 show ?case by (simp add: utf8_decode_scalar)
qed simp

lemma unquote_plus_scalar: "list_all scalar s \<Longrightarrow> list_all scalar (unquote_plus s)"
  unfolding unquote_plus_def
  by (rule unquote_scalar) (auto simp: plus_to_space_def list_all_iff scalar_def)

lemma split_on_chars: "f \<in> set (split_on c s) \<Longrightarrow> set f \<subseteq> set s"
  by (induction s arbitrary: f) (auto split: if_splits list.splits, fastforce+)

lemma partition_on_chars: "partition_on c s = (a, b, d) \<Longrightarrow> set a \<subseteq> set s \<and> set d \<subseteq> set s"
  using list.set_sel(2) [of "dropWhile (\<lambda>x. x \<noteq> c) s"]
  by (cases "dropWhile (\<lambda>x. x \<noteq> c) s = []")
    (auto simp: partition_on_def dest: set_takeWhileD intro: set_dropWhileD)

lemma parse_qsl_scalar:
  assumes "list_all scalar q"
  shows "list_all scalar_pair (parse_qsl keep q)"
proof -
  have "scalar_pair (parse_field f)" if "f \<in> set (split_on 38 q)" for f
  proof -
    obtain a b d where p: "partition_on 61 f = (a, b, d)" by (cases "partition_on 61 f")
    have "set a \<subseteq> set q" "set d \<subseteq> set q"
      using partition_on_chars [OF p] split_on_chars [OF that] by auto
    then have "list_all scalar a" "list_all scalar d" using assms by (auto simp: list_all_iff)
    then show ?thesis by (simp add: parse_field_def scalar_pair_def p unquote_plus_scalar)
  qed
  then show ?thesis by (auto simp: parse_qsl_def list_all_iff)
qed

section \<open>URLs put together from their parts\<close>

text \<open>A character that no step of the splitting drops.\<close>

definition url_char :: "nat \<Rightarrow> bool" where
  "url_char c \<longleftrightarrow> 32 < c \<and> \<not> py_space c \<and> scalar c"

text \<open>
  The parts of an absolute URL with an ASCII host: what urlunsplit makes of them is split into the
  same parts.
\<close>

definition web_url :: "url_parts \<Rightarrow> bool" where
  "web_url p \<longleftrightarrow>
     up_scheme p \<noteq> [] \<and> ascii_letter (hd (up_scheme p)) \<and> list_all scheme_char (up_scheme p) \<and>
     up_netloc p \<noteq> [] \<and>
     list_all (\<lambda>c. url_char c \<and> c < 128 \<and> \<not> netloc_end c \<and> c \<noteq> 91 \<and> c \<noteq> 93) (up_netloc p) \<and>
     (up_path p = [] \<or> hd (up_path p) = 47) \<and>
     list_all (\<lambda>c. url_char c \<and> c \<noteq> 63 \<and> c \<noteq> 35) (up_path p) \<and>
     list_all (\<lambda>c. url_char c \<and> c \<noteq> 35) (up_query p) \<and>
     list_all url_char (up_fragment p)"

lemma scheme_url_char: "scheme_char c \<Longrightarrow> url_char c \<and> c < 128 \<and> c \<noteq> 58"
  by (auto simp: scheme_char_def url_char_def py_space_def space_points_def scalar_def)

lemma urlunsplit_web:
  "web_url p \<Longrightarrow> urlunsplit p = up_scheme p @ 58 # 47 # 47 # up_netloc p @ up_path p @
     (if up_query p \<noteq> [] then 63 # up_query p else []) @
     (if up_fragment p \<noteq> [] then 35 # up_fragment p else [])"
  by (auto simp: web_url_def urlunsplit_def Let_def lit_def)

lemma web_url_chars:
  assumes "web_url p"
  shows "list_all url_char (urlunsplit p)"
proof -
  have "url_char 58" "url_char 47" "url_char 63" "url_char 35"
    by (simp_all add: url_char_def py_space_def space_points_def scalar_def)
  then show ?thesis
    using assms scheme_url_char by (auto simp: urlunsplit_web web_url_def list_all_iff)
qed

lemma urlsplit_urlunsplit:
  assumes "web_url p"
  shows "urlsplit nfkc ip_literal (urlunsplit p) = Some (p\<lparr>up_scheme := py_lower (up_scheme p)\<rparr>)"
proof -
  let ?u = "urlunsplit p"
  let ?query = "if up_query p \<noteq> [] then 63 # up_query p else []"
  let ?fragment = "if up_fragment p \<noteq> [] then 35 # up_fragment p else []"
  have chars: "list_all url_char ?u" by (rule web_url_chars [OF assms])
  have "?u \<noteq> []" using assms by (auto simp: urlunsplit_web web_url_def)
  with chars have "dropWhile (\<lambda>c. c \<le> 32) ?u = ?u" by (cases ?u) (auto simp: url_char_def)
  moreover have "filter (\<lambda>c. c \<noteq> 9 \<and> c \<noteq> 10 \<and> c \<noteq> 13) ?u = ?u"
    using chars by (auto simp: list_all_iff url_char_def intro!: filter_True)
  moreover have "split_scheme ?u =
      (py_lower (up_scheme p), 47 # 47 # up_netloc p @ up_path p @ ?query @ ?fragment)"
  proof -
    have "58 \<notin> set (up_scheme p)"
      using assms scheme_url_char by (auto simp: web_url_def list_all_iff)
    then show ?thesis
      using assms by (simp add: split_scheme_def urlunsplit_web partition_on_sep web_url_def)
  qed
  moreover have "split_netloc (47 # 47 # up_netloc p @ up_path p @ ?query @ ?fragment) =
      (up_netloc p, up_path p @ ?query @ ?fragment)"
  proof -
    have net: "\<forall>c \<in> set (up_netloc p). \<not> netloc_end c" using assms by (simp add: web_url_def list_all_iff)
    have "up_path p = [] \<or> netloc_end (hd (up_path p))" using assms by (auto simp: web_url_def netloc_end_def)
    then have "takeWhile (\<lambda>c. \<not> netloc_end c) (up_path p @ ?query @ ?fragment) = []"
        "dropWhile (\<lambda>c. \<not> netloc_end c) (up_path p @ ?query @ ?fragment) = up_path p @ ?query @ ?fragment"
      by (cases "up_path p"; auto simp: netloc_end_def)+
    with net show ?thesis
      by (auto simp: split_netloc_def starts_with_def lit_def takeWhile_append2 dropWhile_append2)
  qed
  moreover have "cut_at 35 (up_path p @ ?query @ ?fragment) = (up_path p @ ?query, up_fragment p)"
  proof -
    have "35 \<notin> set (up_path p @ ?query)" using assms by (auto simp: web_url_def list_all_iff)
    then show ?thesis
      using cut_at_sep [of 35 "up_path p @ ?query" "up_fragment p"] cut_at_none [of 35 "up_path p @ ?query"]
      by (cases "up_fragment p = []") simp_all
  qed
  moreover have "cut_at 63 (up_path p @ ?query) = (up_path p, up_query p)"
  proof -
    have "63 \<notin> set (up_path p)" using assms by (auto simp: web_url_def list_all_iff)
    then show ?thesis by (simp add: cut_at_sep cut_at_none)
  qed
  moreover have "\<not> brackets_refused ip_literal (up_netloc p)" "\<not> netloc_refused nfkc (up_netloc p)"
    using assms
    by (auto simp: brackets_refused_def netloc_refused_def Let_def web_url_def list_all_iff list_ex_iff)
  ultimately show ?thesis by (simp add: urlsplit_def)
qed

end
