(* ===== verification/Dedup.thy ===== *)
theory Dedup
  imports Urls Labels
begin

text \<open>
  crawler/tender_crawler/services/deduplication.py (DeduplicationService) and normalize_url of
  crawler/tender_crawler/utils.py: the normal forms of titles, regions, organizations, budgets, dates
  and links, and the keys the crawler makes of them to recognize a notice it has seen.

  What Python takes from the Unicode database, from hashlib and from the parsers of datetime is the
  argument \<open>text_lib\<close>: NFKC, str.lower, the hexadecimal SHA-256 of a text, whether a bracketed host
  is an IP literal, the truth value of a value of another type, datetime.fromisoformat (with the
  result in UTC) and datetime.strptime by its format.  Everything else is written out.
\<close>

record text_lib =
  tl_nfkc :: "ustr \<Rightarrow> ustr"
  tl_lower :: "ustr \<Rightarrow> ustr"
  tl_sha256 :: "ustr \<Rightarrow> ustr"
  tl_ip_literal :: "ustr \<Rightarrow> bool"
  tl_true :: "ustr \<Rightarrow> bool"
  tl_fromisoformat :: "ustr \<Rightarrow> instant option"
  tl_strptime :: "ustr \<Rightarrow> ustr \<Rightarrow> instant option"

section \<open>Texts\<close>

text \<open>\<open>_as_str\<close>: the stripped text of a value, None for None and for an empty text.\<close>

definition text_or_none :: "ustr \<Rightarrow> ustr option" where
  "text_or_none s = (if s = [] then None else Some s)"

definition item_str :: "pyval \<Rightarrow> ustr option" where
  "item_str v = (case v of VNone \<Rightarrow> None | _ \<Rightarrow> text_or_none (strip (py_str v)))"

text \<open>\<open>re.sub(r"\s+", " ", s)\<close> and \<open>re.sub(r"\s+", "", s)\<close>.\<close>

function collapse_spaces :: "ustr \<Rightarrow> ustr" where
  "collapse_spaces [] = []"
| "collapse_spaces (c # s) =
     (if py_space c then 32 # collapse_spaces (dropWhile py_space s) else c # collapse_spaces s)"
  by pat_completeness auto
termination
  by (relation "measure length") (auto simp: less_Suc_eq_le length_dropWhile_le)

definition remove_spaces :: "ustr \<Rightarrow> ustr" where
  "remove_spaces s = filter (\<lambda>c. \<not> py_space c) s"

definition notice_types :: "ustr list" where
  "notice_types = map lit [''announcement'', ''change'', ''result'']"

definition normalize_notice_type :: "pyval \<Rightarrow> ustr" where
  "normalize_notice_type v =
     (case item_str v of
        Some t \<Rightarrow> if t \<in> set notice_types then t else lit ''announcement''
      | None \<Rightarrow> lit ''announcement'')"

definition normalize_text :: "text_lib \<Rightarrow> bool \<Rightarrow> pyval \<Rightarrow> ustr option" where
  "normalize_text lib lowercase v =
     (case item_str v of
        None \<Rightarrow> None
      | Some t \<Rightarrow>
         (let n = strip (collapse_spaces (tl_nfkc lib t))
          in if n = [] then None else Some (if lowercase then tl_lower lib n else n)))"

text \<open>\<open>_PUNCT_TRANSLATIONS\<close>, as code points.\<close>

definition punct_translations :: "(nat \<times> nat) list" where
  "punct_translations = [(65292, 44), (12290, 46), (65307, 59), (65306, 58), (65288, 40), (65289, 41),
     (12304, 91), (12305, 93), (8220, 34), (8221, 34), (8216, 39), (8217, 39), (12289, 44), (65293, 45)]"

definition translate_punct :: "ustr \<Rightarrow> ustr" where
  "translate_punct s = map (\<lambda>c. case map_of punct_translations c of None \<Rightarrow> c | Some d \<Rightarrow> d) s"

definition normalize_title :: "text_lib \<Rightarrow> pyval \<Rightarrow> ustr option" where
  "normalize_title lib v =
     (case normalize_text lib True v of
        None \<Rightarrow> None | Some t \<Rightarrow> text_or_none (remove_spaces (translate_punct t)))"

definition normalize_region :: "text_lib \<Rightarrow> pyval \<Rightarrow> ustr option" where
  "normalize_region lib v = normalize_text lib True v"

definition normalize_purchaser_or_publisher :: "text_lib \<Rightarrow> pyval \<Rightarrow> ustr option" where
  "normalize_purchaser_or_publisher lib v =
     (case normalize_text lib True v of
        None \<Rightarrow> None | Some t \<Rightarrow> text_or_none (remove_spaces (translate_punct t)))"

section \<open>Budgets\<close>

text \<open>
  A Decimal c * 10 ^ e as the pair (c, e), and the arithmetic of the default context: 28 digits,
  results rounded half to even.
\<close>

type_synonym decimal = "int \<times> int"

definition decimal_precision :: nat where
  "decimal_precision = 28"

definition digit_count :: "int \<Rightarrow> nat" where
  "digit_count c = length (show_nat (nat \<bar>c\<bar>))"

definition round_half_even :: "int \<Rightarrow> int \<Rightarrow> int" where
  "round_half_even c m =
     (let a = \<bar>c\<bar>; q = a div m; r = a mod m;
          q' = (if 2 * r > m \<or> (2 * r = m \<and> odd q) then q + 1 else q)
      in sgn c * q')"

definition round_half_up :: "int \<Rightarrow> int \<Rightarrow> int" where
  "round_half_up c m = (let a = \<bar>c\<bar> in sgn c * (if 2 * (a mod m) \<ge> m then a div m + 1 else a div m))"

definition decimal_fix :: "decimal \<Rightarrow> decimal" where
  "decimal_fix d =
     (let c = fst d; n = digit_count c
      in if n \<le> decimal_precision then d
         else (let k = n - decimal_precision; c' = round_half_even c (10 ^ k)
               in if digit_count c' \<le> decimal_precision then (c', snd d + int k)
                  else (c' div 10, snd d + int k + 1)))"

definition decimal_mult :: "decimal \<Rightarrow> int \<Rightarrow> decimal" where
  "decimal_mult d m = decimal_fix (fst d * m, snd d)"

text \<open>
  \<open>d.quantize(Decimal("1"), rounding)\<close>: an integer, or InvalidOperation when it has more than 28
  digits.
\<close>

definition quantize_one :: "(int \<Rightarrow> int \<Rightarrow> int) \<Rightarrow> decimal \<Rightarrow> int result" where
  "quantize_one rounding d =
     (let i = (if 0 \<le> snd d then fst d * 10 ^ nat (snd d) else rounding (fst d) (10 ^ nat (- snd d)))
      in if digit_count i \<le> decimal_precision then Inr i else Inl InvalidOperation)"

definition ascii_digit :: "nat \<Rightarrow> bool" where
  "ascii_digit c \<longleftrightarrow> 48 \<le> c \<and> c \<le> 57"

definition digits_value :: "ustr \<Rightarrow> int" where
  "digits_value s = foldl (\<lambda>acc c. 10 * acc + (int c - 48)) 0 s"

text \<open>\<open>-?[0-9]+(?:\.[0-9]+)?\<close> at the start of a text, and its leftmost match.\<close>

definition match_number :: "ustr \<Rightarrow> decimal option" where
  "match_number s =
     (let neg = (s \<noteq> [] \<and> hd s = 45);
          r = (if neg then tl s else s);
          whole = takeWhile ascii_digit r;
          after = dropWhile ascii_digit r;
          frac = (if after \<noteq> [] \<and> hd after = 46 then takeWhile ascii_digit (tl after) else []);
          n = digits_value (whole @ frac)
      in if whole = [] then None else Some (if neg then - n else n, - int (length frac)))"

fun search_number :: "ustr \<Rightarrow> decimal option" where
  "search_number [] = match_number []"
| "search_number (c # s) = (case match_number (c # s) of Some d \<Rightarrow> Some d | None \<Rightarrow> search_number s)"

definition bucket_of_amount :: "decimal \<Rightarrow> int result" where
  "bucket_of_amount amount =
     and_then (quantize_one round_half_up (fst amount, snd amount - 3)) (\<lambda>steps.
       quantize_one round_half_even (decimal_mult (steps, 0) 1000))"

definition budget_amount_of :: "ustr \<Rightarrow> decimal option" where
  "budget_amount_of normalized =
     (let unit = (if 19975 \<in> set normalized then 10000 else 1)
      in map_option (\<lambda>d. decimal_mult d unit) (search_number (filter (\<lambda>c. c \<noteq> 44) normalized)))"

definition normalize_budget_bucket :: "text_lib \<Rightarrow> pyval \<Rightarrow> ustr option result" where
  "normalize_budget_bucket lib v =
     (case normalize_text lib False v of
        None \<Rightarrow> Inr None
      | Some n \<Rightarrow>
         (case budget_amount_of n of
            None \<Rightarrow> Inr None
          | Some amount \<Rightarrow> and_then (bucket_of_amount amount) (\<lambda>b. Inr (Some (show_int b)))))"

section \<open>Dates\<close>

definition is_leap :: "int \<Rightarrow> bool" where
  "is_leap y \<longleftrightarrow> y mod 4 = 0 \<and> (y mod 100 \<noteq> 0 \<or> y mod 400 = 0)"

definition days_in_month :: "int \<Rightarrow> int \<Rightarrow> int" where
  "days_in_month y m =
     (if m = 2 then (if is_leap y then 29 else 28) else if m \<in> {4, 6, 9, 11} then 30 else 31)"

text \<open>\<open>datetime(year, month, day, tzinfo=timezone.utc)\<close>: the day number, or ValueError.\<close>

definition make_date :: "int \<Rightarrow> int \<Rightarrow> int \<Rightarrow> int result" where
  "make_date y m d =
     (if y < 1 \<or> 9999 < y then Inl (ValueError (lit ''year out of range''))
      else if m < 1 \<or> 12 < m then Inl (ValueError (lit ''month must be in 1..12''))
      else if d < 1 \<or> days_in_month y m < d then Inl (ValueError (lit ''day is out of range for month''))
      else Inr (days_from_civil y m d))"

text \<open>The code points of the Chinese words for year and month, as separators.\<close>

definition year_separator :: "nat \<Rightarrow> bool" where
  "year_separator c \<longleftrightarrow> c = 45 \<or> c = 47 \<or> c = 24180"

definition month_separator :: "nat \<Rightarrow> bool" where
  "month_separator c \<longleftrightarrow> c = 45 \<or> c = 47 \<or> c = 26376"

text \<open>Up to two digits at the start of a text.\<close>

definition two_digits :: "ustr \<Rightarrow> ustr \<times> ustr" where
  "two_digits s = (let n = min 2 (length (takeWhile ascii_digit s)) in (take n s, drop n s))"

text \<open>Four digits, a separator, one or two digits, a separator, one or two digits.\<close>

definition match_date :: "ustr \<Rightarrow> (int \<times> int \<times> int) option" where
  "match_date s =
     (case two_digits (drop 5 s) of
        (month, rest) \<Rightarrow>
          (case two_digits (tl rest) of
             (days, _) \<Rightarrow>
               if 4 < length s \<and> list_all ascii_digit (take 4 s) \<and> year_separator (s ! 4) \<and> month \<noteq> [] \<and>
                  rest \<noteq> [] \<and> month_separator (hd rest) \<and> days \<noteq> []
               then Some (digits_value (take 4 s), digits_value month, digits_value days) else None))"

fun search_date :: "ustr \<Rightarrow> (int \<times> int \<times> int) option" where
  "search_date [] = None"
| "search_date (c # s) = (case match_date (c # s) of Some d \<Rightarrow> Some d | None \<Rightarrow> search_date s)"

definition replace_z :: "ustr \<Rightarrow> ustr" where
  "replace_z s = concat (map (\<lambda>c. if c = 90 then lit ''+00:00'' else [c]) s)"

definition date_formats :: "ustr list" where
  "date_formats =
     map lit [''%Y-%m-%d %H:%M:%S'', ''%Y-%m-%d %H:%M'', ''%Y/%m/%d %H:%M:%S'', ''%Y/%m/%d %H:%M'',
       ''%Y-%m-%d'', ''%Y/%m/%d'', ''%Y%m%d''] @
     [zh_format_minutes_spaced, zh_format_minutes, zh_format_date]"

fun first_format :: "text_lib \<Rightarrow> ustr \<Rightarrow> ustr list \<Rightarrow> instant option" where
  "first_format lib t [] = None"
| "first_format lib t (f # fs) =
     (case tl_strptime lib t f of Some i \<Rightarrow> Some i | None \<Rightarrow> first_format lib t fs)"

definition parse_datetime_text :: "text_lib \<Rightarrow> ustr \<Rightarrow> instant option" where
  "parse_datetime_text lib t =
     (case tl_fromisoformat lib (replace_z t) of
        Some i \<Rightarrow> Some i | None \<Rightarrow> first_format lib t date_formats)"

definition parse_datetime_like :: "text_lib \<Rightarrow> pyval \<Rightarrow> instant option" where
  "parse_datetime_like lib v =
     (case v of
        VNone \<Rightarrow> None
      | VTime _ i \<Rightarrow> Some i
      | _ \<Rightarrow> (case normalize_text lib False v of None \<Rightarrow> None | Some t \<Rightarrow> parse_datetime_text lib t))"

definition normalize_published_date :: "text_lib \<Rightarrow> pyval \<Rightarrow> ustr option result" where
  "normalize_published_date lib v =
     (case parse_datetime_like lib v of
        Some i \<Rightarrow> Inr (Some (iso_date (i div day)))
      | None \<Rightarrow>
         (case normalize_text lib False v of
            None \<Rightarrow> Inr None
          | Some t \<Rightarrow>
             (case search_date t of
                None \<Rightarrow> Inr None
              | Some (y, m, d) \<Rightarrow> and_then (make_date y m d) (\<lambda>z. Inr (Some (iso_date z))))))"

section \<open>Links\<close>

text \<open>ValueError of urlsplit; its message is not kept.\<close>

definition split_url :: "text_lib \<Rightarrow> ustr \<Rightarrow> url_parts result" where
  "split_url lib url =
     (case urlsplit (tl_nfkc lib) (tl_ip_literal lib) url of
        None \<Rightarrow> Inl (ValueError (lit ''invalid URL'')) | Some p \<Rightarrow> Inr p)"

definition normalize_url :: "text_lib \<Rightarrow> ustr \<Rightarrow> ustr result" where
  "normalize_url lib url =
     and_then (split_url lib (strip url)) (\<lambda>p.
       Inr (urlunsplit \<lparr>up_scheme = tl_lower lib (up_scheme p), up_netloc = tl_lower lib (up_netloc p),
              up_path = (if up_path p = [] then lit ''/'' else up_path p),
              up_query = urlencode (sort (parse_qsl True (up_query p))), up_fragment = []\<rparr>))"

definition normalize_url_and_hash :: "text_lib \<Rightarrow> pyval \<Rightarrow> pyval \<Rightarrow> (ustr option \<times> ustr option) result" where
  "normalize_url_and_hash lib url normalized_url =
     (case (case item_str normalized_url of None \<Rightarrow> item_str url | Some t \<Rightarrow> Some t) of
        None \<Rightarrow> Inr (None, None)
      | Some raw \<Rightarrow> and_then (normalize_url lib raw) (\<lambda>u. Inr (Some u, Some (tl_sha256 lib u))))"

definition irrelevant_query_param_names :: "ustr list" where
  "irrelevant_query_param_names = map lit [''_'', ''_t'', ''_ts'', ''from'', ''rand'', ''random'', ''ref'',
     ''referer'', ''sessionid'', ''sid'', ''spm'', ''timestamp'', ''track'', ''tracking'']"

definition irrelevant_param :: "text_lib \<Rightarrow> ustr \<Rightarrow> bool" where
  "irrelevant_param lib key =
     (let k = tl_lower lib (strip key)
      in k \<in> set irrelevant_query_param_names \<or> starts_with (lit ''utm_'') k)"

definition drop_irrelevant_query_params :: "text_lib \<Rightarrow> ustr \<Rightarrow> ustr result" where
  "drop_irrelevant_query_params lib url =
     and_then (split_url lib (strip url)) (\<lambda>p.
       Inr (urlunsplit (p\<lparr>up_query := urlencode (sort (filter (\<lambda>kv. \<not> irrelevant_param lib (fst kv))
                                                 (parse_qsl True (up_query p)))),
                          up_fragment := []\<rparr>)))"

definition normalize_detail_url :: "text_lib \<Rightarrow> pyval \<Rightarrow> ustr option result" where
  "normalize_detail_url lib v =
     (case item_str v of
        None \<Rightarrow> Inr None
      | Some t \<Rightarrow> and_then (drop_irrelevant_query_params lib t) (\<lambda>cleaned.
                  and_then (normalize_url lib cleaned) (\<lambda>u. Inr (Some u))))"

definition detail_locator_keys :: "ustr list" where
  "detail_locator_keys = map lit [''guid'', ''detail_id'', ''detailid'', ''id'', ''notice_id'', ''noticeid'',
     ''article_id'', ''articleid'']"

text \<open>str.upper of the locator keys, which are ASCII.\<close>

definition upper_ascii :: "ustr \<Rightarrow> ustr" where
  "upper_ascii s = map (\<lambda>c. if 97 \<le> c \<and> c \<le> 122 then c - 32 else c) s"

fun locator_in_query :: "text_lib \<Rightarrow> ustr \<Rightarrow> ustr list \<Rightarrow> ustr option" where
  "locator_in_query lib query [] = None"
| "locator_in_query lib query (k # ks) =
     (let values = (case parse_qs_get query k of [] \<Rightarrow> parse_qs_get query (upper_ascii k) | vs \<Rightarrow> vs)
      in case (case values of [] \<Rightarrow> None | v # _ \<Rightarrow> normalize_text lib True (VStr v)) of
           Some t \<Rightarrow> if t \<noteq> [] then Some t else locator_in_query lib query ks
         | None \<Rightarrow> locator_in_query lib query ks)"

definition locator_of_url :: "text_lib \<Rightarrow> pyval \<Rightarrow> ustr option result" where
  "locator_of_url lib detail_url =
     and_then (normalize_detail_url lib detail_url) (\<lambda>u.
       case u of
         None \<Rightarrow> Inr None
       | Some url \<Rightarrow> and_then (split_url lib url) (\<lambda>p.
           (case locator_in_query lib (up_query p) detail_locator_keys of
              Some t \<Rightarrow> Inr (Some t) | None \<Rightarrow> Inr (Some url))))"

definition extract_detail_locator :: "text_lib \<Rightarrow> pyval \<Rightarrow> pyval \<Rightarrow> ustr option result" where
  "extract_detail_locator lib detail_url detail_id =
     (case (case item_str detail_id of None \<Rightarrow> None | Some t \<Rightarrow> normalize_text lib True (VStr t)) of
        Some t \<Rightarrow> if t \<noteq> [] then Inr (Some t) else locator_of_url lib detail_url
      | None \<Rightarrow> locator_of_url lib detail_url)"

section \<open>Keys\<close>

definition stable_seed_text :: "ustr option \<Rightarrow> ustr" where
  "stable_seed_text v = (case v of None \<Rightarrow> lit ''-'' | Some t \<Rightarrow> if t = [] then lit ''-'' else t)"

definition seed :: "ustr option list \<Rightarrow> ustr" where
  "seed vs = join (lit ''|'') (map stable_seed_text vs)"

definition option_or :: "ustr option \<Rightarrow> ustr option \<Rightarrow> ustr option" where
  "option_or a b = (case a of None \<Rightarrow> b | Some t \<Rightarrow> if t = [] then b else a)"

text \<open>What the keys are made of; VNone is an argument that was not given.\<close>

record key_fields =
  kf_title :: pyval
  kf_published_at :: pyval
  kf_purchaser :: pyval
  kf_publisher :: pyval
  kf_budget_amount :: pyval
  kf_region :: pyval
  kf_detail_url :: pyval
  kf_detail_id :: pyval

definition build_source_list_item_fingerprint ::
    "text_lib \<Rightarrow> bool \<Rightarrow> pyval \<Rightarrow> pyval \<Rightarrow> key_fields \<Rightarrow> ustr result" where
  "build_source_list_item_fingerprint lib include_detail_locator source_code notice_type f =
     and_then (if include_detail_locator then normalize_detail_url lib (kf_detail_url f) else Inr None) (\<lambda>detail.
     and_then (normalize_published_date lib (kf_published_at f)) (\<lambda>date.
       Inr (tl_sha256 lib (seed [item_str source_code, normalize_title lib (kf_title f), detail, date,
              Some (normalize_notice_type notice_type), normalize_region lib (kf_region f)]))))"

definition purchaser_or_publisher :: "text_lib \<Rightarrow> key_fields \<Rightarrow> ustr option" where
  "purchaser_or_publisher lib f =
     option_or (normalize_purchaser_or_publisher lib (kf_purchaser f))
       (normalize_purchaser_or_publisher lib (kf_publisher f))"

definition build_notice_dedup_key :: "text_lib \<Rightarrow> bool \<Rightarrow> key_fields \<Rightarrow> ustr result" where
  "build_notice_dedup_key lib include_detail_locator f =
     and_then (normalize_published_date lib (kf_published_at f)) (\<lambda>date.
     and_then (normalize_budget_bucket lib (kf_budget_amount f)) (\<lambda>budget.
     and_then (if include_detail_locator
               then extract_detail_locator lib (kf_detail_url f) (kf_detail_id f) else Inr None) (\<lambda>locator.
       Inr (tl_sha256 lib (seed [normalize_title lib (kf_title f), date, purchaser_or_publisher lib f,
              budget, normalize_region lib (kf_region f), locator])))))"

definition truthy :: "ustr option \<Rightarrow> bool" where
  "truthy v \<longleftrightarrow> v \<noteq> None \<and> v \<noteq> Some []"

definition build_persistence_dedup_key :: "text_lib \<Rightarrow> key_fields \<Rightarrow> ustr result" where
  "build_persistence_dedup_key lib f =
     and_then (normalize_budget_bucket lib (kf_budget_amount f)) (\<lambda>budget.
       (let signals = filter truthy [purchaser_or_publisher lib f, budget, normalize_region lib (kf_region f)]
        in build_notice_dedup_key lib (length signals < 2) f))"

text \<open>publisher falls back to issuer, and the fallback key has no link and no detail id.\<close>

definition build_source_duplicate_key ::
    "text_lib \<Rightarrow> pyval \<Rightarrow> pyval \<Rightarrow> pyval \<Rightarrow> key_fields \<Rightarrow> ustr result" where
  "build_source_duplicate_key lib source_code notice_type issuer f =
     and_then (extract_detail_locator lib (kf_detail_url f) (kf_detail_id f)) (\<lambda>locator.
       if truthy locator
       then Inr (tl_sha256 lib (seed [normalize_text lib True source_code,
                   Some (normalize_notice_type notice_type), locator]))
       else build_persistence_dedup_key lib
              (f\<lparr>kf_publisher := py_or (tl_true lib) (kf_publisher f) issuer,
                 kf_detail_url := VNone, kf_detail_id := VNone\<rparr>))"

definition ensure_content_hash :: "text_lib \<Rightarrow> pyval \<Rightarrow> pyval \<Rightarrow> ustr option" where
  "ensure_content_hash lib content_hash raw_body =
     (case item_str content_hash of
        Some t \<Rightarrow> Some t
      | None \<Rightarrow> map_option (tl_sha256 lib) (item_str raw_body))"

section \<open>Items\<close>

datatype merge_strategy = By_external_id | By_detail_url | By_title | By_fallback | By_provided

record notice_identity =
  ni_dedup_hash :: "ustr option"
  ni_external_id :: "ustr option"
  ni_normalized_detail_url :: "ustr option"
  ni_normalized_title :: "ustr option"
  ni_merge_strategy :: merge_strategy

text \<open>\<open>item.get(k1) or item.get(k2)\<close>, and three of them.\<close>

definition get2 :: "text_lib \<Rightarrow> payload \<Rightarrow> string \<Rightarrow> string \<Rightarrow> pyval" where
  "get2 lib item a b = py_or (tl_true lib) (dict_get item (lit a)) (dict_get item (lit b))"

definition get3 :: "text_lib \<Rightarrow> payload \<Rightarrow> string \<Rightarrow> string \<Rightarrow> string \<Rightarrow> pyval" where
  "get3 lib item a b c = py_or (tl_true lib) (dict_get item (lit a)) (get2 lib item b c)"

definition optional_text :: "ustr option \<Rightarrow> pyval" where
  "optional_text v = (case v of None \<Rightarrow> VNone | Some t \<Rightarrow> VStr t)"

definition build_notice_identity :: "text_lib \<Rightarrow> payload \<Rightarrow> notice_identity result" where
  "build_notice_identity lib item =
     (let source_code = (case item_str (dict_get item (lit ''source_code'')) of
                           None \<Rightarrow> lit ''unknown_source'' | Some t \<Rightarrow> t);
          external_id = item_str (get2 lib item ''external_id'' ''notice_external_id'');
          detail_url = item_str (get3 lib item ''detail_page_url'' ''source_url'' ''url'');
          title = normalize_title lib (dict_get item (lit ''title''))
      in and_then (case detail_url of None \<Rightarrow> Inr None | Some u \<Rightarrow> normalize_detail_url lib (VStr u)) (\<lambda>detail.
         (let identity = (\<lambda>strategy hash. Inr \<lparr>ni_dedup_hash = hash, ni_external_id = external_id,
                ni_normalized_detail_url = detail, ni_normalized_title = title, ni_merge_strategy = strategy\<rparr>);
              hashed = (\<lambda>kind t. Some (tl_sha256 lib (source_code @ lit ''|'' @ lit kind @ lit ''|'' @ t)))
          in case external_id of
               Some t \<Rightarrow> identity By_external_id (hashed ''external_id'' t)
             | None \<Rightarrow>
                (case detail of
                   Some t \<Rightarrow> identity By_detail_url (hashed ''detail_url'' t)
                 | None \<Rightarrow>
                    (case title of
                       Some t \<Rightarrow> identity By_title (hashed ''title'' t)
                     | None \<Rightarrow>
                        (case item_str (get2 lib item ''dedup_hash'' ''notice_dedup_hash'') of
                           Some h \<Rightarrow> identity By_provided (Some h)
                         | None \<Rightarrow> identity By_fallback None))))))"

definition item_key_fields :: "text_lib \<Rightarrow> pyval \<Rightarrow> payload \<Rightarrow> key_fields" where
  "item_key_fields lib publisher item =
     \<lparr>kf_title = dict_get item (lit ''title''), kf_published_at = dict_get item (lit ''published_at''),
      kf_purchaser = dict_get item (lit ''purchaser''), kf_publisher = publisher,
      kf_budget_amount = dict_get item (lit ''budget_amount''), kf_region = dict_get item (lit ''region''),
      kf_detail_url = get3 lib item ''detail_page_url'' ''source_url'' ''url'',
      kf_detail_id = get2 lib item ''external_id'' ''notice_external_id''\<rparr>"

text \<open>\<open>self._as_str(v) or build()\<close>\<close>

definition str_or_build :: "pyval \<Rightarrow> ustr result \<Rightarrow> ustr result" where
  "str_or_build v build = (case item_str v of Some t \<Rightarrow> Inr t | None \<Rightarrow> build)"

definition normalize_notice_item :: "text_lib \<Rightarrow> payload \<Rightarrow> payload result" where
  "normalize_notice_item lib item =
     and_then (build_notice_identity lib item) (\<lambda>identity.
     and_then (str_or_build (dict_get item (lit ''dedup_key''))
                (build_persistence_dedup_key lib
                   (item_key_fields lib (get2 lib item ''issuer'' ''publisher'') item))) (\<lambda>dedup_key.
       (let hash = option_or (item_str (get2 lib item ''dedup_hash'' ''notice_dedup_hash'')) (ni_dedup_hash identity);
            d1 = dict_put (lit ''dedup_key'') (VStr dedup_key) item;
            d2 = dict_put (lit ''dedup_hash'') (optional_text hash) d1;
            d3 = dict_put (lit ''notice_dedup_hash'') (optional_text hash) d2;
            d4 = dict_put (lit ''external_id'') (optional_text (ni_external_id identity)) d3;
            d5 = dict_put (lit ''notice_external_id'') (optional_text (ni_external_id identity)) d4;
            d6 = dict_put (lit ''notice_type'') (VStr (normalize_notice_type (dict_get d5 (lit ''notice_type'')))) d5;
            d7 = dict_put (lit ''content_hash'') (optional_text (ensure_content_hash lib
                   (get2 lib d6 ''content_hash'' ''raw_content_hash'') (dict_get d6 (lit ''content_text'')))) d6;
            d8 = (case ni_normalized_detail_url identity of
                    Some u \<Rightarrow> if item_str (dict_get d7 (lit ''detail_page_url'')) = None
                              then dict_put (lit ''detail_page_url'') (VStr u) d7 else d7
                  | None \<Rightarrow> d7)
        in and_then (str_or_build (dict_get d8 (lit ''source_duplicate_key''))
                      (build_source_duplicate_key lib (dict_get d8 (lit ''source_code''))
                        (dict_get d8 (lit ''notice_type'')) (dict_get d8 (lit ''issuer''))
                        (item_key_fields lib (dict_get d8 (lit ''publisher'')) d8))) (\<lambda>key.
             Inr (dict_put (lit ''source_duplicate_key'') (VStr key) d8)))))"

definition as_mapping :: "pyval \<Rightarrow> payload option" where
  "as_mapping v = (case v of VDict _ kvs \<Rightarrow> Some kvs | _ \<Rightarrow> None)"

definition normalize_raw_document_item :: "text_lib \<Rightarrow> payload \<Rightarrow> payload result" where
  "normalize_raw_document_item lib item =
     and_then (normalize_detail_url lib (get2 lib item ''normalized_url'' ''url'')) (\<lambda>url.
       (let d1 = dict_put (lit ''normalized_url'') (optional_text url) item;
            d2 = dict_put (lit ''url_hash'') (optional_text (map_option (tl_sha256 lib) url)) d1;
            d3 = dict_put (lit ''content_hash'') (optional_text (ensure_content_hash lib
                   (dict_get d2 (lit ''content_hash'')) (dict_get d2 (lit ''raw_body'')))) d2;
            meta = (\<lambda>k. case as_mapping (dict_get d3 (lit ''extra_meta'')) of
                          None \<Rightarrow> VNone | Some kvs \<Rightarrow> dict_get kvs (lit k));
            given = dict_get d3 (lit ''source_duplicate_key'')
        in and_then (if item_str given \<noteq> None then Inr given
                     else and_then (build_source_duplicate_key lib (dict_get d3 (lit ''source_code''))
                                     (meta ''notice_type'') (meta ''issuer'')
                                     \<lparr>kf_title = dict_get d3 (lit ''title''), kf_published_at = meta ''published_at'',
                                      kf_purchaser = VNone, kf_publisher = VNone, kf_budget_amount = VNone,
                                      kf_region = meta ''region'',
                                      kf_detail_url = get2 lib d3 ''url'' ''normalized_url'',
                                      kf_detail_id = VNone\<rparr>) (\<lambda>k. Inr (VStr k))) (\<lambda>key.
             Inr (dict_put (lit ''source_duplicate_key'') key d3))))"

definition normalize_attachment_item :: "text_lib \<Rightarrow> payload \<Rightarrow> payload result" where
  "normalize_attachment_item lib item =
     and_then (normalize_detail_url lib (dict_get item (lit ''file_url''))) (\<lambda>url.
       (let d1 = (case url of None \<Rightarrow> item | Some u \<Rightarrow> dict_put (lit ''file_url'') (VStr u) item)
        in Inr (dict_put (lit ''url_hash'') (optional_text (map_option (tl_sha256 lib) url)) d1)))"

end
