(* ===== verification/Writer.thy ===== *)
theory Writer
  imports Dedup JobService
begin

text \<open>
  crawler/tender_crawler/writers/sqlalchemy_writer.py: what the crawler's writers do to the database
  with a raw document, a notice, a version of a notice, an attachment or an error.

  A writer runs one transaction per item.  The state is the database and the cache of source ids of
  SqlAlchemyWriterContext; the cache is not part of the transaction, so it keeps what a transaction
  that was not committed put into it.  The body of a transaction returns Inr (Some d) when it commits
  d, Inr None when it returns without a commit (the session is closed and rolled back) and Inl e when
  an exception leaves it.

  The environment holds the clock, Decimal(text), mimetypes.guess_type and which row a query without
  ORDER BY returns first (\<open>we_pick\<close>: a choice of position for each number of rows).
\<close>

record writer_env =
  we_lib :: text_lib
  we_now :: instant
  we_decimal :: "ustr \<Rightarrow> rat option"
  we_pick :: "nat \<Rightarrow> nat"
  we_guess_mime :: "ustr \<Rightarrow> ustr option"

definition any_row :: "writer_env \<Rightarrow> 'r list \<Rightarrow> 'r option" where
  "any_row env rows = (if rows = [] then None else Some (rows ! (we_pick env (length rows) mod length rows)))"

lemma any_row_mem: "any_row env rows = Some r \<Longrightarrow> r \<in> set rows"
  by (auto simp: any_row_def split: if_splits)

lemma any_row_None [simp]: "any_row env rows = None \<longleftrightarrow> rows = []"
  by (simp add: any_row_def)

section \<open>Reading the fields of an item\<close>

abbreviation field :: "payload \<Rightarrow> string \<Rightarrow> pyval" where
  "field item k \<equiv> dict_get item (lit k)"

abbreviation field_str :: "payload \<Rightarrow> string \<Rightarrow> ustr option" where
  "field_str item k \<equiv> item_str (field item k)"

definition item_int :: "pyval \<Rightarrow> int option" where
  "item_int v = (case v of VNone \<Rightarrow> None | _ \<Rightarrow> py_int (strip (py_str v)))"

definition item_decimal :: "writer_env \<Rightarrow> pyval \<Rightarrow> rat option" where
  "item_decimal env v =
     (case v of
        VNone \<Rightarrow> None
      | _ \<Rightarrow> (let t = filter (\<lambda>c. c \<noteq> 44) (strip (py_str v)) in if t = [] then None else we_decimal env t))"

definition writer_date_formats :: "ustr list" where
  "writer_date_formats = map lit [''%Y-%m-%d %H:%M:%S'', ''%Y-%m-%d %H:%M'', ''%Y-%m-%d'', ''%Y%m%d'']"

definition item_datetime :: "writer_env \<Rightarrow> pyval \<Rightarrow> instant option" where
  "item_datetime env v =
     (case item_str v of
        None \<Rightarrow> None
      | Some t \<Rightarrow> (case tl_fromisoformat (we_lib env) (replace_z t) of
                    Some i \<Rightarrow> Some i | None \<Rightarrow> first_format (we_lib env) t writer_date_formats))"

definition item_bool :: "pyval \<Rightarrow> bool \<Rightarrow> bool" where
  "item_bool v dflt =
     (case v of
        VNone \<Rightarrow> dflt
      | _ \<Rightarrow> (let t = py_lower (strip (py_str v))
             in if t \<in> set (map lit [''1'', ''true'', ''yes'', ''y'']) then True
                else if t \<in> set (map lit [''0'', ''false'', ''no'', ''n'']) then False else dflt))"

definition non_negative_int :: "pyval \<Rightarrow> int" where
  "non_negative_int v = (case item_int v of None \<Rightarrow> 0 | Some n \<Rightarrow> max 0 n)"

definition normalize_attachment_type :: "ustr option \<Rightarrow> ustr" where
  "normalize_attachment_type v =
     (case v of
        Some t \<Rightarrow> if t \<in> set (map lit [''notice_file'', ''bid_file'', ''other'']) then t else lit ''notice_file''
      | None \<Rightarrow> lit ''notice_file'')"

definition normalize_error_stage :: "ustr option \<Rightarrow> ustr" where
  "normalize_error_stage v =
     (case v of
        Some t \<Rightarrow> if t \<in> set (map lit [''fetch'', ''parse'', ''persist'']) then t else lit ''parse''
      | None \<Rightarrow> lit ''parse'')"

text \<open>\<open>a or b\<close> for texts that are not empty when they are given.\<close>

definition opt_or :: "'a option \<Rightarrow> 'a option \<Rightarrow> 'a option" where
  "opt_or a b = (case a of None \<Rightarrow> b | Some x \<Rightarrow> Some x)"

lemma opt_or_simps [simp]: "opt_or None b = b" "opt_or (Some x) b = Some x"
  by (simp_all add: opt_or_def)

fun guess_base_url_from :: "text_lib \<Rightarrow> payload \<Rightarrow> string list \<Rightarrow> ustr result" where
  "guess_base_url_from lib item [] = Inr (lit ''https://example.com'')"
| "guess_base_url_from lib item (k # ks) =
     (case field_str item k of
        None \<Rightarrow> guess_base_url_from lib item ks
      | Some t \<Rightarrow> and_then (split_url lib t) (\<lambda>p.
                    if up_scheme p \<noteq> [] \<and> up_netloc p \<noteq> []
                    then Inr (up_scheme p @ lit ''://'' @ up_netloc p) else guess_base_url_from lib item ks))"

definition guess_base_url :: "text_lib \<Rightarrow> payload \<Rightarrow> ustr result" where
  "guess_base_url lib item =
     guess_base_url_from lib item [''source_site_url'', ''detail_page_url'', ''source_url'', ''url'', ''file_url'']"

section \<open>Names, extensions and types of attachments\<close>

text \<open>urlparse takes the parameters after a semicolon off the last segment for these schemes.\<close>

definition uses_params :: "ustr list" where
  "uses_params = map lit ['''', ''ftp'', ''hdl'', ''prospero'', ''http'', ''https'', ''shttp'', ''rtsp'', ''rtsps'',
     ''rtspu'', ''sip'', ''sips'', ''mms'', ''sftp'', ''tel'']"

text \<open>\<open>s.rsplit(c, maxsplit=1)[-1]\<close>.\<close>

definition after_last :: "nat \<Rightarrow> ustr \<Rightarrow> ustr" where
  "after_last c s = rev (takeWhile (\<lambda>x. x \<noteq> c) (rev s))"

text \<open>\<open>urlparse(url).path.rsplit("/", maxsplit=1)[-1]\<close>\<close>

definition url_tail :: "text_lib \<Rightarrow> ustr \<Rightarrow> ustr result" where
  "url_tail lib url =
     and_then (split_url lib url) (\<lambda>p.
       (let last_segment = after_last 47 (up_path p)
        in Inr (if up_scheme p \<in> set uses_params then fst (cut_at 59 last_segment) else last_segment)))"

definition infer_attachment_file_name :: "text_lib \<Rightarrow> ustr option \<Rightarrow> ustr option result" where
  "infer_attachment_file_name lib file_url =
     (case file_url of
        None \<Rightarrow> Inr None
      | Some url \<Rightarrow> and_then (url_tail lib url) (\<lambda>t. Inr (text_or_none (strip (unquote t)))))"

definition infer_attachment_file_ext :: "text_lib \<Rightarrow> ustr \<Rightarrow> ustr \<Rightarrow> ustr option result" where
  "infer_attachment_file_ext lib file_name file_url =
     (let candidate = (if 46 \<in> set file_name then strip (after_last 46 file_name) else [])
      in if candidate \<noteq> [] then Inr (Some (tl_lower lib candidate))
         else and_then (url_tail lib file_url) (\<lambda>t.
                (let c = (if 46 \<in> set t then strip (after_last 46 t) else [])
                 in Inr (if c = [] then None else Some (tl_lower lib c)))))"

definition infer_attachment_mime_type :: "writer_env \<Rightarrow> ustr option \<Rightarrow> ustr \<Rightarrow> ustr \<Rightarrow> ustr option" where
  "infer_attachment_mime_type env mime_type file_name file_url =
     opt_or mime_type (opt_or (we_guess_mime env file_name) (we_guess_mime env file_url))"

section \<open>The source of an item\<close>

type_synonym source_cache = "ustr \<Rightarrow> int option"

definition auto_created_source :: "int \<Rightarrow> ustr \<Rightarrow> ustr option \<Rightarrow> ustr \<Rightarrow> source_site" where
  "auto_created_source i code name url =
     \<lparr>ss_id = i, ss_code = code, ss_name = text_or name code, ss_base_url = url, ss_official_url = url,
      ss_list_url = url, ss_description = Some (lit ''auto-created by crawler''), ss_is_active = True,
      ss_supports_js_render = False, ss_crawl_interval_minutes = 60, ss_default_max_pages = 50,
      ss_schedule_enabled = False, ss_schedule_days = 1, ss_last_scheduled_run_at = None,
      ss_next_scheduled_run_at = None, ss_last_schedule_status = None\<rparr>"

text \<open>
  SqlAlchemyWriterContext.source_site_id: a cached id is not looked up in the database; a source that
  is not there is created and flushed, not committed.
\<close>

definition source_site_id ::
    "ustr \<Rightarrow> ustr option \<Rightarrow> ustr \<Rightarrow> source_cache \<Rightarrow> db \<Rightarrow> (int \<times> source_cache \<times> db) result" where
  "source_site_id code name url cache d =
     (case cache code of
        Some i \<Rightarrow> Inr (i, cache, d)
      | None \<Rightarrow>
         (case find_source code d of
            Some s \<Rightarrow> Inr (ss_id s, cache(code \<mapsto> ss_id s), d)
          | None \<Rightarrow>
             (let i = next_id T_source_site ss_id (source_sites d) d
              in case insert_source_site (auto_created_source i code name url) d of
                   Inl e \<Rightarrow> Inl e
                 | Inr d' \<Rightarrow> Inr (i, cache(code \<mapsto> i), d'))))"

text \<open>One transaction for an item: its source, then the body.\<close>

definition with_source ::
    "text_lib \<Rightarrow> payload \<Rightarrow> (int \<Rightarrow> db \<Rightarrow> db option result) \<Rightarrow> source_cache \<times> db \<Rightarrow>
     unit result \<times> source_cache \<times> db" where
  "with_source lib item body st =
     (let cache = fst st; d = snd st;
          code = text_or (field_str item ''source_code'') (lit ''unknown_source'')
      in case (case field_str item ''source_site_url'' of Some t \<Rightarrow> Inr t | None \<Rightarrow> guess_base_url lib item) of
           Inl e \<Rightarrow> (Inl e, st)
         | Inr url \<Rightarrow>
            (case source_site_id code (field_str item ''source_site_name'') url cache d of
               Inl e \<Rightarrow> (Inl e, st)
             | Inr (i, cache', d1) \<Rightarrow>
                (case body i d1 of
                   Inl e \<Rightarrow> (Inl e, cache', d)
                 | Inr None \<Rightarrow> (Inr (), cache', d)
                 | Inr (Some d2) \<Rightarrow> (Inr (), cache', d2))))"

definition record_stats_for :: "payload \<Rightarrow> job_counters \<Rightarrow> db \<Rightarrow> db result" where
  "record_stats_for item deltas d =
     and_then (record_stats_in_session (item_int (field item ''crawl_job_id'')) deltas d) (\<lambda>r. Inr (snd r))"

definition job_known :: "int option \<Rightarrow> db \<Rightarrow> bool" where
  "job_known k d = (case k of None \<Rightarrow> True | Some i \<Rightarrow> i \<in> cj_id ` set (crawl_jobs d))"

section \<open>Raw documents\<close>

definition document_types :: "ustr list" where
  "document_types = map lit [''html'', ''pdf'', ''json'', ''other'']"

text \<open>What a flush of a new or changed raw document checks; the other rows are those with another id.\<close>

definition raw_document_violation :: "raw_document \<Rightarrow> db \<Rightarrow> integrity_constraint option" where
  "raw_document_violation r d =
     (let others = filter (\<lambda>x. rd_id x \<noteq> rd_id r) (raw_documents d)
      in if rd_source_site_id r \<notin> ss_id ` set (source_sites d) then Some (Uq_other (lit ''fk_raw_document_source_site''))
         else if \<not> job_known (rd_crawl_job_id r) d then Some (Uq_other (lit ''fk_raw_document_crawl_job''))
         else if rd_document_type r \<notin> set document_types then Some (Uq_other (lit ''ck_raw_document_type''))
         else if list_ex (\<lambda>x. rd_source_site_id x = rd_source_site_id r \<and> rd_url_hash x = rd_url_hash r) others
         then Some (Uq_other (lit ''uq_raw_document_source_url_hash''))
         else None)"

definition raw_document_row ::
    "writer_env \<Rightarrow> payload \<Rightarrow> int \<Rightarrow> int \<Rightarrow> ustr \<Rightarrow> bool \<Rightarrow> bool \<Rightarrow> raw_document" where
  "raw_document_row env item i source url_hash dup_url dup_content =
     \<lparr>rd_id = i, rd_source_site_id = source, rd_crawl_job_id = item_int (field item ''crawl_job_id''),
      rd_url = text_or (field_str item ''url'') [],
      rd_normalized_url = text_or (opt_or (field_str item ''normalized_url'') (field_str item ''url'')) [],
      rd_url_hash = url_hash, rd_content_hash = field_str item ''content_hash'',
      rd_source_duplicate_key = field_str item ''source_duplicate_key'',
      rd_source_list_item_fingerprint = field_str item ''source_list_item_fingerprint'',
      rd_document_type = text_or (field_str item ''document_type'') (lit ''html''),
      rd_http_status = item_int (field item ''http_status''), rd_mime_type = field_str item ''mime_type'',
      rd_charset = field_str item ''charset'', rd_title = field_str item ''title'',
      rd_fetched_at = (case item_datetime env (field item ''fetched_at'') of None \<Rightarrow> we_now env | Some t \<Rightarrow> t),
      rd_storage_uri = text_or (field_str item ''storage_uri'') [],
      rd_content_length = item_int (field item ''content_length''),
      rd_is_duplicate_url = dup_url, rd_is_duplicate_content = dup_content,
      rd_extra_meta = as_mapping (field item ''extra_meta'')\<rparr>"

definition raw_document_stats :: "payload \<Rightarrow> bool \<Rightarrow> bool \<Rightarrow> job_counters" where
  "raw_document_stats item existed dup_content =
     (let meta = (case as_mapping (field item ''extra_meta'') of None \<Rightarrow> [] | Some kvs \<Rightarrow> kvs);
          role = py_lower (text_or (field_str meta ''role'') []);
          of_list = (\<lambda>k. if role = lit ''list'' then non_negative_int (field meta k) else 0)
      in zero_counters\<lparr>pages_fetched := 1, documents_saved := 1,
           deduplicated_count := (if existed \<or> dup_content then 1 else 0),
           list_items_seen := of_list ''page_item_count'',
           list_items_unique := of_list ''new_unique_item_count'',
           list_items_source_duplicates_skipped := of_list ''page_source_duplicates_skipped'',
           detail_pages_fetched := (if role = lit ''detail'' then 1 else 0),
           records_inserted := (if existed then 0 else 1), records_updated := (if existed then 1 else 0)\<rparr>)"

definition save_raw_document :: "bool \<Rightarrow> raw_document \<Rightarrow> db \<Rightarrow> db result" where
  "save_raw_document is_new r d =
     (case (if is_new \<and> rd_id r \<in> rd_id ` set (raw_documents d) then Some (Uq_other (lit ''raw_document_pkey''))
            else raw_document_violation r d) of
        Some c \<Rightarrow> Inl (IntegrityError c)
      | None \<Rightarrow>
         Inr (if is_new then bump_seq T_raw_document (d\<lparr>raw_documents := add_row r (raw_documents d)\<rparr>)
              else d\<lparr>raw_documents := update_row rd_id (rd_id r) (\<lambda>_. r) (raw_documents d)\<rparr>))"

definition raw_document_body :: "writer_env \<Rightarrow> payload \<Rightarrow> int \<Rightarrow> db \<Rightarrow> db option result" where
  "raw_document_body env item source d =
     (case field_str item ''url_hash'' of
        None \<Rightarrow> Inr None
      | Some url_hash \<Rightarrow>
         (let mine = filter (\<lambda>r. rd_source_site_id r = source) (raw_documents d);
              existing = any_row env (filter (\<lambda>r. rd_url_hash r = url_hash) mine);
              same_content = (case field_str item ''content_hash'' of
                                None \<Rightarrow> None
                              | Some h \<Rightarrow> any_row env (filter (\<lambda>r. rd_content_hash r = Some h) mine));
              dup_content = (case same_content of
                               None \<Rightarrow> False
                             | Some r \<Rightarrow> (case existing of None \<Rightarrow> True | Some x \<Rightarrow> rd_id r \<noteq> rd_id x));
              i = (case existing of
                     None \<Rightarrow> next_id T_raw_document rd_id (raw_documents d) d | Some x \<Rightarrow> rd_id x);
              row = raw_document_row env item i source url_hash (existing \<noteq> None) dup_content
          in and_then (save_raw_document (existing = None) row d) (\<lambda>d1.
             and_then (record_stats_for item (raw_document_stats item (existing \<noteq> None) dup_content) d1) (\<lambda>d2.
               Inr (Some d2)))))"

definition write_raw_document ::
    "writer_env \<Rightarrow> payload \<Rightarrow> source_cache \<times> db \<Rightarrow> unit result \<times> source_cache \<times> db" where
  "write_raw_document env item st =
     (case normalize_raw_document_item (we_lib env) item of
        Inl e \<Rightarrow> (Inl e, st)
      | Inr item' \<Rightarrow> with_source (we_lib env) item' (raw_document_body env item') st)"

section \<open>Finding the notice of an item\<close>

text \<open>str() of an amount read from a column with two decimals.\<close>

definition amount_text :: "rat \<Rightarrow> ustr" where
  "amount_text a =
     (let c = \<lfloor>\<bar>a\<bar> * 100 + 1 / 2\<rfloor>
      in (if a < 0 then [45] else []) @ show_int (c div 100) @ lit ''.'' @ pad 2 (c mod 100))"

definition amount_value :: "rat option \<Rightarrow> pyval" where
  "amount_value a = (case a of None \<Rightarrow> VNone | Some r \<Rightarrow> VOther (amount_text r))"

definition same_signal :: "ustr option \<Rightarrow> ustr option \<Rightarrow> nat" where
  "same_signal given found = (if truthy given \<and> found = given then 1 else 0)"

text \<open>
  The candidate matches when it has the title and, of the signals the item gives, its only one or at
  least two.  A column holds no amount that is too large for a bucket.
\<close>

definition similar_notice :: "text_lib \<Rightarrow> ustr \<Rightarrow> ustr option \<times> ustr option \<times> ustr option \<Rightarrow> tender_notice \<Rightarrow> bool" where
  "similar_notice lib title signals n =
     (case signals of
        (issuer, region, budget) \<Rightarrow>
          (let available = length (filter truthy [issuer, region, budget]);
               matches =
                 same_signal issuer (normalize_purchaser_or_publisher lib (optional_text (tn_issuer n))) +
                 same_signal region (normalize_region lib (optional_text (tn_region n))) +
                 same_signal budget (case normalize_budget_bucket lib (amount_value (tn_budget_amount n)) of
                                       Inl _ \<Rightarrow> None | Inr b \<Rightarrow> b)
           in normalize_title lib (VStr (tn_title n)) = Some title \<and>
              (available = 1 \<and> matches = 1 \<or> 2 \<le> available \<and> 2 \<le> matches)))"

definition published_between :: "instant \<Rightarrow> instant \<Rightarrow> tender_notice \<Rightarrow> bool" where
  "published_between a b n = (case tn_published_at n of None \<Rightarrow> False | Some t \<Rightarrow> a \<le> t \<and> t < b)"

definition choose_similar ::
    "writer_env \<Rightarrow> ustr \<Rightarrow> payload \<Rightarrow> tender_notice list \<Rightarrow> tender_notice option result" where
  "choose_similar env title item candidates =
     (let lib = we_lib env
      in if candidates = [] then Inr None
         else and_then (normalize_budget_bucket lib (field item ''budget_amount'')) (\<lambda>budget.
           Inr (any_row env (filter (similar_notice lib title
             (normalize_purchaser_or_publisher lib (field item ''issuer''),
              normalize_region lib (field item ''region''), budget)) candidates))))"

definition similar_on_day ::
    "writer_env \<Rightarrow> int \<Rightarrow> payload \<Rightarrow> ustr \<Rightarrow> ustr \<Rightarrow> db \<Rightarrow> tender_notice option result" where
  "similar_on_day env source item title day_text d =
     (case tl_fromisoformat (we_lib env) (day_text @ lit ''T00:00:00+00:00'') of
        None \<Rightarrow> Inl (ValueError (lit ''Invalid isoformat string''))
      | Some day_start \<Rightarrow>
         (case add_seconds day_start 86400 of
            None \<Rightarrow> Inl OverflowError
          | Some day_end \<Rightarrow> choose_similar env title item
              (filter (\<lambda>n. tn_source_site_id n = source \<and> published_between day_start day_end n)
                (tender_notices d))))"

definition find_notice_by_high_similarity ::
    "writer_env \<Rightarrow> int \<Rightarrow> payload \<Rightarrow> db \<Rightarrow> tender_notice option result" where
  "find_notice_by_high_similarity env source item d =
     and_then (normalize_published_date (we_lib env) (field item ''published_at'')) (\<lambda>date.
       case normalize_title (we_lib env) (field item ''title'') of
         None \<Rightarrow> Inr None
       | Some title \<Rightarrow>
          (case date of
             None \<Rightarrow> Inr None | Some day_text \<Rightarrow> similar_on_day env source item title day_text d))"

definition lookup_notice :: "writer_env \<Rightarrow> int \<Rightarrow> payload \<Rightarrow> db \<Rightarrow> tender_notice option" where
  "lookup_notice env source item d =
     (let by = (\<lambda>f v. case v of
                  None \<Rightarrow> None
                | Some t \<Rightarrow> any_row env (filter (\<lambda>n. tn_source_site_id n = source \<and> f n = Some t) (tender_notices d)))
      in opt_or (by tn_external_id (item_str (get2 (we_lib env) item ''external_id'' ''notice_external_id'')))
        (opt_or (by tn_source_duplicate_key (field_str item ''source_duplicate_key''))
          (opt_or (by tn_dedup_key (field_str item ''dedup_key''))
            (by tn_dedup_hash (item_str (get2 (we_lib env) item ''dedup_hash'' ''notice_dedup_hash''))))))"

definition notice_summary :: "payload \<Rightarrow> ustr option" where
  "notice_summary item = opt_or (field_str item ''summary'') (field_str item ''content_text'')"

definition item_notice_type :: "payload \<Rightarrow> ustr" where
  "item_notice_type item = normalize_notice_type (optional_text (field_str item ''notice_type''))"

definition new_notice :: "writer_env \<Rightarrow> int \<Rightarrow> payload \<Rightarrow> ustr \<Rightarrow> int \<Rightarrow> tender_notice" where
  "new_notice env source item title i =
     \<lparr>tn_id = i, tn_source_site_id = source,
      tn_external_id = item_str (get2 (we_lib env) item ''external_id'' ''notice_external_id''),
      tn_project_code = field_str item ''project_code'',
      tn_dedup_hash = item_str (get2 (we_lib env) item ''dedup_hash'' ''notice_dedup_hash''),
      tn_dedup_key = field_str item ''dedup_key'', tn_source_duplicate_key = field_str item ''source_duplicate_key'',
      tn_title = title, tn_notice_type = item_notice_type item, tn_issuer = field_str item ''issuer'',
      tn_region = field_str item ''region'', tn_published_at = item_datetime env (field item ''published_at''),
      tn_deadline_at = item_datetime env (field item ''deadline_at''),
      tn_budget_amount = item_decimal env (field item ''budget_amount''),
      tn_budget_currency = text_or (field_str item ''budget_currency'') (lit ''CNY''),
      tn_summary = notice_summary item,
      tn_first_published_at = item_datetime env (field item ''published_at''),
      tn_latest_published_at = item_datetime env (field item ''published_at''),
      tn_current_version_id = None, tn_created_at = we_now env\<rparr>"

text \<open>What a flush of a new or changed notice checks.\<close>

definition notice_violation :: "tender_notice \<Rightarrow> db \<Rightarrow> integrity_constraint option" where
  "notice_violation n d =
     (let others = filter (\<lambda>x. tn_id x \<noteq> tn_id n \<and> tn_source_site_id x = tn_source_site_id n) (tender_notices d)
      in if tn_source_site_id n \<notin> ss_id ` set (source_sites d) then Some (Uq_other (lit ''fk_tender_notice_source_site''))
         else if tn_external_id n \<noteq> None \<and> list_ex (\<lambda>x. tn_external_id x = tn_external_id n) others
         then Some (Uq_other (lit ''uq_tender_notice_source_external_id''))
         else if tn_dedup_hash n \<noteq> None \<and> list_ex (\<lambda>x. tn_dedup_hash x = tn_dedup_hash n) others
         then Some (Uq_other (lit ''uq_tender_notice_source_dedup_hash''))
         else None)"

definition insert_notice :: "tender_notice \<Rightarrow> db \<Rightarrow> db result" where
  "insert_notice n d =
     (case (if tn_id n \<in> tn_id ` set (tender_notices d) then Some (Uq_other (lit ''tender_notice_pkey''))
            else notice_violation n d) of
        Some c \<Rightarrow> Inl (IntegrityError c)
      | None \<Rightarrow> Inr (bump_seq T_tender_notice (d\<lparr>tender_notices := add_row n (tender_notices d)\<rparr>)))"

definition save_notice :: "tender_notice \<Rightarrow> db \<Rightarrow> db result" where
  "save_notice n d =
     (case notice_violation n d of
        Some c \<Rightarrow> Inl (IntegrityError c)
      | None \<Rightarrow> Inr (d\<lparr>tender_notices := update_row tn_id (tn_id n) (\<lambda>_. n) (tender_notices d)\<rparr>))"

text \<open>The notice, whether it was created, and the database with it; None for an item without a title.\<close>

definition resolve_notice ::
    "writer_env \<Rightarrow> int \<Rightarrow> payload \<Rightarrow> db \<Rightarrow> (tender_notice \<times> bool \<times> db) option result" where
  "resolve_notice env source item d =
     and_then (case lookup_notice env source item d of
                 Some n \<Rightarrow> Inr (Some n) | None \<Rightarrow> find_notice_by_high_similarity env source item d) (\<lambda>found.
       case found of
         Some n \<Rightarrow> Inr (Some (n, False, d))
       | None \<Rightarrow>
          (case field_str item ''title'' of
             None \<Rightarrow> Inr None
           | Some title \<Rightarrow>
              (let n = new_notice env source item title (next_id T_tender_notice tn_id (tender_notices d) d)
               in and_then (insert_notice n d) (\<lambda>d1. Inr (Some (n, True, d1))))))"

definition see_published :: "instant \<Rightarrow> tender_notice \<Rightarrow> tender_notice" where
  "see_published t n =
     n\<lparr>tn_first_published_at :=
         (case tn_first_published_at n of None \<Rightarrow> Some t | Some f \<Rightarrow> if t < f then Some t else Some f),
       tn_latest_published_at :=
         (case tn_latest_published_at n of None \<Rightarrow> Some t | Some l \<Rightarrow> if l < t then Some t else Some l)\<rparr>"

definition apply_notice_fields :: "writer_env \<Rightarrow> payload \<Rightarrow> tender_notice \<Rightarrow> tender_notice" where
  "apply_notice_fields env item n =
     (let n1 = n\<lparr>tn_title := text_or (field_str item ''title'') (tn_title n),
                 tn_notice_type := normalize_notice_type
                   (optional_text (opt_or (field_str item ''notice_type'') (Some (tn_notice_type n)))),
                 tn_external_id := opt_or (item_str (get2 (we_lib env) item ''external_id'' ''notice_external_id''))
                   (tn_external_id n),
                 tn_project_code := opt_or (field_str item ''project_code'') (tn_project_code n),
                 tn_dedup_hash := opt_or (item_str (get2 (we_lib env) item ''dedup_hash'' ''notice_dedup_hash''))
                   (tn_dedup_hash n),
                 tn_dedup_key := opt_or (opt_or (field_str item ''dedup_key'') (field_str item ''source_duplicate_key''))
                   (tn_dedup_key n),
                 tn_source_duplicate_key := opt_or (field_str item ''source_duplicate_key'') (tn_source_duplicate_key n),
                 tn_issuer := opt_or (field_str item ''issuer'') (tn_issuer n),
                 tn_region := opt_or (field_str item ''region'') (tn_region n)\<rparr>;
          n2 = (case item_datetime env (field item ''published_at'') of
                  None \<Rightarrow> n1 | Some t \<Rightarrow> see_published t (n1\<lparr>tn_published_at := Some t\<rparr>))
      in n2\<lparr>tn_deadline_at := opt_or (item_datetime env (field item ''deadline_at'')) (tn_deadline_at n2),
            tn_budget_amount := opt_or (item_decimal env (field item ''budget_amount'')) (tn_budget_amount n2),
            tn_budget_currency := text_or (field_str item ''budget_currency'') (tn_budget_currency n2),
            tn_summary := opt_or (notice_summary item) (tn_summary n2)\<rparr>)"

section \<open>Notices\<close>

definition known_content :: "int \<Rightarrow> ustr option \<Rightarrow> ustr option \<Rightarrow> ustr \<Rightarrow> db \<Rightarrow> bool" where
  "known_content source dedup_key source_duplicate_key content_hash d =
     list_ex (\<lambda>v. nv_content_hash v = content_hash \<and>
                  (dedup_key \<noteq> None \<and> nv_dedup_key v = dedup_key \<or>
                   source_duplicate_key \<noteq> None \<and> nv_source_duplicate_key v = source_duplicate_key) \<and>
                  (case get_row tn_id (nv_notice_id v) (tender_notices d) of
                     None \<Rightarrow> False | Some n \<Rightarrow> tn_source_site_id n = source))
       (notice_versions d)"

definition notice_body :: "writer_env \<Rightarrow> payload \<Rightarrow> int \<Rightarrow> db \<Rightarrow> db option result" where
  "notice_body env item source d =
     (let source_key = field_str item ''source_duplicate_key'';
          key = opt_or (field_str item ''dedup_key'') source_key
      in if (case field_str item ''content_hash'' of
               None \<Rightarrow> False | Some h \<Rightarrow> known_content source key source_key h d)
         then and_then (record_stats_for item
                (zero_counters\<lparr>deduplicated_count := 1, source_duplicates_suppressed := 1\<rparr>) d) (\<lambda>d1. Inr (Some d1))
         else and_then (resolve_notice env source item d) (\<lambda>r.
           case r of
             None \<Rightarrow> Inr None
           | Some (n, created, d1) \<Rightarrow>
              and_then (save_notice (apply_notice_fields env item n) d1) (\<lambda>d2.
              and_then (record_stats_for item
                (zero_counters\<lparr>notices_upserted := 1, deduplicated_count := (if created then 0 else 1),
                   records_inserted := (if created then 1 else 0), records_updated := (if created then 0 else 1)\<rparr>)
                d2) (\<lambda>d3. Inr (Some d3)))))"

definition write_notice ::
    "writer_env \<Rightarrow> payload \<Rightarrow> source_cache \<times> db \<Rightarrow> unit result \<times> source_cache \<times> db" where
  "write_notice env item st =
     (case normalize_notice_item (we_lib env) item of
        Inl e \<Rightarrow> (Inl e, st)
      | Inr item' \<Rightarrow> with_source (we_lib env) item' (notice_body env item') st)"

section \<open>Versions\<close>

abbreviation versions_of :: "int \<Rightarrow> db \<Rightarrow> notice_version list" where
  "versions_of n d \<equiv> filter (\<lambda>v. nv_notice_id v = n) (notice_versions d)"

text \<open>SELECT max(version_no): None for a notice without versions.\<close>

definition max_version_no :: "int \<Rightarrow> db \<Rightarrow> int" where
  "max_version_no n d = (case map nv_version_no (versions_of n d) of [] \<Rightarrow> 0 | x # xs \<Rightarrow> fold max xs x)"

definition new_version :: "writer_env \<Rightarrow> int \<Rightarrow> payload \<Rightarrow> ustr \<Rightarrow> ustr \<Rightarrow> int \<Rightarrow> int \<Rightarrow> notice_version" where
  "new_version env n item title content_hash version_no i =
     \<lparr>nv_id = i, nv_notice_id = n, nv_raw_document_id = None, nv_version_no = version_no,
      nv_is_current = item_bool (field item ''is_current'') True, nv_content_hash = content_hash,
      nv_dedup_key = opt_or (field_str item ''dedup_key'') (field_str item ''source_duplicate_key''),
      nv_source_duplicate_key = field_str item ''source_duplicate_key'', nv_title = title,
      nv_notice_type = item_notice_type item, nv_issuer = field_str item ''issuer'',
      nv_region = field_str item ''region'', nv_published_at = item_datetime env (field item ''published_at''),
      nv_deadline_at = item_datetime env (field item ''deadline_at''),
      nv_budget_amount = item_decimal env (field item ''budget_amount''),
      nv_budget_currency = text_or (field_str item ''budget_currency'') (lit ''CNY''),
      nv_structured_data = Some (case as_mapping (field item ''structured_data'') of None \<Rightarrow> [] | Some kvs \<Rightarrow> kvs),
      nv_change_summary = field_str item ''change_summary'', nv_created_at = we_now env\<rparr>"

definition version_violation :: "notice_version \<Rightarrow> db \<Rightarrow> integrity_constraint option" where
  "version_violation v d =
     (let others = filter (\<lambda>x. nv_id x \<noteq> nv_id v \<and> nv_notice_id x = nv_notice_id v) (notice_versions d)
      in if nv_notice_id v \<notin> tn_id ` set (tender_notices d) then Some (Uq_other (lit ''fk_notice_version_notice''))
         else if list_ex (\<lambda>x. nv_version_no x = nv_version_no v) others
         then Some (Uq_other (lit ''uq_notice_version_notice_version_no''))
         else if list_ex (\<lambda>x. nv_content_hash x = nv_content_hash v) others
         then Some (Uq_other (lit ''uq_notice_version_notice_content_hash''))
         else None)"

definition insert_version :: "notice_version \<Rightarrow> db \<Rightarrow> db result" where
  "insert_version v d =
     (case (if nv_id v \<in> nv_id ` set (notice_versions d) then Some (Uq_other (lit ''notice_version_pkey''))
            else version_violation v d) of
        Some c \<Rightarrow> Inl (IntegrityError c)
      | None \<Rightarrow> Inr (bump_seq T_notice_version (d\<lparr>notice_versions := add_row v (notice_versions d)\<rparr>)))"

definition save_version :: "notice_version \<Rightarrow> db \<Rightarrow> db result" where
  "save_version v d =
     (case version_violation v d of
        Some c \<Rightarrow> Inl (IntegrityError c)
      | None \<Rightarrow> Inr (d\<lparr>notice_versions := update_row nv_id (nv_id v) (\<lambda>_. v) (notice_versions d)\<rparr>))"

definition create_version ::
    "writer_env \<Rightarrow> int \<Rightarrow> payload \<Rightarrow> int \<Rightarrow> db \<Rightarrow> (notice_version \<times> bool \<times> db) option result" where
  "create_version env n item version_no d =
     (case field_str item ''title'' of
        None \<Rightarrow> Inr None
      | Some title \<Rightarrow>
         (case field_str item ''content_hash'' of
            None \<Rightarrow> Inr None
          | Some h \<Rightarrow>
             (let v = new_version env n item title h version_no
                        (next_id T_notice_version nv_id (notice_versions d) d)
              in and_then (insert_version v d) (\<lambda>d1. Inr (Some (v, True, d1))))))"

definition requested_version_no :: "payload \<Rightarrow> int" where
  "requested_version_no item =
     (case item_int (field item ''version_no'') of None \<Rightarrow> 1 | Some i \<Rightarrow> if i = 0 then 1 else i)"

text \<open>The version with the content of the item, the one with its number, or a new one.\<close>

definition version_by_content :: "int \<Rightarrow> payload \<Rightarrow> db \<Rightarrow> notice_version option" where
  "version_by_content n item d =
     (case field_str item ''content_hash'' of
        None \<Rightarrow> None | Some h \<Rightarrow> find (\<lambda>v. nv_content_hash v = h) (versions_of n d))"

definition version_by_number :: "int \<Rightarrow> payload \<Rightarrow> db \<Rightarrow> notice_version option" where
  "version_by_number n item d = find (\<lambda>v. nv_version_no v = requested_version_no item) (versions_of n d)"

definition resolve_notice_version ::
    "writer_env \<Rightarrow> int \<Rightarrow> payload \<Rightarrow> db \<Rightarrow> (notice_version \<times> bool \<times> db) option result" where
  "resolve_notice_version env n item d =
     (case version_by_content n item d of
        Some v \<Rightarrow> Inr (Some (v, False, d))
      | None \<Rightarrow>
         (case version_by_number n item d of
            None \<Rightarrow> create_version env n item (requested_version_no item) d
          | Some v \<Rightarrow>
             (if field_str item ''content_hash'' = None \<or> Some (nv_content_hash v) = field_str item ''content_hash''
              then Inr (Some (v, False, d))
              else create_version env n item (max_version_no n d + 1) d)))"

definition put_text :: "string \<Rightarrow> payload \<Rightarrow> payload \<Rightarrow> payload" where
  "put_text k item d = dict_put (lit k) (optional_text (field_str item k)) d"

definition structured_data_of :: "payload \<Rightarrow> payload" where
  "structured_data_of item =
     filter (\<lambda>kv. snd kv \<noteq> VNone)
       (fold (\<lambda>k. put_text k item)
         [''source_site_name'', ''source_site_url'', ''list_page_url'', ''detail_page_url'', ''content_text'']
         (case as_mapping (field item ''structured_data'') of None \<Rightarrow> [] | Some kvs \<Rightarrow> kvs))"

definition updated_version ::
    "writer_env \<Rightarrow> payload \<Rightarrow> tender_notice \<Rightarrow> int option \<Rightarrow> notice_version \<Rightarrow> notice_version" where
  "updated_version env item notice raw_document_id v =
     v\<lparr>nv_is_current := item_bool (field item ''is_current'') True,
       nv_content_hash := text_or (field_str item ''content_hash'') (nv_content_hash v),
       nv_dedup_key := opt_or (opt_or (field_str item ''dedup_key'') (field_str item ''source_duplicate_key''))
         (nv_dedup_key v),
       nv_source_duplicate_key := opt_or (field_str item ''source_duplicate_key'') (nv_source_duplicate_key v),
       nv_title := text_or (field_str item ''title'') (tn_title notice),
       nv_notice_type := normalize_notice_type
         (optional_text (opt_or (field_str item ''notice_type'') (Some (tn_notice_type notice)))),
       nv_issuer := field_str item ''issuer'', nv_region := field_str item ''region'',
       nv_published_at := item_datetime env (field item ''published_at''),
       nv_deadline_at := item_datetime env (field item ''deadline_at''),
       nv_budget_amount := item_decimal env (field item ''budget_amount''),
       nv_budget_currency := text_or (field_str item ''budget_currency'') (lit ''CNY''),
       nv_change_summary := field_str item ''change_summary'',
       nv_raw_document_id := raw_document_id,
       nv_structured_data := Some (structured_data_of item)\<rparr>"

definition find_raw_document_id :: "int \<Rightarrow> ustr option \<Rightarrow> db \<Rightarrow> int option" where
  "find_raw_document_id source url_hash d =
     (case url_hash of
        None \<Rightarrow> None
      | Some h \<Rightarrow> map_option rd_id (find (\<lambda>r. rd_source_site_id r = source \<and> rd_url_hash r = h) (raw_documents d)))"

text \<open>UPDATE notice_version SET is_current = false for the other versions of the notice.\<close>

definition retire_others :: "notice_version \<Rightarrow> notice_version list \<Rightarrow> notice_version list" where
  "retire_others v vs =
     map (\<lambda>x. if nv_notice_id x = nv_notice_id v \<and> nv_id x \<noteq> nv_id v then x\<lparr>nv_is_current := False\<rparr> else x) vs"

definition make_current :: "notice_version \<Rightarrow> db \<Rightarrow> db" where
  "make_current v d =
     d\<lparr>notice_versions := retire_others v (notice_versions d),
       tender_notices := update_row tn_id (nv_notice_id v) (\<lambda>n. n\<lparr>tn_current_version_id := Some (nv_id v)\<rparr>)
         (tender_notices d)\<rparr>"

text \<open>What happens after the flush of the version: the current one is set, and its date is seen.\<close>

definition publish_version :: "notice_version \<Rightarrow> db \<Rightarrow> db" where
  "publish_version v d =
     (let d1 = (if nv_is_current v then make_current v d else d)
      in case nv_published_at v of
           None \<Rightarrow> d1
         | Some t \<Rightarrow> d1\<lparr>tender_notices :=
             update_row tn_id (nv_notice_id v) (see_published t) (tender_notices d1)\<rparr>)"

definition store_version ::
    "writer_env \<Rightarrow> payload \<Rightarrow> int \<Rightarrow> tender_notice \<Rightarrow> notice_version \<Rightarrow> bool \<Rightarrow> db \<Rightarrow> db option result" where
  "store_version env item source notice v created d =
     (let raw = find_raw_document_id source (field_str item ''raw_document_url_hash'') d;
          v' = updated_version env item notice raw v
      in and_then (save_version v' d) (\<lambda>d1.
         and_then (record_stats_for item
           (zero_counters\<lparr>deduplicated_count := (if created then 0 else 1),
              records_inserted := (if created then 1 else 0),
              records_updated := (if created then 0 else 1)\<rparr>) (publish_version v' d1)) (\<lambda>d2. Inr (Some d2))))"

definition version_body :: "writer_env \<Rightarrow> payload \<Rightarrow> int \<Rightarrow> db \<Rightarrow> db option result" where
  "version_body env item source d =
     and_then (resolve_notice env source item d) (\<lambda>r.
       case r of
         None \<Rightarrow> Inr None
       | Some (n, _, d1) \<Rightarrow>
          and_then (save_notice (apply_notice_fields env item n) d1) (\<lambda>d2.
          and_then (resolve_notice_version env (tn_id n) item d2) (\<lambda>rv.
            case rv of
              None \<Rightarrow> Inr None
            | Some (v, created, d3) \<Rightarrow>
                store_version env item source (apply_notice_fields env item n) v created d3)))"

definition write_notice_version ::
    "writer_env \<Rightarrow> payload \<Rightarrow> source_cache \<times> db \<Rightarrow> unit result \<times> source_cache \<times> db" where
  "write_notice_version env item st =
     (case normalize_notice_item (we_lib env) item of
        Inl e \<Rightarrow> (Inl e, st)
      | Inr item' \<Rightarrow> with_source (we_lib env) item' (version_body env item') st)"

section \<open>Attachments\<close>

definition attachment_row ::
    "writer_env \<Rightarrow> payload \<Rightarrow> int \<Rightarrow> int \<Rightarrow> int option \<Rightarrow> int option \<Rightarrow> ustr \<Rightarrow> ustr \<Rightarrow> ustr \<Rightarrow>
     ustr option \<Rightarrow> ustr option \<Rightarrow> int \<Rightarrow> tender_attachment" where
  "attachment_row env item source notice version raw file_name file_url url_hash file_ext mime_type i =
     \<lparr>ta_id = i, ta_source_site_id = source, ta_notice_id = notice, ta_notice_version_id = version,
      ta_raw_document_id = raw, ta_file_name = file_name,
      ta_attachment_type = normalize_attachment_type (field_str item ''attachment_type''),
      ta_file_url = file_url, ta_url_hash = url_hash, ta_file_hash = field_str item ''file_hash'',
      ta_storage_uri = field_str item ''storage_uri'', ta_mime_type = mime_type, ta_file_ext = file_ext,
      ta_file_size_bytes = item_int (field item ''file_size_bytes''),
      ta_published_at = item_datetime env (field item ''published_at''),
      ta_downloaded_at = item_datetime env (field item ''downloaded_at''), ta_is_deleted = False\<rparr>"

text \<open>An attachment that is there keeps its id, its flag and, without a new one, its download time.\<close>

definition merge_attachment :: "tender_attachment \<Rightarrow> tender_attachment \<Rightarrow> tender_attachment" where
  "merge_attachment old new =
     new\<lparr>ta_id := ta_id old, ta_downloaded_at := opt_or (ta_downloaded_at new) (ta_downloaded_at old),
         ta_is_deleted := ta_is_deleted old\<rparr>"

definition save_attachment :: "tender_attachment option \<Rightarrow> tender_attachment \<Rightarrow> db \<Rightarrow> db result" where
  "save_attachment existing row d =
     (case existing of
        None \<Rightarrow>
          (if ta_id row \<in> ta_id ` set (tender_attachments d)
           then Inl (IntegrityError (Uq_other (lit ''tender_attachment_pkey'')))
           else Inr (bump_seq T_tender_attachment (d\<lparr>tender_attachments := add_row row (tender_attachments d)\<rparr>)))
      | Some old \<Rightarrow> Inr (d\<lparr>tender_attachments :=
          update_row ta_id (ta_id old) (\<lambda>_. merge_attachment old row) (tender_attachments d)\<rparr>))"

definition attachment_body :: "writer_env \<Rightarrow> payload \<Rightarrow> int \<Rightarrow> db \<Rightarrow> db option result" where
  "attachment_body env item source d =
     and_then (resolve_notice env source item d) (\<lambda>r.
       case r of
         None \<Rightarrow> Inr None
       | Some (n, _, d1) \<Rightarrow>
          (let notice = apply_notice_fields env item n;
               file_url = field_str item ''file_url''
           in and_then (case field_str item ''file_name'' of
                          Some t \<Rightarrow> Inr (Some t)
                        | None \<Rightarrow> infer_attachment_file_name (we_lib env) file_url) (\<lambda>file_name.
              and_then (save_notice notice d1) (\<lambda>d2.
                case (field_str item ''url_hash'', file_url, file_name) of
                  (Some hash, Some url, Some name) \<Rightarrow>
                    (let existing = find (\<lambda>a. ta_source_site_id a = source \<and> ta_url_hash a = hash) (tender_attachments d2);
                         numbered = (case item_int (field item ''notice_version_no'') of
                                       None \<Rightarrow> None
                                     | Some k \<Rightarrow> map_option nv_id
                                         (find (\<lambda>v. nv_version_no v = k) (versions_of (tn_id notice) d2)));
                         version = opt_or numbered (tn_current_version_id notice);
                         raw = find_raw_document_id source (Some hash) d2;
                         mime = infer_attachment_mime_type env (field_str item ''mime_type'') name url
                     in and_then (case field_str item ''file_ext'' of
                                    Some t \<Rightarrow> Inr (Some t)
                                  | None \<Rightarrow> infer_attachment_file_ext (we_lib env) name url) (\<lambda>ext.
                          (let row = attachment_row env item source (tn_id notice) version raw name url hash ext mime
                                 (next_id T_tender_attachment ta_id (tender_attachments d2) d2);
                               existed = (existing \<noteq> None)
                           in and_then (save_attachment existing row d2) (\<lambda>d3.
                              and_then (record_stats_for item
                                (zero_counters\<lparr>deduplicated_count := (if existed then 1 else 0),
                                   records_inserted := (if existed then 0 else 1),
                                   records_updated := (if existed then 1 else 0)\<rparr>) d3) (\<lambda>d4. Inr (Some d4))))))
                | _ \<Rightarrow> Inr (Some d2)))))"

definition write_attachment ::
    "writer_env \<Rightarrow> payload \<Rightarrow> source_cache \<times> db \<Rightarrow> unit result \<times> source_cache \<times> db" where
  "write_attachment env item st =
     (case and_then (normalize_notice_item (we_lib env) item) (normalize_attachment_item (we_lib env)) of
        Inl e \<Rightarrow> (Inl e, st)
      | Inr item' \<Rightarrow> with_source (we_lib env) item' (attachment_body env item') st)"

section \<open>Errors\<close>

definition error_row :: "writer_env \<Rightarrow> payload \<Rightarrow> int \<Rightarrow> int \<Rightarrow> crawl_error" where
  "error_row env item source i =
     \<lparr>ce_id = i, ce_source_site_id = source, ce_crawl_job_id = item_int (field item ''crawl_job_id''),
      ce_raw_document_id = None, ce_stage = normalize_error_stage (field_str item ''stage''),
      ce_url = field_str item ''url'', ce_error_type = text_or (field_str item ''error_type'') (lit ''UnknownError''),
      ce_error_message = text_or (field_str item ''error_message'') [], ce_traceback = field_str item ''traceback'',
      ce_retryable = item_bool (field item ''retryable'') False,
      ce_occurred_at = (case item_datetime env (field item ''occurred_at'') of None \<Rightarrow> we_now env | Some t \<Rightarrow> t),
      ce_resolved = False, ce_created_at = we_now env\<rparr>"

definition error_body :: "writer_env \<Rightarrow> payload \<Rightarrow> int \<Rightarrow> db \<Rightarrow> db option result" where
  "error_body env item source d =
     (let e = error_row env item source (next_id T_crawl_error ce_id (crawl_errors d) d)
      in if ce_id e \<in> ce_id ` set (crawl_errors d) then Inl (IntegrityError (Uq_other (lit ''crawl_error_pkey'')))
         else if source \<notin> ss_id ` set (source_sites d)
         then Inl (IntegrityError (Uq_other (lit ''fk_crawl_error_source_site'')))
         else if \<not> job_known (ce_crawl_job_id e) d
         then Inl (IntegrityError (Uq_other (lit ''fk_crawl_error_crawl_job'')))
         else and_then (record_stats_for item (zero_counters\<lparr>error_count := 1\<rparr>)
                (bump_seq T_crawl_error (d\<lparr>crawl_errors := add_row e (crawl_errors d)\<rparr>))) (\<lambda>d1. Inr (Some d1)))"

definition write_error ::
    "writer_env \<Rightarrow> payload \<Rightarrow> source_cache \<times> db \<Rightarrow> unit result \<times> source_cache \<times> db" where
  "write_error env item st = with_source (we_lib env) item (error_body env item) st"

section \<open>The dispatch of items\<close>

text \<open>
  WriterDispatchPipeline.process_item of crawler/tender_crawler/pipelines.py with the database writers.
  An exception leaves process_item; the crawler logs it and goes on with the next item.
\<close>

definition process_item ::
    "writer_env \<Rightarrow> payload \<Rightarrow> source_cache \<times> db \<Rightarrow> unit result \<times> source_cache \<times> db" where
  "process_item env item st =
     (let t = dict_get item (lit ''item_type'')
      in if t = VStr (lit ''raw_document'') then write_raw_document env item st
         else if t = VStr (lit ''tender_notice'') then write_notice env item st
         else if t = VStr (lit ''notice_version'') then write_notice_version env item st
         else if t = VStr (lit ''tender_attachment'') then write_attachment env item st
         else if t = VStr (lit ''crawl_error'') then write_error env item st
         else (Inr (), st))"

fun process_items :: "(writer_env \<times> payload) list \<Rightarrow> source_cache \<times> db \<Rightarrow> source_cache \<times> db" where
  "process_items [] st = st"
| "process_items ((env, item) # items) st = process_items items (snd (process_item env item st))"

end
