(* ===== verification/DedupFacts.thy ===== *)
theory DedupFacts
  imports Dedup UrlFacts "HOL-Library.Multiset"
begin

text \<open>
  What the normal forms and keys of theory Dedup identify: links of the same page, notices with the
  same signals, and budgets in the same bucket.
\<close>

section \<open>Links\<close>

text \<open>str.lower of an ASCII text is what the Unicode database says it is.\<close>

definition lowers_ascii :: "text_lib \<Rightarrow> bool" where
  "lowers_ascii lib \<longleftrightarrow> (\<forall>s. list_all (\<lambda>c. c < 128) s \<longrightarrow> tl_lower lib s = py_lower s)"

lemma py_lower_ascii:
  "list_all (\<lambda>c. c < 128) s \<Longrightarrow> py_lower s = map (\<lambda>c. if 65 \<le> c \<and> c \<le> 90 then c + 32 else c) s"
  by (induction s) (auto simp: py_lower_def lower_point_def)

lemma py_lower_twice: "list_all (\<lambda>c. c < 128) s \<Longrightarrow> py_lower (py_lower s) = py_lower s"
  by (induction s) (auto simp: py_lower_def lower_point_def)

lemma list_all_py_lower:
  assumes "list_all P s" "\<And>c. P c \<Longrightarrow> c < 128" "\<And>c. P c \<Longrightarrow> 65 \<le> c \<Longrightarrow> c \<le> 90 \<Longrightarrow> P (c + 32)"
  shows "list_all P (py_lower s)"
  using assms(1)
  by (induction s) (auto simp: py_lower_def lower_point_def dest: assms(2) intro: assms(3))

lemma sort_sort [simp]: "sort (sort xs) = sort xs"
  by (simp add: sort_key_id_if_sorted)

lemma py_lower_small: "list_all (\<lambda>c. c < 128) s \<Longrightarrow> list_all (\<lambda>c. c < 128) (py_lower s)"
  by (auto simp: py_lower_ascii list_all_iff)

definition relevant_params :: "text_lib \<Rightarrow> ustr \<Rightarrow> (ustr \<times> ustr) list" where
  "relevant_params lib query = filter (\<lambda>kv. \<not> irrelevant_param lib (fst kv)) (parse_qsl True query)"

text \<open>
  What a link says of the page it leads to: scheme and host without regard to case, the path, and
  the query parameters that are not for tracking, in any order.
\<close>

definition page_of :: "text_lib \<Rightarrow> url_parts \<Rightarrow> ustr \<times> ustr \<times> ustr \<times> (ustr \<times> ustr) multiset" where
  "page_of lib p = (py_lower (up_scheme p), py_lower (up_netloc p),
     if up_path p = [] then lit ''/'' else up_path p, mset (relevant_params lib (up_query p)))"

definition canonical_parts :: "text_lib \<Rightarrow> url_parts \<Rightarrow> url_parts" where
  "canonical_parts lib p =
     \<lparr>up_scheme = py_lower (up_scheme p), up_netloc = py_lower (up_netloc p),
      up_path = (if up_path p = [] then lit ''/'' else up_path p),
      up_query = urlencode (sort (relevant_params lib (up_query p))), up_fragment = []\<rparr>"

lemma web_url_small:
  assumes "web_url p"
  shows "list_all (\<lambda>c. c < 128) (up_scheme p)" "list_all (\<lambda>c. c < 128) (up_netloc p)"
  using assms scheme_url_char by (auto simp: web_url_def list_all_iff)

lemma relevant_scalar: "web_url p \<Longrightarrow> list_all scalar_pair (relevant_params lib (up_query p))"
  using parse_qsl_scalar [of "up_query p" True]
  by (auto simp: relevant_params_def web_url_def list_all_iff url_char_def)

lemma join_chars: "c \<in> set (join sep xs) \<Longrightarrow> c \<in> set sep \<or> (\<exists>x \<in> set xs. c \<in> set x)"
  by (induction sep xs rule: join.induct) auto

lemma urlencode_chars:
  assumes "list_all scalar_pair kvs" "c \<in> set (urlencode kvs)"
  shows "url_char c \<and> c \<noteq> 35"
proof -
  have "unreserved c \<or> c \<in> {37, 38, 43, 61}"
    using assms join_chars [of c "[38]"] quote_plus_chars
    by (fastforce simp: urlencode_def list_all_iff scalar_pair_def)
  then show ?thesis
    by (auto simp: unreserved_def url_char_def py_space_def space_points_def scalar_def)
qed

lemma lower_scheme:
  assumes "web_url p"
  shows "py_lower (up_scheme p) \<noteq> []" "ascii_letter (hd (py_lower (up_scheme p)))"
    "list_all scheme_char (py_lower (up_scheme p))"
proof -
  obtain c s where s: "up_scheme p = c # s" "ascii_letter c" "list_all scheme_char (c # s)"
    using assms by (cases "up_scheme p") (auto simp: web_url_def)
  then show "py_lower (up_scheme p) \<noteq> []" "ascii_letter (hd (py_lower (up_scheme p)))"
    by (auto simp: py_lower_def lower_point_def ascii_letter_def)
  show "list_all scheme_char (py_lower (up_scheme p))"
    unfolding s(1) using s(3) by (rule list_all_py_lower) (auto simp: scheme_char_def)
qed

lemma web_url_query:
  assumes "web_url p" "list_all scalar_pair kvs"
  shows "web_url (p\<lparr>up_scheme := py_lower (up_scheme p), up_query := urlencode kvs, up_fragment := []\<rparr>)"
  using assms lower_scheme [OF assms(1)] urlencode_chars [OF assms(2)]
  by (simp add: web_url_def list_all_iff)

lemma lower_netloc:
  assumes "web_url p"
  shows "py_lower (up_netloc p) \<noteq> []"
    "list_all (\<lambda>c. url_char c \<and> c < 128 \<and> \<not> netloc_end c \<and> c \<noteq> 91 \<and> c \<noteq> 93) (py_lower (up_netloc p))"
proof -
  show "py_lower (up_netloc p) \<noteq> []"
    using assms by (cases "up_netloc p") (auto simp: web_url_def py_lower_def lower_point_def)
  have "scheme_char (c + 32)" if "65 \<le> c" "c \<le> 90" for c :: nat
    using that by (simp add: scheme_char_def)
  then have letter: "url_char (c + 32)" if "65 \<le> c" "c \<le> 90" for c
    using that scheme_url_char by blast
  show "list_all (\<lambda>c. url_char c \<and> c < 128 \<and> \<not> netloc_end c \<and> c \<noteq> 91 \<and> c \<noteq> 93) (py_lower (up_netloc p))"
    using assms letter by (intro list_all_py_lower) (auto simp: web_url_def netloc_end_def)
qed

lemma web_url_canonical:
  assumes "web_url p"
  shows "web_url (canonical_parts lib p)"
proof -
  have "list_all scalar_pair (sort (relevant_params lib (up_query p)))"
    using relevant_scalar [OF assms] by (simp add: list_all_iff)
  note query = urlencode_chars [OF this]
  have "url_char 47" by (simp add: url_char_def py_space_def space_points_def scalar_def)
  then show ?thesis
    using assms lower_scheme [OF assms] lower_netloc [OF assms] query
    by (auto simp: canonical_parts_def web_url_def list_all_iff lit_def)
qed

lemma split_url_web:
  assumes "web_url p"
  shows "split_url lib (strip (urlunsplit p)) = Inr (p\<lparr>up_scheme := py_lower (up_scheme p)\<rparr>)"
proof -
  have "strip (urlunsplit p) = urlunsplit p"
    using web_url_chars [OF assms] by (intro strip_no_space) (auto simp: list_all_iff url_char_def)
  then show ?thesis by (simp add: split_url_def urlsplit_urlunsplit [OF assms])
qed

lemma item_str_web:
  assumes "web_url p"
  shows "item_str (VStr (urlunsplit p)) = Some (urlunsplit p)"
proof -
  have "strip (urlunsplit p) = urlunsplit p"
    using web_url_chars [OF assms] by (intro strip_no_space) (auto simp: list_all_iff url_char_def)
  moreover have "urlunsplit p \<noteq> []" using urlunsplit_web [OF assms] by simp
  ultimately show ?thesis by (simp add: item_str_def text_or_none_def)
qed

lemma detail_url_canonical:
  assumes "lowers_ascii lib" "web_url p"
  shows "normalize_detail_url lib (VStr (urlunsplit p)) = Inr (Some (urlunsplit (canonical_parts lib p)))"
proof -
  let ?kvs = "sort (relevant_params lib (up_query p))"
  let ?q = "p\<lparr>up_scheme := py_lower (up_scheme p), up_query := urlencode ?kvs, up_fragment := []\<rparr>"
  have kvs: "list_all scalar_pair ?kvs" using relevant_scalar [OF assms(2)] by (simp add: list_all_iff)
  have web: "web_url ?q" by (rule web_url_query [OF assms(2) kvs])
  have "drop_irrelevant_query_params lib (urlunsplit p) = Inr (urlunsplit ?q)"
    by (simp add: drop_irrelevant_query_params_def split_url_web [OF assms(2)] relevant_params_def)
  moreover have "normalize_url lib (urlunsplit ?q) = Inr (urlunsplit (canonical_parts lib p))"
    using assms(1) web_url_small [OF assms(2)] py_lower_small
    by (simp add: normalize_url_def split_url_web [OF web] parse_qsl_urlencode [OF kvs] py_lower_twice
        canonical_parts_def lowers_ascii_def)
  ultimately show ?thesis by (simp add: normalize_detail_url_def item_str_web [OF assms(2)])
qed

lemma urlunsplit_inj:
  assumes "web_url p" "web_url q" "urlunsplit p = urlunsplit q"
  shows "p\<lparr>up_scheme := py_lower (up_scheme p)\<rparr> = q\<lparr>up_scheme := py_lower (up_scheme q)\<rparr>"
  using urlsplit_urlunsplit [OF assms(1)] urlsplit_urlunsplit [OF assms(2)] assms(3) by (metis option.inject)

lemma sort_eq_mset: "sort xs = sort ys \<longleftrightarrow> mset xs = mset ys"
  by (metis mset_sort properties_for_sort sorted_sort)

lemma canonical_parts_eq:
  assumes "web_url p" "web_url q"
  shows "urlunsplit (canonical_parts lib p) = urlunsplit (canonical_parts lib q) \<longleftrightarrow> page_of lib p = page_of lib q"
proof
  assume "urlunsplit (canonical_parts lib p) = urlunsplit (canonical_parts lib q)"
  note eq = urlunsplit_inj [OF web_url_canonical [OF assms(1)] web_url_canonical [OF assms(2)] this]
  then have "urlencode (sort (relevant_params lib (up_query p))) = urlencode (sort (relevant_params lib (up_query q)))"
    by (simp add: canonical_parts_def)
  moreover have "list_all scalar_pair (sort (relevant_params lib (up_query r)))" if "web_url r" for r
    using relevant_scalar [OF that] by (simp add: list_all_iff)
  ultimately have "sort (relevant_params lib (up_query p)) = sort (relevant_params lib (up_query q))"
    using parse_qsl_urlencode assms by metis
  then show "page_of lib p = page_of lib q"
    using eq web_url_small [OF assms(1)] web_url_small [OF assms(2)]
    by (simp add: canonical_parts_def page_of_def sort_eq_mset py_lower_twice)
next
  assume "page_of lib p = page_of lib q"
  then have "canonical_parts lib p = canonical_parts lib q"
    by (simp add: canonical_parts_def page_of_def flip: sort_eq_mset)
  then show "urlunsplit (canonical_parts lib p) = urlunsplit (canonical_parts lib q)" by simp
qed

text \<open>
C25. Two absolute links with ASCII hosts have the same normal form exactly when they lead to the same
page: scheme and host agree without regard to case, the paths agree, and the query parameters other
than the tracking ones agree as a multiset; fragments, tracking parameters, their order and the way
characters are percent-encoded do not matter.\<close>

theorem detail_url_identifies_page:
  assumes "lowers_ascii lib" "web_url p" "web_url q"
  shows "normalize_detail_url lib (VStr (urlunsplit p)) = normalize_detail_url lib (VStr (urlunsplit q)) \<longleftrightarrow>
    page_of lib p = page_of lib q"
  by (simp add: detail_url_canonical [OF assms(1,2)] detail_url_canonical [OF assms(1,3)]
      canonical_parts_eq [OF assms(2,3)])

text \<open>A library for concrete examples: SHA-256 is the identity and no text is a date by itself.\<close>

definition sample_lib :: text_lib where
  "sample_lib = \<lparr>tl_nfkc = (\<lambda>s. s), tl_lower = py_lower, tl_sha256 = (\<lambda>s. s), tl_ip_literal = (\<lambda>_. False),
     tl_true = (\<lambda>_. True), tl_fromisoformat = (\<lambda>_. None), tl_strptime = (\<lambda>_ _. None)\<rparr>"

definition sample_link :: url_parts where
  "sample_link = \<lparr>up_scheme = lit ''HTTP'', up_netloc = lit ''Ggzy.Gov.CN'', up_path = lit ''/a/b'',
     up_query = lit ''utm_source=x&id=7&b=%41'', up_fragment = lit ''top''\<rparr>"

definition sample_link_again :: url_parts where
  "sample_link_again = \<lparr>up_scheme = lit ''http'', up_netloc = lit ''ggzy.gov.cn'', up_path = lit ''/a/b'',
     up_query = lit ''b=A&_t=123&id=7'', up_fragment = []\<rparr>"

lemma detail_url_identifies_page_witness:
  "normalize_detail_url sample_lib (VStr (urlunsplit sample_link)) =
   normalize_detail_url sample_lib (VStr (urlunsplit sample_link_again))"
proof -
  have "lowers_ascii sample_lib" by (simp add: lowers_ascii_def sample_lib_def)
  moreover have "web_url sample_link" "web_url sample_link_again" by code_simp+
  moreover have "page_of sample_lib sample_link = page_of sample_lib sample_link_again"
  proof -
    have "relevant_params sample_lib (up_query sample_link) = [(lit ''id'', lit ''7''), (lit ''b'', lit ''A'')]"
      "relevant_params sample_lib (up_query sample_link_again) = [(lit ''b'', lit ''A''), (lit ''id'', lit ''7'')]"
      by code_simp+
    moreover have "py_lower (up_scheme sample_link) = py_lower (up_scheme sample_link_again)"
      "py_lower (up_netloc sample_link) = py_lower (up_netloc sample_link_again)"
      "up_path sample_link = up_path sample_link_again"
      by code_simp+
    ultimately show ?thesis by (simp add: page_of_def)
  qed
  ultimately show ?thesis using detail_url_identifies_page by blast
qed

text \<open>A stored link is already in normal form: normalizing it again changes nothing.\<close>

lemma relevant_params_urlencode:
  assumes "list_all scalar_pair kvs" "list_all (\<lambda>kv. \<not> irrelevant_param lib (fst kv)) kvs"
  shows "relevant_params lib (urlencode kvs) = kvs"
  using assms(2) by (simp add: relevant_params_def parse_qsl_urlencode [OF assms(1)] list_all_iff)

lemma canonical_parts_twice:
  assumes "web_url p"
  shows "canonical_parts lib (canonical_parts lib p) = canonical_parts lib p"
proof -
  let ?kvs = "sort (relevant_params lib (up_query p))"
  have "relevant_params lib (urlencode ?kvs) = ?kvs"
    using relevant_scalar [OF assms]
    by (intro relevant_params_urlencode) (auto simp: list_all_iff relevant_params_def)
  then show ?thesis
    using web_url_small [OF assms] by (simp add: canonical_parts_def py_lower_twice lit_def)
qed

section \<open>Keys of notices\<close>

lemma join_last: "join sep (xs @ [a]) = join sep (xs @ [b]) \<longleftrightarrow> a = b"
proof (induction xs)
  case (Cons x xs)
  then show ?case by (cases xs) auto
qed simp

lemma seed_last: "seed (vs @ [a]) = seed (vs @ [b]) \<longleftrightarrow> stable_seed_text a = stable_seed_text b"
  by (simp add: seed_def join_last)

text \<open>The signals that tell notices of the same title and date apart: buyer, budget bucket and region.\<close>

definition signal_count :: "text_lib \<Rightarrow> ustr option \<Rightarrow> key_fields \<Rightarrow> nat" where
  "signal_count lib budget f =
     length (filter truthy [purchaser_or_publisher lib f, budget, normalize_region lib (kf_region f)])"

text \<open>
Two notices that differ only in their link get the same persistence key exactly when at least two
of buyer, budget bucket and region are known; with fewer the link is part of the key, so that the keys
differ unless the digest has a collision. The links must have locators that read differently as key
parts, and nothing of the notice may fail to parse.\<close>

lemma link_matters_iff_few_signals:
  assumes "normalize_published_date lib (kf_published_at f) = Inr date"
    "normalize_budget_bucket lib (kf_budget_amount f) = Inr budget"
    "extract_detail_locator lib (kf_detail_url f) (kf_detail_id f) = Inr l"
    "extract_detail_locator lib url i = Inr l'" "stable_seed_text l \<noteq> stable_seed_text l'"
    "\<nexists>x y. x \<noteq> y \<and> tl_sha256 lib x = tl_sha256 lib y"
  shows "build_persistence_dedup_key lib f =
      build_persistence_dedup_key lib (f\<lparr>kf_detail_url := url, kf_detail_id := i\<rparr>) \<longleftrightarrow>
    2 \<le> signal_count lib budget f"
proof -
  let ?vs = "[normalize_title lib (kf_title f), date, purchaser_or_publisher lib f, budget,
    normalize_region lib (kf_region f)]"
  have buyer: "purchaser_or_publisher lib (f\<lparr>kf_detail_url := url, kf_detail_id := i\<rparr>) = purchaser_or_publisher lib f"
    by (simp add: purchaser_or_publisher_def)
  have "tl_sha256 lib (seed (?vs @ [l])) \<noteq> tl_sha256 lib (seed (?vs @ [l']))"
    using assms(5,6) seed_last [of ?vs l l'] by metis
  then show ?thesis
    using assms(1-4)
    by (auto simp: build_persistence_dedup_key_def build_notice_dedup_key_def buyer Let_def signal_count_def)
qed

definition sample_fields :: key_fields where
  "sample_fields = \<lparr>kf_title = VStr (lit ''Road works''), kf_published_at = VTime [] 0, kf_purchaser = VStr (lit ''City''),
     kf_publisher = VNone, kf_budget_amount = VNone, kf_region = VNone,
     kf_detail_url = VNone, kf_detail_id = VStr (lit ''A1'')\<rparr>"

lemma link_matters_iff_few_signals_witness:
  "build_persistence_dedup_key sample_lib sample_fields \<noteq>
     build_persistence_dedup_key sample_lib (sample_fields\<lparr>kf_detail_url := VNone, kf_detail_id := VStr (lit ''A2'')\<rparr>) \<and>
   build_persistence_dedup_key sample_lib (sample_fields\<lparr>kf_region := VStr (lit ''North'')\<rparr>) =
     build_persistence_dedup_key sample_lib
       (sample_fields\<lparr>kf_region := VStr (lit ''North''), kf_detail_url := VNone, kf_detail_id := VStr (lit ''A2'')\<rparr>)"
proof -
  let ?north = "sample_fields\<lparr>kf_region := VStr (lit ''North'')\<rparr>"
  have facts: "normalize_published_date sample_lib (kf_published_at sample_fields) = Inr (Some (iso_date 0))"
    "normalize_published_date sample_lib (kf_published_at ?north) = Inr (Some (iso_date 0))"
    "normalize_budget_bucket sample_lib (kf_budget_amount sample_fields) = Inr None"
    "normalize_budget_bucket sample_lib (kf_budget_amount ?north) = Inr None"
    by (simp_all add: sample_fields_def normalize_published_date_def parse_datetime_like_def
        normalize_budget_bucket_def normalize_text_def item_str_def)
  have locators: "extract_detail_locator sample_lib (kf_detail_url sample_fields) (kf_detail_id sample_fields) = Inr (Some (lit ''a1''))"
    "extract_detail_locator sample_lib (kf_detail_url ?north) (kf_detail_id ?north) = Inr (Some (lit ''a1''))"
    "extract_detail_locator sample_lib VNone (VStr (lit ''A2'')) = Inr (Some (lit ''a2''))"
    by code_simp+
  have seeds: "stable_seed_text (Some (lit ''a1'')) \<noteq> stable_seed_text (Some (lit ''a2''))" by code_simp
  have sha: "\<nexists>x y. x \<noteq> y \<and> tl_sha256 sample_lib x = tl_sha256 sample_lib y" by (simp add: sample_lib_def)
  have counts: "signal_count sample_lib None sample_fields = 1" "signal_count sample_lib None ?north = 2"
    by code_simp+
  have "build_persistence_dedup_key sample_lib sample_fields =
      build_persistence_dedup_key sample_lib (sample_fields\<lparr>kf_detail_url := VNone, kf_detail_id := VStr (lit ''A2'')\<rparr>) \<longleftrightarrow>
      2 \<le> signal_count sample_lib None sample_fields"
    by (rule link_matters_iff_few_signals [OF facts(1,3) locators(1,3) seeds sha])
  moreover have "build_persistence_dedup_key sample_lib ?north =
      build_persistence_dedup_key sample_lib (?north\<lparr>kf_detail_url := VNone, kf_detail_id := VStr (lit ''A2'')\<rparr>) \<longleftrightarrow>
      2 \<le> signal_count sample_lib None ?north"
    by (rule link_matters_iff_few_signals [OF facts(2,4) locators(2,3) seeds sha])
  ultimately show ?thesis by (simp only: counts) simp
qed

text \<open>
  A text that looks like a date but is none, such as 30 February, is not left out of the keys: the
  constructor of datetime raises ValueError, which nothing on the way catches.
\<close>

lemma impossible_date_is_uncaught:
  "build_notice_dedup_key sample_lib inc (f\<lparr>kf_published_at := VStr (lit ''2024-02-30'')\<rparr>) =
     Inl (ValueError (lit ''day is out of range for month''))"
proof -
  have "normalize_published_date sample_lib (VStr (lit ''2024-02-30'')) =
      Inl (ValueError (lit ''day is out of range for month''))"
    by code_simp
  then show ?thesis by (simp add: build_notice_dedup_key_def)
qed

section \<open>Budget buckets\<close>

definition decimal_value :: "decimal \<Rightarrow> rat" where
  "decimal_value d = (if 0 \<le> snd d then of_int (fst d) * 10 ^ nat (snd d) else of_int (fst d) / 10 ^ nat (- snd d))"

lemma show_nat_less: "n < 10 ^ length (show_nat n)"
proof (induction n rule: show_nat.induct)
  case (1 n)
  show ?case
  proof (cases "n < 10")
    case False
    then have "n div 10 < 10 ^ length (show_nat (n div 10))" by (rule 1)
    then have "n < 10 * 10 ^ length (show_nat (n div 10))" by (simp add: div_less_iff_less_mult mult.commute)
    then show ?thesis using False by (simp add: show_nat.simps [of n])
  qed (simp add: show_nat.simps)
qed

lemma digit_count_le: "0 < k \<Longrightarrow> digit_count c \<le> k \<longleftrightarrow> \<bar>c\<bar> < 10 ^ k"
proof
  assume k: "0 < k"
  {
    assume "digit_count c \<le> k"
    then have "nat \<bar>c\<bar> < 10 ^ k"
      unfolding digit_count_def
      by (meson show_nat_less order_less_le_trans power_increasing one_le_numeral)
    then show "\<bar>c\<bar> < 10 ^ k" by (simp add: nat_less_iff)
  next
    assume "\<bar>c\<bar> < 10 ^ k"
    then have "nat \<bar>c\<bar> < 10 ^ k" by (simp add: nat_less_iff)
    then show "digit_count c \<le> k" unfolding digit_count_def using k by (rule length_show_nat)
  }
qed

lemma digit_count_ge: "0 < k \<Longrightarrow> k < digit_count c \<longleftrightarrow> 10 ^ k \<le> \<bar>c\<bar>"
  using digit_count_le [of k c] by linarith

lemma half_cases:
  fixes c m q' :: int
  assumes "0 < m" "q' = \<bar>c\<bar> div m \<and> 2 * (\<bar>c\<bar> mod m) \<le> m \<or> q' = \<bar>c\<bar> div m + 1 \<and> m \<le> 2 * (\<bar>c\<bar> mod m)"
  shows "\<bar>2 * (sgn c * q' * m - c)\<bar> \<le> m \<and> \<bar>c\<bar> div m \<le> \<bar>sgn c * q'\<bar>"
proof -
  have r: "0 \<le> \<bar>c\<bar> mod m" "\<bar>c\<bar> mod m < m" "0 \<le> \<bar>c\<bar> div m" using assms(1) by (auto simp: pos_imp_zdiv_nonneg_iff)
  have "q' * m - \<bar>c\<bar> = - (\<bar>c\<bar> mod m) \<and> 2 * (\<bar>c\<bar> mod m) \<le> m \<or>
      q' * m - \<bar>c\<bar> = m - \<bar>c\<bar> mod m \<and> m \<le> 2 * (\<bar>c\<bar> mod m)"
    using assms(2) minus_div_mult_eq_mod [of "\<bar>c\<bar>" m] by (auto simp: distrib_right)
  then have "\<bar>2 * (q' * m - \<bar>c\<bar>)\<bar> \<le> m"
  proof (elim disjE conjE)
    assume "q' * m - \<bar>c\<bar> = - (\<bar>c\<bar> mod m)" "2 * (\<bar>c\<bar> mod m) \<le> m"
    then show ?thesis using r(1) by (simp only:)
  next
    assume "q' * m - \<bar>c\<bar> = m - \<bar>c\<bar> mod m" "m \<le> 2 * (\<bar>c\<bar> mod m)"
    then show ?thesis using r(2) by (simp only:) simp
  qed
  moreover have "\<bar>2 * (sgn c * q' * m - c)\<bar> = \<bar>2 * (q' * m - \<bar>c\<bar>)\<bar>" if "c \<noteq> 0"
    using that by (cases "0 < c") (auto simp: sgn_if)
  moreover have "\<bar>c\<bar> div m \<le> \<bar>sgn c * q'\<bar>" using assms(2) r by (auto simp: abs_mult sgn_if)
  ultimately show ?thesis using assms by (cases "c = 0") auto
qed

lemma round_half_up_close:
  "0 < m \<Longrightarrow> \<bar>2 * (round_half_up c m * m - c)\<bar> \<le> m \<and> \<bar>c\<bar> div m \<le> \<bar>round_half_up c m\<bar>"
  unfolding round_half_up_def Let_def by (rule half_cases) auto

lemma round_half_even_close:
  "0 < m \<Longrightarrow> \<bar>2 * (round_half_even c m * m - c)\<bar> \<le> m \<and> \<bar>c\<bar> div m \<le> \<bar>round_half_even c m\<bar>"
  unfolding round_half_even_def Let_def by (rule half_cases) auto

text \<open>quantize rounds to the nearest integer, unless that integer is too long.\<close>

lemma quantize_one_cases:
  assumes "\<And>c m. 0 < m \<Longrightarrow> \<bar>2 * (r c m * m - c)\<bar> \<le> m"
  obtains i where "quantize_one r d = (if \<bar>i\<bar> < 10 ^ 28 then Inr i else Inl InvalidOperation)"
    "\<bar>of_int i - decimal_value d\<bar> \<le> 1 / 2" "0 \<le> snd d \<Longrightarrow> i = fst d * 10 ^ nat (snd d)"
proof -
  let ?i = "if 0 \<le> snd d then fst d * 10 ^ nat (snd d) else r (fst d) (10 ^ nat (- snd d))"
  have "quantize_one r d = (if \<bar>?i\<bar> < 10 ^ 28 then Inr ?i else Inl InvalidOperation)"
    by (simp add: quantize_one_def Let_def decimal_precision_def digit_count_le)
  moreover have "\<bar>of_int ?i - decimal_value d\<bar> \<le> 1 / 2"
  proof (cases "0 \<le> snd d")
    case False
    let ?m = "10 ^ nat (- snd d) :: int"
    define e where "e = r (fst d) ?m * ?m - fst d"
    define x where "x = (of_int (r (fst d) ?m) - decimal_value d :: rat)"
    have pos: "0 < (of_int ?m :: rat)" by simp
    have "\<bar>2 * e\<bar> \<le> ?m" unfolding e_def by (rule assms) simp
    then have "\<bar>e\<bar> * 2 \<le> ?m" by linarith
    then have "of_int (\<bar>e\<bar> * 2) \<le> (of_int ?m :: rat)" by (simp only: of_int_le_iff)
    moreover have "of_int e = x * of_int ?m"
      using False by (simp add: e_def x_def decimal_value_def field_simps)
    ultimately have "\<bar>x * of_int ?m\<bar> * 2 \<le> of_int ?m" by (simp only: of_int_mult of_int_abs of_int_numeral)
    then have "(\<bar>x\<bar> * 2) * of_int ?m \<le> 1 * of_int ?m" by (simp only: abs_mult abs_of_pos [OF pos])
    then have "\<bar>x\<bar> * 2 \<le> 1" using pos by (rule mult_right_le_imp_le)
    then show ?thesis using False by (simp add: x_def)
  qed (simp add: decimal_value_def)
  ultimately show thesis using that [of ?i] by simp
qed

lemma decimal_fix_long:
  assumes "28 < digit_count c"
  shows "1 \<le> snd (decimal_fix (c, 0)) \<and> 10 ^ 27 \<le> \<bar>fst (decimal_fix (c, 0))\<bar>"
proof -
  let ?k = "digit_count c - 28"
  let ?c = "round_half_even c (10 ^ ?k)"
  have "10 ^ (digit_count c - 1) \<le> \<bar>c\<bar>" using assms digit_count_ge [of "digit_count c - 1" c] by simp
  moreover have "digit_count c - 1 = 27 + ?k" using assms by simp
  ultimately have "10 ^ 27 * 10 ^ ?k \<le> \<bar>c\<bar>" by (simp only: power_add)
  then have le: "10 ^ 27 * 10 ^ ?k div 10 ^ ?k \<le> \<bar>c\<bar> div 10 ^ ?k" by (rule zdiv_mono1) simp
  have "(10 :: int) ^ 27 = 10 ^ 27 * 10 ^ ?k div 10 ^ ?k"
    by (rule nonzero_mult_div_cancel_right [symmetric]) simp
  also note le
  also have "\<bar>c\<bar> div 10 ^ ?k \<le> \<bar>?c\<bar>" using round_half_even_close [of "10 ^ ?k" c] by simp
  finally have big: "10 ^ 27 \<le> \<bar>?c\<bar>" .
  have "10 ^ 27 \<le> \<bar>?c div 10\<bar>" if "28 < digit_count ?c"
  proof -
    have "10 ^ 28 \<le> ?c \<or> ?c \<le> - (10 ^ 28)" using that by (auto simp: digit_count_ge abs_if split: if_splits)
    then have "10 ^ 28 div 10 \<le> ?c div 10 \<or> ?c div 10 \<le> - (10 ^ 28) div 10"
      using zdiv_mono1 [of "10 ^ 28" ?c 10] zdiv_mono1 [of ?c "- (10 ^ 28)" 10] by auto
    then show ?thesis by (auto simp: abs_if)
  qed
  with big assms show ?thesis by (auto simp: decimal_fix_def Let_def decimal_precision_def)
qed

lemma times_thousand:
  "quantize_one round_half_even (decimal_mult (s, 0) 1000) =
    (if \<bar>s * 1000\<bar> < 10 ^ 28 then Inr (s * 1000) else Inl InvalidOperation)"
proof (cases "digit_count (s * 1000) \<le> 28")
  case True
  then show ?thesis
    by (simp add: decimal_mult_def decimal_fix_def quantize_one_def Let_def decimal_precision_def digit_count_le)
next
  case False
  let ?d = "decimal_fix (s * 1000, 0)"
  have d: "1 \<le> snd ?d" "10 ^ 27 \<le> \<bar>fst ?d\<bar>" using decimal_fix_long [of "s * 1000"] False by auto
  have "10 ^ 28 \<le> \<bar>fst ?d * 10 ^ nat (snd ?d)\<bar>"
  proof -
    have "(10 :: int) ^ 1 \<le> 10 ^ nat (snd ?d)" using d(1) by (intro power_increasing) auto
    with d(2) have "10 ^ 27 * 10 ^ 1 \<le> \<bar>fst ?d\<bar> * 10 ^ nat (snd ?d)" by (intro mult_mono) auto
    then show ?thesis by (simp add: abs_mult)
  qed
  then have "quantize_one round_half_even ?d = Inl InvalidOperation"
    using d(1) by (simp add: quantize_one_def Let_def decimal_precision_def digit_count_le not_less)
  then show ?thesis using False by (simp add: decimal_mult_def digit_count_le not_less)
qed

text \<open>
The budget bucket of an amount is the multiple of 1000 nearest to it: at most 500 away. The only
way not to get one is InvalidOperation, and only for amounts of 10 ^ 27 and more.\<close>

theorem budget_bucket_is_nearest_thousand:
  "case bucket_of_amount d of
     Inr b \<Rightarrow> 1000 dvd b \<and> \<bar>of_int b - decimal_value d\<bar> \<le> 500
   | Inl e \<Rightarrow> e = InvalidOperation \<and> 10 ^ 27 \<le> \<bar>decimal_value d\<bar>"
proof -
  let ?d = "(fst d, snd d - 3)"
  have thousandth: "decimal_value ?d * 1000 = decimal_value d"
  proof -
    consider "3 \<le> snd d" | "snd d < 0" | "snd d = 0" | "snd d = 1" | "snd d = 2" by linarith
    then show ?thesis
    proof cases
      case 1
      then have "nat (snd d) = nat (snd d - 3) + 3" by simp
      then show ?thesis using 1 by (simp add: decimal_value_def power_add)
    next
      case 2
      then have "nat (3 - snd d) = nat (- snd d) + 3" by simp
      then show ?thesis using 2 by (simp add: decimal_value_def power_add)
    qed (simp_all add: decimal_value_def)
  qed
  obtain i where i: "quantize_one round_half_up ?d = (if \<bar>i\<bar> < 10 ^ 28 then Inr i else Inl InvalidOperation)"
      "\<bar>of_int i - decimal_value ?d\<bar> \<le> 1 / 2"
    using quantize_one_cases [of round_half_up ?d] round_half_up_close by metis
  have near: "\<bar>of_int (i * 1000) - decimal_value d\<bar> \<le> 500"
    using i(2) unfolding thousandth [symmetric] by (simp add: abs_if split: if_splits)
  have large: "10 ^ 27 \<le> \<bar>decimal_value d\<bar>" if "10 ^ 28 \<le> \<bar>i * 1000\<bar>"
  proof -
    have "of_int (10 ^ 28) \<le> (of_int \<bar>i * 1000\<bar> :: rat)" using that by (simp only: of_int_le_iff)
    then show ?thesis using near by (simp add: abs_if split: if_splits)
  qed
  show ?thesis
    using i(1) near large
    by (simp add: bucket_of_amount_def times_thousand)
qed

end
