(* ===== verification/WriterFacts.thy ===== *)
theory WriterFacts
  imports Writer DedupFacts
begin

text \<open>
  What the writers keep of the notices and their versions, and what they do with an item they have
  written before.
\<close>

section \<open>The invariant\<close>

text \<open>The dates of a notice: the published one lies between the first and the latest one seen.\<close>

definition span_ok :: "tender_notice \<Rightarrow> bool" where
  "span_ok n \<longleftrightarrow>
     (case (tn_first_published_at n, tn_latest_published_at n, tn_published_at n) of
        (Some f, Some l, None) \<Rightarrow> f \<le> l
      | (Some f, Some l, Some t) \<Rightarrow> f \<le> t \<and> t \<le> l
      | (None, None, None) \<Rightarrow> True
      | _ \<Rightarrow> False)"

definition notices_clash :: "tender_notice \<Rightarrow> tender_notice \<Rightarrow> bool" where
  "notices_clash a b \<longleftrightarrow> tn_id a \<noteq> tn_id b \<and> tn_source_site_id a = tn_source_site_id b \<and>
     (tn_external_id a \<noteq> None \<and> tn_external_id a = tn_external_id b \<or>
      tn_dedup_hash a \<noteq> None \<and> tn_dedup_hash a = tn_dedup_hash b)"

definition versions_clash :: "notice_version \<Rightarrow> notice_version \<Rightarrow> bool" where
  "versions_clash a b \<longleftrightarrow> nv_id a \<noteq> nv_id b \<and> nv_notice_id a = nv_notice_id b \<and>
     (nv_version_no a = nv_version_no b \<or> nv_content_hash a = nv_content_hash b)"

definition rows_ok :: "db \<Rightarrow> bool" where
  "rows_ok d \<longleftrightarrow>
     distinct (map tn_id (tender_notices d)) \<and> distinct (map nv_id (notice_versions d)) \<and>
     (\<forall>n \<in> set (tender_notices d). tn_source_site_id n \<in> ss_id ` set (source_sites d) \<and> span_ok n) \<and>
     (\<forall>v \<in> set (notice_versions d). nv_notice_id v \<in> tn_id ` set (tender_notices d)) \<and>
     (\<forall>a \<in> set (tender_notices d). \<forall>b \<in> set (tender_notices d). \<not> notices_clash a b) \<and>
     (\<forall>a \<in> set (notice_versions d). \<forall>b \<in> set (notice_versions d). \<not> versions_clash a b)"

text \<open>
  A notice points to one of its own versions or to none, and a version marked as current is the one
  its notice points to.  The version with the id in the argument is exempt from the second part.
\<close>

definition pointers_ok :: "int option \<Rightarrow> db \<Rightarrow> bool" where
  "pointers_ok exempt d \<longleftrightarrow>
     (\<forall>n \<in> set (tender_notices d). case tn_current_version_id n of
        None \<Rightarrow> True | Some k \<Rightarrow> \<exists>v \<in> set (notice_versions d). nv_id v = k \<and> nv_notice_id v = tn_id n) \<and>
     (\<forall>v \<in> set (notice_versions d). nv_is_current v \<and> Some (nv_id v) \<noteq> exempt \<longrightarrow>
        (\<forall>n \<in> set (tender_notices d). tn_id n = nv_notice_id v \<longrightarrow> tn_current_version_id n = Some (nv_id v)))"

lemma pointers_okI:
  assumes "\<And>n k. n \<in> set (tender_notices d) \<Longrightarrow> tn_current_version_id n = Some k \<Longrightarrow>
      \<exists>v \<in> set (notice_versions d). nv_id v = k \<and> nv_notice_id v = tn_id n"
    "\<And>v n. v \<in> set (notice_versions d) \<Longrightarrow> nv_is_current v \<Longrightarrow> Some (nv_id v) \<noteq> x \<Longrightarrow>
      n \<in> set (tender_notices d) \<Longrightarrow> tn_id n = nv_notice_id v \<Longrightarrow> tn_current_version_id n = Some (nv_id v)"
  shows "pointers_ok x d"
  unfolding pointers_ok_def using assms by (auto split: option.split)

lemma pointers_ok_target:
  "pointers_ok x d \<Longrightarrow> n \<in> set (tender_notices d) \<Longrightarrow> tn_current_version_id n = Some k \<Longrightarrow>
     \<exists>v \<in> set (notice_versions d). nv_id v = k \<and> nv_notice_id v = tn_id n"
  unfolding pointers_ok_def by (auto split: option.splits)

lemma pointers_ok_current:
  "pointers_ok x d \<Longrightarrow> v \<in> set (notice_versions d) \<Longrightarrow> nv_is_current v \<Longrightarrow> Some (nv_id v) \<noteq> x \<Longrightarrow>
     n \<in> set (tender_notices d) \<Longrightarrow> tn_id n = nv_notice_id v \<Longrightarrow> tn_current_version_id n = Some (nv_id v)"
  unfolding pointers_ok_def by blast

lemma pointers_ok_weaken: "pointers_ok None d \<Longrightarrow> pointers_ok x d"
  by (rule pointers_okI) (auto dest: pointers_ok_target pointers_ok_current)

definition notices_ok :: "db \<Rightarrow> bool" where
  "notices_ok d \<longleftrightarrow> rows_ok d \<and> pointers_ok None d"

lemma notices_ok_empty: "notices_ok (empty_db dia)"
  by (simp add: notices_ok_def rows_ok_def pointers_ok_def empty_db_def)

text \<open>Only the sources, the notices and the versions matter.\<close>

lemma rows_ok_cong:
  assumes "tender_notices d' = tender_notices d" "notice_versions d' = notice_versions d"
    "set (source_sites d) \<subseteq> set (source_sites d')" "rows_ok d"
  shows "rows_ok d'"
  using assms unfolding rows_ok_def by (auto simp: image_iff) blast

lemma pointers_ok_cong:
  "tender_notices d' = tender_notices d \<Longrightarrow> notice_versions d' = notice_versions d \<Longrightarrow>
     pointers_ok x d' = pointers_ok x d"
  by (simp only: pointers_ok_def)

lemma notices_ok_cong:
  assumes "tender_notices d' = tender_notices d" "notice_versions d' = notice_versions d"
    "set (source_sites d) \<subseteq> set (source_sites d')" "notices_ok d"
  shows "notices_ok d'"
  using assms rows_ok_cong pointers_ok_cong unfolding notices_ok_def by metis

section \<open>Dates\<close>

lemma span_ok_see_published: "span_ok n \<Longrightarrow> span_ok (see_published t n)"
  by (auto simp: span_ok_def see_published_def split: option.splits)

lemma span_ok_see_published_new:
  "span_ok n \<Longrightarrow> span_ok (see_published t (n\<lparr>tn_published_at := Some t\<rparr>))"
  by (auto simp: span_ok_def see_published_def split: option.splits)

lemma see_published_fields [simp]:
  "tn_id (see_published t n) = tn_id n" "tn_source_site_id (see_published t n) = tn_source_site_id n"
  "tn_current_version_id (see_published t n) = tn_current_version_id n"
  "tn_external_id (see_published t n) = tn_external_id n" "tn_dedup_hash (see_published t n) = tn_dedup_hash n"
  by (simp_all add: see_published_def)

lemma apply_notice_fields_keeps [simp]:
  "tn_id (apply_notice_fields env item n) = tn_id n"
  "tn_source_site_id (apply_notice_fields env item n) = tn_source_site_id n"
  "tn_current_version_id (apply_notice_fields env item n) = tn_current_version_id n"
  by (simp_all add: apply_notice_fields_def Let_def split: option.split)

lemma span_ok_apply:
  assumes "span_ok n"
  shows "span_ok (apply_notice_fields env item n)"
proof (cases "item_datetime env (dict_get item (lit ''published_at''))")
  case None
  then have "span_ok (apply_notice_fields env item n) = span_ok n"
    by (simp add: span_ok_def apply_notice_fields_def Let_def)
  with assms show ?thesis by simp
next
  case (Some t)
  then have "span_ok (apply_notice_fields env item n) = span_ok (see_published t (n\<lparr>tn_published_at := Some t\<rparr>))"
    by (simp add: span_ok_def apply_notice_fields_def see_published_def Let_def)
  with assms show ?thesis by (simp add: span_ok_see_published_new)
qed

section \<open>Saving a notice\<close>

lemma notice_violation_None:
  assumes "notice_violation n d = None"
  shows "tn_source_site_id n \<in> ss_id ` set (source_sites d)"
    "x \<in> set (tender_notices d) \<Longrightarrow> \<not> notices_clash n x"
    "x \<in> set (tender_notices d) \<Longrightarrow> \<not> notices_clash x n"
  using assms by (auto simp: notice_violation_def Let_def notices_clash_def list_ex_iff split: if_splits)

lemma new_notice_fields [simp]:
  "tn_id (new_notice env source item title i) = i" "tn_source_site_id (new_notice env source item title i) = source"
  "tn_current_version_id (new_notice env source item title i) = None"
  by (simp_all add: new_notice_def)

lemma span_ok_new: "span_ok (new_notice env source item title i)"
  by (simp add: span_ok_def new_notice_def split: option.split)

lemma insert_notice_ok:
  assumes "notices_ok d" "insert_notice n d = Inr d'" "span_ok n" "tn_current_version_id n = None"
  shows "notices_ok d' \<and> n \<in> set (tender_notices d') \<and> source_sites d' = source_sites d \<and>
    notice_versions d' = notice_versions d"
proof -
  have new: "tn_id n \<notin> tn_id ` set (tender_notices d)" "notice_violation n d = None"
    and d': "tender_notices d' = tender_notices d @ [n]" "notice_versions d' = notice_versions d"
      "source_sites d' = source_sites d"
    using assms(2) by (auto simp: insert_notice_def add_row_def split: option.splits if_splits)
  have refl: "\<not> notices_clash n n" by (simp add: notices_clash_def)
  note free = notice_violation_None [OF new(2)]
  have "rows_ok d'"
    using assms(1,3) new(1) free refl unfolding notices_ok_def rows_ok_def d' by auto
  moreover have fk: "nv_notice_id v \<noteq> tn_id n" if "v \<in> set (notice_versions d)" for v
    using that assms(1) new(1) unfolding notices_ok_def rows_ok_def by metis
  moreover have "pointers_ok None d'"
  proof (rule pointers_okI)
    fix m k assume "m \<in> set (tender_notices d')" "tn_current_version_id m = Some k"
    then show "\<exists>v \<in> set (notice_versions d'). nv_id v = k \<and> nv_notice_id v = tn_id m"
      using assms(1,4) pointers_ok_target [of None d m k] by (auto simp: d' notices_ok_def)
  next
    fix v m assume "v \<in> set (notice_versions d')" "nv_is_current v" "m \<in> set (tender_notices d')"
      "tn_id m = nv_notice_id v"
    moreover from this have "m \<in> set (tender_notices d)" using fk [of v] by (auto simp: d')
    ultimately show "tn_current_version_id m = Some (nv_id v)"
      using assms(1) pointers_ok_current [of None d v m] by (simp add: d' notices_ok_def)
  qed
  ultimately show ?thesis using d' by (simp add: notices_ok_def)
qed

lemma save_notice_ok:
  assumes "notices_ok d" "save_notice n d = Inr d'" "span_ok n" "m \<in> set (tender_notices d)"
    "tn_id n = tn_id m" "tn_current_version_id n = tn_current_version_id m"
  shows "notices_ok d' \<and> n \<in> set (tender_notices d') \<and> source_sites d' = source_sites d \<and>
    notice_versions d' = notice_versions d"
proof -
  have new: "notice_violation n d = None"
    and d': "tender_notices d' = update_row tn_id (tn_id n) (\<lambda>_. n) (tender_notices d)"
      "notice_versions d' = notice_versions d" "source_sites d' = source_sites d"
    using assms(2) by (auto simp: save_notice_def split: option.splits)
  note free = notice_violation_None [OF new]
  have refl: "\<not> notices_clash n n" by (simp add: notices_clash_def)
  have keys: "map tn_id (tender_notices d') = map tn_id (tender_notices d)"
    unfolding d' by (simp add: update_row_def)
  have set: "x \<in> set (tender_notices d') \<Longrightarrow> x = n \<or> x \<in> set (tender_notices d) \<and> tn_id x \<noteq> tn_id n" for x
    unfolding d' by (auto elim: in_update_rowE)
  have mem: "n \<in> set (tender_notices d')"
    unfolding d' update_row_def using assms(4,5) by (force simp: image_iff)
  have same: "x = m" if "x \<in> set (tender_notices d)" "tn_id x = tn_id n" for x
    using that assms(1,4,5) unfolding notices_ok_def rows_ok_def by (metis distinct_map inj_onD)
  have ids: "tn_id ` set (tender_notices d') = tn_id ` set (tender_notices d)"
    using arg_cong [OF keys, of set] by simp
  have "rows_ok d'"
    using assms(1,3) free refl unfolding notices_ok_def rows_ok_def d'(2,3) keys ids by (auto dest!: set)
  moreover have "pointers_ok None d'"
  proof (rule pointers_okI)
    fix x k assume "x \<in> set (tender_notices d')" "tn_current_version_id x = Some k"
    then show "\<exists>v \<in> set (notice_versions d'). nv_id v = k \<and> nv_notice_id v = tn_id x"
      using assms(1,4,5,6) set [of x] pointers_ok_target [of None d _ k] by (auto simp: d'(2) notices_ok_def)
  next
    fix v x assume "v \<in> set (notice_versions d')" "nv_is_current v" "x \<in> set (tender_notices d')"
      "tn_id x = nv_notice_id v"
    then show "tn_current_version_id x = Some (nv_id v)"
      using assms(1,4,5,6) set [of x] pointers_ok_current [of None d v] by (auto simp: d'(2) notices_ok_def)
  qed
  ultimately show ?thesis using d' mem by (simp add: notices_ok_def)
qed

section \<open>Saving a version\<close>

lemma version_violation_None:
  assumes "version_violation v d = None"
  shows "nv_notice_id v \<in> tn_id ` set (tender_notices d)"
    "x \<in> set (notice_versions d) \<Longrightarrow> \<not> versions_clash v x"
    "x \<in> set (notice_versions d) \<Longrightarrow> \<not> versions_clash x v"
  using assms by (auto simp: version_violation_def Let_def versions_clash_def list_ex_iff split: if_splits)

lemma insert_version_ok:
  assumes "notices_ok d" "insert_version v d = Inr d'"
  shows "rows_ok d' \<and> pointers_ok (Some (nv_id v)) d' \<and> v \<in> set (notice_versions d') \<and>
    tender_notices d' = tender_notices d \<and> source_sites d' = source_sites d"
proof -
  have new: "nv_id v \<notin> nv_id ` set (notice_versions d)" "version_violation v d = None"
    and d': "notice_versions d' = notice_versions d @ [v]" "tender_notices d' = tender_notices d"
      "source_sites d' = source_sites d"
    using assms(2) by (auto simp: insert_version_def add_row_def split: option.splits if_splits)
  have refl: "\<not> versions_clash v v" by (simp add: versions_clash_def)
  note free = version_violation_None [OF new(2)]
  have "rows_ok d'"
    using assms(1) new(1) free refl unfolding notices_ok_def rows_ok_def d' by auto
  moreover have "pointers_ok (Some (nv_id v)) d'"
  proof (rule pointers_okI)
    fix n k assume "n \<in> set (tender_notices d')" "tn_current_version_id n = Some k"
    then show "\<exists>w \<in> set (notice_versions d'). nv_id w = k \<and> nv_notice_id w = tn_id n"
      using assms(1) pointers_ok_target [of None d n k] by (auto simp: d' notices_ok_def)
  next
    fix w n assume "w \<in> set (notice_versions d')" "nv_is_current w" "Some (nv_id w) \<noteq> Some (nv_id v)"
      "n \<in> set (tender_notices d')" "tn_id n = nv_notice_id w"
    then show "tn_current_version_id n = Some (nv_id w)"
      using assms(1) pointers_ok_current [of None d w n] by (auto simp: d' notices_ok_def)
  qed
  ultimately show ?thesis using d' by simp
qed

lemma save_version_ok:
  assumes "rows_ok d" "pointers_ok (Some (nv_id v)) d" "save_version v d = Inr d'"
    "w \<in> set (notice_versions d)" "nv_id v = nv_id w" "nv_notice_id v = nv_notice_id w"
  shows "rows_ok d' \<and> pointers_ok (Some (nv_id v)) d' \<and> v \<in> set (notice_versions d') \<and>
    tender_notices d' = tender_notices d \<and> source_sites d' = source_sites d"
proof -
  have new: "version_violation v d = None"
    and d': "notice_versions d' = update_row nv_id (nv_id v) (\<lambda>_. v) (notice_versions d)"
      "tender_notices d' = tender_notices d" "source_sites d' = source_sites d"
    using assms(3) by (auto simp: save_version_def split: option.splits)
  note free = version_violation_None [OF new]
  have refl: "\<not> versions_clash v v" by (simp add: versions_clash_def)
  have keys: "map nv_id (notice_versions d') = map nv_id (notice_versions d)"
    unfolding d' by (simp add: update_row_def)
  have set: "x \<in> set (notice_versions d') \<Longrightarrow> x = v \<or> x \<in> set (notice_versions d) \<and> nv_id x \<noteq> nv_id v" for x
    unfolding d' by (auto elim: in_update_rowE)
  have mem: "v \<in> set (notice_versions d')"
    unfolding d' update_row_def using assms(4,5) by (force simp: image_iff)
  have keep: "\<exists>y \<in> set (notice_versions d'). nv_id y = nv_id x \<and> nv_notice_id y = nv_notice_id x"
    if "x \<in> set (notice_versions d)" for x
  proof (cases "nv_id x = nv_id v")
    case True
    then have "x = w" using that assms(1,4,5) unfolding rows_ok_def by (metis distinct_map inj_onD)
    then show ?thesis using mem assms(5,6) by metis
  next
    case False
    then have "x \<in> set (notice_versions d')" unfolding d' update_row_def using that by (force simp: image_iff)
    then show ?thesis by blast
  qed
  have "rows_ok d'"
    using assms(1) free refl unfolding rows_ok_def d'(2,3) keys by (auto dest!: set)
  moreover have "pointers_ok (Some (nv_id v)) d'"
  proof (rule pointers_okI)
    fix n k assume "n \<in> set (tender_notices d')" "tn_current_version_id n = Some k"
    then show "\<exists>y \<in> set (notice_versions d'). nv_id y = k \<and> nv_notice_id y = tn_id n"
      using pointers_ok_target [OF assms(2), of n k] keep unfolding d'(2) by metis
  next
    fix x n assume "x \<in> set (notice_versions d')" "nv_is_current x" "Some (nv_id x) \<noteq> Some (nv_id v)"
      "n \<in> set (tender_notices d')" "tn_id n = nv_notice_id x"
    then show "tn_current_version_id n = Some (nv_id x)"
      using pointers_ok_current [OF assms(2), of x n] set [of x] by (auto simp: d'(2))
  qed
  ultimately show ?thesis using d' mem by simp
qed

text \<open>A version that is not current breaks nothing; a current one is made the only one.\<close>

lemma pointers_ok_not_current:
  assumes "pointers_ok (Some (nv_id v)) d" "rows_ok d" "v \<in> set (notice_versions d)" "\<not> nv_is_current v"
  shows "pointers_ok None d"
proof (rule pointers_okI)
  fix x n assume x: "x \<in> set (notice_versions d)" "nv_is_current x" "n \<in> set (tender_notices d)"
    "tn_id n = nv_notice_id x"
  have "nv_id x \<noteq> nv_id v"
    using x(1,2) assms(2,3,4) unfolding rows_ok_def by (metis distinct_map inj_onD)
  then show "tn_current_version_id n = Some (nv_id x)"
    using pointers_ok_current [OF assms(1) x(1,2)] x(3,4) by simp
qed (use pointers_ok_target [OF assms(1)] in blast)

lemma retire_others_set:
  "x \<in> set (retire_others v vs) \<Longrightarrow> \<exists>y \<in> set vs. nv_id x = nv_id y \<and> nv_notice_id x = nv_notice_id y \<and>
     nv_version_no x = nv_version_no y \<and> nv_content_hash x = nv_content_hash y \<and>
     (nv_is_current x \<longrightarrow> nv_is_current y \<and> (nv_notice_id x = nv_notice_id v \<longrightarrow> nv_id x = nv_id v))"
  by (fastforce simp: retire_others_def split: if_splits)

lemma retire_others_mem:
  "y \<in> set vs \<Longrightarrow> \<exists>x \<in> set (retire_others v vs). nv_id x = nv_id y \<and> nv_notice_id x = nv_notice_id y"
  unfolding retire_others_def set_map bex_simps by (rule bexI [of _ y]) auto

lemma retire_others_keys: "map nv_id (retire_others v vs) = map nv_id vs"
  by (simp add: retire_others_def)

lemma span_ok_pointer [simp]: "span_ok (n\<lparr>tn_current_version_id := k\<rparr>) = span_ok n"
  by (simp add: span_ok_def)

lemma make_current_ok:
  assumes "rows_ok d" "pointers_ok (Some (nv_id v)) d" "v \<in> set (notice_versions d)"
  shows "notices_ok (make_current v d)"
proof -
  let ?d = "make_current v d"
  have ids: "map tn_id (tender_notices ?d) = map tn_id (tender_notices d)"
    by (simp add: make_current_def update_row_def)
  have notices: "\<exists>m \<in> set (tender_notices d). tn_id n = tn_id m \<and> tn_source_site_id n = tn_source_site_id m \<and>
      tn_external_id n = tn_external_id m \<and> tn_dedup_hash n = tn_dedup_hash m \<and> span_ok n = span_ok m \<and>
      tn_current_version_id n =
        (if tn_id m = nv_notice_id v then Some (nv_id v) else tn_current_version_id m)"
    if row: "n \<in> set (tender_notices ?d)" for n
  proof -
    obtain m where "m \<in> set (tender_notices d)"
        "n = (if tn_id m = nv_notice_id v then m\<lparr>tn_current_version_id := Some (nv_id v)\<rparr> else m)"
      using row update_row_from [of n tn_id "nv_notice_id v" "\<lambda>n. n\<lparr>tn_current_version_id := Some (nv_id v)\<rparr>"
          "tender_notices d"]
      by (auto simp: make_current_def)
    then show ?thesis by (intro bexI [of _ m]) auto
  qed
  have ids_set: "tn_id ` set (tender_notices ?d) = tn_id ` set (tender_notices d)"
    using arg_cong [OF ids, of set] by simp
  have versions: "notice_versions ?d = retire_others v (notice_versions d)"
    and sources: "source_sites ?d = source_sites d" by (simp_all add: make_current_def)
  have "rows_ok ?d"
    unfolding rows_ok_def versions sources ids retire_others_keys ids_set
  proof (intro conjI ballI)
    fix n assume "n \<in> set (tender_notices ?d)"
    from notices [OF this] show "tn_source_site_id n \<in> ss_id ` set (source_sites d)" "span_ok n"
      using assms(1) unfolding rows_ok_def by auto
  next
    fix x assume "x \<in> set (retire_others v (notice_versions d))"
    from retire_others_set [OF this] show "nv_notice_id x \<in> tn_id ` set (tender_notices d)"
      using assms(1) unfolding rows_ok_def by metis
  next
    fix a b assume "a \<in> set (tender_notices ?d)" "b \<in> set (tender_notices ?d)"
    from notices [OF this(1)] notices [OF this(2)] show "\<not> notices_clash a b"
      using assms(1) unfolding rows_ok_def notices_clash_def by metis
  next
    fix a b assume "a \<in> set (retire_others v (notice_versions d))" "b \<in> set (retire_others v (notice_versions d))"
    from retire_others_set [OF this(1)] retire_others_set [OF this(2)] show "\<not> versions_clash a b"
      using assms(1) unfolding rows_ok_def versions_clash_def by metis
  qed (use assms(1) in \<open>simp_all add: rows_ok_def\<close>)
  moreover have "pointers_ok None ?d"
  proof (rule pointers_okI)
    fix n k assume "n \<in> set (tender_notices ?d)" "tn_current_version_id n = Some k"
    with notices obtain m where m: "m \<in> set (tender_notices d)" "tn_id n = tn_id m"
        "Some k = (if tn_id m = nv_notice_id v then Some (nv_id v) else tn_current_version_id m)" by metis
    then obtain y where "y \<in> set (notice_versions d)" "nv_id y = k" "nv_notice_id y = tn_id n"
      using assms(3) pointers_ok_target [OF assms(2) m(1), of k] by (auto split: if_splits)
    then show "\<exists>y \<in> set (notice_versions ?d). nv_id y = k \<and> nv_notice_id y = tn_id n"
      unfolding versions using retire_others_mem by metis
  next
    fix x n assume x: "x \<in> set (notice_versions ?d)" "nv_is_current x" "n \<in> set (tender_notices ?d)"
      "tn_id n = nv_notice_id x"
    obtain y where y: "y \<in> set (notice_versions d)" "nv_id x = nv_id y" "nv_notice_id x = nv_notice_id y"
        "nv_is_current y" "nv_notice_id x = nv_notice_id v \<longrightarrow> nv_id x = nv_id v"
      using retire_others_set x(1,2) unfolding versions by metis
    obtain m where m: "m \<in> set (tender_notices d)" "tn_id n = tn_id m" "tn_current_version_id n =
        (if tn_id m = nv_notice_id v then Some (nv_id v) else tn_current_version_id m)"
      using notices [OF x(3)] by blast
    show "tn_current_version_id n = Some (nv_id x)"
    proof (cases "nv_notice_id x = nv_notice_id v")
      case True
      then show ?thesis using m y(5) x(4) by simp
    next
      case False
      have "nv_id y \<noteq> nv_id v"
        using False y(1,3) assms(1,3) unfolding rows_ok_def by (metis distinct_map inj_onD)
      then show ?thesis
        using pointers_ok_current [OF assms(2) y(1,4) _ m(1)] False m x(4) y(2,3) by simp
    qed
  qed
  ultimately show ?thesis by (simp add: notices_ok_def)
qed

section \<open>Every transaction keeps the invariant\<close>

lemma and_then_InrE:
  assumes "and_then r f = Inr y"
  obtains x where "r = Inr x" "f x = Inr y"
  using assms by (auto simp: and_then_Inr)

lemma record_stats_keeps:
  assumes "record_stats_for item c d = Inr d'"
  shows "tender_notices d' = tender_notices d" "notice_versions d' = notice_versions d"
    "source_sites d' = source_sites d"
  using assms
  by (auto simp: record_stats_for_def and_then_Inr record_stats_in_session_def update_job_def
      split: option.splits sum.splits if_splits)

lemma record_stats_ok: "record_stats_for item c d = Inr d' \<Longrightarrow> notices_ok d \<Longrightarrow> notices_ok d'"
  by (rule notices_ok_cong) (simp_all add: record_stats_keeps)

text \<open>A notice that was found is a row; a created one is saved with no version.\<close>

lemma choose_similar_mem: "choose_similar env title item cs = Inr (Some n) \<Longrightarrow> n \<in> set cs"
  by (auto simp: choose_similar_def Let_def and_then_Inr dest!: any_row_mem split: if_splits)

lemma similar_on_day_mem:
  "similar_on_day env source item title t d = Inr (Some n) \<Longrightarrow> n \<in> set (tender_notices d)"
  by (auto simp: similar_on_day_def dest!: choose_similar_mem split: option.splits)

lemma find_similar_mem:
  assumes "find_notice_by_high_similarity env source item d = Inr (Some n)"
  shows "n \<in> set (tender_notices d)"
proof -
  obtain date where "(case normalize_title (we_lib env) (field item ''title'') of
      None \<Rightarrow> Inr None
    | Some title \<Rightarrow> (case date of
        None \<Rightarrow> Inr None | Some day_text \<Rightarrow> similar_on_day env source item title day_text d)) = Inr (Some n)"
    using assms unfolding find_notice_by_high_similarity_def by (rule and_then_InrE)
  then show ?thesis
    using similar_on_day_mem
    by (cases "normalize_title (we_lib env) (field item ''title'')"; cases date) auto
qed

lemma lookup_notice_mem: "lookup_notice env source item d = Some n \<Longrightarrow> n \<in> set (tender_notices d)"
  by (auto simp: lookup_notice_def opt_or_def Let_def dest!: any_row_mem split: option.splits)

lemma resolve_notice_ok:
  assumes "notices_ok d" "resolve_notice env source item d = Inr (Some (n, created, d1))"
  shows "notices_ok d1 \<and> n \<in> set (tender_notices d1) \<and> span_ok n \<and> source_sites d1 = source_sites d"
proof -
  obtain found where found: "(case lookup_notice env source item d of
        Some n \<Rightarrow> Inr (Some n) | None \<Rightarrow> find_notice_by_high_similarity env source item d) = Inr found"
    and rest: "(case found of
         Some n \<Rightarrow> Inr (Some (n, False, d))
       | None \<Rightarrow>
          (case field_str item ''title'' of
             None \<Rightarrow> Inr None
           | Some title \<Rightarrow>
              (let n = new_notice env source item title (next_id T_tender_notice tn_id (tender_notices d) d)
               in and_then (insert_notice n d) (\<lambda>d1. Inr (Some (n, True, d1)))))) = Inr (Some (n, created, d1))"
    using assms(2) unfolding resolve_notice_def by (rule and_then_InrE)
  show ?thesis
  proof (cases found)
    case None
    then obtain title where n: "n = new_notice env source item title (next_id T_tender_notice tn_id (tender_notices d) d)"
        and ins: "insert_notice n d = Inr d1"
      using rest by (auto simp: Let_def and_then_Inr split: option.splits)
    show ?thesis using insert_notice_ok [OF assms(1) ins] span_ok_new n by simp
  next
    case (Some m)
    then have "n = m" "d1 = d" using rest by auto
    moreover have "m \<in> set (tender_notices d)"
      using found Some lookup_notice_mem find_similar_mem by (auto split: option.splits)
    ultimately show ?thesis using assms(1) unfolding notices_ok_def rows_ok_def by blast
  qed
qed

lemma save_applied_ok:
  assumes "notices_ok d1" "n \<in> set (tender_notices d1)" "save_notice (apply_notice_fields env item n) d1 = Inr d2"
  shows "notices_ok d2 \<and> apply_notice_fields env item n \<in> set (tender_notices d2) \<and> source_sites d2 = source_sites d1"
proof -
  have "span_ok n" using assms(1,2) unfolding notices_ok_def rows_ok_def by blast
  from save_notice_ok [OF assms(1,3) span_ok_apply [OF this] assms(2)] show ?thesis by simp
qed

lemma create_version_insert:
  "create_version env k item no d = Inr (Some (v, created, d')) \<Longrightarrow> insert_version v d = Inr d'"
  by (auto simp: create_version_def Let_def and_then_Inr split: option.splits)

lemma find_version_mem: "find P (versions_of k d) = Some w \<Longrightarrow> w \<in> set (notice_versions d)"
proof -
  assume "find P (versions_of k d) = Some w"
  then have "w \<in> set (versions_of k d)" unfolding find_Some_iff by (metis nth_mem)
  then show ?thesis by simp
qed

lemma version_by_mem:
  "version_by_content k item d = Some w \<Longrightarrow> w \<in> set (notice_versions d)"
  "version_by_number k item d = Some w \<Longrightarrow> w \<in> set (notice_versions d)"
  by (cases "field_str item ''content_hash''")
    (auto simp: version_by_content_def version_by_number_def dest: find_version_mem)

lemma resolve_notice_version_ok:
  assumes "notices_ok d" "resolve_notice_version env k item d = Inr (Some (v, created, d'))"
  shows "rows_ok d' \<and> pointers_ok (Some (nv_id v)) d' \<and> v \<in> set (notice_versions d') \<and>
    tender_notices d' = tender_notices d \<and> source_sites d' = source_sites d"
proof -
  have old: ?thesis if "v \<in> set (notice_versions d)" "d' = d"
    using that assms(1) pointers_ok_weaken by (simp add: notices_ok_def)
  show ?thesis
  proof (cases "version_by_content k item d")
    case (Some w)
    then have "v = w" "d' = d" using assms(2) by (simp_all add: resolve_notice_version_def)
    then show ?thesis using old version_by_mem(1) [OF Some] by blast
  next
    case None
    note content = None
    show ?thesis
    proof (cases "version_by_number k item d")
      case None
      then have "create_version env k item (requested_version_no item) d = Inr (Some (v, created, d'))"
        using content assms(2) by (simp add: resolve_notice_version_def)
      then show ?thesis using create_version_insert insert_version_ok [OF assms(1)] by blast
    next
      case (Some w)
      then have "v = w \<and> d' = d \<or>
          create_version env k item (max_version_no k d + 1) d = Inr (Some (v, created, d'))"
        using content assms(2) by (simp add: resolve_notice_version_def split: if_splits)
      then show ?thesis
        using create_version_insert insert_version_ok [OF assms(1)] old version_by_mem(2) [OF Some] by blast
    qed
  qed
qed

lemma updated_version_fields [simp]:
  "nv_id (updated_version env item notice raw v) = nv_id v"
  "nv_notice_id (updated_version env item notice raw v) = nv_notice_id v"
  by (simp_all add: updated_version_def)

lemma see_published_row_ok:
  assumes "notices_ok d"
  shows "notices_ok (d\<lparr>tender_notices := update_row tn_id k (see_published t) (tender_notices d)\<rparr>)" (is "notices_ok ?d")
proof -
  have from_row: "\<exists>m \<in> set (tender_notices d). tn_id n = tn_id m \<and> tn_source_site_id n = tn_source_site_id m \<and>
      tn_external_id n = tn_external_id m \<and> tn_dedup_hash n = tn_dedup_hash m \<and> (span_ok m \<longrightarrow> span_ok n) \<and>
      tn_current_version_id n = tn_current_version_id m" if row: "n \<in> set (tender_notices ?d)" for n
  proof -
    obtain m where "m \<in> set (tender_notices d)" "n = (if tn_id m = k then see_published t m else m)"
      using row update_row_from [of n tn_id k "see_published t" "tender_notices d"] by auto
    then show ?thesis by (intro bexI [of _ m]) (auto intro: span_ok_see_published)
  qed
  have ids: "map tn_id (tender_notices ?d) = map tn_id (tender_notices d)" by (simp add: update_row_def)
  have ids_set: "tn_id ` set (tender_notices ?d) = tn_id ` set (tender_notices d)"
    using arg_cong [OF ids, of set] by simp
  have same: "notice_versions ?d = notice_versions d" "source_sites ?d = source_sites d" by simp_all
  have "rows_ok ?d"
    unfolding rows_ok_def same ids ids_set
  proof (intro conjI ballI)
    fix n assume "n \<in> set (tender_notices ?d)"
    from from_row [OF this] show "tn_source_site_id n \<in> ss_id ` set (source_sites d)" "span_ok n"
      using assms unfolding notices_ok_def rows_ok_def by auto
  next
    fix a b assume "a \<in> set (tender_notices ?d)" "b \<in> set (tender_notices ?d)"
    from from_row [OF this(1)] from_row [OF this(2)] show "\<not> notices_clash a b"
      using assms unfolding notices_ok_def rows_ok_def notices_clash_def by metis
  qed (use assms in \<open>simp_all add: notices_ok_def rows_ok_def\<close>)
  moreover have "pointers_ok None ?d"
  proof (rule pointers_okI)
    fix n j assume "n \<in> set (tender_notices ?d)" "tn_current_version_id n = Some j"
    with from_row show "\<exists>y \<in> set (notice_versions ?d). nv_id y = j \<and> nv_notice_id y = tn_id n"
      using assms pointers_ok_target [of None d] unfolding notices_ok_def same by metis
  next
    fix x n assume "x \<in> set (notice_versions ?d)" "nv_is_current x" "n \<in> set (tender_notices ?d)"
      "tn_id n = nv_notice_id x"
    with from_row [of n] show "tn_current_version_id n = Some (nv_id x)"
      using assms pointers_ok_current [of None d x] unfolding notices_ok_def same by (metis option.distinct(1))
  qed
  ultimately show ?thesis by (simp add: notices_ok_def)
qed

lemma publish_version_ok:
  assumes "rows_ok d" "pointers_ok (Some (nv_id v)) d" "v \<in> set (notice_versions d)"
  shows "notices_ok (publish_version v d)"
proof -
  have "notices_ok (if nv_is_current v then make_current v d else d)"
    using make_current_ok [OF assms] pointers_ok_not_current [OF assms(2,1,3)] assms(1)
    by (simp add: notices_ok_def)
  then show ?thesis
    using see_published_row_ok by (cases "nv_published_at v") (simp_all add: publish_version_def Let_def)
qed

lemma store_version_ok:
  assumes "rows_ok d" "pointers_ok (Some (nv_id v)) d" "v \<in> set (notice_versions d)"
    "store_version env item source notice v created d = Inr (Some d')"
  shows "notices_ok d'"
proof -
  let ?v = "updated_version env item notice
    (find_raw_document_id source (field_str item ''raw_document_url_hash'') d) v"
  obtain d1 c where d1: "save_version ?v d = Inr d1" "record_stats_for item c (publish_version ?v d1) = Inr d'"
    using assms(4) by (auto simp: store_version_def Let_def elim!: and_then_InrE)
  have "rows_ok d1 \<and> pointers_ok (Some (nv_id ?v)) d1 \<and> ?v \<in> set (notice_versions d1)"
    using save_version_ok [of d ?v d1 v] assms(1-3) d1(1) by simp
  then show ?thesis using publish_version_ok record_stats_ok d1(2) by blast
qed

lemma version_body_ok:
  assumes "notices_ok d" "version_body env item source d = Inr (Some d')"
  shows "notices_ok d'"
proof -
  obtain n c d1 where r: "resolve_notice env source item d = Inr (Some (n, c, d1))"
    and rest: "and_then (save_notice (apply_notice_fields env item n) d1) (\<lambda>d2.
          and_then (resolve_notice_version env (tn_id n) item d2) (\<lambda>rv.
            case rv of
              None \<Rightarrow> Inr None
            | Some (v, created, d3) \<Rightarrow>
                store_version env item source (apply_notice_fields env item n) v created d3)) = Inr (Some d')"
    using assms(2) unfolding version_body_def by (auto elim!: and_then_InrE split: option.splits prod.splits)
  obtain d2 v created d3 where steps: "save_notice (apply_notice_fields env item n) d1 = Inr d2"
      "resolve_notice_version env (tn_id n) item d2 = Inr (Some (v, created, d3))"
      "store_version env item source (apply_notice_fields env item n) v created d3 = Inr (Some d')"
    using rest by (auto elim!: and_then_InrE split: option.splits prod.splits)
  have "notices_ok d2"
    using resolve_notice_ok [OF assms(1) r] save_applied_ok [OF _ _ steps(1)] by simp
  from resolve_notice_version_ok [OF this steps(2)] show ?thesis using store_version_ok steps(3) by blast
qed

lemma notice_body_ok:
  assumes "notices_ok d" "notice_body env item source d = Inr (Some d')"
  shows "notices_ok d'"
proof -
  consider c where "record_stats_for item c d = Inr d'"
    | n created d1 d2 c where "resolve_notice env source item d = Inr (Some (n, created, d1))"
        "save_notice (apply_notice_fields env item n) d1 = Inr d2" "record_stats_for item c d2 = Inr d'"
    using assms(2)
    by (auto simp: notice_body_def Let_def elim!: and_then_InrE split: if_splits option.splits prod.splits)
  then show ?thesis
  proof cases
    case 1
    then show ?thesis using assms(1) record_stats_ok by blast
  next
    case 2
    then show ?thesis
      using resolve_notice_ok [OF assms(1) 2(1)] save_applied_ok [OF _ _ 2(2)] record_stats_ok by blast
  qed
qed

lemma raw_document_body_ok:
  assumes "notices_ok d" "raw_document_body env item source d = Inr (Some d')"
  shows "notices_ok d'"
proof -
  obtain is_new row d1 c where "save_raw_document is_new row d = Inr d1" "record_stats_for item c d1 = Inr d'"
    using assms(2) by (auto simp: raw_document_body_def Let_def elim!: and_then_InrE split: option.splits)
  moreover from this(1) have "notices_ok d1"
    using assms(1) by (intro notices_ok_cong [of d1 d]) (auto simp: save_raw_document_def split: option.splits if_splits)
  ultimately show ?thesis using record_stats_ok by blast
qed

lemma error_body_ok:
  assumes "notices_ok d" "error_body env item source d = Inr (Some d')"
  shows "notices_ok d'"
proof -
  obtain e c where "record_stats_for item c
      (bump_seq T_crawl_error (d\<lparr>crawl_errors := add_row e (crawl_errors d)\<rparr>)) = Inr d'"
    using assms(2) by (auto simp: error_body_def Let_def elim!: and_then_InrE split: if_splits)
  moreover have "notices_ok (bump_seq T_crawl_error (d\<lparr>crawl_errors := add_row e (crawl_errors d)\<rparr>))"
    using assms(1) by (rule notices_ok_cong [rotated 3]) auto
  ultimately show ?thesis using record_stats_ok by blast
qed

lemma save_attachment_keeps:
  assumes "save_attachment existing row d = Inr d'"
  shows "tender_notices d' = tender_notices d" "notice_versions d' = notice_versions d"
    "source_sites d' = source_sites d"
  using assms by (auto simp: save_attachment_def split: option.splits if_splits)

lemma attachment_body_ok:
  assumes "notices_ok d" "attachment_body env item source d = Inr (Some d')"
  shows "notices_ok d'"
proof -
  obtain n c d1 where r: "resolve_notice env source item d = Inr (Some (n, c, d1))"
    using assms(2) unfolding attachment_body_def by (auto elim!: and_then_InrE split: option.splits prod.splits)
  obtain name d2 where name: "(case field_str item ''file_name'' of
        Some t \<Rightarrow> Inr (Some t) | None \<Rightarrow> infer_attachment_file_name (we_lib env) (field_str item ''file_url'')) = Inr name"
    and d2: "save_notice (apply_notice_fields env item n) d1 = Inr d2"
    using assms(2) r unfolding attachment_body_def Let_def by (auto elim!: and_then_InrE)
  have ok2: "notices_ok d2" using resolve_notice_ok [OF assms(1) r] save_applied_ok [OF _ _ d2] by simp
  consider "d' = d2" | existing row d3 stats where "save_attachment existing row d2 = Inr d3"
      "record_stats_for item stats d3 = Inr d'"
  proof (cases "field_str item ''url_hash'' = None \<or> field_str item ''file_url'' = None \<or> name = None")
    case True
    then have "d' = d2"
      using assms(2) r name d2 by (auto simp: attachment_body_def Let_def split: option.splits)
    then show ?thesis using that(1) by blast
  next
    case False
    then obtain hash url nm where "field_str item ''url_hash'' = Some hash"
        "field_str item ''file_url'' = Some url" "name = Some nm" by auto
    then show ?thesis
      using assms(2) r name d2 that(2) unfolding attachment_body_def Let_def by (auto elim!: and_then_InrE)
  qed
  then show ?thesis
  proof cases
    case 1
    then show ?thesis using ok2 by simp
  next
    case 2
    then have "notices_ok d3"
      using ok2 save_attachment_keeps [OF 2(1)] by (intro notices_ok_cong [of d3 d2]) simp_all
    then show ?thesis using record_stats_ok 2(2) by blast
  qed
qed

lemma source_site_id_ok:
  assumes "notices_ok d" "source_site_id code name url cache d = Inr (i, cache', d')"
  shows "notices_ok d'"
proof -
  have "tender_notices d' = tender_notices d" "notice_versions d' = notice_versions d"
    "set (source_sites d) \<subseteq> set (source_sites d')"
    using assms(2)
    by (auto simp: source_site_id_def insert_source_site_def Let_def add_row_def
        split: option.splits sum.splits if_splits)
  then show ?thesis using assms(1) by (rule notices_ok_cong)
qed

lemma with_source_ok:
  assumes "notices_ok (snd st)" "\<And>i d d'. notices_ok d \<Longrightarrow> body i d = Inr (Some d') \<Longrightarrow> notices_ok d'"
  shows "notices_ok (snd (snd (with_source lib item body st)))"
proof -
  define code where "code = text_or (field_str item ''source_code'') (lit ''unknown_source'')"
  define url where
    "url = (case field_str item ''source_site_url'' of Some t \<Rightarrow> Inr t | None \<Rightarrow> guess_base_url lib item)"
  note def = with_source_def [of lib item body st, unfolded Let_def, folded code_def url_def]
  show ?thesis
  proof (cases url)
    case (Inl e)
    then show ?thesis using assms(1) by (simp add: def)
  next
    case url: (Inr u)
    show ?thesis
    proof (cases "source_site_id code (field_str item ''source_site_name'') u (fst st) (snd st)")
      case (Inl e)
      then show ?thesis using assms(1) url by (simp add: def)
    next
      case (Inr r)
      obtain i cache' d1 where r: "r = (i, cache', d1)" by (cases r)
      have "notices_ok d1" using source_site_id_ok [OF assms(1)] Inr r by simp
      then show ?thesis
        using assms Inr r url by (auto simp: def split: sum.split option.split)
    qed
  qed
qed

lemma process_item_ok:
  assumes "notices_ok (snd st)"
  shows "notices_ok (snd (snd (process_item env item st)))"
  using assms
  by (auto simp: process_item_def Let_def write_raw_document_def write_notice_def write_notice_version_def
      write_attachment_def write_error_def intro!: with_source_ok
      intro: raw_document_body_ok notice_body_ok version_body_ok attachment_body_ok error_body_ok
      split: sum.split)

lemma process_items_ok: "notices_ok (snd st) \<Longrightarrow> notices_ok (snd (process_items items st))"
  by (induction items st rule: process_items.induct) (auto intro: process_item_ok)


definition sample_env :: writer_env where
  "sample_env = \<lparr>we_lib = sample_lib, we_now = 0, we_decimal = (\<lambda>_. None), we_pick = (\<lambda>_. 0),
     we_guess_mime = (\<lambda>_. None)\<rparr>"

definition version_item :: "string \<Rightarrow> string \<Rightarrow> payload" where
  "version_item title hash =
     map (\<lambda>(k, v). (lit k, VStr (lit v)))
       [(''item_type'', ''notice_version''), (''source_code'', ''s''), (''source_site_url'', ''u''),
        (''title'', title), (''external_id'', ''7''), (''dedup_key'', ''k''), (''source_duplicate_key'', ''k''),
        (''content_hash'', hash)]"

definition sample_run :: "source_cache \<times> db" where
  "sample_run = process_items
     [(sample_env, version_item ''A'' ''x''), (sample_env, version_item ''B'' ''y'')] (Map.empty, empty_db Sqlite)"

definition pointer_view :: "db \<Rightarrow> (int \<times> int option) list \<times> (int \<times> int \<times> bool) list" where
  "pointer_view d =
     (map (\<lambda>n. (tn_id n, tn_current_version_id n)) (tender_notices d),
      map (\<lambda>v. (nv_id v, nv_notice_id v, nv_is_current v)) (notice_versions d))"

lemma sample_run_view:
  "pointer_view (snd sample_run) = ([(1, Some 2)], [(1, 1, False), (2, 1, True)])"
  by code_simp


end
