(* ===== verification/WriterRepeat.thy ===== *)
theory WriterRepeat
  imports WriterFacts
begin

text \<open>
  What the writers do with an item whose content they have stored before, and with an item of a source
  whose row was never committed.
\<close>

section \<open>A stored version\<close>

definition holds_content :: "int \<Rightarrow> ustr \<Rightarrow> ustr \<Rightarrow> db \<Rightarrow> bool" where
  "holds_content source key h d \<longleftrightarrow>
     (\<exists>v \<in> set (notice_versions d). nv_content_hash v = h \<and> nv_source_duplicate_key v = Some key \<and>
        (\<exists>n \<in> set (tender_notices d). tn_id n = nv_notice_id v \<and> tn_source_site_id n = source))"

lemma holds_contentI:
  assumes "v \<in> set (notice_versions d)" "nv_content_hash v = h" "nv_source_duplicate_key v = Some key"
    "n \<in> set (tender_notices d)" "tn_id n = nv_notice_id v" "tn_source_site_id n = source"
  shows "holds_content source key h d"
  using assms unfolding holds_content_def by blast

lemma known_content_holds:
  assumes "notices_ok d" "holds_content source key h d"
  shows "known_content source k (Some key) h d"
proof -
  obtain v n where v: "v \<in> set (notice_versions d)" "nv_content_hash v = h" "nv_source_duplicate_key v = Some key"
    and n: "n \<in> set (tender_notices d)" "tn_id n = nv_notice_id v" "tn_source_site_id n = source"
    using assms(2) unfolding holds_content_def by blast
  obtain m where m: "get_row tn_id (nv_notice_id v) (tender_notices d) = Some m"
    using n(1,2) by (cases "get_row tn_id (nv_notice_id v) (tender_notices d)")
      (auto simp: get_row_def find_None_iff)
  then have "m \<in> set (tender_notices d)" "tn_id m = tn_id n"
    using n(2) by (auto simp: get_row_def find_Some_iff)
  then have "m = n" using assms(1) n(1) by (metis notices_ok_def rows_ok_def distinct_map inj_onD)
  then show ?thesis unfolding known_content_def list_ex_iff using v n(3) m by auto
qed

lemma resolve_notice_source:
  assumes "resolve_notice env source item d = Inr (Some (n, created, d1))"
  shows "tn_source_site_id n = source"
proof -
  have looked: "lookup_notice env source item d = Some m \<Longrightarrow> tn_source_site_id m = source" for m
    by (auto simp: lookup_notice_def opt_or_def Let_def dest!: any_row_mem split: option.splits)
  have "similar_on_day env source item title t d = Inr (Some m) \<Longrightarrow> tn_source_site_id m = source" for title t m
    by (auto simp: similar_on_day_def dest!: choose_similar_mem split: option.splits)
  then have similar: "find_notice_by_high_similarity env source item d = Inr (Some m) \<Longrightarrow> tn_source_site_id m = source" for m
    by (auto simp: find_notice_by_high_similarity_def elim!: and_then_InrE split: option.splits)
  have "tn_source_site_id (new_notice env source item title i) = source" for title i
    by (simp add: new_notice_def)
  then show ?thesis
    using assms looked similar unfolding resolve_notice_def Let_def
    by (auto elim!: and_then_InrE split: option.splits)
qed

lemma find_version_notice: "find P (versions_of k d) = Some w \<Longrightarrow> nv_notice_id w = k"
proof -
  assume "find P (versions_of k d) = Some w"
  then have "w \<in> set (versions_of k d)" unfolding find_Some_iff by (metis nth_mem)
  then show ?thesis by simp
qed

lemma create_version_notice: "create_version env k item no d = Inr (Some (v, created, d')) \<Longrightarrow> nv_notice_id v = k"
  by (auto simp: create_version_def new_version_def Let_def and_then_Inr split: option.splits)

lemma resolve_notice_version_notice:
  assumes "resolve_notice_version env k item d = Inr (Some (v, created, d'))"
  shows "nv_notice_id v = k"
proof (cases "version_by_content k item d")
  case (Some w)
  then have "nv_notice_id w = k"
    by (auto simp: version_by_content_def dest: find_version_notice split: option.splits)
  then show ?thesis using assms Some by (simp add: resolve_notice_version_def)
next
  case None
  show ?thesis
  proof (cases "version_by_number k item d")
    case number: None
    then have "create_version env k item (requested_version_no item) d = Inr (Some (v, created, d'))"
      using assms None by (simp add: resolve_notice_version_def)
    then show ?thesis by (rule create_version_notice)
  next
    case (Some w)
    then have "nv_notice_id w = k" unfolding version_by_number_def by (rule find_version_notice)
    moreover have "v = w \<or> create_version env k item (max_version_no k d + 1) d = Inr (Some (v, created, d'))"
    proof (cases "field_str item ''content_hash'' = None \<or> Some (nv_content_hash w) = field_str item ''content_hash''")
      case True
      then show ?thesis using assms None Some by (simp add: resolve_notice_version_def)
    next
      case False
      then show ?thesis using assms None Some by (simp only: resolve_notice_version_def option.case if_False simp_thms)
    qed
    ultimately show ?thesis using create_version_notice by blast
  qed
qed

lemma publish_version_holds:
  assumes "holds_content source key h d"
  shows "holds_content source key h (publish_version w d)"
proof -
  obtain v n where v: "v \<in> set (notice_versions d)" "nv_content_hash v = h" "nv_source_duplicate_key v = Some key"
    and n: "n \<in> set (tender_notices d)" "tn_id n = nv_notice_id v" "tn_source_site_id n = source"
    using assms unfolding holds_content_def by blast
  have current: "holds_content source key h (make_current w d)"
  proof (rule holds_contentI)
    let ?v = "if nv_notice_id v = nv_notice_id w \<and> nv_id v \<noteq> nv_id w then v\<lparr>nv_is_current := False\<rparr> else v"
    let ?n = "if tn_id n = nv_notice_id w then n\<lparr>tn_current_version_id := Some (nv_id w)\<rparr> else n"
    show "?v \<in> set (notice_versions (make_current w d))"
      unfolding make_current_def retire_others_def using v(1) by simp
    show "?n \<in> set (tender_notices (make_current w d))"
      unfolding make_current_def update_row_def using n(1) by simp
    show "nv_content_hash ?v = h" "nv_source_duplicate_key ?v = Some key" using v(2,3) by simp_all
    show "tn_id ?n = nv_notice_id ?v" "tn_source_site_id ?n = source" using n(2,3) by simp_all
  qed
  have seen: "holds_content source key h (e\<lparr>tender_notices := update_row tn_id k (see_published t) (tender_notices e)\<rparr>)"
    if held: "holds_content source key h e" for e k t
  proof -
    obtain v n where v: "v \<in> set (notice_versions e)" "nv_content_hash v = h" "nv_source_duplicate_key v = Some key"
      and n: "n \<in> set (tender_notices e)" "tn_id n = nv_notice_id v" "tn_source_site_id n = source"
      using held unfolding holds_content_def by blast
    have "(if tn_id n = k then see_published t n else n) \<in> set (update_row tn_id k (see_published t) (tender_notices e))"
      unfolding update_row_def using n(1) by simp
    then show ?thesis
      using v n by (intro holds_contentI [of v _ _ _ "if tn_id n = k then see_published t n else n"]) simp_all
  qed
  show ?thesis
    using current seen assms by (auto simp: publish_version_def Let_def split: option.split)
qed

lemma version_body_stores:
  assumes "notices_ok d" "version_body env item source d = Inr (Some d')"
    "field_str item ''content_hash'' = Some h" "field_str item ''source_duplicate_key'' = Some key"
  shows "holds_content source key h d'"
proof -
  obtain n c d1 where r: "resolve_notice env source item d = Inr (Some (n, c, d1))"
    using assms(2) unfolding version_body_def by (auto elim!: and_then_InrE split: option.splits prod.splits)
  obtain d2 v created d3 where d2: "save_notice (apply_notice_fields env item n) d1 = Inr d2"
    and d3: "resolve_notice_version env (tn_id n) item d2 = Inr (Some (v, created, d3))"
    and store: "store_version env item source (apply_notice_fields env item n) v created d3 = Inr (Some d')"
    using assms(2) r unfolding version_body_def by (auto elim!: and_then_InrE split: option.splits prod.splits)
  have ok1: "notices_ok d1" "n \<in> set (tender_notices d1)" using resolve_notice_ok [OF assms(1) r] by simp_all
  have ok2: "notices_ok d2" "apply_notice_fields env item n \<in> set (tender_notices d2)"
    using save_applied_ok [OF ok1 d2] by simp_all
  have ok3: "v \<in> set (notice_versions d3)" "tender_notices d3 = tender_notices d2"
    using resolve_notice_version_ok [OF ok2(1) d3] by simp_all
  define w where "w = updated_version env item (apply_notice_fields env item n)
    (find_raw_document_id source (field_str item ''raw_document_url_hash'') d3) v"
  obtain d4 stats where d4: "save_version w d3 = Inr d4" "record_stats_for item stats (publish_version w d4) = Inr d'"
    using store unfolding store_version_def Let_def w_def by (auto elim!: and_then_InrE)
  have "(if nv_id v = nv_id w then w else v) \<in> set (notice_versions d4)"
    using d4(1) ok3(1) by (auto simp: save_version_def update_row_def split: option.splits)
  then have "w \<in> set (notice_versions d4)" by (simp add: w_def)
  moreover have "tender_notices d4 = tender_notices d2"
    using d4(1) ok3(2) by (auto simp: save_version_def split: option.splits)
  ultimately have "holds_content source key h d4"
    using ok2(2) resolve_notice_source [OF r] resolve_notice_version_notice [OF d3] assms(3,4)
    by (intro holds_contentI [of w _ _ _ "apply_notice_fields env item n"])
      (simp_all add: w_def updated_version_def text_or_def)
  then have "holds_content source key h (publish_version w d4)" by (rule publish_version_holds)
  then show ?thesis using record_stats_keeps [OF d4(2)] by (simp add: holds_content_def)
qed

lemma version_body_commits:
  assumes "field_str item ''title'' \<noteq> None" "field_str item ''content_hash'' \<noteq> None"
  shows "version_body env item source d \<noteq> Inr None"
proof
  assume none: "version_body env item source d = Inr None"
  have resolved: "resolve_notice env source item d \<noteq> Inr None"
    using assms(1) unfolding resolve_notice_def Let_def by (auto elim!: and_then_InrE split: option.splits)
  have created: "create_version env k item no e \<noteq> Inr None" for k no e
    using assms unfolding create_version_def Let_def by (auto elim!: and_then_InrE split: option.splits)
  have "resolve_notice_version env k item e \<noteq> Inr None" for k e
    using created unfolding resolve_notice_version_def by (simp split: option.split)
  then show False
    using none resolved unfolding version_body_def store_version_def Let_def
    by (auto elim!: and_then_InrE split: option.splits prod.splits)
qed

section \<open>Transactions\<close>

abbreviation item_source_code :: "payload \<Rightarrow> ustr" where
  "item_source_code item \<equiv> text_or (field_str item ''source_code'') (lit ''unknown_source'')"

lemma with_source_cached:
  assumes "cache (item_source_code item) = Some i" "field_str item ''source_site_url'' \<noteq> None"
  shows "with_source lib item body (cache, d) =
    (case body i d of
       Inl e \<Rightarrow> (Inl e, cache, d) | Inr None \<Rightarrow> (Inr (), cache, d) | Inr (Some d') \<Rightarrow> (Inr (), cache, d'))"
  using assms by (auto simp: with_source_def Let_def source_site_id_def)

lemma with_source_cases:
  assumes "with_source lib item body (cache, d) = (r, cache', d')"
  obtains (unchanged) e where "r = Inl e" "cache' = cache" "d' = d"
  | (body) u i d1 where "source_site_id (item_source_code item) (field_str item ''source_site_name'') u cache d = Inr (i, cache', d1)"
      "(case body i d1 of Inl e \<Rightarrow> r = Inl e \<and> d' = d | Inr None \<Rightarrow> r = Inr () \<and> d' = d
        | Inr (Some d2) \<Rightarrow> r = Inr () \<and> d' = d2)"
proof -
  define url where
    "url = (case field_str item ''source_site_url'' of Some t \<Rightarrow> Inr t | None \<Rightarrow> guess_base_url lib item)"
  note def = with_source_def [of lib item body "(cache, d)", unfolded Let_def fst_conv snd_conv, folded url_def]
  show ?thesis
  proof (cases url)
    case (Inl e)
    then show ?thesis using assms unchanged [of e] by (auto simp: def)
  next
    case url: (Inr u)
    show ?thesis
    proof (cases "source_site_id (item_source_code item) (field_str item ''source_site_name'') u cache d")
      case (Inl e)
      then show ?thesis using assms url unchanged [of e] by (auto simp: def)
    next
      case (Inr x)
      obtain i c d1 where x: "x = (i, c, d1)" by (cases x)
      have result: "(case body i d1 of Inl e \<Rightarrow> (Inl e, c, d) | Inr None \<Rightarrow> (Inr (), c, d)
          | Inr (Some d2) \<Rightarrow> (Inr (), c, d2)) = (r, cache', d')"
        using assms Inr x url by (simp add: def)
      then have "c = cache'" by (simp split: sum.splits option.splits)
      moreover have "case body i d1 of Inl e \<Rightarrow> r = Inl e \<and> d' = d | Inr None \<Rightarrow> r = Inr () \<and> d' = d
          | Inr (Some d2) \<Rightarrow> r = Inr () \<and> d' = d2"
        using result by (simp split: sum.splits option.splits)
      ultimately show ?thesis using body Inr x by blast
    qed
  qed
qed

lemma source_site_id_cached:
  assumes "source_site_id code name url cache d = Inr (i, cache', d1)"
  shows "cache' code = Some i" "cache' = cache(code \<mapsto> i)"
  using assms
  by (auto simp: source_site_id_def Let_def split: option.splits sum.splits)

lemma source_site_id_new:
  assumes "source_site_id code name url cache d = Inr (i, cache', d1)" "cache code = None" "find_source code d = None"
  shows "i \<notin> ss_id ` set (source_sites d)"
  using assms
  by (auto simp: source_site_id_def insert_source_site_def auto_created_source_def Let_def
      split: option.splits sum.splits if_splits)

text \<open>
C19. A notice whose content is stored is not written again: once a version with a title was written,
writing a notice of the same source with the same duplicate key and content hash leaves the notices
and their versions as they are; only the counters of its job change.\<close>

theorem stored_content_is_suppressed:
  assumes run: "process_items items (Map.empty, empty_db dia) = (cache, d)"
    and version: "normalize_notice_item (we_lib env) version = Inr v" "field_str v ''title'' \<noteq> None"
      "field_str v ''content_hash'' = Some h" "field_str v ''source_duplicate_key'' = Some key"
    and written: "write_notice_version env version (cache, d) = (Inr (), cache1, d1)"
    and again: "normalize_notice_item (we_lib env') notice = Inr n" "field_str n ''content_hash'' = Some h"
      "field_str n ''source_duplicate_key'' = Some key" "item_source_code n = item_source_code v"
      "field_str n ''source_site_url'' \<noteq> None"
  shows "write_notice env' notice (cache1, d1) =
      (case record_stats_for n (zero_counters\<lparr>deduplicated_count := 1, source_duplicates_suppressed := 1\<rparr>) d1 of
         Inl e \<Rightarrow> (Inl e, cache1, d1) | Inr d2 \<Rightarrow> (Inr (), cache1, d2)) \<and>
    tender_notices (snd (snd (write_notice env' notice (cache1, d1)))) = tender_notices d1 \<and>
    notice_versions (snd (snd (write_notice env' notice (cache1, d1)))) = notice_versions d1"
proof -
  have ok: "notices_ok d" using process_items_ok [of "(Map.empty, empty_db dia)" items] run notices_ok_empty by simp
  have "with_source (we_lib env) v (version_body env v) (cache, d) = (Inr (), cache1, d1)"
    using written version(1) by (simp add: write_notice_version_def)
  then obtain u i d0 where i: "source_site_id (item_source_code v) (field_str v ''source_site_name'') u cache d = Inr (i, cache1, d0)"
    and "version_body env v i d0 = Inr None \<or> version_body env v i d0 = Inr (Some d1)"
    by (elim with_source_cases) (auto split: sum.splits option.splits)
  then have body: "version_body env v i d0 = Inr (Some d1)"
    using version_body_commits [of v env i d0] version(2,3) by simp
  have ok0: "notices_ok d0" using source_site_id_ok [OF ok i] .
  have "holds_content i key h d1" by (rule version_body_stores [OF ok0 body version(3,4)])
  then have "known_content i k (Some key) h d1" for k
    by (rule known_content_holds [OF version_body_ok [OF ok0 body]])
  then have "notice_body env' n i d1 = and_then (record_stats_for n
      (zero_counters\<lparr>deduplicated_count := 1, source_duplicates_suppressed := 1\<rparr>) d1) (\<lambda>d2. Inr (Some d2))"
    using again(2,3) by (simp add: notice_body_def Let_def)
  moreover have "write_notice env' notice (cache1, d1) = (case notice_body env' n i d1 of
       Inl e \<Rightarrow> (Inl e, cache1, d1) | Inr None \<Rightarrow> (Inr (), cache1, d1) | Inr (Some d') \<Rightarrow> (Inr (), cache1, d'))"
    using again(1,4,5) with_source_cached [of cache1 n i] source_site_id_cached(1) [OF i]
    by (simp add: write_notice_def)
  ultimately show ?thesis
    by (cases "record_stats_for n (zero_counters\<lparr>deduplicated_count := 1, source_duplicates_suppressed := 1\<rparr>) d1")
      (auto simp: and_then_def dest: record_stats_keeps)
qed

lemma process_item_with_source:
  assumes "process_item env item st = (r, st')"
  obtains "st' = st" | item' body where "with_source (we_lib env) item' body st = (r, st')"
  using assms
  by (auto simp: process_item_def Let_def write_raw_document_def write_notice_def write_notice_version_def
      write_attachment_def write_error_def split: sum.splits if_splits)


section \<open>Witnesses\<close>

definition stored_once :: "unit result \<times> source_cache \<times> db" where
  "stored_once = write_notice_version sample_env (version_item ''A'' ''x'') (Map.empty, empty_db Sqlite)"

lemma sample_version_normalized:
  "case normalize_notice_item sample_lib (version_item ''A'' ''x'') of
     Inl _ \<Rightarrow> False
   | Inr v \<Rightarrow> field_str v ''title'' = Some (lit ''A'') \<and> field_str v ''content_hash'' = Some (lit ''x'') \<and>
       field_str v ''source_duplicate_key'' = Some (lit ''k'') \<and> field_str v ''source_site_url'' = Some (lit ''u'')"
  by code_simp

lemma stored_once_commits: "fst stored_once = Inr ()"
  by code_simp

lemma stored_content_is_suppressed_witness:
  "notice_versions (snd (snd (write_notice sample_env (version_item ''A'' ''x'') (snd stored_once)))) =
   notice_versions (snd (snd stored_once))"
proof -
  obtain v where v: "normalize_notice_item (we_lib sample_env) (version_item ''A'' ''x'') = Inr v"
    "field_str v ''title'' = Some (lit ''A'')" "field_str v ''content_hash'' = Some (lit ''x'')"
    "field_str v ''source_duplicate_key'' = Some (lit ''k'')" "field_str v ''source_site_url'' = Some (lit ''u'')"
    using sample_version_normalized by (auto simp: sample_env_def split: sum.splits)
  obtain cache1 d1 where stored: "stored_once = (Inr (), cache1, d1)"
    using stored_once_commits by (metis prod.collapse)
  have "process_items [] (Map.empty, empty_db Sqlite) = (Map.empty, empty_db Sqlite)" by simp
  from stored_content_is_suppressed [OF this v(1) _ v(3,4) stored [unfolded stored_once_def] v(1) v(3,4) refl] v(2,5)
  have "notice_versions (snd (snd (write_notice sample_env (version_item ''A'' ''x'') (cache1, d1)))) = notice_versions d1"
    by blast
  then show ?thesis by (simp only: stored snd_conv)
qed

definition document_item :: "(string \<times> pyval) list \<Rightarrow> payload" where
  "document_item extra =
     (lit ''item_type'', VStr (lit ''raw_document'')) # (lit ''source_code'', VStr (lit ''s'')) #
     (lit ''source_site_url'', VStr (lit ''http://a'')) # (lit ''url'', VStr (lit ''http://a/b'')) #
     map (\<lambda>(k, v). (lit k, v)) extra"

definition refused_document :: "unit result \<times> source_cache \<times> db" where
  "refused_document = process_item sample_env (document_item [(''crawl_job_id'', VInt 5)]) (Map.empty, empty_db Sqlite)"

lemma refused_document_view:
  "isl (fst refused_document) \<and> fst (snd refused_document) (lit ''s'') = Some 1"
  by code_simp

lemma sample_document_normalized:
  "case normalize_raw_document_item sample_lib (document_item []) of
     Inl _ \<Rightarrow> False
   | Inr r \<Rightarrow> item_source_code r = lit ''s'' \<and> field_str r ''source_site_url'' \<noteq> None \<and> field_str r ''url_hash'' \<noteq> None"
  by code_simp

end
