(* ===== verification/Queries.thy ===== *)
theory Queries
  imports Tables PyText "HOL-Library.Multiset"
begin

text \<open>
  What the repositories use of SQL beside the row operations of Tables: ORDER BY with several terms,
  LIMIT and OFFSET, row_number() and count() over a partition, LIKE and TRIM.

  An ORDER BY term says of two rows whether the first comes strictly before the second, so rows a term
  does not tell apart are left to the next one.  The interface the list queries rely on is the locale
  \<open>row_order\<close>: an order that tells any two rows with different keys apart.  Its lemmas say that the
  sorted list is the only one and what ranking by it picks; the orders of the repositories are
  interpretations.
\<close>

section \<open>ORDER BY\<close>

type_synonym 'r order_term = "'r \<Rightarrow> 'r \<Rightarrow> bool"

fun before :: "'r order_term list \<Rightarrow> 'r order_term" where
  "before [] a b \<longleftrightarrow> False"
| "before (t # ts) a b \<longleftrightarrow> t a b \<or> \<not> t b a \<and> before ts a b"

definition asc :: "('r \<Rightarrow> 'k::linorder) \<Rightarrow> 'r order_term" where
  "asc k a b \<longleftrightarrow> k a < k b"

definition desc :: "('r \<Rightarrow> 'k::linorder) \<Rightarrow> 'r order_term" where
  "desc k a b \<longleftrightarrow> k b < k a"

text \<open>\<open>column IS NULL\<close> ascending, and the order of a column that may be NULL.\<close>

definition nulls_last :: "('r \<Rightarrow> 'k option) \<Rightarrow> 'r order_term" where
  "nulls_last k a b \<longleftrightarrow> k a \<noteq> None \<and> k b = None"

definition asc_given :: "('r \<Rightarrow> 'k::linorder option) \<Rightarrow> 'r order_term" where
  "asc_given k a b \<longleftrightarrow> (case (k a, k b) of (Some x, Some y) \<Rightarrow> x < y | _ \<Rightarrow> False)"

definition desc_given :: "('r \<Rightarrow> 'k::linorder option) \<Rightarrow> 'r order_term" where
  "desc_given k a b \<longleftrightarrow> (case (k a, k b) of (Some x, Some y) \<Rightarrow> y < x | _ \<Rightarrow> False)"

text \<open>True before False, for a column that is not NULL.\<close>

definition true_first :: "('r \<Rightarrow> bool) \<Rightarrow> 'r order_term" where
  "true_first k a b \<longleftrightarrow> k a \<and> \<not> k b"

fun insert_sorted :: "'r order_term \<Rightarrow> 'r \<Rightarrow> 'r list \<Rightarrow> 'r list" where
  "insert_sorted lt x [] = [x]"
| "insert_sorted lt x (y # ys) = (if lt y x then y # insert_sorted lt x ys else x # y # ys)"

definition sort_rows :: "'r order_term \<Rightarrow> 'r list \<Rightarrow> 'r list" where
  "sort_rows lt rows = foldr (insert_sorted lt) rows []"

definition page_of_rows :: "nat \<Rightarrow> nat \<Rightarrow> 'r list \<Rightarrow> 'r list" where
  "page_of_rows limit offset rows = take limit (drop offset rows)"

section \<open>Ranking within a partition\<close>

definition same_partition :: "('r \<Rightarrow> 'k) \<Rightarrow> 'r list \<Rightarrow> 'r \<Rightarrow> 'r list" where
  "same_partition k rows r = filter (\<lambda>x. k x = k r) rows"

definition row_number :: "('r \<Rightarrow> 'k) \<Rightarrow> 'r order_term \<Rightarrow> 'r list \<Rightarrow> 'r \<Rightarrow> nat" where
  "row_number k lt rows r = Suc (length (filter (\<lambda>x. lt x r) (same_partition k rows r)))"

definition count_over :: "('r \<Rightarrow> 'k) \<Rightarrow> 'r list \<Rightarrow> 'r \<Rightarrow> nat" where
  "count_over k rows r = length (same_partition k rows r)"

section \<open>LIKE and TRIM\<close>

text \<open>
  A pattern of LIKE: % stands for any text, _ for one character; \<open>escapes\<close> says whether a backslash
  takes the meaning from the character after it (PostgreSQL does this by default, SQLite does not).
\<close>

function like_match :: "bool \<Rightarrow> ustr \<Rightarrow> ustr \<Rightarrow> bool" where
  "like_match escapes [] t \<longleftrightarrow> t = []"
| "like_match escapes (p # ps) t \<longleftrightarrow>
     (if p = 37 then like_match escapes ps t \<or> (case t of [] \<Rightarrow> False | _ # u \<Rightarrow> like_match escapes (p # ps) u)
      else if p = 95 then (case t of [] \<Rightarrow> False | _ # u \<Rightarrow> like_match escapes ps u)
      else if escapes \<and> p = 92
      then (case ps of
              [] \<Rightarrow> False
            | q # qs \<Rightarrow> (case t of [] \<Rightarrow> False | c # u \<Rightarrow> c = q \<and> like_match escapes qs u))
      else (case t of [] \<Rightarrow> False | c # u \<Rightarrow> c = p \<and> like_match escapes ps u))"
  by pat_completeness auto
termination
  by (relation "measure (\<lambda>(_, ps, t). length ps + length t)") auto

text \<open>TRIM takes off spaces only, where Python's strip takes off all white space.\<close>

definition sql_trim :: "ustr \<Rightarrow> ustr" where
  "sql_trim s = rev (dropWhile (\<lambda>c. c = 32) (rev (dropWhile (\<lambda>c. c = 32) s)))"

definition sql_nullif :: "'a option \<Rightarrow> 'a \<Rightarrow> 'a option" where
  "sql_nullif v x = (if v = Some x then None else v)"

fun sql_coalesce :: "'a option list \<Rightarrow> 'a \<Rightarrow> 'a" where
  "sql_coalesce [] last_one = last_one"
| "sql_coalesce (v # vs) last_one = (case v of Some x \<Rightarrow> x | None \<Rightarrow> sql_coalesce vs last_one)"

section \<open>Orders that tell rows apart\<close>

text \<open>A strict weak order: what an ORDER BY term is.\<close>

definition weak_order :: "'r order_term \<Rightarrow> bool" where
  "weak_order lt \<longleftrightarrow>
     (\<forall>a. \<not> lt a a) \<and> (\<forall>a b c. lt a b \<longrightarrow> lt b c \<longrightarrow> lt a c) \<and> (\<forall>a b c. lt a c \<longrightarrow> lt a b \<or> lt b c)"

named_theorems weak_orders \<open>the terms that are strict weak orders\<close>

lemma weak_order_asc [weak_orders]: "weak_order (asc k)"
  by (auto simp: weak_order_def asc_def)

lemma weak_order_desc [weak_orders]: "weak_order (desc k)"
  by (auto simp: weak_order_def desc_def)

lemma weak_order_nulls_last [weak_orders]: "weak_order (nulls_last k)"
  by (auto simp: weak_order_def nulls_last_def)

lemma weak_order_true_first [weak_orders]: "weak_order (true_first k)"
  by (auto simp: weak_order_def true_first_def)

lemma weak_order_Nil [weak_orders]: "weak_order (before [])"
  by (simp add: weak_order_def)

lemma weak_order_Cons [weak_orders]: "weak_order t \<Longrightarrow> weak_order (before ts) \<Longrightarrow> weak_order (before (t # ts))"
  unfolding weak_order_def by (simp only: before.simps) blast

locale row_order =
  fixes key :: "'r \<Rightarrow> int" and lt :: "'r \<Rightarrow> 'r \<Rightarrow> bool"
  assumes weak: "weak_order lt"
    and total: "key a \<noteq> key b \<Longrightarrow> lt a b \<or> lt b a"
begin

lemma irrefl [simp]: "\<not> lt a a"
  and trans: "lt a b \<Longrightarrow> lt b c \<Longrightarrow> lt a c"
  and between: "lt a c \<Longrightarrow> lt a b \<or> lt b c"
  using weak unfolding weak_order_def by blast+

lemma asym: "lt a b \<Longrightarrow> \<not> lt b a"
  using trans irrefl by blast

lemma mset_sort_rows [simp]: "mset (sort_rows lt rows) = mset rows"
proof -
  have "mset (insert_sorted lt x ys) = add_mset x (mset ys)" for x ys by (induction ys) auto
  then show ?thesis by (induction rows) (auto simp: sort_rows_def)
qed

lemma set_sort_rows [simp]: "set (sort_rows lt rows) = set rows"
  using mset_sort_rows by (rule mset_eq_setD)

lemma length_sort_rows [simp]: "length (sort_rows lt rows) = length rows"
  using mset_sort_rows by (rule mset_eq_length)

lemma sort_rows_not_after: "sorted_wrt (\<lambda>a b. \<not> lt b a) (sort_rows lt rows)"
proof -
  have "sorted_wrt (\<lambda>a b. \<not> lt b a) (insert_sorted lt x ys)" if "sorted_wrt (\<lambda>a b. \<not> lt b a) ys" for x ys
    using that
  proof (induction ys)
    case (Cons y ys)
    have set_insert: "set (insert_sorted lt x zs) = insert x (set zs)" for zs by (induction zs) auto
    have after: "\<not> lt z y" if "z \<in> set ys" for z using Cons.prems that by simp
    show ?case
    proof (cases "lt y x")
      case True
      then show ?thesis using Cons asym [OF True] after by (simp add: set_insert)
    next
      case False
      then have "\<not> lt z x" if "z \<in> set ys" for z using after [OF that] between by blast
      then show ?thesis using Cons False by simp
    qed
  qed simp
  then show ?thesis by (induction rows) (auto simp: sort_rows_def)
qed

lemma strictly_sorted:
  "sorted_wrt (\<lambda>a b. \<not> lt b a) rows \<Longrightarrow> distinct (map key rows) \<Longrightarrow> sorted_wrt lt rows"
proof (induction rows)
  case (Cons r rows)
  have "lt r x" if "x \<in> set rows" for x
  proof -
    have "key r \<noteq> key x" "\<not> lt x r" using Cons.prems that by auto
    then show ?thesis using total by blast
  qed
  then show ?case using Cons by simp
qed simp

lemma sort_rows_sorted: "distinct (map key rows) \<Longrightarrow> sorted_wrt lt (sort_rows lt rows)"
  proof (rule strictly_sorted [OF sort_rows_not_after])
  assume "distinct (map key rows)"
  moreover have "mset (map key (sort_rows lt rows)) = mset (map key rows)" by simp
  ultimately show "distinct (map key (sort_rows lt rows))" using mset_eq_imp_distinct_iff by blast
qed

text \<open>There is only one sorted list of the rows: how the database sorts does not matter.\<close>

lemma sorted_unique:
  assumes "sorted_wrt lt xs" "sorted_wrt lt ys" "set xs = set ys"
  shows "xs = ys"
  using assms
proof (induction xs arbitrary: ys)
  case (Cons x xs)
  obtain y ys' where ys: "ys = y # ys'" using Cons.prems(3) by (cases ys) auto
  have "x = y \<or> y \<in> set xs" "y = x \<or> x \<in> set ys'" using Cons.prems(3) ys by auto
  then have "x = y" using Cons.prems(1,2) ys asym by auto
  moreover have "x \<notin> set xs" "y \<notin> set ys'" using Cons.prems(1,2) ys irrefl by auto
  ultimately have "set xs = set ys'" using Cons.prems(3) ys by auto
  then show ?case using Cons ys \<open>x = y\<close> by simp
qed simp

lemma sort_rows_unique:
  "distinct (map key rows) \<Longrightarrow> sorted_wrt lt ys \<Longrightarrow> set ys = set rows \<Longrightarrow> ys = sort_rows lt rows"
  by (rule sorted_unique) (auto intro: sort_rows_sorted)

section \<open>What ranking picks\<close>

lemma row_number_1: "row_number k lt rows r = Suc 0 \<longleftrightarrow> (\<forall>x \<in> set rows. k x = k r \<longrightarrow> \<not> lt x r)"
  by (auto simp: row_number_def same_partition_def filter_empty_conv)

lemma first_sorted:
  assumes "rows \<noteq> []" "x \<in> set rows"
  shows "\<not> lt x (hd (sort_rows lt rows))"
proof -
  obtain y ys where "sort_rows lt rows = y # ys"
    using assms(1) length_sort_rows [of rows] by (cases "sort_rows lt rows") auto
  moreover have "x \<in> set (sort_rows lt rows)" using assms(2) by simp
  ultimately show ?thesis using sort_rows_not_after [of rows] irrefl by auto
qed

lemma rank_1_iff:
  assumes "distinct (map key rows)" "r \<in> set rows"
  shows "row_number k lt rows r = Suc 0 \<longleftrightarrow> r = hd (sort_rows lt (same_partition k rows r))"
proof -
  let ?g = "same_partition k rows r" and ?best = "hd (sort_rows lt (same_partition k rows r))"
  have g: "?g \<noteq> []" "r \<in> set ?g" using assms(2) by (auto simp: same_partition_def filter_empty_conv)
  then have best: "?best \<in> set ?g"
    by (metis hd_in_set length_0_conv length_sort_rows set_sort_rows)
  have eq: "?best = r" if "key ?best = key r"
    using assms that best g(2) by (auto simp: same_partition_def distinct_map inj_on_def)
  show ?thesis
  proof
    assume "row_number k lt rows r = Suc 0"
    then have "\<not> lt ?best r" using best by (auto simp: row_number_1 same_partition_def)
    moreover have "\<not> lt r ?best" using first_sorted g by blast
    ultimately show "r = ?best" using total eq by metis
  next
    assume r: "r = ?best"
    have "\<not> lt x r" if "x \<in> set ?g" for x using first_sorted [OF g(1) that] r by simp
    then show "row_number k lt rows r = Suc 0" by (auto simp: row_number_1 same_partition_def)
  qed
qed

end

text \<open>Every list of ORDER BY terms that ends with the primary key is such an order.\<close>

lemma row_order_terms:
  assumes "weak_order (before (ts @ [desc key]))"
  shows "row_order key (before (ts @ [desc key]))"
proof
  fix a b assume "key a \<noteq> key b"
  then show "before (ts @ [desc key]) a b \<or> before (ts @ [desc key]) b a"
    by (induction ts) (auto simp: desc_def)
qed (rule assms)

section \<open>A keyword without wildcards\<close>

definition plain_keyword :: "ustr \<Rightarrow> bool" where
  "plain_keyword w = list_all (\<lambda>c. c \<noteq> 37 \<and> c \<noteq> 95 \<and> c \<noteq> 92) w"

lemma like_match_prefix:
  "plain_keyword w \<Longrightarrow> like_match escapes (w @ ps) t \<longleftrightarrow> (\<exists>u. t = w @ u \<and> like_match escapes ps u)"
  by (induction w arbitrary: t) (auto simp: plain_keyword_def split: list.split)

lemma like_match_any: "like_match escapes (37 # ps) t \<longleftrightarrow> (\<exists>a b. t = a @ b \<and> like_match escapes ps b)"
proof (induction t)
  case (Cons c t)
  have "(\<exists>a b. c # t = a @ b \<and> like_match escapes ps b) \<longleftrightarrow>
      like_match escapes ps (c # t) \<or> (\<exists>a b. t = a @ b \<and> like_match escapes ps b)"
    by (auto simp: Cons_eq_append_conv)
  then show ?case using Cons by simp
qed simp

lemma like_match_substring:
  assumes "plain_keyword w"
  shows "like_match escapes (37 # w @ [37]) t \<longleftrightarrow> contains w t"
proof -
  have "like_match escapes [37] u" for u by (simp only: like_match_any like_match.simps(1)) simp
  then show ?thesis
    unfolding like_match_any [of escapes "w @ [37]"] like_match_prefix [OF assms] contains_iff by blast
qed

section \<open>Pages\<close>

lemma pages_of_rows: "concat (map (\<lambda>p. page_of_rows n (p * n) rows) [0..<k]) = take (k * n) rows"
proof (induction k)
  case (Suc k)
  have "take (k * n) rows @ take n (drop (k * n) rows) = take (k * n + n) rows" by (simp add: take_add)
  then show ?case using Suc by (simp add: page_of_rows_def add.commute)
qed simp

end
