(* ===== verification/Notices.thy ===== *)
theory Notices
  imports Queries Schema
begin

text \<open>
  app/repositories/notice_repository.py and app/services/notice_query_service.py: the list of notices
  with its filters, deduplication, order and pages, its export, the detail of a notice and the notices
  related to it.

  A query is a function of the database.  Dates are numbers of days since 1970-01-01.  The text
  functions of the database server are parameters: lower() and the collation of its ORDER BY; the two
  times are the readings of the clock for the flag of recent rows and for the filter on recent hours.
\<close>

record sql_env =
  sq_lower :: "ustr \<Rightarrow> ustr"
  sq_collate :: "ustr \<Rightarrow> ustr"
  sq_flag_now :: instant
  sq_filter_now :: instant

record notice_query_filters =
  qf_keyword :: "ustr option"
  qf_source_code :: "ustr option"
  qf_notice_type :: "ustr option"
  qf_region :: "ustr option"
  qf_recent_hours :: "int option"
  qf_date_from :: "int option"
  qf_date_to :: "int option"

record notice_list_item =
  nl_id :: int
  nl_source_code :: ustr
  nl_source_name :: ustr
  nl_title :: ustr
  nl_notice_type :: ustr
  nl_issuer :: "ustr option"
  nl_region :: "ustr option"
  nl_published_at :: "instant option"
  nl_deadline_at :: "instant option"
  nl_budget_amount :: "rat option"
  nl_current_version_id :: "int option"
  nl_dedup_key :: ustr
  nl_duplicate_count :: nat
  nl_is_recent_new :: bool

record notice_list_result =
  lr_items :: "notice_list_item list"
  lr_total :: nat
  lr_limit :: nat
  lr_offset :: nat

section \<open>The key that groups duplicates\<close>

definition dedup_key_expr :: "tender_notice \<Rightarrow> ustr" where
  "dedup_key_expr n =
     (let given = (\<lambda>v. sql_nullif (map_option sql_trim v) []);
          trimmed = (\<lambda>v. sql_coalesce [map_option sql_trim v] [])
      in sql_coalesce [given (tn_dedup_key n), given (tn_source_duplicate_key n), given (tn_dedup_hash n)]
           (lit ''fallback:'' @ show_int (tn_source_site_id n) @ lit ''|'' @ trimmed (tn_external_id n) @ lit ''|'' @
            trimmed (tn_project_code n) @ lit ''|'' @ trimmed (Some (tn_title n))))"

definition dedup_key_for_notice :: "tender_notice \<Rightarrow> ustr" where
  "dedup_key_for_notice n =
     (let stripped = (\<lambda>v. strip (case v of None \<Rightarrow> [] | Some t \<Rightarrow> t));
          dedup_key = stripped (tn_dedup_key n);
          source_duplicate_key = stripped (tn_source_duplicate_key n);
          dedup_hash = stripped (tn_dedup_hash n)
      in if dedup_key \<noteq> [] then dedup_key
         else if source_duplicate_key \<noteq> [] then source_duplicate_key
         else if dedup_hash \<noteq> [] then dedup_hash
         else lit ''fallback:'' @ show_int (tn_source_site_id n) @ lit ''|'' @ stripped (tn_external_id n) @ lit ''|'' @
              stripped (tn_project_code n) @ lit ''|'' @ strip (tn_title n))"

section \<open>The rows of the list\<close>

definition hours :: int where
  "hours = 3600 * second"

definition touched_since :: "instant \<Rightarrow> db \<Rightarrow> tender_notice \<Rightarrow> bool" where
  "touched_since start_at d n \<longleftrightarrow>
     start_at \<le> tn_created_at n \<or>
     list_ex (\<lambda>v. nv_notice_id v = tn_id n \<and> start_at \<le> nv_created_at v) (notice_versions d)"

definition is_recent_new :: "sql_env \<Rightarrow> db \<Rightarrow> tender_notice \<Rightarrow> bool" where
  "is_recent_new env d n = touched_since (sq_flag_now env - 24 * hours) d n"

definition ilike :: "sql_env \<Rightarrow> db \<Rightarrow> ustr option \<Rightarrow> ustr \<Rightarrow> bool" where
  "ilike env d column pattern =
     (case column of
        None \<Rightarrow> False
      | Some t \<Rightarrow> like_match (db_dialect d = Postgresql) (sq_lower env pattern) (sq_lower env t))"

definition matches_keyword :: "sql_env \<Rightarrow> db \<Rightarrow> ustr option \<Rightarrow> tender_notice \<Rightarrow> bool" where
  "matches_keyword env d keyword n =
     (let k = strip (case keyword of None \<Rightarrow> [] | Some t \<Rightarrow> t); pattern = lit ''%'' @ k @ lit ''%''
      in k = [] \<or> ilike env d (Some (tn_title n)) pattern \<or> ilike env d (tn_issuer n) pattern \<or>
         ilike env d (tn_region n) pattern)"

text \<open>\<open>if text:\<close> keeps the filter off for None and for an empty text.\<close>

definition when_given :: "ustr option \<Rightarrow> (ustr \<Rightarrow> bool) \<Rightarrow> bool" where
  "when_given v P = (case v of None \<Rightarrow> True | Some t \<Rightarrow> t = [] \<or> P t)"

definition start_of_day :: "int \<Rightarrow> instant" where
  "start_of_day n = n * day"

definition end_of_day :: "int \<Rightarrow> instant" where
  "end_of_day n = n * day + day - 1"

definition matches_filters :: "sql_env \<Rightarrow> db \<Rightarrow> notice_query_filters \<Rightarrow> tender_notice \<Rightarrow> source_site \<Rightarrow> bool" where
  "matches_filters env d f n s =
     (matches_keyword env d (qf_keyword f) n \<and>
      when_given (qf_source_code f) (\<lambda>t. ss_code s = t) \<and>
      when_given (qf_notice_type f) (\<lambda>t. tn_notice_type n = t) \<and>
      when_given (qf_region f) (\<lambda>t. tn_region n = Some t) \<and>
      (case qf_recent_hours f of
         None \<Rightarrow> True | Some h \<Rightarrow> touched_since (sq_filter_now env - h * hours) d n) \<and>
      (case qf_date_from f of
         None \<Rightarrow> True
       | Some a \<Rightarrow> (case tn_published_at n of None \<Rightarrow> False | Some t \<Rightarrow> start_of_day a \<le> t)) \<and>
      (case qf_date_to f of
         None \<Rightarrow> True
       | Some b \<Rightarrow> (case tn_published_at n of None \<Rightarrow> False | Some t \<Rightarrow> t \<le> end_of_day b)))"

definition list_row :: "sql_env \<Rightarrow> db \<Rightarrow> tender_notice \<Rightarrow> source_site \<Rightarrow> notice_list_item" where
  "list_row env d n s =
     \<lparr>nl_id = tn_id n, nl_source_code = ss_code s, nl_source_name = ss_name s, nl_title = tn_title n,
      nl_notice_type = tn_notice_type n, nl_issuer = tn_issuer n, nl_region = tn_region n,
      nl_published_at = tn_published_at n, nl_deadline_at = tn_deadline_at n,
      nl_budget_amount = tn_budget_amount n, nl_current_version_id = tn_current_version_id n,
      nl_dedup_key = dedup_key_expr n, nl_duplicate_count = 1, nl_is_recent_new = is_recent_new env d n\<rparr>"

text \<open>Every notice joined to its source.\<close>

definition with_sources :: "db \<Rightarrow> (tender_notice \<times> source_site) list" where
  "with_sources d =
     concat (map (\<lambda>n. map (Pair n) (filter (\<lambda>s. ss_id s = tn_source_site_id n) (source_sites d))) (tender_notices d))"

definition base_rows :: "sql_env \<Rightarrow> notice_query_filters \<Rightarrow> db \<Rightarrow> notice_list_item list" where
  "base_rows env f d =
     map (\<lambda>(n, s). list_row env d n s) (filter (\<lambda>(n, s). matches_filters env d f n s) (with_sources d))"

section \<open>Deduplication\<close>

definition rank_terms :: "notice_list_item order_term list" where
  "rank_terms = [true_first nl_is_recent_new, nulls_last nl_published_at, desc_given nl_published_at, desc nl_id]"

definition ranked_rows :: "notice_list_item list \<Rightarrow> notice_list_item list" where
  "ranked_rows rows =
     map (\<lambda>r. r\<lparr>nl_duplicate_count := count_over nl_dedup_key rows r\<rparr>)
       (filter (\<lambda>r. row_number nl_dedup_key (before rank_terms) rows r = 1) rows)"

definition list_rows :: "sql_env \<Rightarrow> notice_query_filters \<Rightarrow> bool \<Rightarrow> db \<Rightarrow> notice_list_item list" where
  "list_rows env f dedup d = (if dedup then ranked_rows (base_rows env f d) else base_rows env f d)"

section \<open>Order and pages\<close>

definition notice_sort_fields :: "ustr list" where
  "notice_sort_fields = map lit [''published_at'', ''deadline_at'', ''budget_amount'', ''source_name'']"

definition notice_sort_orders :: "ustr list" where
  "notice_sort_orders = map lit [''asc'', ''desc'']"

definition normalize_sort_by :: "ustr \<Rightarrow> ustr" where
  "normalize_sort_by t = (if t \<in> set notice_sort_fields then t else lit ''published_at'')"

definition normalize_sort_order :: "ustr \<Rightarrow> ustr" where
  "normalize_sort_order t = (if t \<in> set notice_sort_orders then t else lit ''desc'')"

text \<open>The terms for a column: NULL last, the column, the id.\<close>

definition column_terms ::
    "bool \<Rightarrow> (notice_list_item \<Rightarrow> 'k::linorder option) \<Rightarrow> notice_list_item order_term list" where
  "column_terms ascending column =
     [nulls_last column, if ascending then asc_given column else desc_given column, desc nl_id]"

definition order_terms :: "sql_env \<Rightarrow> ustr \<Rightarrow> ustr \<Rightarrow> notice_list_item order_term list" where
  "order_terms env sort_by sort_order =
     (let by = normalize_sort_by sort_by; ascending = (normalize_sort_order sort_order = lit ''asc'')
      in if by = lit ''deadline_at'' then column_terms ascending nl_deadline_at
         else if by = lit ''budget_amount'' then column_terms ascending nl_budget_amount
         else if by = lit ''source_name'' then column_terms ascending (\<lambda>r. Some (sq_collate env (nl_source_name r)))
         else if ascending then column_terms True nl_published_at
         else true_first nl_is_recent_new # column_terms False nl_published_at)"

definition list_notices_for_export ::
    "sql_env \<Rightarrow> notice_query_filters \<Rightarrow> bool \<Rightarrow> ustr \<Rightarrow> ustr \<Rightarrow> db \<Rightarrow> notice_list_item list" where
  "list_notices_for_export env f dedup sort_by sort_order d =
     sort_rows (before (order_terms env (normalize_sort_by sort_by) (normalize_sort_order sort_order)))
       (list_rows env f dedup d)"

definition list_notices ::
    "sql_env \<Rightarrow> notice_query_filters \<Rightarrow> bool \<Rightarrow> ustr \<Rightarrow> ustr \<Rightarrow> nat \<Rightarrow> nat \<Rightarrow> db \<Rightarrow> notice_list_result" where
  "list_notices env f dedup sort_by sort_order limit offset d =
     (let rows = list_rows env f dedup d;
          lt = before (order_terms env (normalize_sort_by sort_by) (normalize_sort_order sort_order))
      in \<lparr>lr_items = page_of_rows limit offset (sort_rows lt rows), lr_total = length rows,
          lr_limit = limit, lr_offset = offset\<rparr>)"

section \<open>The detail of a notice\<close>

record raw_document_summary =
  rs_id :: int
  rs_document_type :: ustr
  rs_fetched_at :: instant
  rs_storage_uri :: ustr

text \<open>A version as it is shown: the row, and the summary of its raw document.\<close>

record notice_version_record =
  vr_version :: notice_version
  vr_raw_document :: "raw_document_summary option"

record notice_detail =
  nd_notice :: tender_notice
  nd_source :: source_site
  nd_current_version :: "notice_version_record option"
  nd_versions :: "notice_version_record list"
  nd_attachments :: "tender_attachment list"

definition raw_document_map :: "int list \<Rightarrow> db \<Rightarrow> int \<Rightarrow> raw_document_summary option" where
  "raw_document_map ids d k =
     (if k \<in> set ids
      then map_option (\<lambda>r. \<lparr>rs_id = rd_id r, rs_document_type = rd_document_type r,
                            rs_fetched_at = rd_fetched_at r, rs_storage_uri = rd_storage_uri r\<rparr>)
             (get_row rd_id k (raw_documents d))
      else None)"

definition get_versions :: "int \<Rightarrow> db \<Rightarrow> notice_version_record list" where
  "get_versions notice_id d =
     (let rows = sort_rows (before [desc nv_version_no, desc nv_id])
                   (filter (\<lambda>v. nv_notice_id v = notice_id) (notice_versions d));
          raw = raw_document_map (List.map_filter nv_raw_document_id rows) d
      in map (\<lambda>v. \<lparr>vr_version = v,
                    vr_raw_document = raw (case nv_raw_document_id v of None \<Rightarrow> 0 | Some k \<Rightarrow> k)\<rparr>) rows)"

definition resolve_current_version ::
    "tender_notice \<Rightarrow> notice_version_record list \<Rightarrow> notice_version_record option" where
  "resolve_current_version n versions =
     (case versions of
        [] \<Rightarrow> None
      | first_one # _ \<Rightarrow>
         (case (case tn_current_version_id n of
                  None \<Rightarrow> None | Some k \<Rightarrow> find (\<lambda>v. nv_id (vr_version v) = k) versions) of
            Some v \<Rightarrow> Some v
          | None \<Rightarrow>
             (case find (\<lambda>v. nv_is_current (vr_version v)) versions of
                Some v \<Rightarrow> Some v | None \<Rightarrow> Some first_one)))"

definition get_attachments :: "int \<Rightarrow> db \<Rightarrow> tender_attachment list" where
  "get_attachments notice_id d =
     sort_rows (before [asc ta_id])
       (filter (\<lambda>a. ta_notice_id a = notice_id \<and> \<not> ta_is_deleted a) (tender_attachments d))"

definition get_notice_detail :: "int \<Rightarrow> db \<Rightarrow> notice_detail option" where
  "get_notice_detail notice_id d =
     (case filter (\<lambda>(n, s). tn_id n = notice_id) (with_sources d) of
        [] \<Rightarrow> None
      | (n, s) # _ \<Rightarrow>
          (let versions = get_versions (tn_id n) d
           in Some \<lparr>nd_notice = n, nd_source = s, nd_current_version = resolve_current_version n versions,
                    nd_versions = versions, nd_attachments = get_attachments (tn_id n) d\<rparr>))"

section \<open>Related notices\<close>

record notice_related_record =
  nr_id :: int
  nr_source_code :: ustr
  nr_source_name :: ustr
  nr_title :: ustr
  nr_published_at :: "instant option"
  nr_detail_url :: "ustr option"

text \<open>The url of the raw document of the current version, through two outer joins by primary key.\<close>

definition detail_url_of :: "tender_notice \<Rightarrow> db \<Rightarrow> ustr option" where
  "detail_url_of n d =
     (case tn_current_version_id n of
        None \<Rightarrow> None
      | Some k \<Rightarrow>
         (case get_row nv_id k (notice_versions d) of
            None \<Rightarrow> None
          | Some v \<Rightarrow>
             (case nv_raw_document_id v of
                None \<Rightarrow> None | Some r \<Rightarrow> map_option rd_url (get_row rd_id r (raw_documents d)))))"

definition related_row :: "db \<Rightarrow> tender_notice \<times> source_site \<Rightarrow> notice_related_record" where
  "related_row d ns =
     (case ns of (n, s) \<Rightarrow>
        \<lparr>nr_id = tn_id n, nr_source_code = ss_code s, nr_source_name = ss_name s, nr_title = tn_title n,
         nr_published_at = tn_published_at n, nr_detail_url = detail_url_of n d\<rparr>)"

definition list_related_notices :: "int \<Rightarrow> db \<Rightarrow> notice_related_record list" where
  "list_related_notices notice_id d =
     (case get_row tn_id notice_id (tender_notices d) of
        None \<Rightarrow> []
      | Some notice \<Rightarrow>
          sort_rows (before [nulls_last nr_published_at, desc_given nr_published_at, desc nr_id])
            (map (related_row d)
              (filter (\<lambda>(n, s). dedup_key_expr n = dedup_key_for_notice notice) (with_sources d))))"

end
