(* ===== verification/NoticesFacts.thy ===== *)
theory NoticesFacts
  imports Notices
begin

text \<open>
  What the list of notices shows: the orders are interpretations of \<open>row_order\<close>, deduplication shows
  the best notice of every group, the pages are the export, and the count of duplicates of a row is
  the number of notices its detail page lists as related.
\<close>

section \<open>The orders of the queries\<close>

text \<open>A column with its NULLs last is one strict weak order.\<close>

definition given_first :: "('k \<Rightarrow> 'k \<Rightarrow> bool) \<Rightarrow> 'k option \<Rightarrow> 'k option \<Rightarrow> bool" where
  "given_first lt u v \<longleftrightarrow> (case u of None \<Rightarrow> False | Some x \<Rightarrow> (case v of None \<Rightarrow> True | Some y \<Rightarrow> lt x y))"

lemma weak_order_given_first:
  assumes "weak_order lt"
  shows "weak_order (\<lambda>a b. given_first lt (k a) (k b))"
proof -
  have lt: "\<not> lt x x" "lt x y \<Longrightarrow> lt y z \<Longrightarrow> lt x z" "lt x z \<Longrightarrow> lt x y \<or> lt y z" for x y z
    using assms unfolding weak_order_def by blast+
  have between: "given_first lt u w \<Longrightarrow> given_first lt u v \<or> given_first lt v w" for u v w
    by (cases u; cases v; cases w; simp add: given_first_def) (erule lt(3))
  have trans: "given_first lt u v \<Longrightarrow> given_first lt v w \<Longrightarrow> given_first lt u w" for u v w
    by (cases u; cases v; cases w; simp add: given_first_def) (erule (1) lt(2))
  have irrefl: "\<not> given_first lt u u" for u
    using lt(1) by (cases u) (auto simp: given_first_def)
  show ?thesis
    unfolding weak_order_def by (intro conjI allI impI) (rule irrefl, erule (1) trans, erule between)
qed

lemma nulls_last_desc:
  "before (nulls_last k # desc_given k # ts) = before ((\<lambda>a b. given_first (\<lambda>x y. y < x) (k a) (k b)) # ts)"
proof (intro ext)
  show "before (nulls_last k # desc_given k # ts) a b =
      before ((\<lambda>a b. given_first (\<lambda>x y. y < x) (k a) (k b)) # ts) a b" for a b
    by (cases "k a"; cases "k b") (auto simp: given_first_def nulls_last_def desc_given_def)
qed

lemma nulls_last_asc:
  "before (nulls_last k # asc_given k # ts) = before ((\<lambda>a b. given_first (<) (k a) (k b)) # ts)"
proof (intro ext)
  show "before (nulls_last k # asc_given k # ts) a b = before ((\<lambda>a b. given_first (<) (k a) (k b)) # ts) a b" for a b
    by (cases "k a"; cases "k b") (auto simp: given_first_def nulls_last_def asc_given_def)
qed

lemma weak_order_nulls_desc [weak_orders]:
  "weak_order (before ts) \<Longrightarrow> weak_order (before (nulls_last k # desc_given k # ts))"
  unfolding nulls_last_desc
  by (rule weak_order_Cons [OF weak_order_given_first]) (auto simp: weak_order_def)

lemma weak_order_nulls_asc [weak_orders]:
  "weak_order (before ts) \<Longrightarrow> weak_order (before (nulls_last k # asc_given k # ts))"
  unfolding nulls_last_asc
  by (rule weak_order_Cons [OF weak_order_given_first]) (auto simp: weak_order_def)

interpretation rank: row_order nl_id "before rank_terms"
  using row_order_terms [of "[true_first nl_is_recent_new, nulls_last nl_published_at, desc_given nl_published_at]" nl_id]
  by (simp add: rank_terms_def weak_orders)

lemma column_terms_row_order: "row_order nl_id (before (column_terms ascending column))"
  using row_order_terms [of "[nulls_last column, if ascending then asc_given column else desc_given column]" nl_id]
  by (cases ascending) (simp_all add: column_terms_def weak_orders)

lemma recent_terms_row_order:
  "row_order nl_id (before (true_first nl_is_recent_new # column_terms False nl_published_at))"
  using rank.row_order_axioms by (simp add: column_terms_def rank_terms_def)

interpretation notice_order: row_order nl_id "before (order_terms env sort_by sort_order)"
  for env :: sql_env and sort_by sort_order :: ustr
  unfolding order_terms_def Let_def by (auto intro: column_terms_row_order recent_terms_row_order)

interpretation version_order: row_order nv_id "before [desc nv_version_no, desc nv_id]"
  using row_order_terms [of "[desc nv_version_no]" nv_id] by (simp add: weak_orders)

interpretation related_order: row_order nr_id "before [nulls_last nr_published_at, desc_given nr_published_at, desc nr_id]"
  using row_order_terms [of "[nulls_last nr_published_at, desc_given nr_published_at]" nr_id] by (simp add: weak_orders)

section \<open>The rows\<close>

definition keys_ok :: "db \<Rightarrow> bool" where
  "keys_ok d \<longleftrightarrow> distinct (map tn_id (tender_notices d)) \<and> distinct (map ss_id (source_sites d))"

lemma filter_distinct_key: "distinct (map f xs) \<Longrightarrow> length (filter (\<lambda>x. f x = k) xs) \<le> 1"
proof (induction xs)
  case (Cons x xs)
  have "filter (\<lambda>y. f y = k) xs = []" if "f x = k"
    using Cons.prems that by (auto simp: filter_empty_conv image_iff)
  then show ?case using Cons by auto
qed simp

lemma with_sources_distinct:
  assumes "keys_ok d"
  shows "distinct (map (\<lambda>(n, s). tn_id n) (with_sources d))"
proof -
  have one: "length (filter (\<lambda>s. ss_id s = k) (source_sites d)) \<le> 1" for k
    using assms by (intro filter_distinct_key) (simp add: keys_ok_def)
  have "distinct (map (\<lambda>(n, s). tn_id n)
      (concat (map (\<lambda>n. map (Pair n) (filter (\<lambda>s. ss_id s = tn_source_site_id n) (source_sites d))) ns)))"
    if "distinct (map tn_id ns)" for ns
    using that
  proof (induction ns)
    case (Cons n ns)
    have "filter (\<lambda>s. ss_id s = tn_source_site_id n) (source_sites d) = [] \<or>
        (\<exists>s. filter (\<lambda>s. ss_id s = tn_source_site_id n) (source_sites d) = [s])"
      using one [of "tn_source_site_id n"]
      by (cases "filter (\<lambda>s. ss_id s = tn_source_site_id n) (source_sites d)") auto
    then show ?case using Cons by (elim disjE exE) auto
  qed simp
  moreover have "distinct (map tn_id (tender_notices d))" using assms by (simp add: keys_ok_def)
  ultimately show ?thesis unfolding with_sources_def by blast
qed

lemma distinct_map_filter: "distinct (map f xs) \<Longrightarrow> distinct (map f (filter P xs))"
  by (induction xs) auto

lemma base_rows_distinct:
  assumes "keys_ok d"
  shows "distinct (map nl_id (base_rows env f d))"
proof -
  have "map nl_id (base_rows env f d) =
      map (\<lambda>(n, s). tn_id n) (filter (\<lambda>(n, s). matches_filters env d f n s) (with_sources d))"
    by (simp add: base_rows_def list_row_def split_def)
  then show ?thesis using distinct_map_filter [OF with_sources_distinct [OF assms]] by simp
qed

section \<open>Deduplication\<close>

text \<open>
  What the list promises: for every key that a row has, the first of its rows in the order of the
  ranking, and how many there are.
\<close>

definition group_summary :: "notice_list_item list \<Rightarrow> ustr \<Rightarrow> (int \<times> nat) option" where
  "group_summary rows key =
     (case filter (\<lambda>r. nl_dedup_key r = key) rows of
        [] \<Rightarrow> None
      | g \<Rightarrow> Some (nl_id (hd (sort_rows (before rank_terms) g)), length g))"

lemma ranked_rows_iff:
  assumes "distinct (map nl_id rows)"
  shows "x \<in> set (ranked_rows rows) \<longleftrightarrow>
    (\<exists>r \<in> set rows. r = hd (sort_rows (before rank_terms) (filter (\<lambda>y. nl_dedup_key y = nl_dedup_key r) rows)) \<and>
       x = r\<lparr>nl_duplicate_count := length (filter (\<lambda>y. nl_dedup_key y = nl_dedup_key r) rows)\<rparr>)"
  using rank.rank_1_iff [OF assms]
  by (auto simp: ranked_rows_def count_over_def same_partition_def)

lemma ranked_rows_distinct:
  assumes "distinct (map nl_id rows)"
  shows "distinct (map nl_dedup_key (ranked_rows rows))"
proof -
  let ?first = "\<lambda>r. row_number nl_dedup_key (before rank_terms) rows r = 1"
  have "inj_on nl_dedup_key (set (filter ?first rows))"
  proof (rule inj_onI)
    fix a b assume ab: "a \<in> set (filter ?first rows)" "b \<in> set (filter ?first rows)" "nl_dedup_key a = nl_dedup_key b"
    then show "a = b"
      using rank.rank_1_iff [OF assms, of a nl_dedup_key] rank.rank_1_iff [OF assms, of b nl_dedup_key]
      by (simp add: same_partition_def)
  qed
  moreover have "distinct rows" using assms by (simp add: distinct_map)
  ultimately show ?thesis by (simp add: ranked_rows_def distinct_map o_def)
qed

lemma ranked_rows_keys:
  assumes "distinct (map nl_id rows)"
  shows "nl_dedup_key ` set (ranked_rows rows) = nl_dedup_key ` set rows"
proof (intro equalityI subsetI)
  fix k assume "k \<in> nl_dedup_key ` set (ranked_rows rows)"
  then show "k \<in> nl_dedup_key ` set rows" using ranked_rows_iff [OF assms] by auto
next
  fix k assume "k \<in> nl_dedup_key ` set rows"
  let ?g = "filter (\<lambda>y. nl_dedup_key y = k) rows"
  have "?g \<noteq> []" using \<open>k \<in> nl_dedup_key ` set rows\<close> by (auto simp: filter_empty_conv)
  then have best: "hd (sort_rows (before rank_terms) ?g) \<in> set ?g" (is "?best \<in> _")
    by (metis hd_in_set length_0_conv rank.length_sort_rows rank.set_sort_rows)
  then have "?best\<lparr>nl_duplicate_count := length ?g\<rparr> \<in> set (ranked_rows rows)"
    unfolding ranked_rows_iff [OF assms] by (intro bexI [of _ ?best]) auto
  moreover have "k = nl_dedup_key (?best\<lparr>nl_duplicate_count := length ?g\<rparr>)" using best by simp
  ultimately show "k \<in> nl_dedup_key ` set (ranked_rows rows)" by (rule rev_image_eqI)
qed

lemma map_of_ranked_rows:
  assumes "distinct (map nl_id rows)"
  shows "map_of (map (\<lambda>r. (nl_dedup_key r, (nl_id r, nl_duplicate_count r))) (ranked_rows rows)) = group_summary rows"
proof
  fix k
  let ?shown = "map (\<lambda>r. (nl_dedup_key r, (nl_id r, nl_duplicate_count r))) (ranked_rows rows)"
  let ?g = "filter (\<lambda>y. nl_dedup_key y = k) rows"
  show "map_of ?shown k = group_summary rows k"
  proof (cases "?g = []")
    case True
    then have "k \<notin> nl_dedup_key ` set (ranked_rows rows)"
      unfolding ranked_rows_keys [OF assms] by (auto simp: filter_empty_conv)
    then have "map_of ?shown k = None" by (force simp: map_of_eq_None_iff)
    then show ?thesis using True by (simp add: group_summary_def)
  next
    case False
    then have "k \<in> nl_dedup_key ` set (ranked_rows rows)"
      unfolding ranked_rows_keys [OF assms] by (auto simp: filter_empty_conv)
    then obtain x where x: "x \<in> set (ranked_rows rows)" "nl_dedup_key x = k" by blast
    then have "nl_id x = nl_id (hd (sort_rows (before rank_terms) ?g))" "nl_duplicate_count x = length ?g"
      unfolding ranked_rows_iff [OF assms] by auto
    moreover have "map_of ?shown k = Some (nl_id x, nl_duplicate_count x)"
      using x ranked_rows_distinct [OF assms] by (intro map_of_is_SomeI) (auto simp: o_def)
    ultimately show ?thesis using False by (auto simp: group_summary_def split: list.split)
  qed
qed

lemma ranked_rows_count:
  assumes "distinct (map nl_id rows)"
  shows "sum_list (map nl_duplicate_count (ranked_rows rows)) = length rows"
proof -
  let ?size = "\<lambda>k. length (filter (\<lambda>y. nl_dedup_key y = k) rows)"
  have "sum_list (map nl_duplicate_count (ranked_rows rows)) =
      sum_list (map (\<lambda>r. ?size (nl_dedup_key r)) (ranked_rows rows))"
    using ranked_rows_iff [OF assms] by (intro arg_cong [of _ _ sum_list] map_cong refl) auto
  also have "\<dots> = sum_list (map ?size (map nl_dedup_key (ranked_rows rows)))" by (simp add: o_def)
  also have "\<dots> = sum ?size (set (map nl_dedup_key (ranked_rows rows)))"
    by (rule sum_list_distinct_conv_sum_set) (rule ranked_rows_distinct [OF assms])
  also have "\<dots> = sum ?size (set (map nl_dedup_key rows))" using ranked_rows_keys [OF assms] by simp
  also have "\<dots> = length rows"
  proof -
    have "count (mset (map nl_dedup_key rows)) k = ?size k" for k
      by (induction rows) auto
    then have "sum ?size (set (map nl_dedup_key rows)) = size (mset (map nl_dedup_key rows))"
      by (simp add: size_multiset_overloaded_eq)
    then show ?thesis by simp
  qed
  finally show ?thesis .
qed

text \<open>
C20. With deduplication the list shows, for every key of the matching notices, one row: the id of the
first of them in the order of the ranking, with their number. No key is shown twice, and the numbers
add up to the number of matching notices.\<close>

theorem deduplication_shows_the_best_of_each_group:
  assumes "distinct (map tn_id (tender_notices d))" "distinct (map ss_id (source_sites d))"
  shows "map_of (map (\<lambda>r. (nl_dedup_key r, (nl_id r, nl_duplicate_count r))) (list_rows env f True d)) =
      group_summary (list_rows env f False d) \<and>
    distinct (map nl_dedup_key (list_rows env f True d)) \<and>
    sum_list (map nl_duplicate_count (list_rows env f True d)) = length (list_rows env f False d)"
  using map_of_ranked_rows ranked_rows_distinct ranked_rows_count base_rows_distinct [of d env f] assms
  by (simp add: list_rows_def keys_ok_def)

section \<open>Pages\<close>

lemma list_notices_items:
  "lr_items (list_notices env f dedup by ord limit offset d) =
     page_of_rows limit offset (list_notices_for_export env f dedup by ord d)"
  by (simp add: list_notices_def list_notices_for_export_def Let_def)

lemma list_rows_distinct:
  assumes "keys_ok d"
  shows "distinct (map nl_id (list_rows env f dedup d))"
proof (cases dedup)
  case True
  have "map nl_id (ranked_rows rows) =
      map nl_id (filter (\<lambda>r. row_number nl_dedup_key (before rank_terms) rows r = 1) rows)" for rows
    by (simp add: ranked_rows_def)
  then show ?thesis
    using True distinct_map_filter [OF base_rows_distinct [OF assms]] by (simp add: list_rows_def)
next
  case False
  then show ?thesis using base_rows_distinct [OF assms] by (simp add: list_rows_def)
qed


section \<open>Keywords\<close>

text \<open>
  A keyword finds the notices that hold it, whatever the case, in the title, the issuer or the region.
  It must not hold %, _ or a backslash: these are passed on to LIKE as they are.
\<close>

definition holds_text :: "sql_env \<Rightarrow> ustr \<Rightarrow> ustr option \<Rightarrow> bool" where
  "holds_text env k column = (case column of None \<Rightarrow> False | Some t \<Rightarrow> contains (sq_lower env k) (sq_lower env t))"

lemma keyword_filter_is_substring_search:
  assumes "sq_lower env (lit ''%'' @ strip k @ lit ''%'') = lit ''%'' @ sq_lower env (strip k) @ lit ''%''"
    "plain_keyword (sq_lower env (strip k))" "strip k \<noteq> []"
  shows "matches_keyword env d (Some k) n \<longleftrightarrow>
    holds_text env (strip k) (Some (tn_title n)) \<or> holds_text env (strip k) (tn_issuer n) \<or>
    holds_text env (strip k) (tn_region n)"
proof -
  have "ilike env d column (lit ''%'' @ strip k @ lit ''%'') = holds_text env (strip k) column" for column
    using like_match_substring [OF assms(2)] assms(1)
    by (simp add: ilike_def holds_text_def lit_def split: option.split)
  then show ?thesis using assms(3) by (simp add: matches_keyword_def Let_def)
qed

section \<open>Related notices\<close>

definition no_filters :: notice_query_filters where
  "no_filters = \<lparr>qf_keyword = None, qf_source_code = None, qf_notice_type = None, qf_region = None,
     qf_recent_hours = None, qf_date_from = None, qf_date_to = None\<rparr>"

lemma no_filters_match: "matches_filters env d no_filters n s"
  by (simp add: matches_filters_def no_filters_def matches_keyword_def when_given_def)

text \<open>The texts of the key have no white space other than spaces at their ends.\<close>

definition trimmed_alike :: "ustr option \<Rightarrow> bool" where
  "trimmed_alike v = (case v of None \<Rightarrow> True | Some t \<Rightarrow> sql_trim t = strip t)"

definition key_texts :: "tender_notice \<Rightarrow> ustr option list" where
  "key_texts n = [tn_dedup_key n, tn_source_duplicate_key n, tn_dedup_hash n, tn_external_id n, tn_project_code n,
     Some (tn_title n)]"

lemma dedup_keys_agree:
  assumes "list_all trimmed_alike (key_texts n)"
  shows "dedup_key_expr n = dedup_key_for_notice n"
proof -
  have given: "sql_nullif (map_option sql_trim v) [] =
      (let t = strip (case v of None \<Rightarrow> [] | Some t \<Rightarrow> t) in if t = [] then None else Some t)" if "trimmed_alike v" for v
    using that by (cases v) (auto simp: trimmed_alike_def sql_nullif_def)
  show ?thesis
    using assms unfolding key_texts_def
    by (cases "tn_external_id n"; cases "tn_project_code n")
      (simp_all add: dedup_key_expr_def dedup_key_for_notice_def Let_def given trimmed_alike_def [of "Some _"])
qed


section \<open>Witnesses\<close>

definition sample_sql :: sql_env where
  "sample_sql = \<lparr>sq_lower = py_lower, sq_collate = (\<lambda>t. t), sq_flag_now = 0, sq_filter_now = 0\<rparr>"

definition sample_notice :: "int \<Rightarrow> string \<Rightarrow> instant option \<Rightarrow> tender_notice" where
  "sample_notice i key published =
     \<lparr>tn_id = i, tn_source_site_id = 1, tn_external_id = None, tn_project_code = None, tn_dedup_hash = None,
      tn_dedup_key = Some (lit key), tn_source_duplicate_key = None, tn_title = lit ''T'',
      tn_notice_type = lit ''result'', tn_issuer = None, tn_region = None, tn_published_at = published,
      tn_deadline_at = None, tn_budget_amount = None, tn_budget_currency = lit ''CNY'', tn_summary = None,
      tn_first_published_at = published, tn_latest_published_at = published, tn_current_version_id = None,
      tn_created_at = 0\<rparr>"

definition sample_source :: source_site where
  "sample_source =
     \<lparr>ss_id = 1, ss_code = lit ''s'', ss_name = lit ''S'', ss_base_url = [], ss_official_url = [], ss_list_url = [],
      ss_description = None, ss_is_active = True, ss_supports_js_render = False, ss_crawl_interval_minutes = 60,
      ss_default_max_pages = 50, ss_schedule_enabled = False, ss_schedule_days = 1, ss_last_scheduled_run_at = None,
      ss_next_scheduled_run_at = None, ss_last_schedule_status = None\<rparr>"

definition sample_db :: db where
  "sample_db = (empty_db Sqlite)\<lparr>source_sites := [sample_source],
     tender_notices := [sample_notice 1 '' a'' None, sample_notice 2 ''a'' (Some 5), sample_notice 3 ''b'' (Some 7)]\<rparr>"

lemma sample_db_keys: "distinct (map tn_id (tender_notices sample_db))" "distinct (map ss_id (source_sites sample_db))"
  by code_simp+

lemma sample_db_lists:
  "map (\<lambda>r. (nl_id r, nl_duplicate_count r)) (list_rows sample_sql no_filters True sample_db) = [(2, 2), (3, 1)]"
  "map nl_id (list_notices_for_export sample_sql no_filters False (lit ''published_at'') (lit ''desc'') sample_db) = [3, 2, 1]"
  by code_simp+

lemma deduplication_shows_the_best_of_each_group_witness:
  "group_summary (list_rows sample_sql no_filters False sample_db) (lit ''a'') = Some (2, 2) \<and>
   length (list_rows sample_sql no_filters False sample_db) = 3"
proof -
  have "map_of (map (\<lambda>r. (nl_dedup_key r, (nl_id r, nl_duplicate_count r))) (list_rows sample_sql no_filters True sample_db))
      (lit ''a'') = Some (2, 2)"
    "sum_list (map nl_duplicate_count (list_rows sample_sql no_filters True sample_db)) = 3"
    by code_simp+
  then show ?thesis
    using deduplication_shows_the_best_of_each_group [OF sample_db_keys, of sample_sql no_filters] by simp
qed



end
