(* ===== verification/CrawledNotices.thy ===== *)
theory CrawledNotices
  imports WriterRepeat NoticesFacts
begin

text \<open>
  The writers and the notice queries together: what the list and the detail page show of a database
  that the crawler has filled.
\<close>

section \<open>The detail page\<close>

abbreviation detail_versions :: "notice_version_record list \<Rightarrow> notice_version list" where
  "detail_versions \<equiv> map vr_version"

lemma get_versions_rows:
  "detail_versions (get_versions k d) =
     sort_rows (before [desc nv_version_no, desc nv_id]) (filter (\<lambda>v. nv_notice_id v = k) (notice_versions d))"
  by (simp add: get_versions_def Let_def o_def)

lemma get_versions_set:
  "set (detail_versions (get_versions k d)) = {v \<in> set (notice_versions d). nv_notice_id v = k}"
  unfolding get_versions_rows by auto

lemma get_notice_detail_row:
  assumes "get_notice_detail k d = Some detail"
  obtains n where "n \<in> set (tender_notices d)" "tn_id n = k" "nd_notice detail = n"
    "nd_versions detail = get_versions k d" "nd_current_version detail = resolve_current_version n (get_versions k d)"
proof -
  obtain n s rest where rows: "filter (\<lambda>(n, s). tn_id n = k) (with_sources d) = (n, s) # rest"
    "detail = \<lparr>nd_notice = n, nd_source = s, nd_current_version = resolve_current_version n (get_versions (tn_id n) d),
       nd_versions = get_versions (tn_id n) d, nd_attachments = get_attachments (tn_id n) d\<rparr>"
    using assms by (auto simp: get_notice_detail_def Let_def split: list.splits)
  have "(n, s) \<in> set (filter (\<lambda>(n, s). tn_id n = k) (with_sources d))" unfolding rows(1) by simp
  then have "(n, s) \<in> set (with_sources d) \<and> tn_id n = k" by simp
  then show ?thesis using that [of n] rows(2) by (auto simp: with_sources_def)
qed

lemma find_mem: "find P xs = Some x \<Longrightarrow> x \<in> set xs"
  by (auto simp: find_Some_iff)

lemma resolve_current_version_cases:
  assumes "resolve_current_version n vs = c"
  shows "case c of None \<Rightarrow> vs = [] | Some v \<Rightarrow> v \<in> set vs"
  using assms
proof (cases vs)
  case (Cons v ws)
  define pointed where "pointed = (case tn_current_version_id n of
    None \<Rightarrow> None | Some k \<Rightarrow> find (\<lambda>v. nv_id (vr_version v) = k) vs)"
  define marked where "marked = find (\<lambda>v. nv_is_current (vr_version v)) vs"
  have "c = (case pointed of Some w \<Rightarrow> Some w | None \<Rightarrow> (case marked of Some w \<Rightarrow> Some w | None \<Rightarrow> Some v))"
    using assms [symmetric] unfolding resolve_current_version_def pointed_def [symmetric] marked_def [symmetric]
    by (simp add: Cons)
  moreover have "pointed = Some w \<Longrightarrow> w \<in> set vs" "marked = Some w \<Longrightarrow> w \<in> set vs" for w
    unfolding pointed_def marked_def by (auto dest: find_mem split: option.splits)
  ultimately show ?thesis using Cons by (auto split: option.splits)
qed (use assms in \<open>simp add: resolve_current_version_def\<close>)

lemma resolve_current_version_pointer:
  assumes "tn_current_version_id n = Some k" "v \<in> set vs" "nv_id (vr_version v) = k"
    "distinct (map nv_id (detail_versions vs))"
  shows "resolve_current_version n vs = Some v"
proof -
  obtain w where w: "find (\<lambda>v. nv_id (vr_version v) = k) vs = Some w"
    using assms(2,3) by (cases "find (\<lambda>v. nv_id (vr_version v) = k) vs") (auto simp: find_None_iff)
  then have "w \<in> set vs" "nv_id (vr_version w) = k" by (auto simp: find_Some_iff)
  then have "w = v" using assms(2-4) by (simp add: distinct_map) (metis comp_apply inj_onD)
  then show ?thesis using w assms(1,2) by (cases vs) (auto simp: resolve_current_version_def)
qed


lemma sample_detail_view:
  "map_option (\<lambda>x. (map nv_id (detail_versions (nd_versions x)), map_option (\<lambda>v. nv_id (vr_version v)) (nd_current_version x)))
     (get_notice_detail 1 (snd sample_run)) = Some ([2, 1], Some 2)"
  by code_simp


end
