(* ===== verification/Anhui.thy ===== *)
theory Anhui
  imports Dedup
begin

text \<open>
  crawler/tender_crawler/spiders/anhui_ggzy_zfcg_spider.py: the crawl of the list pages.

  A list page is what the selectors of the spider find in the response: the text of every matched
  element and the attributes it reads; \<open>lp_join\<close> is response.urljoin for the page.  Such a page is an
  argument, like the answers of the site.  \<open>parse_list\<close> is one call of the callback \<open>parse\<close>: what it
  yields, the exception that ends it, if any, and the spider after it.  \<open>crawl_lists\<close> runs it over the
  answers of the site, each sent for the request the page before it yielded.

  Dates are numbers of days since 1970-01-01.  Logging is left out.
\<close>

section \<open>Texts\<close>

text \<open>\<open>" ".join(value.split())\<close>\<close>

definition clean_text :: "ustr \<Rightarrow> ustr" where
  "clean_text s = strip (collapse_spaces s)"

text \<open>str.isdigit: the decimal digits and the code points with Numeric_Type Digit.\<close>

definition other_digits :: "(nat \<times> nat) list" where
  "other_digits = [(178, 179), (185, 185), (4969, 4977), (6618, 6618), (8304, 8304), (8308, 8313), (8320, 8329),
     (9312, 9320), (9332, 9340), (9352, 9360), (9450, 9450), (9461, 9469), (9471, 9471), (10102, 10110),
     (10112, 10120), (10122, 10130), (68160, 68163), (69216, 69224), (69714, 69722), (127232, 127242)]"

definition py_isdigit :: "ustr \<Rightarrow> bool" where
  "py_isdigit s \<longleftrightarrow> s \<noteq> [] \<and>
     list_all (\<lambda>c. digit_value c \<noteq> None \<or> list_ex (\<lambda>(a, b). a \<le> c \<and> c \<le> b) other_digits) s"

definition int_of :: "ustr \<Rightarrow> int result" where
  "int_of s = (case py_int s of None \<Rightarrow> Inl (ValueError (lit ''invalid literal for int() with base 10'')) | Some i \<Rightarrow> Inr i)"

section \<open>The arguments of the spider\<close>

text \<open>The settings come first, then what the spider has seen.\<close>

record anhui_spider =
  sp_job_id :: "int option"
  sp_max_pages :: "int option"
  sp_bulletin_nature :: ustr
  sp_backfill_year :: "int option"
  sp_time_filter :: "ustr option"
  sp_threshold :: int
  sp_dedup_within_run :: bool
  sp_seen_fingerprints :: "ustr list"
  sp_seen_pages :: "int list"
  sp_pages_scraped :: int
  sp_items_seen :: int
  sp_items_unique :: int
  sp_duplicates_skipped :: int
  sp_no_new_pages :: int
  sp_first_date :: "int option"
  sp_last_date :: "int option"

definition parse_optional_positive_int :: "pyval \<Rightarrow> int option result" where
  "parse_optional_positive_int v =
     (case item_str v of None \<Rightarrow> Inr None | Some t \<Rightarrow> and_then (int_of t) (\<lambda>i. Inr (Some (max 1 i))))"

definition spider_bool :: "pyval \<Rightarrow> bool \<Rightarrow> bool" where
  "spider_bool v dflt =
     (case v of
        VBool b \<Rightarrow> b
      | _ \<Rightarrow> (let t = py_lower (strip (py_str v))
             in if t \<in> set (map lit [''1'', ''true'', ''yes'', ''y'']) then True
                else if t \<in> set (map lit [''0'', ''false'', ''no'', ''n'']) then False else dflt))"

definition resolve_time_filter :: "pyval \<Rightarrow> int option \<Rightarrow> ustr option" where
  "resolve_time_filter raw_time backfill_year =
     (case item_str raw_time of
        Some t \<Rightarrow> Some t | None \<Rightarrow> Some (if backfill_year = None then lit ''1'' else []))"

text \<open>int() of an argument: a number as it is, a text read.\<close>

definition arg_int :: "pyval \<Rightarrow> int result" where
  "arg_int v =
     (case v of
        VInt i \<Rightarrow> Inr i
      | VBool b \<Rightarrow> Inr (if b then 1 else 0)
      | VStr s \<Rightarrow> int_of s
      | _ \<Rightarrow> Inl (TypeError (lit ''int() argument must be a string or a real number'')))"

text \<open>The arguments of \<open>__init__\<close>, each VNone or its default when it is not given.\<close>

record anhui_args =
  aa_crawl_job_id :: pyval
  aa_max_pages :: pyval
  aa_bulletin_nature :: pyval
  aa_time :: pyval
  aa_backfill_year :: pyval
  aa_no_new_pages :: pyval
  aa_empty_pages :: pyval
  aa_dedup_within_run :: pyval

definition init_spider :: "anhui_args \<Rightarrow> anhui_spider result" where
  "init_spider a =
     and_then (case aa_crawl_job_id a of VNone \<Rightarrow> Inr None | v \<Rightarrow> and_then (arg_int v) (\<lambda>i. Inr (Some i))) (\<lambda>job.
     and_then (parse_optional_positive_int (aa_max_pages a)) (\<lambda>max_pages.
     and_then (parse_optional_positive_int (aa_backfill_year a)) (\<lambda>year.
     and_then (case year of
                 None \<Rightarrow> Inr ()
               | Some y \<Rightarrow> if y \<le> 9999 then Inr () else Inl (ValueError (lit ''year is out of range''))) (\<lambda>_.
     and_then (parse_optional_positive_int (aa_empty_pages a)) (\<lambda>override.
     and_then (case override of Some n \<Rightarrow> Inr n | None \<Rightarrow> arg_int (aa_no_new_pages a)) (\<lambda>threshold.
       Inr \<lparr>sp_job_id = job, sp_max_pages = max_pages, sp_bulletin_nature = py_str (aa_bulletin_nature a),
            sp_backfill_year = year, sp_time_filter = resolve_time_filter (aa_time a) year,
            sp_threshold = max 1 threshold, sp_dedup_within_run = spider_bool (aa_dedup_within_run a) True,
            sp_seen_fingerprints = [], sp_seen_pages = [], sp_pages_scraped = 0, sp_items_seen = 0,
            sp_items_unique = 0, sp_duplicates_skipped = 0, sp_no_new_pages = 0, sp_first_date = None,
            sp_last_date = None\<rparr>))))))"

definition backfill_start :: "anhui_spider \<Rightarrow> int option" where
  "backfill_start sp = map_option (\<lambda>y. days_from_civil y 1 1) (sp_backfill_year sp)"

section \<open>What the selectors find on a list page\<close>

record list_anchor =
  la_href :: ustr
  la_text :: ustr
  la_date_text :: "ustr option"
  la_context :: ustr

record page_link =
  pl_text :: ustr
  pl_class :: ustr
  pl_href :: ustr
  pl_onclick :: ustr

record page_input =
  pi_name :: ustr
  pi_id :: ustr
  pi_value :: "ustr option"

record list_page =
  lp_url :: ustr
  lp_body :: ustr
  lp_status :: int
  lp_mime_type :: ustr
  lp_charset :: ustr
  lp_title :: "ustr option"
  lp_fetched_at :: instant
  lp_join :: "ustr \<Rightarrow> ustr result"
  lp_current_page :: "ustr option"
  lp_page_texts :: "ustr list"
  lp_page_inputs :: "page_input list"
  lp_anchors :: "list_anchor list"
  lp_page_links :: "page_link list"

record list_item_candidate =
  lc_detail_url :: ustr
  lc_title :: ustr
  lc_published_at :: "ustr option"
  lc_region :: "ustr option"
  lc_notice_type :: ustr
  lc_fingerprint :: ustr
  lc_source_duplicate_key :: ustr

section \<open>Dates\<close>

text \<open>The date of normalize_published_date, as a number; its text is the ISO form of this date.\<close>

definition published_day :: "text_lib \<Rightarrow> pyval \<Rightarrow> int option result" where
  "published_day lib v =
     (case parse_datetime_like lib v of
        Some i \<Rightarrow> Inr (Some (i div day))
      | None \<Rightarrow>
         (case normalize_text lib False v of
            None \<Rightarrow> Inr None
          | Some t \<Rightarrow>
             (case search_date t of
                None \<Rightarrow> Inr None
              | Some (y, m, d) \<Rightarrow> and_then (make_date y m d) (\<lambda>z. Inr (Some z)))))"

lemma normalize_published_date_day:
  "normalize_published_date lib v = and_then (published_day lib v) (\<lambda>z. Inr (map_option iso_date z))"
  by (auto simp: normalize_published_date_def published_day_def and_then_def split: option.split sum.split)

definition as_date :: "text_lib \<Rightarrow> ustr option \<Rightarrow> int option result" where
  "as_date lib v = published_day lib (optional_text v)"

text \<open>The date at the start of a text, with the time that may follow it.\<close>

definition match_seconds :: "ustr \<Rightarrow> nat" where
  "match_seconds s = (if 2 < length s \<and> hd s = 58 \<and> list_all ascii_digit (take 2 (tl s)) then 3 else 0)"

definition match_time :: "ustr \<Rightarrow> nat" where
  "match_time s =
     (let spaces = length (takeWhile py_space s);
          hour = fst (two_digits (drop spaces s));
          rest = drop (spaces + length hour) s
      in if hour \<noteq> [] \<and> 2 < length rest \<and> hd rest = 58 \<and> list_all ascii_digit (take 2 (tl rest))
         then spaces + length hour + 3 + match_seconds (drop 3 rest) else 0)"

definition match_date_text :: "ustr \<Rightarrow> ustr option" where
  "match_date_text s =
     (case match_date s of
        None \<Rightarrow> None
      | Some _ \<Rightarrow>
         (let month = fst (two_digits (drop 5 s));
              days = fst (two_digits (drop (6 + length month) s));
              n = 6 + length month + length days
          in Some (take (n + match_time (drop n s)) s)))"

fun search_date_text :: "ustr \<Rightarrow> ustr option" where
  "search_date_text [] = None"
| "search_date_text (c # s) = (case match_date_text (c # s) of Some t \<Rightarrow> Some t | None \<Rightarrow> search_date_text s)"

definition extract_published_at :: "text_lib \<Rightarrow> ustr \<Rightarrow> ustr option result" where
  "extract_published_at lib t =
     (case search_date_text t of None \<Rightarrow> Inr None | Some m \<Rightarrow> normalize_published_date lib (VStr m))"

section \<open>The items of a list page\<close>

text \<open>The text in the first pair of lenticular brackets (12304 and 12305) that is not empty.\<close>

fun search_region :: "ustr \<Rightarrow> ustr option" where
  "search_region [] = None"
| "search_region (c # s) =
     (let inner = takeWhile (\<lambda>x. x \<noteq> 12305) s
      in if c = 12304 \<and> inner \<noteq> [] \<and> length inner < length s then Some inner else search_region s)"

fun extract_region :: "ustr list \<Rightarrow> ustr option" where
  "extract_region [] = None"
| "extract_region (t # ts) =
     (case search_region t of
        None \<Rightarrow> extract_region ts
      | Some r \<Rightarrow> if clean_text r = [] then extract_region ts else Some (clean_text r))"

definition infer_notice_type :: "ustr \<Rightarrow> ustr" where
  "infer_notice_type title =
     (if list_ex (\<lambda>k. contains k title) [zh_correction, zh_change, zh_clarification, zh_extension] then lit ''change''
      else if list_ex (\<lambda>k. contains k title) [zh_bid_won, zh_deal_made, zh_result, zh_selected] then lit ''result''
      else lit ''announcement'')"

definition extract_guid :: "text_lib \<Rightarrow> ustr \<Rightarrow> ustr option result" where
  "extract_guid lib url =
     and_then (split_url lib url) (\<lambda>p.
       Inr (case parse_qs_get (up_query p) (lit ''guid'') of [] \<Rightarrow> None | v # _ \<Rightarrow> Some v))"

definition or_result :: "ustr option result \<Rightarrow> ustr option result \<Rightarrow> ustr option result" where
  "or_result a b = and_then a (\<lambda>x. case x of None \<Rightarrow> b | Some t \<Rightarrow> if t = [] then b else Inr (Some t))"

definition anhui_source_code :: ustr where
  "anhui_source_code = lit ''anhui_ggzy_zfcg''"

definition candidate_fields :: "ustr \<Rightarrow> ustr \<Rightarrow> ustr option \<Rightarrow> ustr option \<Rightarrow> ustr option \<Rightarrow> key_fields" where
  "candidate_fields title detail_url published_at region guid =
     \<lparr>kf_title = VStr title, kf_published_at = optional_text published_at, kf_purchaser = VNone, kf_publisher = VNone,
      kf_budget_amount = VNone, kf_region = optional_text region, kf_detail_url = VStr detail_url,
      kf_detail_id = optional_text guid\<rparr>"

definition list_item_of :: "text_lib \<Rightarrow> (ustr \<Rightarrow> ustr result) \<Rightarrow> list_anchor \<Rightarrow> list_item_candidate option result" where
  "list_item_of lib join_url a =
     (let href = strip (la_href a)
      in if href = [] then Inr None
         else and_then (join_url href) (\<lambda>detail_url.
           (let title = clean_text (la_text a); context = clean_text (la_context a)
            in if title = [] then Inr None
               else and_then (or_result (extract_published_at lib (clean_text (case la_date_text a of None \<Rightarrow> [] | Some t \<Rightarrow> t)))
                      (or_result (extract_published_at lib context) (extract_published_at lib title))) (\<lambda>published_at.
                 (let region = extract_region [title, context]; notice_type = infer_notice_type title
                  in and_then (extract_guid lib detail_url) (\<lambda>guid.
                     (let f = candidate_fields title detail_url published_at region guid
                      in and_then (build_source_list_item_fingerprint lib False (VStr anhui_source_code) (VStr notice_type)
                           (f\<lparr>kf_detail_id := VNone\<rparr>)) (\<lambda>fingerprint.
                         and_then (build_source_duplicate_key lib (VStr anhui_source_code) (VStr notice_type) VNone f) (\<lambda>key.
                           Inr (Some \<lparr>lc_detail_url = detail_url, lc_title = title, lc_published_at = published_at,
                             lc_region = region, lc_notice_type = notice_type, lc_fingerprint = fingerprint,
                             lc_source_duplicate_key = key\<rparr>))))))))))"

fun extract_list_items :: "text_lib \<Rightarrow> (ustr \<Rightarrow> ustr result) \<Rightarrow> list_anchor list \<Rightarrow> list_item_candidate list result" where
  "extract_list_items lib join_url [] = Inr []"
| "extract_list_items lib join_url (a # anchors) =
     and_then (list_item_of lib join_url a) (\<lambda>x.
     and_then (extract_list_items lib join_url anchors) (\<lambda>xs.
       Inr (case x of None \<Rightarrow> xs | Some c \<Rightarrow> c # xs)))"

section \<open>Page numbers\<close>

text \<open>
  A letter of a pattern under re.IGNORECASE; the letter i also matches its two Turkish variants, s the long s
  and k the Kelvin sign.
\<close>

definition matches_letter :: "nat \<Rightarrow> nat \<Rightarrow> bool" where
  "matches_letter p c \<longleftrightarrow> c = p \<or> (97 \<le> p \<and> p \<le> 122 \<and> c + 32 = p) \<or> (p = 105 \<and> (c = 304 \<or> c = 305)) \<or>
     (p = 115 \<and> c = 383) \<or> (p = 107 \<and> c = 8490)"

definition after_word :: "ustr \<Rightarrow> ustr \<Rightarrow> ustr option" where
  "after_word w s =
     (if length w \<le> length s \<and> list_all (\<lambda>(p, c). matches_letter p c) (zip w s) then Some (drop (length w) s) else None)"

text \<open>The group of \<open>pagination\(([^)]+)\)\<close>.\<close>

fun search_pagination :: "ustr \<Rightarrow> ustr option" where
  "search_pagination [] = None"
| "search_pagination (c # s) =
     (case after_word (lit ''pagination('') (c # s) of
        None \<Rightarrow> search_pagination s
      | Some rest \<Rightarrow>
         (let inner = takeWhile (\<lambda>x. x \<noteq> 41) rest
          in if inner \<noteq> [] \<and> length inner < length rest then Some inner else search_pagination s))"

text \<open>The loop over the characters of a sum: the total, the sign and the digits of the current term.\<close>

fun sum_terms :: "int \<Rightarrow> int \<Rightarrow> ustr \<Rightarrow> ustr \<Rightarrow> int option result" where
  "sum_terms subtotal sign current [] =
     (if current = [] then Inr None
      else and_then (int_of current) (\<lambda>n. Inr (if 0 < subtotal + sign * n then Some (subtotal + sign * n) else None)))"
| "sum_terms subtotal sign current (c # s) =
     (if c = 43 \<or> c = 45
      then (if current = [] then Inr None
            else and_then (int_of current) (\<lambda>n. sum_terms (subtotal + sign * n) (if c = 43 then 1 else - 1) [] s))
      else sum_terms subtotal sign (current @ [c]) s)"

definition parse_pagination_target :: "ustr \<Rightarrow> int option result" where
  "parse_pagination_target raw =
     (case search_pagination raw of
        None \<Rightarrow> Inr None
      | Some inner \<Rightarrow>
         (let expr = remove_spaces inner
          in if expr = [] then Inr None
             else if py_isdigit expr then and_then (int_of expr) (\<lambda>n. Inr (Some n))
             else if list_all (\<lambda>c. ascii_digit c \<or> c = 43 \<or> c = 45) expr then sum_terms 0 1 [] expr
             else Inr None))"

definition noop_hrefs :: "ustr list" where
  "noop_hrefs = map lit ['''', ''#'', ''javascript:void(0)'', ''javascript:;'']"

definition link_target :: "text_lib \<Rightarrow> int \<Rightarrow> page_link \<Rightarrow> int option result" where
  "link_target lib current_page l =
     (let href = tl_lower lib (strip (pl_href l)); onclick = tl_lower lib (strip (pl_onclick l))
      in if contains (lit ''disabled'') (tl_lower lib (pl_class l)) \<or> (href \<in> set noop_hrefs \<and> onclick = [])
         then Inr None
         else and_then (parse_pagination_target onclick) (\<lambda>a.
              and_then (if a = None \<or> a = Some 0 then parse_pagination_target href else Inr a) (\<lambda>target.
                Inr (case target of
                       None \<Rightarrow> Some (current_page + 1)
                     | Some n \<Rightarrow> Some (if current_page < n then n else current_page + 1)))))"

definition next_page_no :: "text_lib \<Rightarrow> list_page \<Rightarrow> int \<Rightarrow> int option result" where
  "next_page_no lib page current_page =
     (case find (\<lambda>l. contains zh_next_page (clean_text (pl_text l))) (lp_page_links page) of
        None \<Rightarrow> Inr None | Some l \<Rightarrow> link_target lib current_page l)"

definition current_page_no :: "list_page \<Rightarrow> int" where
  "current_page_no page =
     (case lp_current_page page of
        None \<Rightarrow> 1 | Some raw \<Rightarrow> (case py_int raw of None \<Rightarrow> 1 | Some i \<Rightarrow> i))"

fun shown_numbers :: "ustr list \<Rightarrow> int list result" where
  "shown_numbers [] = Inr []"
| "shown_numbers (t # ts) =
     (if py_isdigit (clean_text t)
      then and_then (int_of (clean_text t)) (\<lambda>n. and_then (shown_numbers ts) (\<lambda>ns. Inr (n # ns)))
      else shown_numbers ts)"

definition input_number :: "text_lib \<Rightarrow> page_input \<Rightarrow> int option" where
  "input_number lib i =
     (let name = tl_lower lib (strip (pi_name i)); ident = tl_lower lib (strip (pi_id i));
          named = list_ex (\<lambda>k. contains (lit k) name \<or> contains (lit k) ident) [''totalpage'', ''pagecount''];
          raw = clean_text (case pi_value i of None \<Rightarrow> [] | Some v \<Rightarrow> v)
      in if named \<and> raw \<noteq> [] then py_int raw else None)"

definition max_page_no :: "text_lib \<Rightarrow> list_page \<Rightarrow> int result" where
  "max_page_no lib page =
     and_then (shown_numbers (lp_page_texts page)) (\<lambda>ns.
       (let all_numbers = ns @ List.map_filter (input_number lib) (lp_page_inputs page)
        in Inr (if all_numbers = [] then current_page_no page else Max (set all_numbers))))"

section \<open>Items\<close>

definition opt_int :: "int option \<Rightarrow> pyval" where
  "opt_int v = (case v of None \<Rightarrow> VNone | Some i \<Rightarrow> VInt i)"

definition opt_date :: "int option \<Rightarrow> pyval" where
  "opt_date v = (case v of None \<Rightarrow> VNone | Some z \<Rightarrow> VStr (iso_date z))"

text \<open>A response as \<open>_build_raw_item\<close> reads it.\<close>

record page_response =
  pr_status :: int
  pr_mime_type :: ustr
  pr_charset :: ustr
  pr_title :: "ustr option"
  pr_fetched_at :: instant

definition build_raw_item ::
    "text_lib \<Rightarrow> anhui_spider \<Rightarrow> page_response \<Rightarrow> ustr \<Rightarrow> ustr \<Rightarrow> string \<Rightarrow> payload \<Rightarrow> ustr option \<Rightarrow> ustr option \<Rightarrow>
     payload result" where
  "build_raw_item lib sp r raw_html raw_url role extra_meta source_duplicate_key fingerprint =
     and_then (normalize_url lib raw_url) (\<lambda>normalized.
       Inr [(lit ''item_type'', VStr (lit ''raw_document'')), (lit ''source_code'', VStr anhui_source_code),
            (lit ''crawl_job_id'', opt_int (sp_job_id sp)), (lit ''url'', VStr raw_url),
            (lit ''normalized_url'', VStr normalized), (lit ''url_hash'', VStr (tl_sha256 lib normalized)),
            (lit ''content_hash'', VStr (tl_sha256 lib raw_html)), (lit ''document_type'', VStr (lit ''html'')),
            (lit ''fetched_at'', VStr (isoformat (pr_fetched_at r))), (lit ''storage_uri'', VStr []),
            (lit ''raw_body'', VStr raw_html), (lit ''http_status'', VInt (pr_status r)),
            (lit ''mime_type'', VStr (pr_mime_type r)), (lit ''charset'', VStr (pr_charset r)),
            (lit ''title'', optional_text (text_or_none (clean_text (case pr_title r of None \<Rightarrow> [] | Some t \<Rightarrow> t)))),
            (lit ''content_length'', VInt (int (length (utf8_encode raw_html)))),
            (lit ''source_duplicate_key'', optional_text source_duplicate_key),
            (lit ''source_list_item_fingerprint'', optional_text fingerprint),
            (lit ''extra_meta'', VDict [] ((lit ''role'', VStr (lit role)) # extra_meta))])"

definition page_response_of :: "list_page \<Rightarrow> page_response" where
  "page_response_of page =
     \<lparr>pr_status = lp_status page, pr_mime_type = lp_mime_type page, pr_charset = lp_charset page,
      pr_title = lp_title page, pr_fetched_at = lp_fetched_at page\<rparr>"

text \<open>What a call of \<open>parse\<close> counted on its page.\<close>

record page_counts =
  pc_items :: nat
  pc_filtered_out :: nat
  pc_new :: nat
  pc_duplicates :: nat
  pc_min_date :: "int option"
  pc_max_date :: "int option"
  pc_all_older :: bool

definition page_state :: "anhui_spider \<Rightarrow> int \<Rightarrow> int option \<Rightarrow> ustr" where
  "page_state sp max_page next_page =
     lit ''max_page_no='' @ show_int max_page @ lit '',has_next_control='' @ py_str (VBool (next_page \<noteq> None)) @
     lit '',next_page='' @ py_str (opt_int next_page) @ lit '',backfill_year='' @ py_str (opt_int (sp_backfill_year sp))"

definition list_meta :: "anhui_spider \<Rightarrow> ustr \<Rightarrow> int \<Rightarrow> int \<Rightarrow> int option \<Rightarrow> page_counts \<Rightarrow> payload" where
  "list_meta sp url current_page max_page next_page c =
     [(lit ''list_page_url'', VStr url), (lit ''current_page'', VInt current_page), (lit ''max_page_no'', VInt max_page),
      (lit ''pages_scraped_total'', VInt (sp_pages_scraped sp)), (lit ''page_item_count'', VInt (int (pc_items c))),
      (lit ''page_items_filtered_out_by_backfill'', VInt (int (pc_filtered_out c))),
      (lit ''new_unique_item_count'', VInt (int (pc_new c))),
      (lit ''page_source_duplicates_skipped'', VInt (int (pc_duplicates c))),
      (lit ''list_items_seen_total'', VInt (sp_items_seen sp)), (lit ''list_items_unique_total'', VInt (sp_items_unique sp)),
      (lit ''list_items_source_duplicates_skipped_total'', VInt (sp_duplicates_skipped sp)),
      (lit ''list_page_publish_date_min'', opt_date (pc_min_date c)),
      (lit ''list_page_publish_date_max'', opt_date (pc_max_date c)),
      (lit ''first_publish_date_seen_total'', opt_date (sp_first_date sp)),
      (lit ''last_publish_date_seen_total'', opt_date (sp_last_date sp)),
      (lit ''all_items_older_than_backfill'', VBool (pc_all_older c)),
      (lit ''stop_after_consecutive_no_new_pages'', VInt (sp_threshold sp)),
      (lit ''page_state'', VStr (page_state sp max_page next_page))]"

section \<open>One list page\<close>

datatype anhui_output =
    Detail_request ustr list_item_candidate
  | List_document payload
  | List_error ustr pyerror
  | List_request int

type_synonym parse_outcome = "anhui_output list \<times> pyerror option \<times> anhui_spider"

fun page_dates :: "text_lib \<Rightarrow> list_item_candidate list \<Rightarrow> int option list result" where
  "page_dates lib [] = Inr []"
| "page_dates lib (c # cs) =
     and_then (as_date lib (lc_published_at c)) (\<lambda>z. and_then (page_dates lib cs) (\<lambda>zs. Inr (z # zs)))"

definition known_dates :: "int option list \<Rightarrow> int list" where
  "known_dates zs = List.map_filter (\<lambda>z. z) zs"

definition min_date :: "int list \<Rightarrow> int option" where
  "min_date zs = (if zs = [] then None else Some (Min (set zs)))"

definition max_date :: "int list \<Rightarrow> int option" where
  "max_date zs = (if zs = [] then None else Some (Max (set zs)))"

definition merge_publish_date_range :: "int option \<Rightarrow> int option \<Rightarrow> anhui_spider \<Rightarrow> anhui_spider" where
  "merge_publish_date_range lo hi sp =
     sp\<lparr>sp_last_date := (case lo of
          None \<Rightarrow> sp_last_date sp
        | Some z \<Rightarrow> (case sp_last_date sp of None \<Rightarrow> Some z | Some l \<Rightarrow> if z < l then Some z else Some l)),
        sp_first_date := (case hi of
          None \<Rightarrow> sp_first_date sp
        | Some z \<Rightarrow> (case sp_first_date sp of None \<Rightarrow> Some z | Some f \<Rightarrow> if f < z then Some z else Some f))\<rparr>"

definition all_items_older_than_backfill :: "int option \<Rightarrow> int option list \<Rightarrow> bool" where
  "all_items_older_than_backfill start zs =
     (case start of
        None \<Rightarrow> False
      | Some s \<Rightarrow> zs \<noteq> [] \<and> list_all (\<lambda>z. case z of None \<Rightarrow> False | Some d \<Rightarrow> d < s) zs)"

definition in_backfill_window :: "int option \<Rightarrow> int option \<Rightarrow> bool" where
  "in_backfill_window start z =
     (case start of None \<Rightarrow> True | Some s \<Rightarrow> (case z of None \<Rightarrow> True | Some d \<Rightarrow> s \<le> d))"

text \<open>The items of the page that are requested: those whose fingerprint was not seen in this run.\<close>

fun pick_new :: "bool \<Rightarrow> ustr list \<Rightarrow> list_item_candidate list \<Rightarrow> list_item_candidate list" where
  "pick_new dedup seen [] = []"
| "pick_new dedup seen (c # cs) =
     (if dedup \<and> lc_fingerprint c \<in> set seen then pick_new dedup seen cs
      else c # pick_new dedup (lc_fingerprint c # seen) cs)"

definition goes_on :: "anhui_spider \<Rightarrow> page_counts \<Rightarrow> bool" where
  "goes_on sp c \<longleftrightarrow>
     pc_items c \<noteq> 0 \<and> \<not> pc_all_older c \<and>
     (case sp_max_pages sp of None \<Rightarrow> True | Some m \<Rightarrow> sp_pages_scraped sp < m) \<and>
     sp_no_new_pages sp < sp_threshold sp"

definition finish_list ::
    "text_lib \<Rightarrow> list_page \<Rightarrow> int \<Rightarrow> int \<Rightarrow> page_counts \<Rightarrow> list_item_candidate list \<Rightarrow> anhui_spider \<Rightarrow> parse_outcome" where
  "finish_list lib page current max_page c picked sp =
     (let requests = map (Detail_request (lp_url page)) picked
      in case next_page_no lib page current of
           Inl e \<Rightarrow> (requests, Some e, sp)
         | Inr next_page \<Rightarrow>
            (case build_raw_item lib sp (page_response_of page) (lp_body page) (lp_url page) ''list''
                    (list_meta sp (lp_url page) current max_page next_page c) None None of
               Inl e \<Rightarrow> (requests, Some e, sp)
             | Inr raw \<Rightarrow>
                (requests @ [List_document raw] @
                   (case next_page of Some n \<Rightarrow> if goes_on sp c then [List_request n] else [] | None \<Rightarrow> []),
                 None, sp)))"

definition count_page ::
    "bool \<Rightarrow> list_item_candidate list \<Rightarrow> list_item_candidate list \<Rightarrow> int option list \<Rightarrow> list_item_candidate list \<Rightarrow>
     page_counts" where
  "count_page older items window zs picked =
     \<lparr>pc_items = length items, pc_filtered_out = length items - length window, pc_new = length picked,
      pc_duplicates = (if older then 0 else length window - length picked), pc_min_date = min_date (known_dates zs),
      pc_max_date = max_date (known_dates zs), pc_all_older = older\<rparr>"

definition see_items :: "page_counts \<Rightarrow> list_item_candidate list \<Rightarrow> anhui_spider \<Rightarrow> anhui_spider" where
  "see_items c picked sp =
     sp\<lparr>sp_seen_fingerprints := rev (map lc_fingerprint picked) @ sp_seen_fingerprints sp,
        sp_items_unique := sp_items_unique sp + int (pc_new c),
        sp_duplicates_skipped := sp_duplicates_skipped sp + int (pc_duplicates c),
        sp_no_new_pages := (if pc_new c = 0 then sp_no_new_pages sp + 1 else 0)\<rparr>"

definition parse_items ::
    "text_lib \<Rightarrow> list_page \<Rightarrow> int \<Rightarrow> int \<Rightarrow> list_item_candidate list \<Rightarrow> anhui_spider \<Rightarrow> parse_outcome" where
  "parse_items lib page current max_page items sp =
     (case page_dates lib items of
        Inl e \<Rightarrow> ([], Some e, sp)
      | Inr zs \<Rightarrow>
         (let start = backfill_start sp;
              older = all_items_older_than_backfill start zs;
              window = map fst (filter (\<lambda>(_, z). in_backfill_window start z) (zip items zs));
              picked = (if older then [] else pick_new (sp_dedup_within_run sp) (sp_seen_fingerprints sp) window);
              c = count_page older items window zs picked
          in finish_list lib page current max_page c picked
               (see_items c picked (merge_publish_date_range (pc_min_date c) (pc_max_date c) sp))))"

definition parse_list :: "text_lib \<Rightarrow> list_page \<Rightarrow> anhui_spider \<Rightarrow> parse_outcome" where
  "parse_list lib page sp =
     (let current = current_page_no page
      in case max_page_no lib page of
           Inl e \<Rightarrow> ([], Some e, sp)
         | Inr max_page \<Rightarrow>
            (if current \<in> set (sp_seen_pages sp) then ([], None, sp)
             else (let sp1 = sp\<lparr>sp_seen_pages := current # sp_seen_pages sp, sp_pages_scraped := sp_pages_scraped sp + 1\<rparr>
                   in case extract_list_items lib (lp_join page) (lp_anchors page) of
                        Inl e \<Rightarrow> ([List_error (lp_url page) e], None, sp1)
                      | Inr items \<Rightarrow>
                          parse_items lib page current max_page items
                            (sp1\<lparr>sp_items_seen := sp_items_seen sp1 + int (length items)\<rparr>))))"

section \<open>The crawl of the lists\<close>

definition list_requests :: "anhui_output list \<Rightarrow> int list" where
  "list_requests outs = List.map_filter (\<lambda>x. case x of List_request n \<Rightarrow> Some n | _ \<Rightarrow> None) outs"

text \<open>
  The crawl over the answers to its requests, in their order: what it yields, the spider after it, and
  whether it has ended.  It has not ended when it still waits for the answer to a request.
\<close>

fun crawl_lists :: "text_lib \<Rightarrow> list_page list \<Rightarrow> anhui_spider \<Rightarrow> anhui_output list \<times> anhui_spider \<times> bool" where
  "crawl_lists lib [] sp = ([], sp, False)"
| "crawl_lists lib (page # pages) sp =
     (case parse_list lib page sp of
        (outs, _, sp1) \<Rightarrow>
          if list_requests outs = [] then (outs, sp1, True)
          else (case crawl_lists lib pages sp1 of (more_outs, sp2, ended) \<Rightarrow> (outs @ more_outs, sp2, ended)))"

end
