(* ===== verification/AnhuiFacts.thy ===== *)
theory AnhuiFacts
  imports Anhui Writer DedupFacts
begin

text \<open>
  The crawl of the list pages ends, requests every item at most once and only goes forward; what the
  spider reports of a page is what the writers count.
\<close>

section \<open>Items picked on a page\<close>

lemma pick_new_subset: "set (pick_new dedup seen cs) \<subseteq> set cs"
proof (induction cs arbitrary: seen)
  case (Cons c cs)
  have "set (pick_new dedup s cs) \<subseteq> insert c (set cs)" for s using Cons.IH [of s] by blast
  then show ?case by (cases dedup) auto
qed simp

lemma pick_new_distinct:
  "distinct (map lc_fingerprint (pick_new True seen cs)) \<and>
   set (map lc_fingerprint (pick_new True seen cs)) \<inter> set seen = {}"
proof (induction cs arbitrary: seen)
  case (Cons c cs)
  then show ?case using Cons.IH [of seen] Cons.IH [of "lc_fingerprint c # seen"] by auto
qed simp

section \<open>One call of parse\<close>

definition detail_requests :: "anhui_output list \<Rightarrow> list_item_candidate list" where
  "detail_requests outs = List.map_filter (\<lambda>x. case x of Detail_request _ c \<Rightarrow> Some c | _ \<Rightarrow> None) outs"

lemma outputs_simps [simp]:
  "list_requests [] = []" "detail_requests [] = []"
  "list_requests (List_document x # outs) = list_requests outs"
  "list_requests (List_error u e # outs) = list_requests outs"
  "list_requests (List_request n # outs) = n # list_requests outs"
  "detail_requests (List_document x # outs) = detail_requests outs"
  "detail_requests (List_error u e # outs) = detail_requests outs"
  "detail_requests (List_request n # outs) = detail_requests outs"
  "list_requests (xs @ ys) = list_requests xs @ list_requests ys"
  "detail_requests (xs @ ys) = detail_requests xs @ detail_requests ys"
  "list_requests (map (Detail_request u) cs) = []" "detail_requests (map (Detail_request u) cs) = cs"
  by (simp_all add: list_requests_def detail_requests_def List.map_filter_def o_def)

text \<open>What a call keeps: the settings.\<close>

definition same_settings :: "anhui_spider \<Rightarrow> anhui_spider \<Rightarrow> bool" where
  "same_settings a b \<longleftrightarrow>
     sp_max_pages a = sp_max_pages b \<and> sp_threshold a = sp_threshold b \<and>
     sp_dedup_within_run a = sp_dedup_within_run b \<and> sp_backfill_year a = sp_backfill_year b"

definition page_fingerprints :: "text_lib \<Rightarrow> list_page \<Rightarrow> ustr list" where
  "page_fingerprints lib page =
     (case extract_list_items lib (lp_join page) (lp_anchors page) of Inl _ \<Rightarrow> [] | Inr items \<Rightarrow> map lc_fingerprint items)"

lemma finish_list_outcome:
  assumes "finish_list lib page current max_page c picked sp = (outs, exc, sp')"
  shows "sp' = sp" "detail_requests outs = picked" "list_requests outs \<noteq> [] \<longrightarrow> goes_on sp c"
    "n \<in> set (list_requests outs) \<longrightarrow> next_page_no lib page current = Inr (Some n)"
  using assms unfolding finish_list_def Let_def
  by (auto split: sum.splits option.splits if_splits)

lemma window_subset: "set (map fst (filter P (zip items zs))) \<subseteq> set items"
  by (auto dest: set_zip_leftD)

lemma parse_items_outcome:
  assumes "parse_items lib page current max_page items sp = (outs, exc, sp')"
  obtains picked c sp1 where "detail_requests outs = picked" "set picked \<subseteq> set items"
    "sp' = (if c = None then sp else see_items (the c) picked sp1)" "c = None \<longrightarrow> picked = []"
    "same_settings sp1 sp" "sp_seen_fingerprints sp1 = sp_seen_fingerprints sp" "sp_seen_pages sp1 = sp_seen_pages sp"
    "sp_pages_scraped sp1 = sp_pages_scraped sp" "sp_no_new_pages sp1 = sp_no_new_pages sp"
    "c \<noteq> None \<longrightarrow> pc_new (the c) = length picked"
    "sp_dedup_within_run sp \<longrightarrow> distinct (map lc_fingerprint picked) \<and>
       set (map lc_fingerprint picked) \<inter> set (sp_seen_fingerprints sp) = {}"
    "list_requests outs \<noteq> [] \<longrightarrow> c \<noteq> None \<and> goes_on sp' (the c)"
    "\<And>n. n \<in> set (list_requests outs) \<Longrightarrow> next_page_no lib page current = Inr (Some n)"
proof (cases "page_dates lib items")
  case (Inl e)
  then have "outs = []" "sp' = sp" using assms by (simp_all add: parse_items_def)
  then show ?thesis by (intro that [of "[]" None sp]) (simp_all add: same_settings_def)
next
  case (Inr zs)
  define start where "start = backfill_start sp"
  define older where "older = all_items_older_than_backfill start zs"
  define window where "window = map fst (filter (\<lambda>(_, z). in_backfill_window start z) (zip items zs))"
  define picked where
    "picked = (if older then [] else pick_new (sp_dedup_within_run sp) (sp_seen_fingerprints sp) window)"
  define c where "c = count_page older items window zs picked"
  define sp1 where "sp1 = merge_publish_date_range (pc_min_date c) (pc_max_date c) sp"
  have finish: "finish_list lib page current max_page c picked (see_items c picked sp1) = (outs, exc, sp')"
    using assms unfolding parse_items_def Inr sum.case Let_def start_def older_def window_def picked_def c_def sp1_def .
  note out = finish_list_outcome [OF finish]
  have "set window \<subseteq> set items" unfolding window_def by (rule window_subset)
  then have sub: "set picked \<subseteq> set items"
    using pick_new_subset [of "sp_dedup_within_run sp" "sp_seen_fingerprints sp" window] by (auto simp: picked_def)
  have fresh: "sp_dedup_within_run sp \<longrightarrow> distinct (map lc_fingerprint picked) \<and>
      set (map lc_fingerprint picked) \<inter> set (sp_seen_fingerprints sp) = {}"
    using pick_new_distinct by (simp add: picked_def)
  have new: "pc_new c = length picked" by (simp add: c_def count_page_def)
  have kept: "same_settings sp1 sp" "sp_seen_fingerprints sp1 = sp_seen_fingerprints sp"
    "sp_seen_pages sp1 = sp_seen_pages sp" "sp_pages_scraped sp1 = sp_pages_scraped sp"
    "sp_no_new_pages sp1 = sp_no_new_pages sp"
    by (simp_all add: sp1_def same_settings_def merge_publish_date_range_def)
  show ?thesis
    by (rule that [of picked "Some c" sp1]) (simp_all add: out sub fresh new kept del: set_map)
qed

lemma parse_list_outcome:
  assumes "parse_list lib page sp = (outs, exc, sp')"
  obtains fps where
    "map lc_fingerprint (detail_requests outs) = fps" "set fps \<subseteq> set (page_fingerprints lib page)"
    "sp_seen_fingerprints sp' = rev fps @ sp_seen_fingerprints sp" "same_settings sp' sp"
    "sp_dedup_within_run sp \<longrightarrow> distinct fps \<and> set fps \<inter> set (sp_seen_fingerprints sp) = {}"
    "list_requests outs \<noteq> [] \<longrightarrow> sp_pages_scraped sp' = sp_pages_scraped sp + 1 \<and>
       sp_no_new_pages sp' = (if fps = [] then sp_no_new_pages sp + 1 else 0) \<and>
       sp_no_new_pages sp' < sp_threshold sp \<and>
       (case sp_max_pages sp of None \<Rightarrow> True | Some m \<Rightarrow> sp_pages_scraped sp' < m)"
    "\<And>n. n \<in> set (list_requests outs) \<Longrightarrow> next_page_no lib page (current_page_no page) = Inr (Some n)"
proof (cases "max_page_no lib page")
  case (Inl e)
  then have "outs = []" "sp' = sp" using assms by (simp_all add: parse_list_def)
  then show ?thesis by (intro that [of "[]"]) (simp_all add: same_settings_def)
next
  case max_page: (Inr max_page)
  show ?thesis
  proof (cases "current_page_no page \<in> set (sp_seen_pages sp)")
    case True
    then have "outs = []" "sp' = sp" using assms max_page by (simp_all add: parse_list_def)
    then show ?thesis by (intro that [of "[]"]) (simp_all add: same_settings_def)
  next
    case fresh: False
    let ?sp1 = "sp\<lparr>sp_seen_pages := current_page_no page # sp_seen_pages sp, sp_pages_scraped := sp_pages_scraped sp + 1\<rparr>"
    show ?thesis
    proof (cases "extract_list_items lib (lp_join page) (lp_anchors page)")
      case (Inl e)
      then have "outs = [List_error (lp_url page) e]" "sp' = ?sp1"
        using assms max_page fresh by (simp_all add: parse_list_def Let_def)
      then show ?thesis by (intro that [of "[]"]) (simp_all add: same_settings_def)
    next
      case items: (Inr items)
      let ?sp2 = "?sp1\<lparr>sp_items_seen := sp_items_seen ?sp1 + int (length items)\<rparr>"
      have "parse_items lib page (current_page_no page) max_page items ?sp2 = (outs, exc, sp')"
        using assms max_page fresh items by (simp add: parse_list_def Let_def)
      then obtain picked c sp3 where p: "detail_requests outs = picked" "set picked \<subseteq> set items"
        "sp' = (if c = None then ?sp2 else see_items (the c) picked sp3)" "c = None \<longrightarrow> picked = []"
        "same_settings sp3 ?sp2" "sp_seen_fingerprints sp3 = sp_seen_fingerprints ?sp2"
        "sp_pages_scraped sp3 = sp_pages_scraped ?sp2" "sp_no_new_pages sp3 = sp_no_new_pages ?sp2"
        "c \<noteq> None \<longrightarrow> pc_new (the c) = length picked"
        "sp_dedup_within_run ?sp2 \<longrightarrow> distinct (map lc_fingerprint picked) \<and>
           set (map lc_fingerprint picked) \<inter> set (sp_seen_fingerprints ?sp2) = {}"
        "list_requests outs \<noteq> [] \<longrightarrow> c \<noteq> None \<and> goes_on sp' (the c)"
        "\<And>n. n \<in> set (list_requests outs) \<Longrightarrow> next_page_no lib page (current_page_no page) = Inr (Some n)"
        by (rule parse_items_outcome) blast
      show ?thesis
      proof (rule that [of "map lc_fingerprint picked"])
        show "set (map lc_fingerprint picked) \<subseteq> set (page_fingerprints lib page)"
          using p(2) items by (auto simp: page_fingerprints_def)
        show "sp_seen_fingerprints sp' = rev (map lc_fingerprint picked) @ sp_seen_fingerprints sp"
          using p(3,4,6) by (cases c) (simp_all add: see_items_def)
        show "same_settings sp' sp"
          using p(3,5) by (cases c) (simp_all add: see_items_def same_settings_def)
        show "list_requests outs \<noteq> [] \<longrightarrow> sp_pages_scraped sp' = sp_pages_scraped sp + 1 \<and>
            sp_no_new_pages sp' = (if map lc_fingerprint picked = [] then sp_no_new_pages sp + 1 else 0) \<and>
            sp_no_new_pages sp' < sp_threshold sp \<and>
            (case sp_max_pages sp of None \<Rightarrow> True | Some m \<Rightarrow> sp_pages_scraped sp' < m)"
          using p(3,5,7,8,9,11) by (auto simp: see_items_def goes_on_def same_settings_def)
      qed (use p in auto)
    qed
  qed
qed


section \<open>The crawl\<close>

lemma crawl_ends_by_page_limit:
  assumes "sp_max_pages sp = Some m" "pages \<noteq> []" "m - sp_pages_scraped sp \<le> int (length pages)"
  shows "snd (snd (crawl_lists lib pages sp))"
  using assms
proof (induction pages arbitrary: sp)
  case (Cons page pages)
  obtain outs exc sp' where call: "parse_list lib page sp = (outs, exc, sp')" by (metis prod_cases3)
  obtain fps :: "ustr list" where o: "same_settings sp' sp"
    "list_requests outs \<noteq> [] \<longrightarrow> sp_pages_scraped sp' = sp_pages_scraped sp + 1 \<and>
       sp_no_new_pages sp' = (if fps = [] then sp_no_new_pages sp + 1 else 0) \<and> sp_no_new_pages sp' < sp_threshold sp \<and>
       (case sp_max_pages sp of None \<Rightarrow> True | Some m \<Rightarrow> sp_pages_scraped sp' < m)"
    by (rule parse_list_outcome [OF call]) (rule that; assumption)
  show ?case
  proof (cases "list_requests outs = []")
    case False
    then have next_call: "sp_pages_scraped sp' = sp_pages_scraped sp + 1" "sp_pages_scraped sp' < m" "sp_max_pages sp' = Some m"
      using o Cons.prems(1) by (auto simp: same_settings_def)
    then have "pages \<noteq> []" using Cons.prems(3) by auto
    then have "snd (snd (crawl_lists lib pages sp'))" using Cons.IH [of sp'] Cons.prems(3) next_call by simp
    then show ?thesis using False by (simp add: call case_prod_beta)
  qed (simp add: call)
qed simp

definition unseen_weight :: "ustr list \<Rightarrow> anhui_spider \<Rightarrow> nat" where
  "unseen_weight site sp =
     card (set site - set (sp_seen_fingerprints sp)) * nat (sp_threshold sp) + nat (sp_threshold sp - sp_no_new_pages sp)"

lemma unseen_weight_decreases:
  assumes "set fps \<subseteq> set site" "set fps \<inter> set (sp_seen_fingerprints sp) = {}"
    "sp_seen_fingerprints sp' = rev fps @ sp_seen_fingerprints sp" "sp_threshold sp' = sp_threshold sp"
    "sp_no_new_pages sp' = (if fps = [] then sp_no_new_pages sp + 1 else 0)"
    "0 \<le> sp_no_new_pages sp" "sp_no_new_pages sp < sp_threshold sp" "sp_no_new_pages sp' < sp_threshold sp"
  shows "0 < unseen_weight site sp'" "unseen_weight site sp' < unseen_weight site sp"
proof -
  show "0 < unseen_weight site sp'" using assms by (simp add: unseen_weight_def)
  show "unseen_weight site sp' < unseen_weight site sp"
  proof (cases "fps = []")
    case True
    then show ?thesis using assms by (simp add: unseen_weight_def)
  next
    case False
    let ?C = "card (set site - set (sp_seen_fingerprints sp))" and ?C' = "card (set site - set (sp_seen_fingerprints sp'))"
    let ?k = "nat (sp_threshold sp)"
    have "?C' < ?C"
    proof (rule psubset_card_mono)
      obtain x where "x \<in> set fps" using False by (cases fps) auto
      then show "set site - set (sp_seen_fingerprints sp') \<subset> set site - set (sp_seen_fingerprints sp)"
        using assms(1-3) by auto
    qed simp
    then have "(?C' + 1) * ?k \<le> ?C * ?k" by (intro mult_le_mono1) simp
    then show ?thesis using assms False by (simp add: unseen_weight_def)
  qed
qed

lemma crawl_ends_by_no_new_items:
  assumes "sp_dedup_within_run sp" "\<forall>page \<in> set pages. set (page_fingerprints lib page) \<subseteq> set site"
    "0 \<le> sp_no_new_pages sp" "sp_no_new_pages sp < sp_threshold sp" "unseen_weight site sp \<le> length pages" "pages \<noteq> []"
  shows "snd (snd (crawl_lists lib pages sp))"
  using assms
proof (induction pages arbitrary: sp)
  case (Cons page pages)
  obtain outs exc sp' where call: "parse_list lib page sp = (outs, exc, sp')" by (metis prod_cases3)
  obtain fps where o: "set fps \<subseteq> set (page_fingerprints lib page)"
    "sp_seen_fingerprints sp' = rev fps @ sp_seen_fingerprints sp" "same_settings sp' sp"
    "sp_dedup_within_run sp \<longrightarrow> distinct fps \<and> set fps \<inter> set (sp_seen_fingerprints sp) = {}"
    "list_requests outs \<noteq> [] \<longrightarrow> sp_pages_scraped sp' = sp_pages_scraped sp + 1 \<and>
       sp_no_new_pages sp' = (if fps = [] then sp_no_new_pages sp + 1 else 0) \<and> sp_no_new_pages sp' < sp_threshold sp \<and>
       (case sp_max_pages sp of None \<Rightarrow> True | Some m \<Rightarrow> sp_pages_scraped sp' < m)"
    by (rule parse_list_outcome [OF call]) (rule that; assumption)
  show ?case
  proof (cases "list_requests outs = []")
    case False
    have site: "set fps \<subseteq> set site" using o(1) Cons.prems(2) by auto
    have kept: "sp_threshold sp' = sp_threshold sp" "sp_dedup_within_run sp'"
      using o(3) Cons.prems(1) by (auto simp: same_settings_def)
    have count: "sp_no_new_pages sp' = (if fps = [] then sp_no_new_pages sp + 1 else 0)" "sp_no_new_pages sp' < sp_threshold sp"
      using o(5) False by auto
    note w = unseen_weight_decreases [OF site _ o(2) kept(1) count(1) Cons.prems(3,4) count(2)]
    have "0 < unseen_weight site sp'" "unseen_weight site sp' < unseen_weight site sp" using w o(4) Cons.prems(1) by auto
    then have rest: "unseen_weight site sp' \<le> length pages" "pages \<noteq> []" using Cons.prems(5) by auto
    have "snd (snd (crawl_lists lib pages sp'))"
      using rest kept count Cons.prems by (intro Cons.IH) auto
    then show ?thesis using False by (simp add: call case_prod_beta)
  qed (simp add: call)
qed simp

text \<open>What the crawl requests, and how far it goes.\<close>

lemma crawl_requests_fresh:
  assumes "sp_dedup_within_run sp" "crawl_lists lib pages sp = (outs, sp', ended)"
  shows "distinct (map lc_fingerprint (detail_requests outs)) \<and>
    set (map lc_fingerprint (detail_requests outs)) \<inter> set (sp_seen_fingerprints sp) = {} \<and>
    set (sp_seen_fingerprints sp') = set (map lc_fingerprint (detail_requests outs)) \<union> set (sp_seen_fingerprints sp)"
  using assms
proof (induction pages arbitrary: sp outs)
  case (Cons page pages)
  obtain page_outs exc sp1 where call: "parse_list lib page sp = (page_outs, exc, sp1)" by (metis prod_cases3)
  obtain fps where o: "map lc_fingerprint (detail_requests page_outs) = fps"
    "sp_seen_fingerprints sp1 = rev fps @ sp_seen_fingerprints sp" "same_settings sp1 sp"
    "sp_dedup_within_run sp \<longrightarrow> distinct fps \<and> set fps \<inter> set (sp_seen_fingerprints sp) = {}"
    by (rule parse_list_outcome [OF call]) (rule that; assumption)
  show ?case
  proof (cases "list_requests page_outs = []")
    case True
    then have "outs = page_outs" "sp' = sp1" using Cons.prems(2) by (simp_all add: call)
    then show ?thesis using o Cons.prems(1) by (simp del: set_map)
  next
    case False
    obtain rest_outs sp2 rest_ended where rest: "crawl_lists lib pages sp1 = (rest_outs, sp2, rest_ended)"
      by (metis prod_cases3)
    have all: "outs = page_outs @ rest_outs" "sp' = sp2" "ended = rest_ended"
      using Cons.prems(2) False by (simp_all add: call rest)
    have "sp_dedup_within_run sp1" using o(3) Cons.prems(1) by (simp add: same_settings_def)
    note ih = Cons.IH [OF this rest [folded all]]
    let ?rest = "map lc_fingerprint (detail_requests rest_outs)"
    have "distinct (fps @ ?rest)" "set (fps @ ?rest) \<inter> set (sp_seen_fingerprints sp) = {}"
      "set (sp_seen_fingerprints sp') = set (fps @ ?rest) \<union> set (sp_seen_fingerprints sp)"
      using ih o(2,4) Cons.prems(1) by (auto simp del: set_map)
    moreover have "map lc_fingerprint (detail_requests outs) = fps @ ?rest" using all(1) o(1) by simp
    ultimately show ?thesis by simp
  qed
qed simp


text \<open>A fresh spider.\<close>

lemma init_spider_fresh:
  assumes "init_spider args = Inr sp"
  shows "sp_seen_fingerprints sp = []" "sp_pages_scraped sp = 0" "sp_no_new_pages sp = 0" "1 \<le> sp_threshold sp"
    "sp_max_pages sp = Some m \<Longrightarrow> 1 \<le> m"
  using assms
  by (auto simp: init_spider_def and_then_def parse_optional_positive_int_def
      split: sum.splits option.splits if_splits)

section \<open>The properties\<close>

text \<open>
  How many list pages end a crawl: the page limit, and with the suppression of repeated items as many
  pages without a new item as the threshold for every distinct item of the site and once more.
\<close>

definition page_bounds :: "anhui_spider \<Rightarrow> ustr list \<Rightarrow> nat list" where
  "page_bounds sp site =
     (case sp_max_pages sp of None \<Rightarrow> [] | Some m \<Rightarrow> [nat m]) @
     (if sp_dedup_within_run sp then [nat (sp_threshold sp) * (card (set site) + 1)] else [])"

text \<open>
C26. The crawl of the list pages ends, whatever the site answers: under the page limit, and with the suppression
of repeated items also without one, however many "next page" links the site offers, as long as the site has
finitely many items. The spider asks for no further page after the answers counted by one of the bounds.\<close>

theorem list_crawl_ends:
  assumes "init_spider args = Inr sp" "\<forall>page \<in> set pages. set (page_fingerprints lib page) \<subseteq> set site"
    "b \<in> set (page_bounds sp site)" "b \<le> length pages"
  shows "snd (snd (crawl_lists lib pages sp))"
proof -
  note fresh = init_spider_fresh [OF assms(1)]
  consider m where "sp_max_pages sp = Some m" "b = nat m"
    | "sp_dedup_within_run sp" "b = nat (sp_threshold sp) * (card (set site) + 1)"
    using assms(3) by (cases "sp_max_pages sp") (auto simp: page_bounds_def split: if_splits)
  then show ?thesis
  proof cases
    case 1
    then have "pages \<noteq> []" "m - sp_pages_scraped sp \<le> int (length pages)" using assms(4) fresh(2) fresh(5) [of m] by auto
    then show ?thesis using crawl_ends_by_page_limit 1(1) by blast
  next
    case 2
    have "unseen_weight site sp = b" using 2 fresh by (simp add: unseen_weight_def algebra_simps)
    moreover have "0 < b" using 2 fresh(4) by simp
    ultimately show ?thesis
      using assms(2,4) fresh 2(1) by (intro crawl_ends_by_no_new_items [where site = site]) auto
  qed
qed

text \<open>
No item is requested twice in a run: with the suppression of repeated items, the detail pages that the spider
asks for over all list pages have pairwise different fingerprints, and these are the fingerprints it remembers.\<close>

lemma item_is_requested_once:
  assumes "init_spider args = Inr sp" "sp_dedup_within_run sp" "crawl_lists lib pages sp = (outs, sp', ended)"
  shows "distinct (map lc_fingerprint (detail_requests outs)) \<and>
    set (sp_seen_fingerprints sp') = lc_fingerprint ` set (detail_requests outs)"
  using crawl_requests_fresh [OF assms(2,3)] init_spider_fresh(1) [OF assms(1)] by simp


section \<open>What the writers count of a list page\<close>

lemma pick_new_length: "length (pick_new dedup seen cs) \<le> length cs"
  by (induction cs arbitrary: seen) (auto intro: le_SucI)

lemma page_dates_length: "page_dates lib cs = Inr zs \<Longrightarrow> length zs = length cs"
  by (induction cs arbitrary: zs) (auto simp: and_then_def split: sum.splits)

lemma old_pages_have_no_window:
  assumes "all_items_older_than_backfill start zs"
  shows "filter (\<lambda>(_, z). in_backfill_window start z) (zip items zs) = []"
proof -
  have "\<not> in_backfill_window start z" if "z \<in> set zs" for z
    using assms that
    by (cases start; cases z) (auto simp: all_items_older_than_backfill_def in_backfill_window_def list_all_iff)
  then show ?thesis by (auto simp: filter_empty_conv dest: set_zip_rightD)
qed

definition list_meta_of :: "payload \<Rightarrow> payload" where
  "list_meta_of raw = (case as_mapping (field raw ''extra_meta'') of None \<Rightarrow> [] | Some kvs \<Rightarrow> kvs)"

lemma non_negative_count: "int n < 10 ^ int_digit_limit \<Longrightarrow> non_negative_int (VInt (int n)) = int n"
  by (simp add: non_negative_int_def item_int_def)

lemma list_role: "item_str (VStr (lit ''list'')) = Some (lit ''list'')" "py_lower (lit ''list'') = lit ''list''"
  by code_simp+

lemma list_meta_of_raw:
  assumes "build_raw_item lib sp r html url ''list'' counts None None = Inr raw"
  shows "list_meta_of raw = (lit ''role'', VStr (lit ''list'')) # counts"
  using assms by (auto simp: build_raw_item_def and_then_def list_meta_of_def as_mapping_def dict_get_def split: sum.splits)

lemma stats_of_list_document:
  assumes "list_meta_of raw = (lit ''role'', VStr (lit ''list'')) # counts"
  shows "list_items_seen (raw_document_stats raw existed dup) = non_negative_int (field counts ''page_item_count'')"
    "list_items_unique (raw_document_stats raw existed dup) = non_negative_int (field counts ''new_unique_item_count'')"
    "list_items_source_duplicates_skipped (raw_document_stats raw existed dup) =
      non_negative_int (field counts ''page_source_duplicates_skipped'')"
    "detail_pages_fetched (raw_document_stats raw existed dup) = 0"
  using assms unfolding list_meta_of_def
  by (simp_all add: raw_document_stats_def Let_def dict_get_def list_role text_or_def zero_counters_def)

lemma list_meta_counts:
  "field (list_meta sp u cur max_page n c) ''page_item_count'' = VInt (int (pc_items c))"
  "field (list_meta sp u cur max_page n c) ''new_unique_item_count'' = VInt (int (pc_new c))"
  "field (list_meta sp u cur max_page n c) ''page_source_duplicates_skipped'' = VInt (int (pc_duplicates c))"
  "field (list_meta sp u cur max_page n c) ''page_items_filtered_out_by_backfill'' = VInt (int (pc_filtered_out c))"
  by (simp_all add: list_meta_def dict_get_def)


lemma finish_list_document:
  assumes "finish_list lib page current max_page c picked sp = (outs, exc, sp')" "List_document raw \<in> set outs"
  obtains next_page where "list_meta_of raw =
    (lit ''role'', VStr (lit ''list'')) # list_meta sp (lp_url page) current max_page next_page c" "sp' = sp"
    "detail_requests outs = picked"
proof -
  have "\<exists>next_page. build_raw_item lib sp (page_response_of page) (lp_body page) (lp_url page) ''list''
      (list_meta sp (lp_url page) current max_page next_page c) None None = Inr raw"
    using assms unfolding finish_list_def Let_def by (auto split: sum.splits option.splits if_splits)
  then show thesis using that list_meta_of_raw finish_list_outcome(1,2) [OF assms(1)] by blast
qed

lemma parse_items_document:
  assumes "parse_items lib page current max_page items sp = (outs, exc, sp')" "List_document raw \<in> set outs"
  obtains c next_page where
    "list_meta_of raw = (lit ''role'', VStr (lit ''list'')) # list_meta sp' (lp_url page) current max_page next_page c"
    "pc_items c = length items" "pc_new c = length (detail_requests outs)"
    "pc_items c = pc_new c + pc_duplicates c + pc_filtered_out c"
    "sp_items_seen sp' = sp_items_seen sp" "sp_items_unique sp' = sp_items_unique sp + int (pc_new c)"
    "sp_duplicates_skipped sp' = sp_duplicates_skipped sp + int (pc_duplicates c)"
proof (cases "page_dates lib items")
  case (Inl e)
  then show ?thesis using assms by (simp add: parse_items_def)
next
  case (Inr zs)
  define start where "start = backfill_start sp"
  define older where "older = all_items_older_than_backfill start zs"
  define window where "window = map fst (filter (\<lambda>(_, z). in_backfill_window start z) (zip items zs))"
  define picked where
    "picked = (if older then [] else pick_new (sp_dedup_within_run sp) (sp_seen_fingerprints sp) window)"
  define c where "c = count_page older items window zs picked"
  define sp1 where "sp1 = merge_publish_date_range (pc_min_date c) (pc_max_date c) sp"
  have finish: "finish_list lib page current max_page c picked (see_items c picked sp1) = (outs, exc, sp')"
    using assms(1) unfolding parse_items_def Inr sum.case Let_def start_def older_def window_def picked_def c_def sp1_def .
  have "length picked \<le> length window" using pick_new_length by (simp add: picked_def)
  moreover have "length window \<le> length items"
    unfolding window_def by (metis length_filter_le length_map length_zip min.bounded_iff)
  moreover have "older \<longrightarrow> window = []" by (simp add: older_def window_def old_pages_have_no_window)
  ultimately have counts: "pc_items c = length items" "pc_new c = length picked"
    "pc_items c = pc_new c + pc_duplicates c + pc_filtered_out c"
    by (auto simp: c_def count_page_def picked_def)
  have kept: "sp_items_seen sp1 = sp_items_seen sp" "sp_items_unique sp1 = sp_items_unique sp"
    "sp_duplicates_skipped sp1 = sp_duplicates_skipped sp"
    by (simp_all add: sp1_def merge_publish_date_range_def)
  from finish assms(2) show ?thesis
  proof (rule finish_list_document)
    fix next_page
    assume doc: "list_meta_of raw = (lit ''role'', VStr (lit ''list'')) #
        list_meta (see_items c picked sp1) (lp_url page) current max_page next_page c"
      "sp' = see_items c picked sp1" "detail_requests outs = picked"
    show ?thesis
    proof (rule that)
      show "list_meta_of raw = (lit ''role'', VStr (lit ''list'')) #
          list_meta sp' (lp_url page) current max_page next_page c"
        using doc(1) unfolding doc(2) .
    qed (use doc(2,3) counts kept in \<open>simp_all add: see_items_def\<close>)
  qed
qed

lemma items_of_anchors: "extract_list_items lib join_url anchors = Inr items \<Longrightarrow> length items \<le> length anchors"
  by (induction anchors arbitrary: items) (auto simp: and_then_def split: sum.splits option.splits intro: le_SucI)



section \<open>Examples\<close>

definition sample_args :: anhui_args where
  "sample_args =
     \<lparr>aa_crawl_job_id = VInt 7, aa_max_pages = VStr (lit ''2''), aa_bulletin_nature = VStr (lit ''1''), aa_time = VNone,
      aa_backfill_year = VNone, aa_no_new_pages = VInt 3, aa_empty_pages = VNone, aa_dedup_within_run = VStr (lit ''yes'')\<rparr>"

definition sample_spider :: anhui_spider where
  "sample_spider =
     \<lparr>sp_job_id = Some 7, sp_max_pages = Some 2, sp_bulletin_nature = lit ''1'', sp_backfill_year = None,
      sp_time_filter = Some (lit ''1''), sp_threshold = 3, sp_dedup_within_run = True, sp_seen_fingerprints = [],
      sp_seen_pages = [], sp_pages_scraped = 0, sp_items_seen = 0, sp_items_unique = 0, sp_duplicates_skipped = 0,
      sp_no_new_pages = 0, sp_first_date = None, sp_last_date = None\<rparr>"

lemma sample_args_accepted: "init_spider sample_args = Inr sample_spider"
  by code_simp

definition sample_anchor :: list_anchor where
  "sample_anchor =
     \<lparr>la_href = lit ''/d?guid=1'', la_text = lit ''A b'', la_date_text = None, la_context = []\<rparr>"

definition sample_list_page :: "string \<Rightarrow> list_page" where
  "sample_list_page n =
     \<lparr>lp_url = lit ''https://a.cn/list'', lp_body = lit ''html'', lp_status = 200, lp_mime_type = lit ''text/html'',
      lp_charset = lit ''utf-8'', lp_title = None, lp_fetched_at = 0, lp_join = (\<lambda>h. Inr (lit ''https://a.cn'' @ h)),
      lp_current_page = Some (lit n), lp_page_texts = [], lp_page_inputs = [], lp_anchors = [sample_anchor, sample_anchor],
      lp_page_links =
        [\<lparr>pl_text = zh_next_page, pl_class = [], pl_href = [], pl_onclick = lit ''pagination(1 + 1)''\<rparr>]\<rparr>"


definition sample_pages :: "list_page list" where
  "sample_pages = [sample_list_page ''1'', sample_list_page ''2'']"

definition list_documents :: "anhui_output list \<Rightarrow> payload list" where
  "list_documents outs = List.map_filter (\<lambda>x. case x of List_document raw \<Rightarrow> Some raw | _ \<Rightarrow> None) outs"

definition sample_outputs :: "anhui_output list" where
  "sample_outputs = fst (parse_list sample_lib (sample_list_page ''1'') sample_spider)"

lemma list_documents_mem: "raw \<in> set (list_documents outs) \<Longrightarrow> List_document raw \<in> set outs"
  by (auto simp: list_documents_def List.map_filter_def split: anhui_output.splits)

lemma sample_call:
  "list_requests sample_outputs = [2] \<and> length (detail_requests sample_outputs) = 1 \<and> list_documents sample_outputs \<noteq> []"
  unfolding sample_outputs_def by code_simp

lemma list_crawl_ends_witness:
  "snd (snd (crawl_lists sample_lib sample_pages sample_spider)) \<and> list_requests sample_outputs = [2]"
proof -
  let ?site = "concat (map (page_fingerprints sample_lib) sample_pages)"
  have "2 \<in> set (page_bounds sample_spider ?site)" by (simp add: page_bounds_def sample_spider_def)
  moreover have "2 \<le> length sample_pages" by (simp add: sample_pages_def)
  moreover have "\<forall>page \<in> set sample_pages. set (page_fingerprints sample_lib page) \<subseteq> set ?site"
    by auto
  ultimately show ?thesis using list_crawl_ends [OF sample_args_accepted] sample_call by blast
qed

lemma item_is_requested_once_witness:
  "distinct (map lc_fingerprint (detail_requests (fst (crawl_lists sample_lib sample_pages sample_spider))))"
proof -
  obtain outs sp' ended where crawl: "crawl_lists sample_lib sample_pages sample_spider = (outs, sp', ended)"
    by (metis prod_cases3)
  have "sp_dedup_within_run sample_spider" by (simp add: sample_spider_def)
  from item_is_requested_once [OF sample_args_accepted this crawl] show ?thesis by (simp add: crawl)
qed


end
