(* ===== verification/Exports.thy ===== *)
theory Exports
  imports Notices Writer
begin

text \<open>
  app/api/endpoints/notices.py: the list and the exports of the notices, with csv.writer as it is used there.

  The endpoints refuse parameters outside the types and ranges their signatures declare.  The exports render the rows of
  list_notices_for_export as a CSV text, as the rows of an Excel sheet and as a JSON array.  \<open>read_csv\<close> is
  a reader for CSV texts of RFC 4180, against which the CSV export is stated.  Instants are those of a database that
  answers in UTC; building the file of the workbook and encoding the JSON are left out.
\<close>

section \<open>csv.writer\<close>

text \<open>The excel dialect: a field with a separator, a quote or a line end is quoted, quotes in it are doubled.\<close>

definition needs_quotes :: "ustr \<Rightarrow> bool" where
  "needs_quotes f \<longleftrightarrow> list_ex (\<lambda>c. c = 44 \<or> c = 34 \<or> c = 13 \<or> c = 10) f"

definition double_quotes :: "ustr \<Rightarrow> ustr" where
  "double_quotes f = concat (map (\<lambda>c. if c = 34 then [34, 34] else [c]) f)"

definition csv_field :: "ustr \<Rightarrow> ustr" where
  "csv_field f = (if needs_quotes f then 34 # double_quotes f @ [34] else f)"

text \<open>A row with one empty field is quoted, to tell it from a blank line.\<close>

definition csv_row :: "ustr list \<Rightarrow> ustr" where
  "csv_row fs = (if fs = [[]] then [34, 34] else join [44] (map csv_field fs)) @ [13, 10]"

text \<open>The text of a cell: None is empty, everything else is str() of it.\<close>

definition cell_text :: "pyval \<Rightarrow> ustr" where
  "cell_text v = (case v of VNone \<Rightarrow> [] | _ \<Rightarrow> py_str v)"

section \<open>The exports\<close>

definition export_headers :: "ustr list" where
  "export_headers =
     map lit [''id'', ''source_code'', ''title'', ''notice_type'', ''issuer'', ''region'', ''published_at'',
       ''deadline_at'', ''budget_amount'', ''current_version_id'']"

definition export_csv_datetime :: "instant option \<Rightarrow> ustr" where
  "export_csv_datetime v = (case v of None \<Rightarrow> [] | Some t \<Rightarrow> isoformat t)"

definition export_csv_decimal :: "rat option \<Rightarrow> ustr" where
  "export_csv_decimal v = (case v of None \<Rightarrow> [] | Some a \<Rightarrow> amount_text a)"

definition export_json_decimal :: "rat option \<Rightarrow> pyval" where
  "export_json_decimal v = (case v of None \<Rightarrow> VNone | Some a \<Rightarrow> VStr (amount_text a))"

definition export_cells :: "notice_list_item \<Rightarrow> pyval list" where
  "export_cells r =
     [VInt (nl_id r), VStr (nl_source_code r), VStr (nl_title r), VStr (nl_notice_type r),
      VStr (case nl_issuer r of None \<Rightarrow> [] | Some t \<Rightarrow> t), VStr (case nl_region r of None \<Rightarrow> [] | Some t \<Rightarrow> t),
      VStr (export_csv_datetime (nl_published_at r)), VStr (export_csv_datetime (nl_deadline_at r)),
      VStr (export_csv_decimal (nl_budget_amount r)),
      (case nl_current_version_id r of None \<Rightarrow> VStr [] | Some k \<Rightarrow> VInt k)]"

definition export_notices_csv :: "notice_list_item list \<Rightarrow> ustr" where
  "export_notices_csv items =
     csv_row export_headers @ concat (map (\<lambda>r. csv_row (map cell_text (export_cells r))) items)"

definition export_notices_xlsx :: "notice_list_item list \<Rightarrow> pyval list list" where
  "export_notices_xlsx items = map VStr export_headers # map export_cells items"

text \<open>An object of the JSON array; jsonable_encoder renders a datetime as isoformat does.\<close>

definition json_datetime :: "instant option \<Rightarrow> pyval" where
  "json_datetime v = (case v of None \<Rightarrow> VNone | Some t \<Rightarrow> VStr (isoformat t))"

definition export_object :: "notice_list_item \<Rightarrow> payload" where
  "export_object r =
     [(lit ''id'', VInt (nl_id r)), (lit ''source_code'', VStr (nl_source_code r)), (lit ''title'', VStr (nl_title r)),
      (lit ''notice_type'', VStr (nl_notice_type r)), (lit ''issuer'', optional_text (nl_issuer r)),
      (lit ''region'', optional_text (nl_region r)), (lit ''published_at'', json_datetime (nl_published_at r)),
      (lit ''deadline_at'', json_datetime (nl_deadline_at r)),
      (lit ''budget_amount'', export_json_decimal (nl_budget_amount r)),
      (lit ''current_version_id'', (case nl_current_version_id r of None \<Rightarrow> VNone | Some k \<Rightarrow> VInt k))]"

definition export_notices_json :: "notice_list_item list \<Rightarrow> payload list" where
  "export_notices_json items = map export_object items"

section \<open>The endpoints\<close>

text \<open>What the declared types and ranges of the query parameters accept.\<close>

definition valid_notice_query :: "notice_query_filters \<Rightarrow> bool" where
  "valid_notice_query f \<longleftrightarrow>
     (case qf_notice_type f of None \<Rightarrow> True | Some t \<Rightarrow> t \<in> set notice_types) \<and>
     (case qf_recent_hours f of None \<Rightarrow> True | Some h \<Rightarrow> 1 \<le> h \<and> h \<le> 720)"

definition export_endpoint ::
    "(notice_list_item list \<Rightarrow> 'a) \<Rightarrow> sql_env \<Rightarrow> notice_query_filters \<Rightarrow> bool \<Rightarrow> ustr \<Rightarrow> ustr \<Rightarrow> db \<Rightarrow> 'a http_result" where
  "export_endpoint render env f dedup sort_by sort_order d =
     (if valid_notice_query f then Inr (render (list_notices_for_export env f dedup sort_by sort_order d)) else Inl 422)"

text \<open>A value that is not a notice type makes the response fail.\<close>

definition list_notices_endpoint ::
    "sql_env \<Rightarrow> notice_query_filters \<Rightarrow> bool \<Rightarrow> ustr \<Rightarrow> ustr \<Rightarrow> int \<Rightarrow> int \<Rightarrow> db \<Rightarrow> notice_list_result http_result" where
  "list_notices_endpoint env f dedup sort_by sort_order limit offset d =
     (if valid_notice_query f \<and> 1 \<le> limit \<and> limit \<le> 200 \<and> 0 \<le> offset
      then (let result = list_notices env f dedup sort_by sort_order (nat limit) (nat offset) d
            in if list_all (\<lambda>r. nl_notice_type r \<in> set notice_types) (lr_items result) then Inr result else Inl 500)
      else Inl 422)"

definition notice_detail_endpoint :: "int \<Rightarrow> db \<Rightarrow> notice_detail http_result" where
  "notice_detail_endpoint notice_id d =
     (case get_notice_detail notice_id d of
        None \<Rightarrow> Inl 404
      | Some detail \<Rightarrow>
          if tn_notice_type (nd_notice detail) \<in> set notice_types \<and>
             list_all (\<lambda>v. nv_notice_type (vr_version v) \<in> set notice_types) (nd_versions detail)
          then Inr detail else Inl 500)"

section \<open>A reader of CSV texts\<close>

text \<open>
  Where the reader is: before a field, in a plain field, in quotes, or after a quote that ends them unless
  another one follows.  The field and the fields of the row read so far are kept in reverse.
\<close>

datatype csv_mode = Field_start | In_plain | In_quotes | Quote_seen

fun read_csv :: "csv_mode \<Rightarrow> ustr \<Rightarrow> ustr list \<Rightarrow> ustr \<Rightarrow> ustr list list" where
  "read_csv m f fs [] = (if m = Field_start \<and> fs = [] then [] else [rev (rev f # fs)])"
| "read_csv m f fs (c # cs) =
     (if m = In_quotes then read_csv (if c = 34 then Quote_seen else In_quotes) (if c = 34 then f else c # f) fs cs
      else if m = Quote_seen \<and> c = 34 then read_csv In_quotes (34 # f) fs cs
      else if m = Field_start \<and> c = 34 then read_csv In_quotes f fs cs
      else if c = 44 then read_csv Field_start [] (rev f # fs) cs
      else if c = 13 \<and> cs \<noteq> [] \<and> hd cs = 10 then rev (rev f # fs) # read_csv Field_start [] [] (tl cs)
      else read_csv In_plain (c # f) fs cs)"

section \<open>What is written can be read back\<close>

lemma read_plain:
  assumes "\<not> needs_quotes f" "m = Field_start \<or> m = In_plain"
  shows "read_csv m g fs (f @ rest) = read_csv (if f = [] then m else In_plain) (rev f @ g) fs rest"
  using assms
proof (induction f arbitrary: m g)
  case (Cons c f)
  then have "c \<noteq> 44" "c \<noteq> 34" "c \<noteq> 13" "\<not> needs_quotes f" by (auto simp: needs_quotes_def)
  then show ?case using Cons.prems(2) Cons.IH [of In_plain "c # g"] by auto
qed simp

lemma read_doubled: "read_csv In_quotes g fs (double_quotes f @ 34 # rest) = read_csv Quote_seen (rev f @ g) fs rest"
  by (induction f arbitrary: g) (simp_all add: double_quotes_def)

lemma read_field_separator:
  "read_csv Field_start [] fs (csv_field f @ 44 # rest) = read_csv Field_start [] (f # fs) rest"
  by (simp add: csv_field_def read_plain read_doubled)

lemma read_field_end:
  "read_csv Field_start [] fs (csv_field f @ 13 # 10 # rest) = rev (f # fs) # read_csv Field_start [] [] rest"
  by (simp add: csv_field_def read_plain read_doubled)

lemma read_fields:
  assumes "row \<noteq> []"
  shows "read_csv Field_start [] fs (join [44] (map csv_field row) @ 13 # 10 # rest) =
    (rev fs @ row) # read_csv Field_start [] [] rest"
  using assms
proof (induction row arbitrary: fs)
  case (Cons f row)
  show ?case
  proof (cases row)
    case Nil
    then show ?thesis by (simp add: read_field_end del: read_csv.simps)
  next
    case (Cons f2 more_fields)
    then show ?thesis
      using Cons.IH [of "f # fs"] by (simp add: read_field_separator del: read_csv.simps)
  qed
qed simp

lemma read_row:
  assumes "row \<noteq> []"
  shows "read_csv Field_start [] [] (csv_row row @ rest) = row # read_csv Field_start [] [] rest"
proof (cases "row = [[]]")
  case True
  then show ?thesis by (simp add: csv_row_def)
next
  case False
  then show ?thesis using read_fields [OF assms, of "[]"] by (simp add: csv_row_def del: read_csv.simps)
qed

lemma read_rows:
  "list_all (\<lambda>row. row \<noteq> []) rows \<Longrightarrow> read_csv Field_start [] [] (concat (map csv_row rows)) = rows"
  by (induction rows) (simp_all add: read_row del: read_csv.simps(2))

text \<open>What a row of the three exports shows.\<close>

lemma cell_text_VStr [simp]: "cell_text (VStr t) = t"
  by (simp add: cell_text_def)

lemma export_object_cells:
  "map fst (export_object r) = export_headers" "map (cell_text \<circ> snd) (export_object r) = map cell_text (export_cells r)"
  by (simp_all add: export_object_def export_headers_def export_cells_def cell_text_def optional_text_def
      json_datetime_def export_csv_datetime_def export_json_decimal_def export_csv_decimal_def split: option.split)


end
