(* ===== verification/NoticePages.thy ===== *)
theory NoticePages
  imports Anhui
begin

text \<open>
  crawler/tender_crawler/parsers/base.py and anhui_ggzy_zfcg_parser.py: from the pages of a notice to its fields.

  The pages are texts; what the selectors of parsel find in a text, urljoin and mimetypes are arguments
  (\<open>page_lib\<close>).  Everything the parser does with these texts is modelled: the clean-up, the regular expressions as
  the matchers they denote, the amounts as Decimals, and the exceptions it does not catch.
\<close>

section \<open>What the parser is given\<close>

text \<open>
  \<open>pg_rows\<close> are the texts of the cells of every table row, \<open>pg_content\<close> the texts below the element with id
  content, \<open>pg_links\<close> the links with an href and their texts.
\<close>

record page_lib =
  pg_text :: text_lib
  pg_rows :: "ustr \<Rightarrow> ustr list list"
  pg_title :: "ustr \<Rightarrow> ustr option"
  pg_time :: "ustr \<Rightarrow> ustr option"
  pg_original_link :: "ustr \<Rightarrow> ustr option"
  pg_content :: "ustr \<Rightarrow> ustr list"
  pg_links :: "ustr \<Rightarrow> (ustr \<times> ustr list) list"
  pg_join :: "ustr \<Rightarrow> ustr \<Rightarrow> ustr result"
  pg_mime :: "ustr \<Rightarrow> ustr option"

record parsed_attachment =
  at_file_name :: ustr
  at_file_url :: ustr
  at_attachment_type :: ustr
  at_mime_type :: "ustr option"

record parsed_notice =
  pn_title :: ustr
  pn_notice_type :: ustr
  pn_external_id :: "ustr option"
  pn_project_code :: "ustr option"
  pn_issuer :: "ustr option"
  pn_region :: "ustr option"
  pn_published_at :: "instant option"
  pn_deadline_at :: "instant option"
  pn_budget_amount :: "decimal option"
  pn_budget_currency :: ustr
  pn_summary :: "ustr option"
  pn_content_text :: ustr
  pn_source_site_name :: ustr
  pn_source_site_url :: ustr
  pn_list_page_url :: ustr
  pn_detail_page_url :: ustr
  pn_structured_data :: payload
  pn_attachments :: "parsed_attachment list"

section \<open>Searching\<close>

text \<open>The leftmost position at which a matcher succeeds.\<close>

fun search_with :: "(ustr \<Rightarrow> 'a option) \<Rightarrow> ustr \<Rightarrow> 'a option" where
  "search_with m [] = m []"
| "search_with m (c # s) = (case m (c # s) of Some x \<Rightarrow> Some x | None \<Rightarrow> search_with m s)"

definition match_text :: "ustr \<Rightarrow> ustr \<Rightarrow> ustr option" where
  "match_text w s = (if starts_with w s then Some (drop (length w) s) else None)"

text \<open>From m to n digits and then the character c: their value and what follows.\<close>

definition match_digits :: "nat \<Rightarrow> nat \<Rightarrow> nat \<Rightarrow> ustr \<Rightarrow> (int \<times> ustr) option" where
  "match_digits m n c s =
     (let ds = takeWhile ascii_digit s; rest = drop (length ds) s
      in if m \<le> length ds \<and> length ds \<le> n \<and> rest \<noteq> [] \<and> hd rest = c then Some (digits_value ds, tl rest) else None)"

fun match_numbers :: "ustr \<Rightarrow> ustr \<Rightarrow> (int list \<times> ustr) option" where
  "match_numbers [] s = Some ([], s)"
| "match_numbers (c # marks) s =
     (case match_digits 1 2 c s of
        None \<Rightarrow> None
      | Some (n, rest) \<Rightarrow> map_option (\<lambda>(ns, t). (n # ns, t)) (match_numbers marks rest))"

text \<open>A year and the numbers after it, each followed by its Chinese word.\<close>

definition match_chinese_date :: "ustr \<Rightarrow> ustr \<Rightarrow> (int list \<times> ustr) option" where
  "match_chinese_date marks s =
     (case match_digits 4 4 24180 s of
        None \<Rightarrow> None
      | Some (y, rest) \<Rightarrow> map_option (\<lambda>(ns, t). (y # ns, t)) (match_numbers marks rest))"

definition day_marks :: ustr where
  "day_marks = [26376, 26085]"

definition minute_marks :: ustr where
  "minute_marks = [26376, 26085, 28857, 20998]"

section \<open>Dates and amounts\<close>

definition make_datetime :: "int \<Rightarrow> int \<Rightarrow> int \<Rightarrow> int \<Rightarrow> int \<Rightarrow> instant result" where
  "make_datetime y m d h mi =
     and_then (make_date y m d) (\<lambda>z.
       if 23 < h then Inl (ValueError (lit ''hour must be in 0..23''))
       else if 59 < mi then Inl (ValueError (lit ''minute must be in 0..59''))
       else Inr (z * day + (h * 60 + mi) * 60 * second))"

definition page_date_formats :: "ustr list" where
  "page_date_formats =
     map lit [''%Y%m%d'', ''%Y-%m-%d'', ''%Y-%m-%d %H:%M'', ''%Y-%m-%d %H:%M:%S''] @
     [zh_format_date, zh_format_minutes, zh_format_minutes_spaced]"

text \<open>\<open>_parse_datetime\<close>: a date that is written in Chinese but does not exist raises ValueError.\<close>

definition parse_page_datetime :: "text_lib \<Rightarrow> ustr option \<Rightarrow> instant option result" where
  "parse_page_datetime lib value =
     (case value of
        None \<Rightarrow> Inr None
      | Some t \<Rightarrow>
         if t = [] then Inr None
         else (let cleaned = clean_text t
               in case first_format lib cleaned page_date_formats of
                    Some i \<Rightarrow> Inr (Some i)
                  | None \<Rightarrow>
                     (case search_with (match_chinese_date minute_marks) cleaned of
                        Some ([y, m, d, h, mi], _) \<Rightarrow> and_then (make_datetime y m d h mi) (\<lambda>i. Inr (Some i))
                      | _ \<Rightarrow>
                         (case search_with (match_chinese_date day_marks) cleaned of
                            Some ([y, m, d], _) \<Rightarrow> and_then (make_datetime y m d 0 0) (\<lambda>i. Inr (Some i))
                          | _ \<Rightarrow> Inr None))))"

text \<open>\<open>_parse_decimal\<close>: the first number without a sign.\<close>

definition match_plain_number :: "ustr \<Rightarrow> decimal option" where
  "match_plain_number s = (if s \<noteq> [] \<and> ascii_digit (hd s) then match_number s else None)"

definition parse_decimal :: "ustr \<Rightarrow> decimal option" where
  "parse_decimal value = (if value = [] then None else search_with match_plain_number (strip (filter (\<lambda>c. c \<noteq> 44) value)))"

text \<open>str() of a Decimal that is not negative.\<close>

definition decimal_text :: "decimal \<Rightarrow> ustr" where
  "decimal_text d =
     (let digits = show_nat (nat (fst d)); left = snd d + int (length digits)
      in if snd d \<le> 0 \<and> - 6 < left
         then (if snd d = 0 then digits
               else if left \<le> 0 then lit ''0.'' @ replicate (nat (- left)) 48 @ digits
               else take (nat left) digits @ lit ''.'' @ drop (nat left) digits)
         else take 1 digits @ (if length digits = 1 then [] else lit ''.'' @ drop 1 digits) @ lit ''E'' @
              (if 1 \<le> left then lit ''+'' else []) @ show_int (left - 1))"

section \<open>Attachments\<close>

definition after_last :: "nat \<Rightarrow> ustr \<Rightarrow> ustr" where
  "after_last c s = rev (takeWhile (\<lambda>x. x \<noteq> c) (rev s))"

definition ends_with :: "ustr \<Rightarrow> ustr \<Rightarrow> bool" where
  "ends_with e s \<longleftrightarrow> starts_with (rev e) (rev s)"

text \<open>The schemes for which urlparse cuts the parameters off the last part of the path.\<close>

definition uses_params :: "ustr list" where
  "uses_params =
     map lit ['''', ''ftp'', ''hdl'', ''prospero'', ''http'', ''imap'', ''https'', ''shttp'', ''rtsp'', ''rtsps'', ''rtspu'',
       ''sip'', ''sips'', ''mms'', ''sftp'', ''tel'']"

definition infer_file_name :: "text_lib \<Rightarrow> ustr \<Rightarrow> ustr option \<Rightarrow> ustr result" where
  "infer_file_name lib absolute_url link_text =
     and_then (split_url lib absolute_url) (\<lambda>p.
       (let segment = after_last 47 (up_path p);
            candidate = strip (unquote (if up_scheme p \<in> set uses_params then takeWhile (\<lambda>c. c \<noteq> 59) segment else segment));
            t = strip (case link_text of None \<Rightarrow> [] | Some x \<Rightarrow> x)
        in Inr (if candidate \<noteq> [] then candidate else if t \<noteq> [] then t else lit ''attachment'')))"

definition infer_mime_type :: "page_lib \<Rightarrow> ustr \<Rightarrow> ustr \<Rightarrow> ustr option" where
  "infer_mime_type pl file_name file_url =
     (case pg_mime pl file_name of
        Some m \<Rightarrow> if m = [] then pg_mime pl file_url else Some m
      | None \<Rightarrow> pg_mime pl file_url)"

definition build_attachment :: "page_lib \<Rightarrow> ustr \<Rightarrow> ustr \<Rightarrow> ustr option \<Rightarrow> ustr \<Rightarrow> parsed_attachment option result" where
  "build_attachment pl file_url base_url link_text attachment_type =
     (let raw_url = strip file_url
      in if raw_url = [] then Inr None
         else and_then (pg_join pl base_url raw_url) (\<lambda>absolute_url.
              and_then (normalize_url (pg_text pl) absolute_url) (\<lambda>normalized_url.
              and_then (infer_file_name (pg_text pl) absolute_url link_text) (\<lambda>name.
                Inr (Some \<lparr>at_file_name = name, at_file_url = normalized_url, at_attachment_type = attachment_type,
                  at_mime_type = infer_mime_type pl name normalized_url\<rparr>)))))"

definition file_extensions :: "ustr list" where
  "file_extensions = map lit [''.pdf'', ''.doc'', ''.docx'', ''.xls'', ''.xlsx'', ''.zip'', ''.rar'']"

fun extract_attachments ::
    "page_lib \<Rightarrow> ustr \<Rightarrow> ustr list \<Rightarrow> (ustr \<times> ustr list) list \<Rightarrow> parsed_attachment list result" where
  "extract_attachments pl detail_url seen [] = Inr []"
| "extract_attachments pl detail_url seen ((href, texts) # links) =
     (let t = clean_text (join (lit '' '') texts)
      in if strip href = [] then extract_attachments pl detail_url seen links
         else and_then (pg_join pl detail_url (strip href)) (\<lambda>file_url.
           (let is_file = list_ex (\<lambda>e. ends_with e (tl_lower (pg_text pl) file_url)) file_extensions
            in if \<not> is_file \<and> \<not> contains zh_attachment t \<and> \<not> contains zh_download t
               then extract_attachments pl detail_url seen links
               else and_then (normalize_url (pg_text pl) file_url) (\<lambda>normalized.
                 if normalized \<in> set seen then extract_attachments pl detail_url seen links
                 else and_then (build_attachment pl file_url detail_url (Some t) (lit ''notice_file'')) (\<lambda>a.
                      and_then (extract_attachments pl detail_url (normalized # seen) links) (\<lambda>more_attachments.
                        Inr (case a of None \<Rightarrow> more_attachments | Some x \<Rightarrow> x # more_attachments)))))))"

section \<open>The fields of a notice\<close>

text \<open>A dict that keeps the place of a key when its value is replaced.\<close>

fun put_pair :: "ustr \<Rightarrow> 'a \<Rightarrow> (ustr \<times> 'a) list \<Rightarrow> (ustr \<times> 'a) list" where
  "put_pair k v [] = [(k, v)]"
| "put_pair k v ((l, w) # kvs) = (if k = l then (l, v) # kvs else (l, w) # put_pair k v kvs)"

fun put_cells :: "ustr list \<Rightarrow> (ustr \<times> ustr) list \<Rightarrow> (ustr \<times> ustr) list" where
  "put_cells (k # v # cells) kvs = put_cells cells (put_pair k v kvs)"
| "put_cells _ kvs = kvs"

definition table_kv_map :: "ustr list list \<Rightarrow> (ustr \<times> ustr) list" where
  "table_kv_map rows = fold (\<lambda>cells. put_cells (filter (\<lambda>t. t \<noteq> []) (map clean_text cells))) rows []"

text \<open>
  \<open>re.sub(r"<style[\\s\\S]*?</style>", " ", html, flags=re.IGNORECASE)\<close>: in a raw string the class holds the
  backslash and the two letters, which the flag folds together with the long s.
\<close>

definition in_block_class :: "nat \<Rightarrow> bool" where
  "in_block_class c \<longleftrightarrow> c = 92 \<or> matches_letter 115 c"

definition match_block :: "ustr \<Rightarrow> ustr \<Rightarrow> ustr option" where
  "match_block tag s =
     (case after_word (60 # tag) s of
        None \<Rightarrow> None
      | Some rest \<Rightarrow> after_word (lit ''</'' @ tag @ [62]) (dropWhile in_block_class rest))"

lemma after_word_length: "after_word w s = Some r \<Longrightarrow> length r = length s - length w \<and> length w \<le> length s"
  by (auto simp: after_word_def split: if_splits)

lemma match_block_length:
  assumes "match_block tag s = Some r"
  shows "length r < length s"
proof -
  obtain rest where rest: "after_word (60 # tag) s = Some rest"
    "after_word (lit ''</'' @ tag @ [62]) (dropWhile in_block_class rest) = Some r"
    using assms by (auto simp: match_block_def split: option.splits)
  have "length rest < length s" using after_word_length [OF rest(1)] by simp linarith
  moreover have "length r \<le> length (dropWhile in_block_class rest)" using after_word_length [OF rest(2)] by simp
  ultimately show ?thesis using length_dropWhile_le [of in_block_class rest] by linarith
qed

function remove_blocks :: "ustr \<Rightarrow> ustr \<Rightarrow> ustr" where
  "remove_blocks tag [] = []"
| "remove_blocks tag (c # s) =
     (case match_block tag (c # s) of Some rest \<Rightarrow> 32 # remove_blocks tag rest | None \<Rightarrow> c # remove_blocks tag s)"
  by pat_completeness auto
termination by (relation "measure (length \<circ> snd)") (auto dest: match_block_length)

text \<open>Three and more line ends in a row become two.\<close>

function collapse_lines :: "ustr \<Rightarrow> ustr" where
  "collapse_lines [] = []"
| "collapse_lines (c # s) =
     (if c = 10 \<and> 2 \<le> length (takeWhile (\<lambda>x. x = 10) s)
      then 10 # 10 # collapse_lines (dropWhile (\<lambda>x. x = 10) s)
      else c # collapse_lines s)"
  by pat_completeness auto
termination by (relation "measure length") (auto simp: le_imp_less_Suc length_dropWhile_le)

definition extract_bulletin_body_text :: "page_lib \<Rightarrow> ustr \<Rightarrow> ustr" where
  "extract_bulletin_body_text pl bulletin_html =
     (let html = remove_blocks (lit ''script'') (remove_blocks (lit ''style'') bulletin_html)
      in strip (collapse_lines (join [10] (filter (\<lambda>t. t \<noteq> []) (map clean_text (pg_content pl html))))))"

text \<open>The group of a deadline pattern: the text that the given matcher covers after one of the labels.\<close>

definition colon :: "nat \<Rightarrow> bool" where
  "colon c \<longleftrightarrow> c = 58 \<or> c = 65306"

definition matched_text :: "(ustr \<Rightarrow> ustr option) \<Rightarrow> ustr \<Rightarrow> ustr option" where
  "matched_text m s = map_option (\<lambda>rest. take (length s - length rest) s) (m s)"

definition match_deadline :: "(ustr \<Rightarrow> ustr option) \<Rightarrow> ustr \<Rightarrow> ustr option" where
  "match_deadline m s =
     (let after_label = (\<lambda>label. case match_text label s of
            None \<Rightarrow> None | Some rest \<Rightarrow> matched_text m (dropWhile (\<lambda>c. colon c \<or> py_space c) rest))
      in case after_label zh_submit_response_deadline of
           Some t \<Rightarrow> Some t
         | None \<Rightarrow>
            (case after_label zh_submit_bid_deadline of Some t \<Rightarrow> Some t | None \<Rightarrow> after_label zh_deadline))"

definition match_chinese_minutes :: "ustr \<Rightarrow> ustr option" where
  "match_chinese_minutes s = map_option snd (match_chinese_date minute_marks s)"

text \<open>The end of \<open>[0-9]{1,2}\s*[0-9]{1,2}:[0-9]{2}\<close>, with k digits for the day.\<close>

definition match_day_time :: "nat \<Rightarrow> ustr \<Rightarrow> ustr option" where
  "match_day_time k s =
     (if k \<le> length (takeWhile ascii_digit s)
      then (case match_digits 1 2 58 (dropWhile py_space (drop k s)) of
              None \<Rightarrow> None
            | Some (_, rest) \<Rightarrow> if 2 \<le> length (takeWhile ascii_digit rest) then Some (drop 2 rest) else None)
      else None)"

definition match_iso_minutes :: "ustr \<Rightarrow> ustr option" where
  "match_iso_minutes s =
     (case match_digits 4 4 45 s of
        None \<Rightarrow> None
      | Some (_, rest) \<Rightarrow>
         (case match_digits 1 2 45 rest of
            None \<Rightarrow> None
          | Some (_, rest2) \<Rightarrow>
             (case match_day_time 2 rest2 of Some r \<Rightarrow> Some r | None \<Rightarrow> match_day_time 1 rest2)))"

definition extract_deadline :: "text_lib \<Rightarrow> ustr \<Rightarrow> instant option result" where
  "extract_deadline lib body =
     (let try_pattern = (\<lambda>m. parse_page_datetime lib (search_with (match_deadline m) body))
      in and_then (try_pattern match_chinese_minutes) (\<lambda>first_try.
           case first_try of Some i \<Rightarrow> Inr (Some i) | None \<Rightarrow> try_pattern match_iso_minutes))"

text \<open>\<open>[:\uff1a]\s*([0-9][0-9,\\.]*)(?:\s*(...))?\<close> after the label: the number, and whether its unit is ten thousand yuan.\<close>

definition match_budget :: "ustr \<Rightarrow> (ustr \<times> bool) option" where
  "match_budget s =
     (case match_text zh_budget_amount s of
        None \<Rightarrow> None
      | Some rest \<Rightarrow>
         if rest \<noteq> [] \<and> colon (hd rest)
         then (let r = dropWhile py_space (tl rest);
                   number = takeWhile (\<lambda>c. ascii_digit c \<or> c = 44 \<or> c = 92 \<or> c = 46) r
               in if r \<noteq> [] \<and> ascii_digit (hd r)
                  then Some (number, starts_with zh_ten_thousand_yuan (dropWhile py_space (drop (length number) r)))
                  else None)
         else None)"

definition in_unit :: "bool \<Rightarrow> decimal \<Rightarrow> decimal" where
  "in_unit ten_thousands d = (if ten_thousands then decimal_mult d 10000 else d)"

definition kv_get :: "(ustr \<times> ustr) list \<Rightarrow> ustr \<Rightarrow> ustr" where
  "kv_get kvs k = (case map_of kvs k of None \<Rightarrow> [] | Some v \<Rightarrow> v)"

definition extract_budget_amount :: "ustr \<Rightarrow> (ustr \<times> ustr) list \<Rightarrow> decimal option" where
  "extract_budget_amount body xmdj =
     (case (case search_with match_budget body of
              None \<Rightarrow> None | Some (number, wan) \<Rightarrow> map_option (in_unit wan) (parse_decimal number)) of
        Some v \<Rightarrow> Some v
      | None \<Rightarrow>
         (let raw = kv_get xmdj zh_budget_amount in map_option (in_unit (19975 \<in> set raw)) (parse_decimal raw)))"

text \<open>
  The end of the purchaser pattern: a colon, white space, and the rest of the line.  When nothing but white space
  is left, the group is one character of it that is no line end.
\<close>

definition line_end :: "nat \<Rightarrow> bool" where
  "line_end c \<longleftrightarrow> c = 10 \<or> c = 13"

definition match_name :: "ustr \<Rightarrow> ustr option" where
  "match_name s =
     (case match_text zh_name s of
        None \<Rightarrow> None
      | Some rest \<Rightarrow>
         if rest \<noteq> [] \<and> colon (hd rest)
         then (let spaces = takeWhile py_space (tl rest); r = dropWhile py_space (tl rest)
               in if r \<noteq> [] then Some (takeWhile (\<lambda>c. \<not> line_end c) r)
                  else if list_ex (\<lambda>c. \<not> line_end c) spaces then Some [32] else None)
         else None)"

text \<open>\<open>[\s\S]{0,n}?\<close> and then the name.\<close>

fun match_name_within :: "nat \<Rightarrow> ustr \<Rightarrow> ustr option" where
  "match_name_within n [] = match_name []"
| "match_name_within n (c # s) =
     (case match_name (c # s) of
        Some t \<Rightarrow> Some t | None \<Rightarrow> if n = 0 then None else match_name_within (n - 1) s)"

definition match_purchaser :: "ustr \<Rightarrow> ustr option" where
  "match_purchaser s =
     (case match_text zh_purchaser s of
        None \<Rightarrow> None
      | Some rest \<Rightarrow>
         (case (case match_text zh_information rest of None \<Rightarrow> None | Some r \<Rightarrow> match_name_within 120 r) of
            Some t \<Rightarrow> Some t | None \<Rightarrow> match_name_within 120 rest))"

definition extract_issuer :: "ustr \<Rightarrow> (ustr \<times> ustr) list \<Rightarrow> ustr option" where
  "extract_issuer body xmdj =
     (let issuer = kv_get xmdj zh_purchaser_name
      in if issuer \<noteq> [] then Some issuer else map_option clean_text (search_with match_purchaser body))"

definition page_region :: "ustr \<Rightarrow> (ustr \<times> ustr) list \<Rightarrow> ustr option" where
  "page_region list_item_title xmdj =
     (let region = kv_get xmdj zh_purchase_place
      in if region \<noteq> [] then Some region
         else (case search_region (clean_text list_item_title) of
                 None \<Rightarrow> None | Some t \<Rightarrow> text_or_none (clean_text t)))"

definition page_guid :: "text_lib \<Rightarrow> ustr \<Rightarrow> ustr option result" where
  "page_guid lib detail_url =
     and_then (extract_guid lib detail_url) (\<lambda>g. Inr (case g of None \<Rightarrow> None | Some t \<Rightarrow> text_or_none t))"

definition or_texts :: "ustr list \<Rightarrow> ustr" where
  "or_texts ts = (case filter (\<lambda>t. t \<noteq> []) ts of [] \<Rightarrow> [] | t # _ \<Rightarrow> t)"

definition opt_text :: "ustr option \<Rightarrow> ustr" where
  "opt_text v = (case v of None \<Rightarrow> [] | Some t \<Rightarrow> t)"

definition source_site_url :: ustr where
  "source_site_url = lit ''https://ggzy.ah.gov.cn''"

section \<open>A notice\<close>

record notice_request =
  rq_detail_url :: ustr
  rq_list_page_url :: ustr
  rq_list_item_title :: ustr
  rq_list_item_published_at :: "ustr option"

definition page_structured_data :: "page_lib \<Rightarrow> notice_request \<Rightarrow> (ustr \<times> ustr) list \<Rightarrow> ustr \<Rightarrow> ustr \<Rightarrow> payload" where
  "page_structured_data pl rq xmdj bulletin_html body =
     [(lit ''source_site_name'', VStr zh_anhui_site), (lit ''source_site_url'', VStr source_site_url),
      (lit ''list_page_url'', VStr (rq_list_page_url rq)), (lit ''detail_page_url'', VStr (rq_detail_url rq)),
      (lit ''list_item_title'', VStr (rq_list_item_title rq)),
      (lit ''xmdj_fields'', VDict [] (map (\<lambda>(k, v). (k, VStr v)) xmdj)),
      (lit ''bulletin_time_raw'', VStr (clean_text (opt_text (pg_time pl bulletin_html)))),
      (lit ''original_link'', optional_text (pg_original_link pl bulletin_html)), (lit ''content_text'', VStr body)]"

definition parse_notice :: "page_lib \<Rightarrow> notice_request \<Rightarrow> ustr \<Rightarrow> ustr \<Rightarrow> parsed_notice result" where
  "parse_notice pl rq xmdj_html bulletin_html =
     (let lib = pg_text pl;
          xmdj = table_kv_map (pg_rows pl xmdj_html);
          title = clean_text (or_texts [opt_text (pg_title pl bulletin_html), kv_get xmdj zh_purchase_name,
                    rq_list_item_title rq, rq_detail_url rq]);
          body = extract_bulletin_body_text pl bulletin_html
      in and_then (parse_page_datetime lib (Some (clean_text (opt_text (pg_time pl bulletin_html))))) (\<lambda>shown.
         and_then (case shown of Some i \<Rightarrow> Inr (Some i) | None \<Rightarrow> parse_page_datetime lib (rq_list_item_published_at rq))
           (\<lambda>published_at.
         and_then (extract_deadline lib body) (\<lambda>deadline_at.
         and_then (page_guid lib (rq_detail_url rq)) (\<lambda>external_id.
         and_then (extract_attachments pl (rq_detail_url rq) [] (pg_links pl bulletin_html)) (\<lambda>attachments.
           Inr \<lparr>pn_title = title, pn_notice_type = infer_notice_type title, pn_external_id = external_id,
             pn_project_code = map_of xmdj zh_project_code, pn_issuer = extract_issuer body xmdj,
             pn_region = page_region (rq_list_item_title rq) xmdj, pn_published_at = published_at,
             pn_deadline_at = deadline_at, pn_budget_amount = extract_budget_amount body xmdj,
             pn_budget_currency = lit ''CNY'', pn_summary = text_or_none (take 2000 body), pn_content_text = body,
             pn_source_site_name = zh_anhui_site, pn_source_site_url = source_site_url,
             pn_list_page_url = rq_list_page_url rq, pn_detail_page_url = rq_detail_url rq,
             pn_structured_data = page_structured_data pl rq xmdj bulletin_html body, pn_attachments = attachments\<rparr>))))))"

end
