(* ===== verification/AnhuiDetail.thy ===== *)
theory AnhuiDetail
  imports NoticePages
begin

text \<open>
  crawler/tender_crawler/spiders/anhui_ggzy_zfcg_spider.py: the requests of the spider, and the three callbacks that
  follow an item of a list page to its notice: the detail page, the project page and the bulletin.

  A callback is given its response and the arguments of its request (\<open>detail_args\<close>).  It returns the items it
  yields, the form data of the request it yields, if any, and the exception that ends it, if any.
\<close>

section \<open>Requests\<close>

definition list_query :: "anhui_spider \<Rightarrow> int \<Rightarrow> (ustr \<times> ustr) list" where
  "list_query sp page =
     [(lit ''bulletinNature'', sp_bulletin_nature sp)] @
     (case sp_time_filter sp of None \<Rightarrow> [] | Some t \<Rightarrow> [(lit ''time'', t)]) @
     (if 1 < page then [(lit ''currentPage'', show_int page)] else [])"

definition build_list_url :: "anhui_spider \<Rightarrow> int \<Rightarrow> ustr" where
  "build_list_url sp page = lit ''https://ggzy.ah.gov.cn/zfcg/list?'' @ urlencode (list_query sp page)"

definition build_list_formdata :: "anhui_spider \<Rightarrow> int \<Rightarrow> (ustr \<times> ustr) list" where
  "build_list_formdata sp page =
     [(lit ''currentPage'', show_int page), (lit ''bulletinNature'', sp_bulletin_nature sp)] @
     (case sp_time_filter sp of None \<Rightarrow> [] | Some t \<Rightarrow> [(lit ''time'', t)])"

definition sub_formdata :: "anhui_spider \<Rightarrow> string \<Rightarrow> ustr \<Rightarrow> (ustr \<times> ustr) list" where
  "sub_formdata sp kind guid =
     [(lit ''type'', lit kind), (lit ''bulletinNature'', sp_bulletin_nature sp), (lit ''guid'', guid),
      (lit ''statusGuid'', [])]"

section \<open>Items\<close>

text \<open>A response of a callback: its address, its text and what the raw items take from it.\<close>

record page_answer =
  pa_url :: ustr
  pa_text :: ustr
  pa_response :: page_response

record detail_args =
  da_list_page_url :: ustr
  da_title :: ustr
  da_published_at :: "ustr option"
  da_region :: "ustr option"
  da_notice_type :: "ustr option"
  da_fingerprint :: "ustr option"
  da_source_duplicate_key :: "ustr option"

definition args_of_item :: "ustr \<Rightarrow> list_item_candidate \<Rightarrow> detail_args" where
  "args_of_item list_page_url c =
     \<lparr>da_list_page_url = list_page_url, da_title = lc_title c, da_published_at = lc_published_at c,
      da_region = lc_region c, da_notice_type = Some (lc_notice_type c), da_fingerprint = Some (lc_fingerprint c),
      da_source_duplicate_key = Some (lc_source_duplicate_key c)\<rparr>"

definition build_error_item ::
    "anhui_spider \<Rightarrow> instant \<Rightarrow> string \<Rightarrow> ustr \<Rightarrow> ustr \<Rightarrow> ustr \<Rightarrow> bool \<Rightarrow> payload" where
  "build_error_item sp now stage url error_type error_message retryable =
     [(lit ''item_type'', VStr (lit ''crawl_error'')), (lit ''source_code'', VStr anhui_source_code),
      (lit ''crawl_job_id'', opt_int (sp_job_id sp)), (lit ''stage'', VStr (lit stage)), (lit ''url'', VStr url),
      (lit ''error_type'', VStr error_type), (lit ''error_message'', VStr error_message), (lit ''traceback'', VStr []),
      (lit ''retryable'', VBool retryable), (lit ''occurred_at'', VStr (isoformat now))]"

text \<open>The class and the text of an exception; what the parser raises is a ValueError.\<close>

definition error_class :: "pyerror \<Rightarrow> ustr" where
  "error_class e =
     (case e of
        ValueError _ \<Rightarrow> lit ''ValueError''
      | TypeError _ \<Rightarrow> lit ''TypeError''
      | RuntimeError _ \<Rightarrow> lit ''RuntimeError''
      | OverflowError \<Rightarrow> lit ''OverflowError''
      | InvalidOperation \<Rightarrow> lit ''InvalidOperation''
      | _ \<Rightarrow> lit ''Exception'')"

definition error_message :: "pyerror \<Rightarrow> ustr" where
  "error_message e = (case e of ValueError t \<Rightarrow> t | TypeError t \<Rightarrow> t | RuntimeError t \<Rightarrow> t | _ \<Rightarrow> [])"

text \<open>The item for a list page that could not be read.\<close>

definition list_error_item :: "anhui_spider \<Rightarrow> instant \<Rightarrow> ustr \<Rightarrow> pyerror \<Rightarrow> payload" where
  "list_error_item sp now url e =
     build_error_item sp now ''parse'' url (error_class e) (lit ''parse list failed: '' @ error_message e) True"

type_synonym detail_outcome = "payload list \<times> (ustr \<times> ustr) list option \<times> pyerror option"

definition item_then :: "payload result \<Rightarrow> (payload \<Rightarrow> detail_outcome) \<Rightarrow> detail_outcome" where
  "item_then r f = (case r of Inl e \<Rightarrow> ([], None, Some e) | Inr item \<Rightarrow> f item)"

section \<open>The detail page and the project page\<close>

definition parse_detail :: "text_lib \<Rightarrow> anhui_spider \<Rightarrow> instant \<Rightarrow> page_answer \<Rightarrow> detail_args \<Rightarrow> detail_outcome" where
  "parse_detail lib sp now answer a =
     (case extract_guid lib (pa_url answer) of
        Inl e \<Rightarrow> ([], None, Some e)
      | Inr found \<Rightarrow>
         if opt_text found = []
         then ([build_error_item sp now ''parse'' (pa_url answer) (lit ''MissingGuid'')
                  (lit ''detail url missing guid query parameter'') False], None, None)
         else item_then
           (build_raw_item lib sp (pa_response answer) (pa_text answer) (pa_url answer) ''detail''
              [(lit ''list_page_url'', VStr (da_list_page_url a)), (lit ''detail_page_url'', VStr (pa_url answer)),
               (lit ''guid'', VStr (opt_text found)), (lit ''list_item_title'', VStr (da_title a)),
               (lit ''published_at'', optional_text (da_published_at a)), (lit ''region'', optional_text (da_region a)),
               (lit ''notice_type'', optional_text (da_notice_type a))]
              (da_source_duplicate_key a) (da_fingerprint a))
           (\<lambda>item. ([item], Some (sub_formdata sp ''xmdj'' (opt_text found)), None)))"

definition sub_meta :: "ustr \<Rightarrow> ustr \<Rightarrow> detail_args \<Rightarrow> payload" where
  "sub_meta guid detail_url a =
     [(lit ''guid'', VStr guid), (lit ''detail_page_url'', VStr detail_url),
      (lit ''list_page_url'', VStr (da_list_page_url a))]"

definition parse_xmdj ::
    "text_lib \<Rightarrow> anhui_spider \<Rightarrow> page_answer \<Rightarrow> ustr \<Rightarrow> ustr \<Rightarrow> detail_args \<Rightarrow> detail_outcome" where
  "parse_xmdj lib sp answer guid detail_url a =
     item_then
       (build_raw_item lib sp (pa_response answer) (pa_text answer) (detail_url @ lit ''&subType=xmdj'') ''detail_sub_xmdj''
          (sub_meta guid detail_url a) (da_source_duplicate_key a) (da_fingerprint a))
       (\<lambda>item. ([item], Some (sub_formdata sp ''bulletin'' guid), None))"

section \<open>The bulletin\<close>

text \<open>What the notice and its version share.\<close>

record bulletin_keys =
  bk_hash :: ustr
  bk_dedup_key :: ustr
  bk_source_duplicate_key :: ustr
  bk_notice_type :: "ustr option"
  bk_region :: "ustr option"
  bk_published_at :: "ustr option"
  bk_content_hash :: ustr

definition text_or_else :: "ustr option \<Rightarrow> ustr option \<Rightarrow> ustr option" where
  "text_or_else a b = (if opt_text a = [] then b else a)"

text \<open>\<open>str(parsed.published_at)\<close> is not needed: a datetime is read by its value.\<close>

definition parsed_date_value :: "parsed_notice \<Rightarrow> detail_args \<Rightarrow> pyval" where
  "parsed_date_value p a =
     (case pn_published_at p of Some i \<Rightarrow> VTime [] i | None \<Rightarrow> optional_text (text_or_else (da_published_at a) None))"

definition amount_arg :: "parsed_notice \<Rightarrow> pyval" where
  "amount_arg p = (case pn_budget_amount p of None \<Rightarrow> VNone | Some d \<Rightarrow> VOther (decimal_text d))"

definition key_fields_of :: "parsed_notice \<Rightarrow> ustr option \<Rightarrow> ustr option \<Rightarrow> ustr \<Rightarrow> ustr \<Rightarrow> key_fields" where
  "key_fields_of p published_date region detail_url guid =
     \<lparr>kf_title = VStr (pn_title p), kf_published_at = optional_text published_date, kf_purchaser = VNone,
      kf_publisher = optional_text (pn_issuer p), kf_budget_amount = amount_arg p, kf_region = optional_text region,
      kf_detail_url = VStr detail_url, kf_detail_id = VStr guid\<rparr>"

definition bulletin_keys_of ::
    "text_lib \<Rightarrow> parsed_notice \<Rightarrow> detail_args \<Rightarrow> ustr \<Rightarrow> ustr \<Rightarrow> ustr \<Rightarrow> bulletin_keys result" where
  "bulletin_keys_of lib p a guid detail_url bulletin_html =
     and_then (case parsed_date_value p a of VNone \<Rightarrow> Inr None | v \<Rightarrow> normalize_published_date lib v) (\<lambda>date.
     and_then (case pn_published_at p of
                 Some i \<Rightarrow> Inr (Some (isoformat i))
               | None \<Rightarrow> and_then (normalize_published_date lib (optional_text date)) (\<lambda>d.
                   Inr (map_option (\<lambda>t. t @ lit ''T00:00:00+00:00'') d))) (\<lambda>published_at.
       (let region = text_or_else (pn_region p) (da_region a);
            notice_type = text_or_else (Some (pn_notice_type p)) (da_notice_type a);
            f = key_fields_of p date region detail_url guid
        in and_then (case text_or_else (da_source_duplicate_key a) None of
                       Some k \<Rightarrow> Inr k
                     | None \<Rightarrow> build_source_duplicate_key lib (VStr anhui_source_code) (optional_text notice_type)
                                 (optional_text (pn_issuer p)) (f\<lparr>kf_publisher := VNone\<rparr>)) (\<lambda>source_duplicate_key.
           and_then (build_persistence_dedup_key lib f) (\<lambda>dedup_key.
           and_then (normalize_url lib detail_url) (\<lambda>normalized.
             Inr \<lparr>bk_hash = tl_sha256 lib (join (lit ''|'')
                    [anhui_source_code, opt_text (pn_external_id p), pn_title p, normalized]),
                  bk_dedup_key = dedup_key, bk_source_duplicate_key = source_duplicate_key,
                  bk_notice_type = notice_type, bk_region = region, bk_published_at = published_at,
                  bk_content_hash = tl_sha256 lib bulletin_html\<rparr>))))))"

definition page_fields :: "parsed_notice \<Rightarrow> payload" where
  "page_fields p =
     [(lit ''source_site_name'', VStr (pn_source_site_name p)), (lit ''source_site_url'', VStr (pn_source_site_url p)),
      (lit ''list_page_url'', VStr (pn_list_page_url p)), (lit ''detail_page_url'', VStr (pn_detail_page_url p)),
      (lit ''content_text'', VStr (pn_content_text p))]"

definition notice_fields :: "parsed_notice \<Rightarrow> bulletin_keys \<Rightarrow> payload" where
  "notice_fields p k =
     [(lit ''title'', VStr (pn_title p)), (lit ''notice_type'', optional_text (bk_notice_type k)),
      (lit ''issuer'', optional_text (pn_issuer p)), (lit ''region'', optional_text (bk_region k)),
      (lit ''published_at'', optional_text (bk_published_at k)),
      (lit ''deadline_at'', (case pn_deadline_at p of None \<Rightarrow> VNone | Some i \<Rightarrow> VStr (isoformat i))),
      (lit ''budget_amount'', (case pn_budget_amount p of None \<Rightarrow> VNone | Some d \<Rightarrow> VStr (decimal_text d))),
      (lit ''budget_currency'', VStr (pn_budget_currency p))]"

definition item_head :: "anhui_spider \<Rightarrow> string \<Rightarrow> payload" where
  "item_head sp kind =
     [(lit ''item_type'', VStr (lit kind)), (lit ''source_code'', VStr anhui_source_code),
      (lit ''crawl_job_id'', opt_int (sp_job_id sp))]"

definition key_items :: "detail_args \<Rightarrow> bulletin_keys \<Rightarrow> payload" where
  "key_items a k =
     [(lit ''dedup_key'', VStr (bk_dedup_key k)), (lit ''source_duplicate_key'', VStr (bk_source_duplicate_key k)),
      (lit ''source_list_item_fingerprint'', optional_text (da_fingerprint a))]"

definition notice_item :: "anhui_spider \<Rightarrow> detail_args \<Rightarrow> ustr \<Rightarrow> parsed_notice \<Rightarrow> bulletin_keys \<Rightarrow> payload" where
  "notice_item sp a detail_url p k =
     item_head sp ''tender_notice'' @
     [(lit ''external_id'', optional_text (pn_external_id p)), (lit ''project_code'', optional_text (pn_project_code p)),
      (lit ''dedup_hash'', VStr (bk_hash k))] @ key_items a k @ notice_fields p k @
     [(lit ''summary'', optional_text (pn_summary p))] @ page_fields p @
     [(lit ''source_url'', VStr detail_url), (lit ''raw_content_hash'', VStr (bk_content_hash k))]"

definition version_item ::
    "anhui_spider \<Rightarrow> detail_args \<Rightarrow> ustr \<Rightarrow> parsed_notice \<Rightarrow> bulletin_keys \<Rightarrow> payload" where
  "version_item sp a raw_url_hash p k =
     item_head sp ''notice_version'' @
     [(lit ''notice_dedup_hash'', VStr (bk_hash k)), (lit ''notice_external_id'', optional_text (pn_external_id p))] @
     key_items a k @
     [(lit ''version_no'', VInt 1), (lit ''is_current'', VBool True), (lit ''content_hash'', VStr (bk_content_hash k))] @
     notice_fields p k @ page_fields p @
     [(lit ''structured_data'', VDict [] (pn_structured_data p)), (lit ''change_summary'', VNone),
      (lit ''raw_document_url_hash'', VStr raw_url_hash)]"

definition attachment_item ::
    "page_lib \<Rightarrow> anhui_spider \<Rightarrow> ustr \<Rightarrow> ustr \<Rightarrow> parsed_notice \<Rightarrow> bulletin_keys \<Rightarrow> parsed_attachment \<Rightarrow> payload result" where
  "attachment_item pl sp response_url detail_url p k x =
     and_then (pg_join pl response_url (at_file_url x)) (\<lambda>file_url.
       (let file_name = or_texts [at_file_name x, after_last 47 file_url, lit ''attachment'']
        in and_then (normalize_url (pg_text pl) file_url) (\<lambda>normalized.
             Inr (item_head sp ''tender_attachment'' @
               [(lit ''notice_dedup_hash'', VStr (bk_hash k)),
                (lit ''notice_external_id'', optional_text (pn_external_id p)), (lit ''notice_version_no'', VNone),
                (lit ''file_name'', VStr file_name), (lit ''attachment_type'', VStr (at_attachment_type x)),
                (lit ''file_url'', VStr file_url), (lit ''url_hash'', VStr (tl_sha256 (pg_text pl) normalized)),
                (lit ''file_hash'', VNone), (lit ''storage_uri'', VNone),
                (lit ''mime_type'', optional_text (at_mime_type x)),
                (lit ''file_ext'', (if 46 \<in> set file_name then VStr (after_last 46 file_name) else VNone)),
                (lit ''file_size_bytes'', VNone), (lit ''published_at'', optional_text (bk_published_at k)),
                (lit ''source_url'', VStr detail_url)]))))"

text \<open>The items are yielded one by one: those before an exception have been.\<close>

fun attachment_items ::
    "page_lib \<Rightarrow> anhui_spider \<Rightarrow> ustr \<Rightarrow> ustr \<Rightarrow> parsed_notice \<Rightarrow> bulletin_keys \<Rightarrow> parsed_attachment list \<Rightarrow> detail_outcome" where
  "attachment_items pl sp response_url detail_url p k [] = ([], None, None)"
| "attachment_items pl sp response_url detail_url p k (x # xs) =
     item_then (attachment_item pl sp response_url detail_url p k x) (\<lambda>item.
       case attachment_items pl sp response_url detail_url p k xs of (items, r, e) \<Rightarrow> (item # items, r, e))"

definition after_items :: "payload list \<Rightarrow> detail_outcome \<Rightarrow> detail_outcome" where
  "after_items items r = (items @ fst r, snd r)"

definition bulletin_notice_items ::
    "page_lib \<Rightarrow> anhui_spider \<Rightarrow> page_answer \<Rightarrow> ustr \<Rightarrow> ustr \<Rightarrow> ustr \<Rightarrow> detail_args \<Rightarrow> parsed_notice \<Rightarrow> detail_outcome" where
  "bulletin_notice_items pl sp answer guid detail_url bulletin_url a p =
     (case bulletin_keys_of (pg_text pl) p a guid detail_url (pa_text answer) of
        Inl e \<Rightarrow> ([], None, Some e)
      | Inr k \<Rightarrow>
          after_items [notice_item sp a detail_url p k]
            (item_then (and_then (normalize_url (pg_text pl) bulletin_url) (\<lambda>n.
                          Inr (version_item sp a (tl_sha256 (pg_text pl) n) p k))) (\<lambda>version.
               after_items [version] (attachment_items pl sp (pa_url answer) detail_url p k (pn_attachments p)))))"

definition parse_bulletin ::
    "page_lib \<Rightarrow> anhui_spider \<Rightarrow> instant \<Rightarrow> page_answer \<Rightarrow> ustr \<Rightarrow> ustr \<Rightarrow> ustr \<Rightarrow> detail_args \<Rightarrow> detail_outcome" where
  "parse_bulletin pl sp now answer guid detail_url xmdj_html a =
     (let bulletin_url = detail_url @ lit ''&subType=bulletin'';
          rq = \<lparr>rq_detail_url = detail_url, rq_list_page_url = da_list_page_url a, rq_list_item_title = da_title a,
                rq_list_item_published_at = da_published_at a\<rparr>
      in item_then
           (build_raw_item (pg_text pl) sp (pa_response answer) (pa_text answer) bulletin_url ''detail_sub_bulletin''
              (sub_meta guid detail_url a) (da_source_duplicate_key a) (da_fingerprint a))
           (\<lambda>raw. after_items [raw]
              (case parse_notice pl rq xmdj_html (pa_text answer) of
                 Inl e \<Rightarrow> ([build_error_item sp now ''parse'' detail_url (error_class e) (error_message e) False], None, None)
               | Inr p \<Rightarrow> bulletin_notice_items pl sp answer guid detail_url bulletin_url a p)))"

end
