(* ===== verification/DetailFacts.thy ===== *)
theory DetailFacts
  imports AnhuiDetail DedupFacts Writer
begin

text \<open>
  How the items of a bulletin fit together in the database, what the clean-up of a bulletin leaves, and which
  attachments a page gives.
\<close>

section \<open>The document of a version\<close>

text \<open>The link that normalize_url makes of a link, with the given query parameters.\<close>

definition normal_parts :: "url_parts \<Rightarrow> (ustr \<times> ustr) list \<Rightarrow> url_parts" where
  "normal_parts p kvs =
     \<lparr>up_scheme = py_lower (up_scheme p), up_netloc = py_lower (up_netloc p),
      up_path = (if up_path p = [] then lit ''/'' else up_path p), up_query = urlencode kvs, up_fragment = []\<rparr>"

lemma web_normal_parts:
  assumes "web_url p" "list_all scalar_pair kvs"
  shows "web_url (normal_parts p kvs)"
proof -
  have "url_char 47" by (simp add: url_char_def py_space_def space_points_def scalar_def)
  then show ?thesis
    using assms lower_scheme [OF assms(1)] lower_netloc [OF assms(1)] urlencode_chars [OF assms(2)]
    by (auto simp: normal_parts_def web_url_def list_all_iff lit_def)
qed

lemma params_scalar: "web_url p \<Longrightarrow> list_all scalar_pair (parse_qsl True (up_query p))"
  using parse_qsl_scalar [of "up_query p" True] by (auto simp: web_url_def list_all_iff url_char_def)

lemma normalize_url_web:
  assumes "lowers_ascii lib" "web_url p"
  shows "normalize_url lib (urlunsplit p) = Inr (urlunsplit (normal_parts p (sort (parse_qsl True (up_query p)))))"
  using assms(1) web_url_small [OF assms(2)] py_lower_small
  by (simp add: normalize_url_def split_url_web [OF assms(2)] normal_parts_def py_lower_twice lowers_ascii_def)

lemma normal_parts_canonical:
  assumes "web_url p" "list_all scalar_pair kvs" "sorted kvs"
  shows "canonical_parts lib (normal_parts p kvs) = normal_parts p (filter (\<lambda>kv. \<not> irrelevant_param lib (fst kv)) kvs)"
  using web_url_small [OF assms(1)] assms(3)
  by (simp add: canonical_parts_def normal_parts_def relevant_params_def parse_qsl_urlencode [OF assms(2)] py_lower_twice
      lit_def sort_key_id_if_sorted sorted_wrt_filter)

lemma normal_parts_eq_iff:
  assumes "web_url p" "list_all scalar_pair kvs" "list_all scalar_pair lvs"
  shows "urlunsplit (normal_parts p kvs) = urlunsplit (normal_parts p lvs) \<longleftrightarrow> kvs = lvs"
proof
  assume "urlunsplit (normal_parts p kvs) = urlunsplit (normal_parts p lvs)"
  from urlunsplit_inj [OF web_normal_parts [OF assms(1,2)] web_normal_parts [OF assms(1,3)] this]
  have "urlencode kvs = urlencode lvs" by (simp add: normal_parts_def)
  then show "kvs = lvs" using parse_qsl_urlencode assms(2,3) by metis
qed simp

text \<open>The two normal forms of a link differ exactly when it has a query parameter for tracking.\<close>

lemma detail_form_of_normal_form:
  assumes "lowers_ascii lib" "web_url p" "normalize_url lib (urlunsplit p) = Inr n"
  obtains m where "n \<noteq> []" "normalize_detail_url lib (VStr n) = Inr (Some m)"
    "m = n \<longleftrightarrow> (\<forall>kv \<in> set (parse_qsl True (up_query p)). \<not> irrelevant_param lib (fst kv))"
proof -
  let ?kvs = "sort (parse_qsl True (up_query p))"
  let ?rel = "filter (\<lambda>kv. \<not> irrelevant_param lib (fst kv)) ?kvs"
  have kvs: "list_all scalar_pair ?kvs" using params_scalar [OF assms(2)] by (simp add: list_all_iff)
  then have rel: "list_all scalar_pair ?rel" by (simp add: list_all_iff)
  have n: "n = urlunsplit (normal_parts p ?kvs)" using assms(3) normalize_url_web [OF assms(1,2)] by simp
  note web = web_normal_parts [OF assms(2) kvs]
  have "normalize_detail_url lib (VStr n) = Inr (Some (urlunsplit (normal_parts p ?rel)))"
    unfolding n using detail_url_canonical [OF assms(1) web] normal_parts_canonical [OF assms(2) kvs] by simp
  moreover have "urlunsplit (normal_parts p ?rel) = n \<longleftrightarrow>
      (\<forall>kv \<in> set (parse_qsl True (up_query p)). \<not> irrelevant_param lib (fst kv))"
    unfolding n normal_parts_eq_iff [OF assms(2) rel kvs] by (simp add: filter_id_conv)
  moreover have "n \<noteq> []" using urlunsplit_web [OF web] n by simp
  ultimately show thesis using that by blast
qed

lemma raw_item_normalized:
  assumes "build_raw_item lib sp r html url role meta key fp = Inr raw"
  obtains n where "normalize_url lib url = Inr n" "dict_get raw (lit ''normalized_url'') = VStr n"
  using assms
  by (auto simp: build_raw_item_def and_then_def dict_get_def split: sum.splits)

lemma stored_url_hash:
  assumes "normalize_raw_document_item lib raw = Inr stored" "dict_get raw (lit ''normalized_url'') = VStr n" "n \<noteq> []"
    "normalize_detail_url lib (VStr n) = Inr (Some m)"
  shows "dict_get stored (lit ''url_hash'') = VStr (tl_sha256 lib m)"
proof -
  have "get2 lib raw ''normalized_url'' ''url'' = VStr n" using assms(2,3) by (simp add: get2_def py_or_def)
  then show ?thesis
    using assms(1,4)
    by (auto simp: normalize_raw_document_item_def Let_def and_then_def dict_get_put optional_text_def
        split: sum.splits if_splits)
qed

lemma bulletin_items:
  assumes "parse_bulletin pl sp now answer guid detail_url xmdj_html a = (raw # notice # version # more_items, r, e)"
  obtains n k p where "normalize_url (pg_text pl) (detail_url @ lit ''&subType=bulletin'') = Inr n"
    "dict_get raw (lit ''normalized_url'') = VStr n"
    "version = version_item sp a (tl_sha256 (pg_text pl) n) p k"
proof -
  let ?url = "detail_url @ lit ''&subType=bulletin''"
  let ?raw = "build_raw_item (pg_text pl) sp (pa_response answer) (pa_text answer) ?url ''detail_sub_bulletin''
    (sub_meta guid detail_url a) (da_source_duplicate_key a) (da_fingerprint a)"
  obtain raw' where raw': "?raw = Inr raw'"
    using assms by (cases ?raw) (auto simp: parse_bulletin_def Let_def item_then_def)
  obtain rq p where "parse_notice pl rq xmdj_html (pa_text answer) = Inr p"
    and items: "fst (bulletin_notice_items pl sp answer guid detail_url ?url a p) = notice # version # more_items"
    and raw: "raw = raw'"
    using assms by (auto simp: parse_bulletin_def Let_def item_then_def raw' after_items_def split: sum.splits)
  obtain k where k: "bulletin_keys_of (pg_text pl) p a guid detail_url (pa_text answer) = Inr k"
    using items by (cases "bulletin_keys_of (pg_text pl) p a guid detail_url (pa_text answer)")
      (auto simp: bulletin_notice_items_def)
  obtain n where n: "normalize_url (pg_text pl) ?url = Inr n" "dict_get raw (lit ''normalized_url'') = VStr n"
    using raw_item_normalized [OF raw'] raw by blast
  then have "version = version_item sp a (tl_sha256 (pg_text pl) n) p k"
    using items by (auto simp: bulletin_notice_items_def k item_then_def after_items_def)
  with n show thesis by (rule that)
qed

lemma version_item_document: "dict_get (version_item sp a h p k) (lit ''raw_document_url_hash'') = VStr h"
  by (simp add: version_item_def dict_get_def item_head_def key_items_def notice_fields_def page_fields_def)

text \<open>
C29. A version finds the document it was read from only when its link has no query parameter for tracking: the
spider names the document by the digest of the normalized link, the writer stores it under the digest of the link
without such parameters. The two digests agree when the bulletin link has none of them, and when they agree it has
none, unless the digest has a collision.\<close>

theorem document_is_found_iff_no_tracking:
  assumes "lowers_ascii (pg_text pl)" "web_url p" "detail_url @ lit ''&subType=bulletin'' = urlunsplit p"
    "parse_bulletin pl sp now answer guid detail_url xmdj_html a = (raw # notice # version # more_items, r, e)"
    "normalize_raw_document_item (pg_text pl) raw = Inr stored"
  shows "let plain = (\<forall>kv \<in> set (parse_qsl True (up_query p)). \<not> irrelevant_param (pg_text pl) (fst kv));
      same = (field version ''raw_document_url_hash'' = field stored ''url_hash'')
    in (plain \<longrightarrow> same) \<and> (same \<longrightarrow> plain \<or> (\<exists>x y. x \<noteq> y \<and> tl_sha256 (pg_text pl) x = tl_sha256 (pg_text pl) y))"
proof -
  obtain n k q where n: "normalize_url (pg_text pl) (urlunsplit p) = Inr n"
    "dict_get raw (lit ''normalized_url'') = VStr n" "version = version_item sp a (tl_sha256 (pg_text pl) n) q k"
    using bulletin_items [OF assms(4)] unfolding assms(3) by blast
  obtain m where m: "n \<noteq> []" "normalize_detail_url (pg_text pl) (VStr n) = Inr (Some m)"
    "m = n \<longleftrightarrow> (\<forall>kv \<in> set (parse_qsl True (up_query p)). \<not> irrelevant_param (pg_text pl) (fst kv))"
    using detail_form_of_normal_form [OF assms(1,2) n(1)] by blast
  have "field stored ''url_hash'' = VStr (tl_sha256 (pg_text pl) m)"
    by (rule stored_url_hash [OF assms(5) n(2) m(1,2)])
  moreover have "field version ''raw_document_url_hash'' = VStr (tl_sha256 (pg_text pl) n)"
    unfolding n(3) by (rule version_item_document)
  ultimately show ?thesis unfolding Let_def using m(3) by (metis pyval.inject(3))
qed

definition sample_page_lib :: page_lib where
  "sample_page_lib =
     \<lparr>pg_text = sample_lib, pg_rows = (\<lambda>_. []), pg_title = (\<lambda>_. Some (lit ''T'')), pg_time = (\<lambda>_. None),
      pg_original_link = (\<lambda>_. None), pg_content = (\<lambda>_. []), pg_links = (\<lambda>_. []), pg_join = (\<lambda>_ href. Inr href),
      pg_mime = (\<lambda>_. None)\<rparr>"

definition tracked_link :: url_parts where
  "tracked_link = \<lparr>up_scheme = lit ''https'', up_netloc = lit ''a.cn'', up_path = lit ''/d'',
     up_query = lit ''guid=1&ref=x&subType=bulletin'', up_fragment = []\<rparr>"

definition sample_bulletin :: "detail_outcome" where
  "sample_bulletin =
     parse_bulletin sample_page_lib
       \<lparr>sp_job_id = Some 7, sp_max_pages = Some 2, sp_bulletin_nature = lit ''1'', sp_backfill_year = None,
        sp_time_filter = Some (lit ''1''), sp_threshold = 3, sp_dedup_within_run = True, sp_seen_fingerprints = [],
        sp_seen_pages = [], sp_pages_scraped = 0, sp_items_seen = 0, sp_items_unique = 0, sp_duplicates_skipped = 0,
        sp_no_new_pages = 0, sp_first_date = None, sp_last_date = None\<rparr>
       0 \<lparr>pa_url = lit ''https://a.cn/d'', pa_text = [],
          pa_response = \<lparr>pr_status = 200, pr_mime_type = [], pr_charset = [], pr_title = None, pr_fetched_at = 0\<rparr>\<rparr>
       (lit ''1'') (lit ''https://a.cn/d?guid=1&ref=x'') []
       \<lparr>da_list_page_url = [], da_title = lit ''T'', da_published_at = None, da_region = None, da_notice_type = None,
        da_fingerprint = None, da_source_duplicate_key = Some (lit ''k'')\<rparr>"

lemma sample_bulletin_items: "length (fst sample_bulletin) = 3"
  by code_simp


definition sample_stored :: payload where
  "sample_stored = (case normalize_raw_document_item sample_lib (fst sample_bulletin ! 0) of Inr stored \<Rightarrow> stored | Inl _ \<Rightarrow> [])"

lemma sample_stored_normalized: "normalize_raw_document_item sample_lib (fst sample_bulletin ! 0) = Inr sample_stored"
proof -
  have "isl (normalize_raw_document_item sample_lib (fst sample_bulletin ! 0)) = False" by code_simp
  then show ?thesis
    by (cases "normalize_raw_document_item sample_lib (fst sample_bulletin ! 0)") (simp_all add: sample_stored_def)
qed

lemma document_is_found_iff_no_tracking_witness:
  "field (fst sample_bulletin ! 2) ''raw_document_url_hash'' \<noteq> field sample_stored ''url_hash''"
proof -
  obtain raw notice version where items: "fst sample_bulletin = [raw, notice, version]"
    using sample_bulletin_items by (auto simp: length_Suc_conv numeral_3_eq_3)
  obtain r e where "sample_bulletin = (raw # notice # version # [], r, e)" using items by (metis prod.collapse)
  note parsed = this [unfolded sample_bulletin_def]
  have lib: "pg_text sample_page_lib = sample_lib" by (simp add: sample_page_lib_def)
  have stored: "normalize_raw_document_item (pg_text sample_page_lib) raw = Inr sample_stored"
    using sample_stored_normalized by (simp add: items lib)
  have "lowers_ascii (pg_text sample_page_lib)" by (simp add: lib lowers_ascii_def sample_lib_def)
  moreover have "web_url tracked_link" by code_simp
  moreover have "lit ''https://a.cn/d?guid=1&ref=x'' @ lit ''&subType=bulletin'' = urlunsplit tracked_link" by code_simp
  ultimately have "let plain = (\<forall>kv \<in> set (parse_qsl True (up_query tracked_link)). \<not> irrelevant_param (pg_text sample_page_lib) (fst kv));
      same = (field version ''raw_document_url_hash'' = field sample_stored ''url_hash'')
    in (plain \<longrightarrow> same) \<and>
      (same \<longrightarrow> plain \<or> (\<exists>x y. x \<noteq> y \<and> tl_sha256 (pg_text sample_page_lib) x = tl_sha256 (pg_text sample_page_lib) y))"
    using document_is_found_iff_no_tracking parsed stored by blast
  moreover have "list_ex (\<lambda>kv. irrelevant_param sample_lib (fst kv)) (parse_qsl True (up_query tracked_link))" by code_simp
  moreover have "tl_sha256 sample_lib = (\<lambda>s. s)" by (simp add: sample_lib_def)
  ultimately show ?thesis by (auto simp: items lib Let_def list_ex_iff)
qed

section \<open>What the clean-up of a bulletin leaves\<close>

text \<open>
  In a well-formed page the name of an element is followed by white space, a slash or the end of the tag. The clean-up
  leaves such a page as it is: the style sheets and scripts it is meant to remove stay.
\<close>

definition well_formed_tags :: "ustr \<Rightarrow> ustr \<Rightarrow> bool" where
  "well_formed_tags tag html \<longleftrightarrow>
     (\<forall>u v rest. html = u @ v \<and> after_word (60 # tag) v = Some rest \<longrightarrow>
        rest \<noteq> [] \<and> (hd rest = 62 \<or> hd rest = 47 \<or> py_space (hd rest)))"

lemma match_block_well_formed:
  assumes "well_formed_tags tag html" "html = u @ v"
  shows "match_block tag v = None"
proof (cases "after_word (60 # tag) v")
  case None
  then show ?thesis by (simp add: match_block_def)
next
  case (Some rest)
  then obtain c r where rest: "rest = c # r" "c = 62 \<or> c = 47 \<or> py_space c"
    using assms unfolding well_formed_tags_def by (metis list.exhaust_sel)
  then have "\<not> in_block_class c" "c \<noteq> 60"
    by (auto simp: in_block_class_def matches_letter_def py_space_def space_points_def)
  moreover have "after_word (lit ''</'' @ tag @ [62]) (c # r) = None" if "c \<noteq> 60"
    using that by (simp add: after_word_def matches_letter_def lit_def)
  ultimately show ?thesis by (simp add: match_block_def Some rest(1))
qed

lemma remove_blocks_well_formed: "well_formed_tags tag html \<Longrightarrow> remove_blocks tag html = html"
proof (induction html)
  case (Cons c s)
  have "match_block tag (c # s) = None" using match_block_well_formed [OF Cons.prems, of "[]" "c # s"] by simp
  moreover have "well_formed_tags tag s" using Cons.prems unfolding well_formed_tags_def by (metis append_Cons)
  ultimately show ?case using Cons.IH by simp
qed simp

lemma style_elements_are_kept:
  assumes "well_formed_tags (lit ''style'') html" "well_formed_tags (lit ''script'') html"
  shows "extract_bulletin_body_text pl html =
    strip (collapse_lines (join [10] (filter (\<lambda>t. t \<noteq> []) (map clean_text (pg_content pl html)))))"
  using assms by (simp add: extract_bulletin_body_text_def remove_blocks_well_formed Let_def)

end
