(* ===== verification/SourceApi.thy ===== *)
theory SourceApi
  imports Schedule
begin

text \<open>
  app/api/endpoints/sources.py with app/services/source_site_service.py and app/repositories/source_site_repository.py:
  listing, creating and changing sources, their schedule, and triggering a crawl.

  A request is given as FastAPI hands it over: a field that was not sent is None, one that was sent as null is
  Some None; the text of a link is that of pydantic's HttpUrl.  The endpoints check what the schemas of
  app/api/schemas/source.py declare (422), and return the status code of an error or the source, and the state after the
  request: the scheduler of the process, if it has one, and the database.
\<close>

section \<open>Reading sources\<close>

text \<open>\<open>_to_record\<close>: an empty link is shown as the base link.\<close>

definition source_record :: "source_site \<Rightarrow> source_site" where
  "source_record s =
     s\<lparr>ss_official_url := (if ss_official_url s = [] then ss_base_url s else ss_official_url s),
       ss_list_url := (if ss_list_url s = [] then ss_base_url s else ss_list_url s)\<rparr>"

definition get_by_code :: "ustr \<Rightarrow> db \<Rightarrow> source_site option" where
  "get_by_code code d = map_option source_record (find_source code d)"

definition list_sources :: "db \<Rightarrow> source_site list" where
  "list_sources d = map source_record (order_by ss_code (source_sites d))"

definition get_source :: "ustr \<Rightarrow> db \<Rightarrow> source_site option" where
  "get_source code d =
     (let normalized = strip code
      in if normalized = [] then None
         else (case get_by_code normalized d of
                 Some s \<Rightarrow> Some s
               | None \<Rightarrow>
                  (let alias_code = normalize_source_code normalized
                   in if alias_code \<noteq> [] \<and> alias_code \<noteq> normalized then get_by_code alias_code d else None)))"

section \<open>Changing a source\<close>

datatype source_update =
    Set_name "ustr option"
  | Set_official_url ustr
  | Set_base_url ustr
  | Set_list_url ustr
  | Set_description "ustr option"
  | Set_is_active "bool option"
  | Set_supports_js_render "bool option"
  | Set_crawl_interval_minutes "int option"
  | Set_default_max_pages "int option"
  | Set_schedule_enabled "bool option"
  | Set_schedule_days "int option"

text \<open>setattr and the NOT NULL constraints: None when a column would become NULL that must not.\<close>

fun apply_update :: "source_update \<Rightarrow> source_site \<Rightarrow> source_site option" where
  "apply_update (Set_name v) s = map_option (\<lambda>t. s\<lparr>ss_name := t\<rparr>) v"
| "apply_update (Set_official_url t) s = Some (s\<lparr>ss_official_url := t\<rparr>)"
| "apply_update (Set_base_url t) s = Some (s\<lparr>ss_base_url := t\<rparr>)"
| "apply_update (Set_list_url t) s = Some (s\<lparr>ss_list_url := t\<rparr>)"
| "apply_update (Set_description v) s = Some (s\<lparr>ss_description := v\<rparr>)"
| "apply_update (Set_is_active v) s = map_option (\<lambda>b. s\<lparr>ss_is_active := b\<rparr>) v"
| "apply_update (Set_supports_js_render v) s = map_option (\<lambda>b. s\<lparr>ss_supports_js_render := b\<rparr>) v"
| "apply_update (Set_crawl_interval_minutes v) s = map_option (\<lambda>i. s\<lparr>ss_crawl_interval_minutes := i\<rparr>) v"
| "apply_update (Set_default_max_pages v) s = map_option (\<lambda>i. s\<lparr>ss_default_max_pages := i\<rparr>) v"
| "apply_update (Set_schedule_enabled v) s = map_option (\<lambda>b. s\<lparr>ss_schedule_enabled := b\<rparr>) v"
| "apply_update (Set_schedule_days v) s = map_option (\<lambda>i. s\<lparr>ss_schedule_days := i\<rparr>) v"

fun apply_updates :: "source_update list \<Rightarrow> source_site \<Rightarrow> source_site option" where
  "apply_updates [] s = Some s"
| "apply_updates (u # us) s = (case apply_update u s of None \<Rightarrow> None | Some s' \<Rightarrow> apply_updates us s')"

definition not_null_violation :: pyerror where
  "not_null_violation = IntegrityError (Uq_other (lit ''source_site not null''))"

definition update_fields :: "ustr \<Rightarrow> source_update list \<Rightarrow> db \<Rightarrow> (source_site \<times> db) option result" where
  "update_fields code us d =
     (case find_source code d of
        None \<Rightarrow> Inr None
      | Some s \<Rightarrow>
         (case apply_updates us s of
            None \<Rightarrow> Inl not_null_violation
          | Some s' \<Rightarrow>
              Inr (Some (source_record s',
                d\<lparr>source_sites := update_row ss_id (ss_id s) (\<lambda>_. s') (source_sites d)\<rparr>))))"

definition update_source :: "ustr \<Rightarrow> source_update list \<Rightarrow> db \<Rightarrow> (source_site \<times> db) option result" where
  "update_source code us d =
     (let normalized = strip code
      in if normalized = [] then Inr None
         else (let c = normalize_source_code normalized
               in if us = [] then Inr (map_option (\<lambda>s. (s, d)) (get_by_code c d)) else update_fields c us d))"

record source_patch =
  pt_name :: "ustr option option"
  pt_official_url :: "ustr option option"
  pt_list_url :: "ustr option option"
  pt_description :: "ustr option option"
  pt_is_active :: "bool option option"
  pt_supports_js_render :: "bool option option"
  pt_crawl_interval_minutes :: "int option option"
  pt_default_max_pages :: "int option option"

definition valid_source_patch :: "source_patch \<Rightarrow> bool" where
  "valid_source_patch p \<longleftrightarrow>
     (case pt_name p of Some (Some t) \<Rightarrow> length t \<le> 255 \<and> strip t \<noteq> [] | _ \<Rightarrow> True) \<and>
     (case pt_crawl_interval_minutes p of Some (Some i) \<Rightarrow> 1 \<le> i | _ \<Rightarrow> True) \<and>
     (case pt_default_max_pages p of Some (Some i) \<Rightarrow> 1 \<le> i | _ \<Rightarrow> True)"

text \<open>str() of a link that may be None.\<close>

definition link_text :: "ustr option \<Rightarrow> ustr" where
  "link_text v = (case v of None \<Rightarrow> lit ''None'' | Some t \<Rightarrow> t)"

definition sent :: "'a option \<Rightarrow> ('a \<Rightarrow> source_update list) \<Rightarrow> source_update list" where
  "sent v f = (case v of None \<Rightarrow> [] | Some x \<Rightarrow> f x)"

definition patch_updates :: "source_patch \<Rightarrow> source_update list" where
  "patch_updates p =
     sent (pt_name p) (\<lambda>v. [Set_name (map_option strip v)]) @
     sent (pt_official_url p) (\<lambda>v. [Set_official_url (link_text v)]) @
     sent (pt_list_url p) (\<lambda>v. [Set_list_url (link_text v)]) @
     sent (pt_description p) (\<lambda>v. [Set_description v]) @
     sent (pt_is_active p) (\<lambda>v. [Set_is_active v]) @
     sent (pt_supports_js_render p) (\<lambda>v. [Set_supports_js_render v]) @
     sent (pt_crawl_interval_minutes p) (\<lambda>v. [Set_crawl_interval_minutes v]) @
     sent (pt_default_max_pages p) (\<lambda>v. [Set_default_max_pages v]) @
     sent (pt_official_url p) (\<lambda>v. [Set_base_url (link_text v)])"

type_synonym 's api_state = "'s \<times> db"

text \<open>sync_source_schedule, and the source as it is read again.\<close>

definition sync_and_get ::
    "'s scheduler_ops option \<Rightarrow> instant \<Rightarrow> nat \<Rightarrow> ustr \<Rightarrow> ustr \<Rightarrow> 's api_state \<Rightarrow> source_site http_result \<times> 's api_state" where
  "sync_and_get runtime now missing changed asked st =
     (let st' = sync_source_schedule runtime now changed st
      in (case get_source asked (snd st') of None \<Rightarrow> Inl missing | Some s \<Rightarrow> Inr s, st'))"

definition patch_source ::
    "'s scheduler_ops option \<Rightarrow> instant \<Rightarrow> ustr \<Rightarrow> source_patch \<Rightarrow> 's api_state \<Rightarrow> source_site http_result \<times> 's api_state" where
  "patch_source runtime now code p st =
     (if \<not> valid_source_patch p then (Inl 422, st)
      else (case update_source code (patch_updates p) (snd st) of
              Inl e \<Rightarrow> (Inl 500, st)
            | Inr None \<Rightarrow> (Inl 404, st)
            | Inr (Some (s, d)) \<Rightarrow>
                if pt_is_active p = None then (Inr s, (fst st, d))
                else sync_and_get runtime now 404 (ss_code s) code (fst st, d)))"

section \<open>The schedule\<close>

record schedule_patch =
  sc_enabled :: "bool option option"
  sc_days :: "int option option"

definition valid_schedule_patch :: "schedule_patch \<Rightarrow> bool" where
  "valid_schedule_patch p \<longleftrightarrow> (case sc_days p of Some (Some n) \<Rightarrow> n \<in> set schedule_day_options | _ \<Rightarrow> True)"

definition schedule_updates :: "schedule_patch \<Rightarrow> source_update list" where
  "schedule_updates p =
     sent (sc_enabled p) (\<lambda>v. [Set_schedule_enabled v]) @ sent (sc_days p) (\<lambda>v. [Set_schedule_days v])"

definition patch_source_schedule ::
    "'s scheduler_ops option \<Rightarrow> instant \<Rightarrow> ustr \<Rightarrow> schedule_patch \<Rightarrow> 's api_state \<Rightarrow>
     source_site http_result \<times> 's api_state" where
  "patch_source_schedule runtime now code p st =
     (if \<not> valid_schedule_patch p then (Inl 422, st)
      else (case update_source code (schedule_updates p) (snd st) of
              Inl e \<Rightarrow> (Inl 500, st)
            | Inr None \<Rightarrow> (Inl 404, st)
            | Inr (Some (s, d)) \<Rightarrow> sync_and_get runtime now 404 (ss_code s) code (fst st, d)))"

section \<open>Creating a source\<close>

record source_create =
  cr_source_code :: ustr
  cr_source_name :: ustr
  cr_official_url :: ustr
  cr_list_url :: ustr
  cr_remark :: "ustr option"
  cr_is_active :: bool
  cr_schedule_enabled :: bool
  cr_schedule_days :: int
  cr_crawl_interval_minutes :: int
  cr_default_max_pages :: "int option"

definition valid_source_create :: "source_create \<Rightarrow> bool" where
  "valid_source_create c \<longleftrightarrow>
     length (cr_source_code c) \<le> 64 \<and> strip (cr_source_code c) \<noteq> [] \<and>
     length (cr_source_name c) \<le> 255 \<and> strip (cr_source_name c) \<noteq> [] \<and>
     (case cr_remark c of None \<Rightarrow> True | Some t \<Rightarrow> length t \<le> 2000) \<and>
     cr_schedule_days c \<in> set schedule_day_options \<and> 1 \<le> cr_crawl_interval_minutes c \<and>
     (case cr_default_max_pages c of None \<Rightarrow> True | Some n \<Rightarrow> 1 \<le> n)"

definition new_source :: "source_create \<Rightarrow> int \<Rightarrow> source_site" where
  "new_source c k =
     \<lparr>ss_id = k, ss_code = normalize_source_code (strip (cr_source_code c)), ss_name = strip (cr_source_name c),
      ss_base_url = strip (cr_official_url c), ss_official_url = strip (cr_official_url c),
      ss_list_url = strip (cr_list_url c),
      ss_description = (case cr_remark c of None \<Rightarrow> None | Some t \<Rightarrow> if strip t = [] then None else Some (strip t)),
      ss_is_active = cr_is_active c, ss_supports_js_render = False,
      ss_crawl_interval_minutes = cr_crawl_interval_minutes c,
      ss_default_max_pages = (case cr_default_max_pages c of None \<Rightarrow> 50 | Some n \<Rightarrow> if n = 0 then 50 else n),
      ss_schedule_enabled = cr_schedule_enabled c, ss_schedule_days = cr_schedule_days c,
      ss_last_scheduled_run_at = None, ss_next_scheduled_run_at = None, ss_last_schedule_status = None\<rparr>"

text \<open>The service and the repository: a taken code is a ValueError, another conflict is raised as it is.\<close>

definition create_source_row :: "source_create \<Rightarrow> db \<Rightarrow> (source_site \<times> db) result" where
  "create_source_row c d =
     (let s = new_source c (next_id T_source_site ss_id (source_sites d) d)
      in if ss_code s = [] then Inl (ValueError (lit ''source_code is required''))
         else if ss_name s = [] then Inl (ValueError (lit ''source_name is required''))
         else if ss_official_url s = [] then Inl (ValueError (lit ''official_url is required''))
         else if ss_list_url s = [] then Inl (ValueError (lit ''list_url is required''))
         else (case insert_source_site s d of
                 Inl e \<Rightarrow> Inl (if e = IntegrityError Uq_source_site_code
                                then ValueError (lit ''source_code already exists'') else e)
               | Inr d' \<Rightarrow> Inr (source_record s, d')))"

definition create_source ::
    "'s scheduler_ops option \<Rightarrow> instant \<Rightarrow> source_create \<Rightarrow> 's api_state \<Rightarrow> source_site http_result \<times> 's api_state" where
  "create_source runtime now c st =
     (if \<not> valid_source_create c then (Inl 422, st)
      else (case create_source_row c (snd st) of
              Inl (ValueError t) \<Rightarrow> (Inl (if contains (lit ''source_code already exists'') t then 409 else 400), st)
            | Inl e \<Rightarrow> (Inl 500, st)
            | Inr (s, d) \<Rightarrow> sync_and_get runtime now 500 (ss_code s) (ss_code s) (fst st, d)))"

section \<open>Triggering a crawl\<close>

record trigger_request =
  tg_backfill :: bool
  tg_max_pages :: "int option"
  tg_backfill_year :: "int option"
  tg_triggered_by :: ustr

definition valid_trigger_request :: "trigger_request \<Rightarrow> bool" where
  "valid_trigger_request r \<longleftrightarrow>
     (case tg_max_pages r of None \<Rightarrow> True | Some n \<Rightarrow> 1 \<le> n) \<and>
     (case tg_backfill_year r of None \<Rightarrow> True | Some y \<Rightarrow> 2000 \<le> y \<and> y \<le> 2100) \<and>
     tg_triggered_by r \<noteq> [] \<and> length (tg_triggered_by r) \<le> 64 \<and>
     (tg_backfill r \<longrightarrow> tg_backfill_year r \<noteq> None)"

definition trigger_job_type :: "trigger_request \<Rightarrow> ustr" where
  "trigger_job_type r = (if tg_backfill r then lit ''backfill'' else lit ''manual'')"

definition queue_trigger ::
    "enqueue_env \<Rightarrow> source_site \<Rightarrow> trigger_request \<Rightarrow> db \<Rightarrow> crawl_job_snapshot result \<times> db" where
  "queue_trigger env s r d =
     (let max_pages = Some (case tg_max_pages r of None \<Rightarrow> ss_default_max_pages s | Some n \<Rightarrow> n)
      in if tg_backfill r
         then queue_backfill_crawl env s (case tg_backfill_year r of None \<Rightarrow> 0 | Some y \<Rightarrow> y) max_pages (tg_triggered_by r) d
         else queue_manual_crawl env s max_pages (tg_triggered_by r) d)"

definition trigger_source_crawl_job ::
    "enqueue_env \<Rightarrow> ustr \<Rightarrow> trigger_request \<Rightarrow> db \<Rightarrow> crawl_job_snapshot http_result \<times> db" where
  "trigger_source_crawl_job env code r d =
     (if \<not> valid_trigger_request r then (Inl 422, d)
      else (case get_source code d of
              None \<Rightarrow> (Inl 404, d)
            | Some found \<Rightarrow>
               (case find_source (ss_code found) d of
                  None \<Rightarrow> (Inl 404, d)
                | Some s \<Rightarrow>
                   if get_source_adapter (ss_code s) = None \<or> \<not> supports_job_type (ss_code s) (trigger_job_type r)
                   then (Inl 400, d)
                   else (case queue_trigger env s r d of
                           (Inl (SourceActiveCrawlJobConflictError _ _ _ _), d') \<Rightarrow> (Inl 409, d')
                         | (Inl _, d') \<Rightarrow> (Inl 500, d')
                         | (Inr job, d') \<Rightarrow> (Inr job, d')))))"

end
