(* ===== verification/JobQueries.thy ===== *)
theory JobQueries
  imports Notices Trigger
begin

text \<open>
  What is shown of crawl jobs: app/repositories/crawl_job_repository.py, app/services/crawl_job_query_service.py,
  app/services/crawl_job_progress_service.py and app/api/endpoints/crawl_jobs.py.

  The query service fails overdue jobs before it reads, so a query returns a result and the database after it.
\<close>

section \<open>Rows joined to their source\<close>

text \<open>\<open>select(R, SourceSite.code).join(SourceSite, SourceSite.id == R.source_site_id)\<close>\<close>

definition with_code :: "('r \<Rightarrow> int) \<Rightarrow> db \<Rightarrow> 'r list \<Rightarrow> ('r \<times> ustr) list" where
  "with_code key d rows =
     concat (map (\<lambda>r. map (\<lambda>s. (r, ss_code s)) (filter (\<lambda>s. ss_id s = key r) (source_sites d))) rows)"

section \<open>The repository\<close>

datatype crawl_job_order_by = By_started_at | By_id

record crawl_job_query_filters =
  jq_source_code :: "ustr option"
  jq_status :: "ustr option"
  jq_job_type :: "ustr option"
  jq_status_in :: "ustr list option"
  jq_started_from :: "instant option"

text \<open>A record holds the columns of the job (as in a snapshot, so timeout_at falls back on the lease), the code of its
  source and what is known of its retries.\<close>

record crawl_job_record =
  jr_job :: crawl_job_snapshot
  jr_source_code :: ustr
  jr_retried_by_job_id :: "int option"
  jr_retried_by_status :: "job_status option"
  jr_retried_by_finished_at :: "instant option"
  jr_recent_crawl_error_count :: "nat option"
  jr_retry_of_job_status :: "job_status option"
  jr_retry_of_job_message :: "ustr option"
  jr_retried_by_message :: "ustr option"

record crawl_job_list_result =
  jl_items :: "crawl_job_record list"
  jl_total :: nat
  jl_limit :: nat
  jl_offset :: nat
  jl_order_by :: crawl_job_order_by

definition matches_job :: "crawl_job_query_filters \<Rightarrow> crawl_job \<Rightarrow> ustr \<Rightarrow> bool" where
  "matches_job f j code \<longleftrightarrow>
     when_given (jq_source_code f) (\<lambda>t. code = t) \<and>
     when_given (jq_status f) (\<lambda>t. status_text (cj_status j) = t) \<and>
     (case jq_status_in f of None \<Rightarrow> True | Some ts \<Rightarrow> ts = [] \<or> status_text (cj_status j) \<in> set ts) \<and>
     when_given (jq_job_type f) (\<lambda>t. job_type_text (cj_job_type j) = t) \<and>
     (case jq_started_from f of
        None \<Rightarrow> True
      | Some a \<Rightarrow> (case cj_started_at j of None \<Rightarrow> False | Some t \<Rightarrow> a \<le> t))"

definition joined_jobs :: "crawl_job_query_filters \<Rightarrow> db \<Rightarrow> (crawl_job \<times> ustr) list" where
  "joined_jobs f d = filter (\<lambda>(j, code). matches_job f j code) (with_code cj_source_site_id d (crawl_jobs d))"

definition job_anchor :: "crawl_job \<Rightarrow> instant" where
  "job_anchor j = sql_coalesce [cj_picked_at j, cj_queued_at j, cj_started_at j] (cj_created_at j)"

definition job_order :: "crawl_job_order_by \<Rightarrow> (crawl_job \<times> ustr) order_term list" where
  "job_order b =
     (case b of
        By_started_at \<Rightarrow> [nulls_last (\<lambda>r. Some (job_anchor (fst r))), desc (\<lambda>r. job_anchor (fst r)), desc (\<lambda>r. cj_id (fst r))]
      | By_id \<Rightarrow> [desc (\<lambda>r. cj_id (fst r))])"

definition to_job_record :: "nat option \<Rightarrow> crawl_job \<times> ustr \<Rightarrow> crawl_job_record" where
  "to_job_record recent_errors r =
     \<lparr>jr_job = snapshot (fst r), jr_source_code = snd r, jr_retried_by_job_id = None, jr_retried_by_status = None,
      jr_retried_by_finished_at = None, jr_recent_crawl_error_count = recent_errors, jr_retry_of_job_status = None,
      jr_retry_of_job_message = None, jr_retried_by_message = None\<rparr>"

text \<open>The retries of the listed jobs, the newest first; the first of each original is kept.\<close>

definition retry_rows :: "int list \<Rightarrow> db \<Rightarrow> crawl_job list" where
  "retry_rows ids d =
     sort_rows (before [desc cj_id])
       (filter (\<lambda>j. case cj_retry_of_job_id j of None \<Rightarrow> False | Some k \<Rightarrow> k \<in> set ids) (crawl_jobs d))"

fun retry_map :: "crawl_job list \<Rightarrow> (int \<rightharpoonup> crawl_job) \<Rightarrow> (int \<rightharpoonup> crawl_job)" where
  "retry_map [] m = m"
| "retry_map (j # js) m =
     (case cj_retry_of_job_id j of
        None \<Rightarrow> retry_map js m
      | Some k \<Rightarrow> if m k \<noteq> None then retry_map js m else retry_map js (m(k \<mapsto> j)))"

definition attach_original :: "db \<Rightarrow> crawl_job_record \<Rightarrow> crawl_job_record" where
  "attach_original d item =
     (case cj_retry_of_job_id (jr_job item) of
        None \<Rightarrow> item
      | Some k \<Rightarrow>
         (case get_job_row k d of
            None \<Rightarrow> item
          | Some original \<Rightarrow> item\<lparr>jr_retry_of_job_status := Some (cj_status original),
              jr_retry_of_job_message := cj_message original\<rparr>))"

definition attach_retry_info :: "db \<Rightarrow> crawl_job_record list \<Rightarrow> crawl_job_record list" where
  "attach_retry_info d items =
     (let retries = retry_map (retry_rows (map (\<lambda>i. cj_id (jr_job i)) items) d) Map.empty
      in map (\<lambda>item.
           let item' = attach_original d item
           in case retries (cj_id (jr_job item)) of
                None \<Rightarrow> item'
              | Some j \<Rightarrow> item'\<lparr>jr_retried_by_job_id := Some (cj_id j), jr_retried_by_status := Some (cj_status j),
                  jr_retried_by_finished_at := cj_finished_at j, jr_retried_by_message := cj_message j\<rparr>) items)"

definition list_jobs ::
    "crawl_job_query_filters \<Rightarrow> crawl_job_order_by \<Rightarrow> nat \<Rightarrow> nat \<Rightarrow> db \<Rightarrow> crawl_job_list_result" where
  "list_jobs f sort_by limit offset d =
     (let rows = joined_jobs f d
      in \<lparr>jl_items = attach_retry_info d (map (to_job_record None)
            (page_of_rows limit offset (sort_rows (before (job_order sort_by)) rows))),
          jl_total = length rows, jl_limit = limit, jl_offset = offset, jl_order_by = sort_by\<rparr>)"

definition recent_error_count :: "instant \<Rightarrow> int \<Rightarrow> db \<Rightarrow> nat" where
  "recent_error_count since k d =
     length (filter (\<lambda>e. ce_crawl_job_id e = Some k \<and> since \<le> ce_occurred_at e) (crawl_errors d))"

definition get_job_detail :: "instant \<Rightarrow> int \<Rightarrow> int \<Rightarrow> db \<Rightarrow> crawl_job_record option" where
  "get_job_detail now recent_window_days k d =
     (case first_row (filter (\<lambda>(j, _). cj_id j = k) (with_code cj_source_site_id d (crawl_jobs d))) of
        None \<Rightarrow> None
      | Some r \<Rightarrow> first_row (attach_retry_info d
          [to_job_record (Some (recent_error_count (now - recent_window_days * day) (cj_id (fst r)) d)) r]))"

section \<open>The query service\<close>

text \<open>Overdue jobs are failed and committed, if there are any, before the query \<open>q\<close> reads.\<close>

definition reconciled :: "instant \<Rightarrow> (db \<Rightarrow> 'a) \<Rightarrow> db \<Rightarrow> 'a result \<times> db" where
  "reconciled moment q d =
     (case reconcile_expired_jobs_in_session moment None d of
        Inl e \<Rightarrow> (Inl e, d)
      | Inr (jobs, d1) \<Rightarrow> (let d' = (if jobs = [] then d else d1) in (Inr (q d'), d')))"

definition list_crawl_jobs ::
    "instant \<Rightarrow> crawl_job_query_filters \<Rightarrow> crawl_job_order_by \<Rightarrow> nat \<Rightarrow> nat \<Rightarrow> db \<Rightarrow>
     crawl_job_list_result result \<times> db" where
  "list_crawl_jobs moment f sort_by limit offset d = reconciled moment (list_jobs f sort_by limit offset) d"

definition get_crawl_job_detail ::
    "instant \<Rightarrow> instant \<Rightarrow> int \<Rightarrow> db \<Rightarrow> crawl_job_record option result \<times> db" where
  "get_crawl_job_detail moment now k d = reconciled moment (get_job_detail now 7 k) d"

section \<open>The endpoints\<close>

definition valid_page :: "int \<Rightarrow> int \<Rightarrow> bool" where
  "valid_page limit offset \<longleftrightarrow> 1 \<le> limit \<and> limit \<le> 200 \<and> 0 \<le> offset"

definition of_result :: "'a result \<times> db \<Rightarrow> 'a http_result \<times> db" where
  "of_result r = (case fst r of Inl _ \<Rightarrow> Inl 500 | Inr v \<Rightarrow> Inr v, snd r)"

definition list_jobs_endpoint ::
    "instant \<Rightarrow> ustr option \<Rightarrow> job_status option \<Rightarrow> job_type option \<Rightarrow> crawl_job_order_by \<Rightarrow> int \<Rightarrow> int \<Rightarrow> db \<Rightarrow>
     crawl_job_list_result http_result \<times> db" where
  "list_jobs_endpoint moment source_code status job_type sort_by limit offset d =
     (if \<not> valid_page limit offset then (Inl 422, d)
      else of_result (list_crawl_jobs moment
        \<lparr>jq_source_code = source_code, jq_status = map_option status_text status,
         jq_job_type = map_option job_type_text job_type, jq_status_in = None, jq_started_from = None\<rparr>
        sort_by (nat limit) (nat offset) d))"

definition get_job_endpoint :: "instant \<Rightarrow> instant \<Rightarrow> int \<Rightarrow> db \<Rightarrow> crawl_job_record http_result \<times> db" where
  "get_job_endpoint moment now k d =
     (case get_crawl_job_detail moment now k d of
        (Inl _, d') \<Rightarrow> (Inl 500, d')
      | (Inr None, d') \<Rightarrow> (Inl 404, d')
      | (Inr (Some j), d') \<Rightarrow> (Inr j, d'))"

definition valid_retry_request :: "int option \<Rightarrow> ustr \<Rightarrow> bool" where
  "valid_retry_request max_pages triggered_by \<longleftrightarrow>
     (case max_pages of None \<Rightarrow> True | Some n \<Rightarrow> 1 \<le> n) \<and> triggered_by \<noteq> [] \<and> length triggered_by \<le> 64"

definition retry_error_code :: "pyerror \<Rightarrow> nat" where
  "retry_error_code e =
     (case e of
        CrawlJobRetryNotFoundError _ \<Rightarrow> 404
      | CrawlJobRetryValidationError _ \<Rightarrow> 400
      | CrawlJobRetryConflictError _ _ \<Rightarrow> 409
      | SourceActiveCrawlJobConflictError _ _ _ _ \<Rightarrow> 409
      | _ \<Rightarrow> 500)"

text \<open>The answer: the id of the original, the code of the source and the retry job.\<close>

definition retry_job_endpoint ::
    "enqueue_env \<Rightarrow> int \<Rightarrow> int option \<Rightarrow> ustr \<Rightarrow> db \<Rightarrow> (int \<times> ustr \<times> crawl_job_snapshot) http_result \<times> db" where
  "retry_job_endpoint env k max_pages triggered_by d =
     (if \<not> valid_retry_request max_pages triggered_by then (Inl 422, d)
      else (case queue_retry_crawl_for_job env k max_pages triggered_by d of
              (Inl e, d') \<Rightarrow> (Inl (retry_error_code e), d')
            | (Inr j, d') \<Rightarrow>
               (case get_row ss_id (cj_source_site_id j) (source_sites d') of
                  None \<Rightarrow> (Inl 500, d')
                | Some s \<Rightarrow> (Inr (k, ss_code s, j), d'))))"

section \<open>The progress of a job\<close>

record crawl_job_progress =
  pr_is_active :: bool
  pr_is_stale :: bool
  pr_job_type_label :: ustr
  pr_status_label :: ustr
  pr_stage_label :: ustr
  pr_summary_text :: ustr
  pr_heartbeat_at :: "ustr option"
  pr_timeout_at :: "ustr option"
  pr_lease_expires_at :: "ustr option"

fun job_type_label :: "job_type \<Rightarrow> ustr" where
  "job_type_label Manual = zh_manual_crawl"
| "job_type_label Scheduled = zh_scheduled_crawl"
| "job_type_label Backfill = zh_backfill_crawl"
| "job_type_label Manual_retry = zh_retry_crawl"

fun progress_status_label :: "job_status \<Rightarrow> ustr" where
  "progress_status_label Pending = zh_status_queued"
| "progress_status_label Running = zh_crawling"
| "progress_status_label Succeeded = zh_completed"
| "progress_status_label Failed = zh_failed"
| "progress_status_label Partial = zh_partial"

definition metric :: "bool \<Rightarrow> ustr \<Rightarrow> int \<Rightarrow> ustr list" where
  "metric positive_only label n = (if positive_only \<and> n \<le> 0 then [] else [label @ [32] @ show_int n])"

definition join_parts :: "ustr list \<Rightarrow> ustr \<Rightarrow> ustr" where
  "join_parts parts fallback = (if parts = [] then fallback else join (lit '' / '') parts)"

definition stale_at :: "instant \<Rightarrow> job_status \<Rightarrow> instant option \<Rightarrow> bool" where
  "stale_at now st timeout_at \<longleftrightarrow>
     active_status st \<and> (case timeout_at of None \<Rightarrow> False | Some t \<Rightarrow> t \<le> now)"

definition metrics :: "bool \<Rightarrow> job_counters \<Rightarrow> ustr list" where
  "metrics positive_only c =
     metric positive_only zh_metric_list_pages (pages_fetched c) @
     metric positive_only zh_metric_list_items (list_items_seen c) @
     metric positive_only zh_metric_unique_items (list_items_unique c) @
     metric positive_only zh_metric_detail_pages (detail_pages_fetched c) @
     metric positive_only zh_metric_notices (notices_upserted c) @
     metric positive_only zh_metric_archived (documents_saved c) @
     metric positive_only zh_metric_skipped (list_items_source_duplicates_skipped c + source_duplicates_suppressed c) @
     metric positive_only zh_metric_errors (error_count c)"

definition running_stage :: "job_counters \<Rightarrow> ustr" where
  "running_stage c =
     (if 0 < detail_pages_fetched c \<or> 0 < documents_saved c \<or> 0 < notices_upserted c then zh_stage_details
      else if 0 < list_items_seen c \<or> 0 < list_items_unique c then zh_stage_parsing
      else if 0 < pages_fetched c then zh_stage_lists
      else zh_stage_spider)"

definition build_crawl_job_progress :: "instant \<Rightarrow> crawl_job_snapshot \<Rightarrow> crawl_job_progress" where
  "build_crawl_job_progress now j =
     (let st = cj_status j; c = cj_counters j;
          timeout_at = or_else (cj_timeout_at j) (cj_lease_expires_at j);
          is_stale = stale_at now st timeout_at;
          (stage_label, summary_text) =
            (if is_stale \<and> st = Pending then (zh_await_dispatch, zh_claim_expired)
             else if is_stale \<and> st = Running then (zh_no_heartbeat, zh_process_gone)
             else if st = Pending then
               (if cj_picked_at j \<noteq> None then (zh_await_worker, zh_claimed) else (zh_await_start, zh_in_queue))
             else if st = Running then
               (running_stage c, join_parts (metrics True c) (job_type_label (cj_job_type j) @ zh_started_updating))
             else (progress_status_label st, join_parts (metrics False c) (lit ''-'')))
      in \<lparr>pr_is_active = (st = Pending \<or> st = Running \<and> \<not> is_stale), pr_is_stale = is_stale,
          pr_job_type_label = job_type_label (cj_job_type j), pr_status_label = progress_status_label st,
          pr_stage_label = stage_label, pr_summary_text = summary_text,
          pr_heartbeat_at = map_option isoformat (cj_heartbeat_at j), pr_timeout_at = map_option isoformat timeout_at,
          pr_lease_expires_at = map_option isoformat timeout_at\<rparr>)"

end
