(* ===== verification/AdminForms.thy ===== *)
theory AdminForms
  imports SourceApi JobQueries Health Urls
begin

text \<open>
  The forms of the administration: app/api/endpoints/admin_sources.py (creating a source, its settings, its schedule,
  starting a crawl), admin_settings.py (the health rules) and the retry of admin_crawl_jobs.py.

  A handler is given the text of the request body and the state; it answers with a redirect, with the form again and
  its messages, or with the status code of an error.  What lies outside the program is an argument (\<open>form_lib\<close>): the
  text that pydantic's HttpUrl gives for a link (None when it refuses the link), the messages of a ValidationError, and
  str() of an exception.  The checks of role and CSRF token before a handler are those of theory Auth.
\<close>

record form_lib =
  fl_http_url :: "ustr \<Rightarrow> ustr option"
  fl_messages :: "ustr list \<Rightarrow> ustr list"
  fl_error_text :: "pyerror \<Rightarrow> ustr"

datatype form_answer = Redirect ustr | Form_again "ustr list" | Http_error nat

section \<open>Fields\<close>

text \<open>\<open>(form_data.get(k) or [default])[0]\<close>; parse_qs keeps no empty values.\<close>

definition form_value :: "ustr \<Rightarrow> string \<Rightarrow> string \<Rightarrow> ustr" where
  "form_value body k dflt = (case parse_qs_get body (lit k) of [] \<Rightarrow> lit dflt | v # _ \<Rightarrow> v)"

text \<open>A field is its value or the detail of the HTTPException (400).\<close>

type_synonym 'a field = "ustr + 'a"

definition true_words :: "ustr list" where
  "true_words = map lit [''1'', ''true'', ''yes'', ''on'']"

definition false_words :: "ustr list" where
  "false_words = map lit [''0'', ''false'', ''no'', ''off'']"

definition parse_form_bool :: "string \<Rightarrow> ustr \<Rightarrow> bool field" where
  "parse_form_bool name v =
     (let n = py_lower (strip v)
      in if n \<in> set true_words then Inr True
         else if n \<in> set false_words then Inr False else Inl (lit name @ lit '' must be boolean''))"

definition parse_form_int :: "int \<Rightarrow> string \<Rightarrow> ustr \<Rightarrow> int field" where
  "parse_form_int least name v =
     (case py_int (strip v) of
        None \<Rightarrow> Inl (lit name @ lit '' must be integer'')
      | Some n \<Rightarrow> if n < least then Inl (lit name @ lit '' must be >= '' @ show_int least) else Inr n)"

definition parse_form_positive_int :: "string \<Rightarrow> ustr \<Rightarrow> int field" where
  "parse_form_positive_int = parse_form_int 1"

definition parse_non_negative_int :: "string \<Rightarrow> ustr \<Rightarrow> int field" where
  "parse_non_negative_int = parse_form_int 0"

definition parse_schedule_days :: "ustr \<Rightarrow> int field" where
  "parse_schedule_days v =
     (case py_int (strip v) of
        None \<Rightarrow> Inl (lit ''schedule_days must be integer'')
      | Some n \<Rightarrow> if n \<in> set schedule_day_options then Inr n else Inl (lit ''schedule_days must be one of 1, 2, 3, 7''))"

definition parse_optional_int_field :: "string \<Rightarrow> ustr \<Rightarrow> int option field" where
  "parse_optional_int_field name v =
     (if strip v = [] then Inr None
      else (case parse_form_positive_int name (strip v) of Inl t \<Rightarrow> Inl t | Inr n \<Rightarrow> Inr (Some n)))"

definition field_errors :: "'a field \<Rightarrow> ustr list" where
  "field_errors f = (case f of Inl t \<Rightarrow> [t] | Inr _ \<Rightarrow> [])"

section \<open>Creating a source\<close>

record source_form =
  sf_source_code :: ustr
  sf_source_name :: ustr
  sf_official_url :: ustr
  sf_list_url :: ustr
  sf_remark :: ustr
  sf_is_active :: ustr
  sf_schedule_enabled :: ustr
  sf_schedule_days :: ustr
  sf_crawl_interval_minutes :: ustr
  sf_default_max_pages :: ustr

definition source_form_of :: "ustr \<Rightarrow> source_form" where
  "source_form_of body =
     (let get = (\<lambda>k dflt. strip (form_value body k dflt))
      in \<lparr>sf_source_code = get ''source_code'' '''', sf_source_name = get ''source_name'' '''',
          sf_official_url = get ''official_url'' '''', sf_list_url = get ''list_url'' '''', sf_remark = get ''remark'' '''',
          sf_is_active = get ''is_active'' ''true'', sf_schedule_enabled = get ''schedule_enabled'' ''false'',
          sf_schedule_days = get ''schedule_days'' ''1'', sf_crawl_interval_minutes = get ''crawl_interval_minutes'' ''1440'',
          sf_default_max_pages = get ''default_max_pages'' ''50''\<rparr>)"

definition form_texts :: "source_form \<Rightarrow> ustr list" where
  "form_texts f = [sf_source_code f, sf_source_name f, sf_official_url f, sf_list_url f, sf_remark f]"

text \<open>SourceSiteCreateRequest.model_validate; None is a ValidationError.\<close>

definition validated_create :: "form_lib \<Rightarrow> source_form \<Rightarrow> bool \<Rightarrow> bool \<Rightarrow> int \<Rightarrow> int \<Rightarrow> int option \<Rightarrow> source_create option" where
  "validated_create fl f is_active schedule_enabled schedule_days interval max_pages =
     (case (fl_http_url fl (sf_official_url f), fl_http_url fl (sf_list_url f)) of
        (Some official, Some listing) \<Rightarrow>
          (let c = \<lparr>cr_source_code = sf_source_code f, cr_source_name = sf_source_name f, cr_official_url = official,
                 cr_list_url = listing, cr_remark = (if sf_remark f = [] then None else Some (sf_remark f)),
                 cr_is_active = is_active, cr_schedule_enabled = schedule_enabled, cr_schedule_days = schedule_days,
                 cr_crawl_interval_minutes = interval, cr_default_max_pages = max_pages\<rparr>
           in if valid_source_create c then Some c else None)
      | _ \<Rightarrow> None)"

definition created_url :: "ustr \<Rightarrow> ustr" where
  "created_url code = lit ''/admin/source-sites?created=1&created_code='' @ code"

definition create_and_sync ::
    "'s scheduler_ops option \<Rightarrow> instant \<Rightarrow> source_create \<Rightarrow> 's api_state \<Rightarrow> form_answer \<times> 's api_state" where
  "create_and_sync runtime now c st =
     (case create_source_row c (snd st) of
        Inl (ValueError t) \<Rightarrow> (Form_again [t], st)
      | Inl _ \<Rightarrow> (Http_error 500, st)
      | Inr (s, d) \<Rightarrow> (Redirect (created_url (ss_code s)), sync_source_schedule runtime now (ss_code s) (fst st, d)))"

definition admin_create_source ::
    "form_lib \<Rightarrow> 's scheduler_ops option \<Rightarrow> instant \<Rightarrow> ustr \<Rightarrow> 's api_state \<Rightarrow> form_answer \<times> 's api_state" where
  "admin_create_source fl runtime now body st =
     (let f = source_form_of body;
          is_active = parse_form_bool ''is_active'' (sf_is_active f);
          schedule_enabled = parse_form_bool ''schedule_enabled'' (sf_schedule_enabled f);
          schedule_days = parse_schedule_days (sf_schedule_days f);
          interval = parse_form_positive_int ''crawl_interval_minutes'' (sf_crawl_interval_minutes f);
          max_pages = parse_optional_int_field ''default_max_pages'' (sf_default_max_pages f)
      in case (is_active, schedule_enabled, schedule_days, interval, max_pages) of
           (Inr a, Inr e, Inr n, Inr i, Inr m) \<Rightarrow>
             (case validated_create fl f a e n i m of
                None \<Rightarrow> (Form_again (fl_messages fl (form_texts f)), st)
              | Some c \<Rightarrow> create_and_sync runtime now c st)
         | _ \<Rightarrow> (Form_again (field_errors is_active @ field_errors schedule_enabled @ field_errors schedule_days @
                   field_errors interval @ field_errors max_pages), st))"

section \<open>The settings of a source\<close>

text \<open>The four fields that raise, and SourceSitePatchRequest.model_validate; an empty field is sent as None.\<close>

definition optional_link :: "form_lib \<Rightarrow> ustr \<Rightarrow> ustr option option" where
  "optional_link fl t = (if t = [] then Some None else map_option Some (fl_http_url fl t))"

definition config_patch :: "form_lib \<Rightarrow> ustr \<Rightarrow> source_patch option" where
  "config_patch fl body =
     (let get = (\<lambda>k. strip (form_value body k ''''));
          text_field = (\<lambda>k. Some (if get k = [] then None else Some (get k)))
      in case (parse_form_bool ''is_active'' (form_value body ''is_active'' ''''),
               parse_form_bool ''supports_js_render'' (form_value body ''supports_js_render'' ''''),
               parse_form_positive_int ''crawl_interval_minutes'' (form_value body ''crawl_interval_minutes'' ''''),
               parse_form_positive_int ''default_max_pages'' (form_value body ''default_max_pages'' ''''),
               optional_link fl (get ''official_url''), optional_link fl (get ''list_url'')) of
           (Inr a, Inr j, Inr i, Inr m, Some official, Some listing) \<Rightarrow>
             (let p = \<lparr>pt_name = text_field ''source_name'', pt_official_url = Some official, pt_list_url = Some listing,
                    pt_description = text_field ''description'', pt_is_active = Some (Some a),
                    pt_supports_js_render = Some (Some j), pt_crawl_interval_minutes = Some (Some i),
                    pt_default_max_pages = Some (Some m)\<rparr>
              in if valid_source_patch p then Some p else None)
         | _ \<Rightarrow> None)"

definition source_url :: "ustr \<Rightarrow> ustr" where
  "source_url code = lit ''/admin/sources/'' @ code"

definition update_and_sync ::
    "'s scheduler_ops option \<Rightarrow> instant \<Rightarrow> string \<Rightarrow> ustr \<Rightarrow> source_update list \<Rightarrow> 's api_state \<Rightarrow> form_answer \<times> 's api_state" where
  "update_and_sync runtime now suffix code us st =
     (case update_source code us (snd st) of
        Inl e \<Rightarrow> (Http_error 500, st)
      | Inr None \<Rightarrow> (Http_error 404, st)
      | Inr (Some (s, d)) \<Rightarrow>
          (Redirect (source_url (ss_code s) @ lit suffix), sync_source_schedule runtime now (ss_code s) (fst st, d)))"

definition admin_update_config ::
    "form_lib \<Rightarrow> 's scheduler_ops option \<Rightarrow> instant \<Rightarrow> ustr \<Rightarrow> ustr \<Rightarrow> 's api_state \<Rightarrow> form_answer \<times> 's api_state" where
  "admin_update_config fl runtime now code body st =
     (if get_source code (snd st) = None then (Http_error 404, st)
      else (case config_patch fl body of
              None \<Rightarrow> (Http_error 400, st)
            | Some p \<Rightarrow> update_and_sync runtime now '''' code (patch_updates p) st))"

definition admin_update_schedule ::
    "'s scheduler_ops option \<Rightarrow> instant \<Rightarrow> ustr \<Rightarrow> ustr \<Rightarrow> 's api_state \<Rightarrow> form_answer \<times> 's api_state" where
  "admin_update_schedule runtime now code body st =
     (if get_source code (snd st) = None then (Http_error 404, st)
      else (case (parse_form_bool ''schedule_enabled'' (form_value body ''schedule_enabled'' ''''),
                  parse_form_positive_int ''schedule_days'' (form_value body ''schedule_days'' '''')) of
              (Inr enabled, Inr days) \<Rightarrow>
                if days \<in> set schedule_day_options
                then update_and_sync runtime now ''?schedule_updated=1'' code
                       [Set_schedule_enabled (Some enabled), Set_schedule_days (Some days)] st
                else (Http_error 400, st)
            | _ \<Rightarrow> (Http_error 400, st)))"

section \<open>Starting a crawl\<close>

definition crawl_error_url :: "ustr \<Rightarrow> ustr \<Rightarrow> ustr \<Rightarrow> ustr" where
  "crawl_error_url code message return_to =
     (if return_to = lit ''source-sites''
      then lit ''/admin/source-sites?'' @ urlencode [(lit ''manual_crawl_error'', message), (lit ''source_code'', code)]
      else source_url code @ lit ''?'' @ urlencode [(lit ''manual_crawl_error'', message)])"

definition crawl_success_url :: "ustr \<Rightarrow> int \<Rightarrow> ustr" where
  "crawl_success_url code job_id =
     lit ''/admin/crawl-jobs?'' @ urlencode [(lit ''source_code'', code), (lit ''created_job_id'', show_int job_id)]"

definition crawl_create_error :: "form_lib \<Rightarrow> pyerror \<Rightarrow> ustr" where
  "crawl_create_error fl e =
     (case e of
        SourceActiveCrawlJobConflictError _ _ _ _ \<Rightarrow> fl_error_text fl e
      | _ \<Rightarrow> (let detail = strip (fl_error_text fl e)
             in if detail \<noteq> [] then zh_manual_crawl_failed @ detail else zh_manual_crawl_failed_see_log))"

text \<open>The source of a path: the record of the service, then the row of the session.\<close>

definition source_row :: "ustr \<Rightarrow> db \<Rightarrow> source_site option" where
  "source_row code d = (case get_source code d of None \<Rightarrow> None | Some found \<Rightarrow> find_source (ss_code found) d)"

text \<open>The number of pages of a source is an integer column, so that reading it cannot fail.\<close>

definition admin_manual_crawl :: "form_lib \<Rightarrow> enqueue_env \<Rightarrow> ustr \<Rightarrow> ustr \<Rightarrow> db \<Rightarrow> form_answer \<times> db" where
  "admin_manual_crawl fl env code body d =
     (case source_row code d of
        None \<Rightarrow> (Http_error 404, d)
      | Some s \<Rightarrow>
         (let return_to = py_lower (strip (form_value body ''return_to'' ''''));
              refuse = (\<lambda>message. Redirect (crawl_error_url (ss_code s) message return_to))
          in if \<not> ss_is_active s then (refuse zh_source_not_active, d)
             else if get_source_adapter (ss_code s) = None then (refuse zh_not_integrated, d)
             else if \<not> supports_job_type (ss_code s) (lit ''manual'') then (refuse zh_no_manual_crawl, d)
             else (case queue_manual_crawl env s (Some (int_or (Some (ss_default_max_pages s)) 50)) (lit ''admin_ui'') d of
                     (Inl e, d') \<Rightarrow> (refuse (crawl_create_error fl e), d')
                   | (Inr job, d') \<Rightarrow> (Redirect (crawl_success_url (ss_code s) (cj_id job)), d'))))"

text \<open>\<open>_trigger_latest_retry_for_source\<close>\<close>

definition retry_candidates :: "source_site \<Rightarrow> db \<Rightarrow> crawl_job list" where
  "retry_candidates s d =
     take 30 (order_by_desc cj_id
       (filter (\<lambda>j. cj_source_site_id j = ss_id s \<and> (cj_status j = Failed \<or> cj_status j = Partial)) (crawl_jobs d)))"

definition latest_retryable :: "source_site \<Rightarrow> db \<Rightarrow> crawl_job option" where
  "latest_retryable s d =
     find (\<lambda>j. cj_retry_of_job_id j = None \<and> find (\<lambda>r. cj_retry_of_job_id r = Some (cj_id j)) (crawl_jobs d) = None)
       (retry_candidates s d)"

definition trigger_latest_retry :: "enqueue_env \<Rightarrow> source_site \<Rightarrow> db \<Rightarrow> crawl_job_snapshot result \<times> db" where
  "trigger_latest_retry env s d =
     (let manual = queue_manual_crawl env s (Some (ss_default_max_pages s)) (lit ''admin'') d
      in case latest_retryable s d of
           None \<Rightarrow> manual
         | Some j \<Rightarrow>
             if cj_job_type j = Manual
             then queue_retry_crawl env s (cj_id j)
                    (Some (int_or (read_payload_int (cj_job_params_json j) (lit ''max_pages'')) (ss_default_max_pages s)))
                    (read_payload_int (cj_job_params_json j) (lit ''backfill_year'')) (lit ''admin-retry'') d
             else manual)"

definition job_url :: "int \<Rightarrow> ustr" where
  "job_url k = lit ''/admin/crawl-jobs/'' @ show_int k"

definition queued_answer :: "form_lib \<Rightarrow> source_site \<Rightarrow> crawl_job_snapshot result \<times> db \<Rightarrow> form_answer \<times> db" where
  "queued_answer fl s r =
     (case r of
        (Inl e, d) \<Rightarrow>
          (case e of
             SourceActiveCrawlJobConflictError _ _ _ _ \<Rightarrow>
               (Redirect (crawl_error_url (ss_code s) (fl_error_text fl e) (lit ''detail'')), d)
           | _ \<Rightarrow> (Http_error 500, d))
      | (Inr job, d) \<Rightarrow> (Redirect (job_url (cj_id job)), d))"

text \<open>An optional number of the form: None is the HTTPException for a text that is no number.\<close>

definition optional_number :: "ustr \<Rightarrow> string \<Rightarrow> int option option" where
  "optional_number body k =
     (let raw = strip (form_value body k '''') in if raw = [] then Some None else map_option Some (py_int raw))"

definition default_if_empty :: "ustr \<Rightarrow> string \<Rightarrow> ustr" where
  "default_if_empty t dflt = (if t = [] then lit dflt else t)"

definition crawl_form :: "ustr \<Rightarrow> trigger_request option" where
  "crawl_form body =
     (let job_type = default_if_empty (strip (form_value body ''job_type'' ''manual'')) ''manual''
      in case (optional_number body ''max_pages'', optional_number body ''backfill_year'') of
           (Some max_pages, Some year) \<Rightarrow>
             (let r = \<lparr>tg_backfill = (job_type = lit ''backfill''), tg_max_pages = max_pages, tg_backfill_year = year,
                    tg_triggered_by = lit ''admin''\<rparr>
              in if (job_type = lit ''manual'' \<or> job_type = lit ''backfill'') \<and> valid_trigger_request r then Some r else None)
         | _ \<Rightarrow> None)"

definition admin_trigger_crawl :: "form_lib \<Rightarrow> enqueue_env \<Rightarrow> ustr \<Rightarrow> ustr \<Rightarrow> db \<Rightarrow> form_answer \<times> db" where
  "admin_trigger_crawl fl env code body d =
     (case source_row code d of
        None \<Rightarrow> (Http_error 404, d)
      | Some s \<Rightarrow>
         if get_source_adapter (ss_code s) = None then (Http_error 400, d)
         else if default_if_empty (strip (form_value body ''action'' ''trigger'')) ''trigger'' = lit ''retry_latest''
         then queued_answer fl s (trigger_latest_retry env s d)
         else (case crawl_form body of
                 None \<Rightarrow> (Http_error 400, d)
               | Some r \<Rightarrow>
                   if supports_job_type (ss_code s) (trigger_job_type r) then queued_answer fl s (queue_trigger env s r d)
                   else (Http_error 400, d)))"

definition admin_retry_job :: "enqueue_env \<Rightarrow> int \<Rightarrow> db \<Rightarrow> form_answer \<times> db" where
  "admin_retry_job env k d =
     (case retry_job_endpoint env k None (lit ''admin-retry'') d of
        (Inl code, d') \<Rightarrow> (Http_error code, d')
      | (Inr (_, _, job), d') \<Rightarrow> (Redirect (lit ''/admin/crawl-jobs?retry_created_job_id='' @ show_int (cj_id job)), d'))"

section \<open>The health rules\<close>

definition rule_form :: "ustr \<Rightarrow> payload option" where
  "rule_form body =
     (let number = (\<lambda>k. parse_non_negative_int k (form_value body k ''''))
      in case (number ''recent_error_warning_threshold'', number ''recent_error_critical_threshold'',
               number ''consecutive_failure_warning_threshold'', number ''consecutive_failure_critical_threshold'',
               parse_form_bool ''partial_warning_enabled'' (form_value body ''partial_warning_enabled'' '''')) of
           (Inr a, Inr b, Inr c, Inr e, Inr p) \<Rightarrow>
             Some [(lit ''recent_error_warning_threshold'', VInt a), (lit ''recent_error_critical_threshold'', VInt b),
                   (lit ''consecutive_failure_warning_threshold'', VInt c),
                   (lit ''consecutive_failure_critical_threshold'', VInt e), (lit ''partial_warning_enabled'', VBool p)]
         | _ \<Rightarrow> None)"

definition admin_update_rules :: "other_values \<Rightarrow> ustr \<Rightarrow> db \<Rightarrow> form_answer \<times> db" where
  "admin_update_rules other body d =
     (case rule_form body of
        None \<Rightarrow> (Http_error 400, d)
      | Some updates \<Rightarrow>
         (case update_rules other updates d of
            (Inl (ValueError _), d') \<Rightarrow> (Http_error 400, d')
          | (Inl _, d') \<Rightarrow> (Http_error 500, d')
          | (Inr _, d') \<Rightarrow> (Redirect (lit ''/admin/settings/health-rules?updated=1''), d')))"

end
