(* ===== verification/SourceApiFacts.thy ===== *)
theory SourceApiFacts
  imports SourceApi
begin

text \<open>
  The requests to the source API and the scheduler: after any sequence of them the scheduler has exactly the jobs that
  the sources ask for.  What the endpoints do with null.
\<close>

section \<open>The scheduler and the sources\<close>

text \<open>The interval at which a source is to be crawled; None without a source, Some None for one without a schedule.\<close>

definition plan :: "ustr \<Rightarrow> db \<Rightarrow> int option option" where
  "plan code d =
     map_option (\<lambda>s. if should_schedule s then Some (ss_schedule_days s) else None) (find_source code d)"

definition in_step :: "'s scheduler_ops \<Rightarrow> 's api_state \<Rightarrow> ustr \<Rightarrow> bool" where
  "in_step ops st code \<longleftrightarrow>
     map_option sj_days (so_get ops (schedule_job_id code) (fst st)) =
     (case plan code (snd st) of None \<Rightarrow> None | Some days \<Rightarrow> days)"

definition sources_ok :: "db \<Rightarrow> bool" where
  "sources_ok d \<longleftrightarrow> distinct (map ss_id (source_sites d)) \<and> distinct (map ss_code (source_sites d))"

text \<open>Updates that keep the code and the id of a row.\<close>

lemma map_update_row:
  assumes "\<And>r. g (f r) = g r"
  shows "map g (update_row key k f rows) = map g rows"
  using assms by (simp add: update_row_def)

lemma find_map: "find P (map f xs) = map_option f (find (\<lambda>x. P (f x)) xs)"
  by (induction xs) auto

lemma sources_ok_map:
  assumes "source_sites d' = map f (source_sites d)"
    "\<And>s. s \<in> set (source_sites d) \<Longrightarrow> ss_code (f s) = ss_code s \<and> ss_id (f s) = ss_id s"
  shows "sources_ok d' \<longleftrightarrow> sources_ok d"
proof -
  have "map ss_code (source_sites d') = map ss_code (source_sites d)"
    "map ss_id (source_sites d') = map ss_id (source_sites d)"
    by (simp_all add: assms)
  then show ?thesis by (simp only: sources_ok_def)
qed

lemma find_source_map:
  assumes "source_sites d' = map f (source_sites d)"
    "\<And>s. s \<in> set (source_sites d) \<Longrightarrow> ss_code (f s) = ss_code s"
  shows "find_source c d' = map_option f (find_source c d)"
proof -
  have "find (\<lambda>x. ss_code (f x) = c) (source_sites d) = find (\<lambda>x. ss_code x = c) (source_sites d)"
    using assms(2) by (intro find_cong refl) simp
  then show ?thesis using assms(1) by (simp add: find_source_def find_map)
qed

lemma set_next_run_map:
  "source_sites (set_next_run k t d) =
    map (\<lambda>s. if ss_id s = k then s\<lparr>ss_next_scheduled_run_at := t\<rparr> else s) (source_sites d)"
  by (simp add: set_next_run_def update_row_def)

lemma plan_set_next_run [simp]: "plan c (set_next_run k t d) = plan c d"
  by (simp add: plan_def find_source_map [OF set_next_run_map] option.map_comp)
    (auto intro!: option.map_cong simp: should_schedule_def)

lemma sources_ok_set_next_run [simp]: "sources_ok (set_next_run k t d) \<longleftrightarrow> sources_ok d"
  by (rule sources_ok_map [OF set_next_run_map]) simp

lemma sync_source_step:
  assumes "scheduler_laws ops"
  shows "plan c (snd (sync_source ops now code st)) = plan c (snd st)"
    "sources_ok (snd (sync_source ops now code st)) \<longleftrightarrow> sources_ok (snd st)"
    "c \<noteq> code \<Longrightarrow> so_get ops (schedule_job_id c) (fst (sync_source ops now code st)) =
      so_get ops (schedule_job_id c) (fst st)"
    "in_step ops (sync_source ops now code st) code"
proof -
  show plan: "plan c (snd (sync_source ops now code st)) = plan c (snd st)" for c
    by (auto simp: sync_source_def sync_source_in_session_def Let_def split: option.split prod.split)
  show "sources_ok (snd (sync_source ops now code st)) \<longleftrightarrow> sources_ok (snd st)"
    by (auto simp: sync_source_def sync_source_in_session_def Let_def split: option.split prod.split)
  show "so_get ops (schedule_job_id c) (fst (sync_source ops now code st)) = so_get ops (schedule_job_id c) (fst st)"
    if "c \<noteq> code"
    using assms that find_source_Some
    by (fastforce simp: sync_source_def sync_cases [OF assms] scheduler_laws_def split: option.split)
  show "in_step ops (sync_source ops now code st) code"
  proof (cases "find_source code (snd st)")
    case None
    then have "plan code (snd st) = None" by (simp add: plan_def)
    then show ?thesis
      using assms None plan by (simp add: in_step_def sync_source_def scheduler_laws_def)
  next
    case (Some s)
    then have code: "ss_code s = code" by (simp add: find_source_Some)
    have "plan code (snd st) = Some (if should_schedule s then Some (ss_schedule_days s) else None)"
      using Some by (simp add: plan_def)
    then show ?thesis
      using Some plan [of code]
      by (auto simp: in_step_def sync_source_def sync_cases [OF assms] code job_matches_source_def split: option.split)
  qed
qed

lemma sync_source_schedule_step:
  assumes "scheduler_laws ops" "sources_ok (snd st)" "\<And>c. c \<noteq> code \<Longrightarrow> in_step ops st c"
  shows "sources_ok (snd (sync_source_schedule (Some ops) now code st))"
    "in_step ops (sync_source_schedule (Some ops) now code st) c"
proof -
  obtain d where d: "sync_source_schedule (Some ops) now code st = sync_source ops now code (fst st, d)"
    "sources_ok d" "\<And>c. plan c d = plan c (snd st)"
  proof (cases "find_source code (snd st)")
    case None
    then show thesis using that [of "snd st"] assms(2) by (simp add: sync_source_schedule_def)
  next
    case (Some s)
    show thesis
      by (rule that [of "set_next_run (ss_id s) (calculate_next_scheduled_run now (ss_schedule_enabled s)
            (ss_schedule_days s) (ss_is_active s)) (snd st)"])
        (simp_all add: sync_source_schedule_def Some assms(2))
  qed
  note step = sync_source_step [OF assms(1), where st = "(fst st, d)" and now = now and code = code]
  show "sources_ok (snd (sync_source_schedule (Some ops) now code st))" using d step(2) by simp
  show "in_step ops (sync_source_schedule (Some ops) now code st) c"
    using assms(3) d(3) step by (cases "c = code") (simp_all add: d(1) in_step_def)
qed

section \<open>Requests\<close>

definition touches_schedule :: "source_update \<Rightarrow> bool" where
  "touches_schedule u =
     (case u of Set_is_active _ \<Rightarrow> True | Set_schedule_enabled _ \<Rightarrow> True | Set_schedule_days _ \<Rightarrow> True | _ \<Rightarrow> False)"

lemma apply_update_keeps:
  assumes "apply_update u s = Some s'"
  shows "ss_code s' = ss_code s" "ss_id s' = ss_id s"
    "\<not> touches_schedule u \<Longrightarrow> should_schedule s' = should_schedule s \<and> ss_schedule_days s' = ss_schedule_days s"
  using assms by (cases u; auto simp: touches_schedule_def should_schedule_def)+

lemma apply_updates_keep:
  assumes "apply_updates us s = Some s'"
  shows "ss_code s' = ss_code s" "ss_id s' = ss_id s"
    "list_all (Not \<circ> touches_schedule) us \<Longrightarrow>
       should_schedule s' = should_schedule s \<and> ss_schedule_days s' = ss_schedule_days s"
  using assms by (induction us arbitrary: s) (auto split: option.splits dest: apply_update_keeps)

lemma replaced_source:
  assumes "sources_ok d" "find_source c d = Some s"
  shows "update_row ss_id (ss_id s) (\<lambda>_. s') (source_sites d) = map (\<lambda>y. if y = s then s' else y) (source_sites d)"
proof -
  have "y = s" if "y \<in> set (source_sites d)" "ss_id y = ss_id s" for y
    using assms(1) that find_source_Some [OF assms(2)] by (auto simp: sources_ok_def distinct_map dest: inj_onD)
  then show ?thesis by (auto simp: update_row_def)
qed

lemma update_fields_step:
  assumes "update_fields c us d = Inr (Some (r, d'))" "sources_ok d"
  shows "ss_code r = c" "sources_ok d'" "x \<noteq> c \<Longrightarrow> plan x d' = plan x d"
    "list_all (Not \<circ> touches_schedule) us \<Longrightarrow> plan x d' = plan x d"
proof -
  obtain s s' where s: "find_source c d = Some s" "apply_updates us s = Some s'" "r = source_record s'"
    "d' = d\<lparr>source_sites := update_row ss_id (ss_id s) (\<lambda>_. s') (source_sites d)\<rparr>"
    using assms(1) by (auto simp: update_fields_def split: option.splits)
  note kept = apply_updates_keep [OF s(2)]
  have found: "s \<in> set (source_sites d)" "ss_code s = c" using s(1) by (auto dest: find_source_Some)
  define f where "f y = (if y = s then s' else y)" for y
  have sites: "source_sites d' = map f (source_sites d)"
    using replaced_source [OF assms(2) s(1)] by (simp add: s(4) f_def)
  have keeps: "ss_code (f y) = ss_code y \<and> ss_id (f y) = ss_id y" for y
    using kept by (simp add: f_def)
  show "ss_code r = c" using s(3) kept found by (simp add: source_record_def)
  show "sources_ok d'" using assms(2) sources_ok_map [OF sites keeps] by simp
  have "find_source x d' = map_option f (find_source x d)" for x
    using find_source_map [OF sites] keeps by simp
  then have plan: "plan x d' = map_option (\<lambda>y. if should_schedule (f y) then Some (ss_schedule_days (f y)) else None)
      (find_source x d)" for x
    by (simp add: plan_def option.map_comp o_def)
  show "plan x d' = plan x d" if "x \<noteq> c"
    unfolding plan using that found
    by (auto simp: plan_def f_def intro!: option.map_cong dest: find_source_Some)
  show "plan x d' = plan x d" if "list_all (Not \<circ> touches_schedule) us"
    unfolding plan using kept(3) [OF that]
    by (auto simp: plan_def f_def intro!: option.map_cong)
qed

lemma update_source_step:
  assumes "update_source code us d = Inr (Some (r, d'))" "sources_ok d"
  shows "sources_ok d'" "x \<noteq> ss_code r \<Longrightarrow> plan x d' = plan x d"
    "list_all (Not \<circ> touches_schedule) us \<Longrightarrow> plan x d' = plan x d"
proof -
  let ?c = "normalize_source_code (strip code)"
  consider "d' = d" | "update_fields ?c us d = Inr (Some (r, d'))"
    using assms(1) by (auto simp: update_source_def Let_def split: if_splits)
  then have "sources_ok d' \<and> (x \<noteq> ss_code r \<longrightarrow> plan x d' = plan x d) \<and>
      (list_all (Not \<circ> touches_schedule) us \<longrightarrow> plan x d' = plan x d)"
  proof cases
    case 2
    then show ?thesis using update_fields_step [OF 2 assms(2)] by simp
  qed (use assms(2) in simp)
  then show "sources_ok d'" "x \<noteq> ss_code r \<Longrightarrow> plan x d' = plan x d"
    "list_all (Not \<circ> touches_schedule) us \<Longrightarrow> plan x d' = plan x d"
    by blast+
qed

lemma patch_updates_touch: "list_all (Not \<circ> touches_schedule) (patch_updates p) \<longleftrightarrow> pt_is_active p = None"
  by (auto simp: patch_updates_def sent_def touches_schedule_def split: option.splits)

lemma insert_source_step:
  assumes "insert_source_site s d = Inr d'" "sources_ok d"
  shows "sources_ok d'" "x \<noteq> ss_code s \<Longrightarrow> plan x d' = plan x d"
proof -
  show "sources_ok d'"
    using assms by (auto simp: insert_source_site_def sources_ok_def add_row_def split: if_splits)
  have "find P (xs @ [s]) = (case find P xs of None \<Rightarrow> if P s then Some s else None | Some y \<Rightarrow> Some y)" for P xs
    by (induction xs) auto
  then show "plan x d' = plan x d" if "x \<noteq> ss_code s"
    using assms that
    by (auto simp: insert_source_site_def plan_def find_source_def add_row_def split: if_splits option.splits)
qed

datatype source_request =
    Create_source source_create
  | Patch_source ustr source_patch
  | Patch_schedule ustr schedule_patch
  | Refresh

fun serve :: "'s scheduler_ops option \<Rightarrow> instant \<times> source_request \<Rightarrow> 's api_state \<Rightarrow> 's api_state" where
  "serve runtime (now, Create_source c) st = snd (create_source runtime now c st)"
| "serve runtime (now, Patch_source code p) st = snd (patch_source runtime now code p st)"
| "serve runtime (now, Patch_schedule code p) st = snd (patch_source_schedule runtime now code p st)"
| "serve runtime (now, Refresh) st = (case runtime of None \<Rightarrow> st | Some ops \<Rightarrow> restore_from_db ops now st)"

definition all_in_step :: "'s scheduler_ops \<Rightarrow> 's api_state \<Rightarrow> bool" where
  "all_in_step ops st \<longleftrightarrow> sources_ok (snd st) \<and> (\<forall>code. in_step ops st code)"

lemma all_in_step_sync:
  assumes "scheduler_laws ops" "all_in_step ops (sched, d)" "sources_ok d'"
    "\<And>x. x \<noteq> changed \<Longrightarrow> plan x d' = plan x d"
  shows "all_in_step ops (snd (sync_and_get (Some ops) now missing changed asked (sched, d')))"
proof -
  have "in_step ops (sched, d') x" if "x \<noteq> changed" for x
    using assms(2,4) that by (simp add: all_in_step_def in_step_def)
  then show ?thesis
    using sync_source_schedule_step [OF assms(1), of "(sched, d')" changed now] assms(3)
    by (simp add: all_in_step_def sync_and_get_def Let_def)
qed

lemma all_in_step_update:
  assumes "scheduler_laws ops" "all_in_step ops (sched, d)" "update_source code us d = Inr (Some (s, d'))"
  shows "all_in_step ops (snd (sync_and_get (Some ops) now missing (ss_code s) asked (sched, d')))"
    "list_all (Not \<circ> touches_schedule) us \<Longrightarrow> all_in_step ops (sched, d')"
proof -
  have ok: "sources_ok d" using assms(2) by (simp add: all_in_step_def)
  note step = update_source_step [OF assms(3) ok]
  show "all_in_step ops (snd (sync_and_get (Some ops) now missing (ss_code s) asked (sched, d')))"
    using step(1,2) by (intro all_in_step_sync [OF assms(1,2)]) simp_all
  show "all_in_step ops (sched, d')" if "list_all (Not \<circ> touches_schedule) us"
    using assms(2) step(1,3) that by (simp add: all_in_step_def in_step_def)
qed

lemma all_in_step_create:
  assumes "scheduler_laws ops" "all_in_step ops st"
  shows "all_in_step ops (snd (create_source (Some ops) now c st))"
proof (cases "create_source_row c (snd st)")
  case (Inl e)
  then show ?thesis using assms(2) by (cases e) (auto simp: create_source_def)
next
  case (Inr rd)
  obtain s where s: "ss_code (fst rd) = ss_code s" "insert_source_site s (snd st) = Inr (snd rd)"
    using Inr by (auto simp: create_source_row_def Let_def source_record_def split: if_splits sum.splits)
  then show ?thesis
    using assms Inr insert_source_step [OF s(2)]
      all_in_step_sync [OF assms(1), of "fst st" "snd st" "snd rd" "ss_code s"]
    by (auto simp: create_source_def all_in_step_def split: prod.split)
qed

lemma fold_sync_db:
  "(\<forall>c. plan c (snd (fold (sync_source_in_session ops now) ss st)) = plan c (snd st)) \<and>
   (sources_ok (snd (fold (sync_source_in_session ops now) ss st)) \<longleftrightarrow> sources_ok (snd st))"
proof (induction ss arbitrary: st)
  case (Cons s ss)
  have "plan c (snd (sync_source_in_session ops now s st)) = plan c (snd st)"
    "sources_ok (snd (sync_source_in_session ops now s st)) \<longleftrightarrow> sources_ok (snd st)" for c
    by (auto simp: sync_source_in_session_def Let_def split: option.split prod.split)
  with Cons show ?case by simp
qed simp

lemma restore_in_step:
  assumes "scheduler_laws ops" "sources_ok (snd st)"
  shows "all_in_step ops (restore_from_db ops now st)"
proof -
  obtain sched d where st: "st = (sched, d)" by fastforce
  obtain sched' d' where r: "restore_from_db ops now (sched, d) = (sched', d')" by fastforce
  have d': "d' = snd (fold (sync_source_in_session ops now) (source_sites d) (sched, d))"
    using r by (auto simp: restore_from_db_def Let_def split: prod.splits)
  have ok: "distinct (map ss_code (source_sites d))" using assms(2) st by (simp add: sources_ok_def)
  have "in_step ops (sched', d') code" for code
  proof -
    have "plan code d' = plan code d" using d' fold_sync_db [of ops now "source_sites d" "(sched, d)"] by simp
    moreover have "case find_source code d of
         None \<Rightarrow> so_get ops (schedule_job_id code) sched' = None
       | Some s \<Rightarrow> (if should_schedule s
                     then map_option sj_days (so_get ops (schedule_job_id code) sched') = Some (ss_schedule_days s)
                     else so_get ops (schedule_job_id code) sched' = None)"
      using restore_mirrors_sources [OF assms(1) ok r] by blast
    ultimately show ?thesis by (simp add: in_step_def plan_def split: option.splits if_splits)
  qed
  moreover have "sources_ok d'" using assms(2) st d' fold_sync_db [of ops now "source_sites d" "(sched, d)"] by simp
  ultimately show ?thesis using st r by (simp add: all_in_step_def)
qed

lemma serve_in_step:
  assumes "scheduler_laws ops" "all_in_step ops st"
  shows "all_in_step ops (serve (Some ops) e st)"
proof -
  obtain now q where e: "e = (now, q)" by fastforce
  have st: "all_in_step ops (fst st, snd st)" using assms(2) by simp
  show ?thesis
  proof (cases q)
    case (Create_source c)
    then show ?thesis using e all_in_step_create [OF assms] by simp
  next
    case (Patch_source code p)
    then show ?thesis
      using assms(2) e all_in_step_update [OF assms(1) st, of code "patch_updates p"]
      by (auto simp: patch_source_def patch_updates_touch split: sum.split option.split prod.split)
  next
    case (Patch_schedule code p)
    then show ?thesis
      using assms(2) e all_in_step_update(1) [OF assms(1) st, of code "schedule_updates p"]
      by (auto simp: patch_source_schedule_def split: sum.split option.split prod.split)
  next
    case Refresh
    then show ?thesis using assms e restore_in_step [OF assms(1)] by (simp add: all_in_step_def)
  qed
qed

text \<open>
A web process that has restored its scheduler and then serves any sequence of requests that create sources, change
them (its address, its name, whether it is active) or change their schedule, with refreshes of the scheduler in between,
holds at every moment a job for each source that is active, enabled and has an allowed interval, with exactly that
interval, and none for any other code: no request leaves the scheduler behind.\<close>

lemma requests_keep_scheduler_in_step:
  assumes "scheduler_laws ops" "sources_ok d"
    "(sched', d') = fold (serve (Some ops)) events (restore_from_db ops now (sched, d))"
  shows "map_option sj_days (so_get ops (schedule_job_id code) sched') =
     (case find_source code d' of
        None \<Rightarrow> None
      | Some s \<Rightarrow> if should_schedule s then Some (ss_schedule_days s) else None)"
proof -
  have "all_in_step ops (restore_from_db ops now (sched, d))" using restore_in_step [OF assms(1)] assms(2) by simp
  then have "all_in_step ops (fold (serve (Some ops)) events (restore_from_db ops now (sched, d)))"
    by (induction events arbitrary: now sched d rule: rev_induct) (simp_all add: serve_in_step [OF assms(1)])
  then show ?thesis
    unfolding assms(3) [symmetric]
    by (simp add: all_in_step_def in_step_def plan_def split: option.split)
qed

definition empty_patch :: source_patch where
  "empty_patch = \<lparr>pt_name = None, pt_official_url = None, pt_list_url = None, pt_description = None, pt_is_active = None,
     pt_supports_js_render = None, pt_crawl_interval_minutes = None, pt_default_max_pages = None\<rparr>"

definition sample_events :: "(instant \<times> source_request) list" where
  "sample_events =
     [(9100, Patch_schedule (lit ''ggzy_gov_cn_deal'') \<lparr>sc_enabled = None, sc_days = Some (Some 3)\<rparr>),
      (9200, Patch_source (lit ''ggzy_gov_cn_deal'') (empty_patch\<lparr>pt_is_active := Some (Some False)\<rparr>)),
      (9300, Patch_source (lit ''ggzy_gov_cn_deal'') (empty_patch\<lparr>pt_is_active := Some (Some True)\<rparr>))]"

lemma requests_keep_scheduler_in_step_witness:
  "let st = fold (serve (Some table_scheduler)) sample_events (restore_from_db table_scheduler 9000 ([], sample_scheduled))
   in map_option sj_days (so_get table_scheduler (schedule_job_id (lit ''ggzy_gov_cn_deal'')) (fst st)) = Some 3"
proof -
  let ?st = "fold (serve (Some table_scheduler)) sample_events (restore_from_db table_scheduler 9000 ([], sample_scheduled))"
  have "sources_ok sample_scheduled" by code_simp
  moreover have "map_option (\<lambda>s. (should_schedule s, ss_schedule_days s)) (find_source (lit ''ggzy_gov_cn_deal'') (snd ?st))
      = Some (True, 3)"
    by code_simp
  ultimately show ?thesis
    using requests_keep_scheduler_in_step [OF table_scheduler_laws, of sample_scheduled "fst ?st" "snd ?st" sample_events 9000 "[]"
        "lit ''ggzy_gov_cn_deal''"]
    by (auto simp: Let_def split: option.splits)
qed

section \<open>Null in a request\<close>

lemma null_update_fails:
  assumes "u \<in> set us" "\<And>s. apply_update u s = None"
  shows "apply_updates us s = None"
  using assms by (induction us arbitrary: s) (auto split: option.split)

definition null_column :: "source_patch \<Rightarrow> bool" where
  "null_column p \<longleftrightarrow> pt_name p = Some None \<or> pt_is_active p = Some None \<or> pt_supports_js_render p = Some None \<or>
     pt_crawl_interval_minutes p = Some None \<or> pt_default_max_pages p = Some None"

lemma null_column_update:
  assumes "null_column p"
  shows "\<exists>u \<in> set (patch_updates p). \<forall>s. apply_update u s = None"
  using assms
  by (auto simp: null_column_def patch_updates_def sent_def bex_Un intro: bexI)

text \<open>
A request to change an existing source that sends null is not refused as invalid: for the name, a flag, the
interval or the number of pages it fails only in the database, as an internal error that leaves everything as it was,
and for the link it succeeds and stores the text None as the official and the base address of the source.\<close>

lemma null_in_a_source_patch:
  assumes "sources_ok d" "strip code \<noteq> []" "find_source (normalize_source_code (strip code)) d = Some s"
  shows "(\<forall>p. valid_source_patch p \<and> null_column p \<longrightarrow> patch_source runtime now code p (sched, d) = (Inl 500, (sched, d))) \<and>
    (\<exists>d'. patch_source runtime now code (empty_patch\<lparr>pt_official_url := Some None\<rparr>) (sched, d) =
        (Inr (source_record (s\<lparr>ss_official_url := lit ''None'', ss_base_url := lit ''None''\<rparr>)), (sched, d')) \<and>
      find_source (ss_code s) d' = Some (s\<lparr>ss_official_url := lit ''None'', ss_base_url := lit ''None''\<rparr>))"
proof -
  let ?s = "s\<lparr>ss_official_url := lit ''None'', ss_base_url := lit ''None''\<rparr>"
  let ?p = "empty_patch\<lparr>pt_official_url := Some None\<rparr>"
  let ?d = "d\<lparr>source_sites := update_row ss_id (ss_id s) (\<lambda>_. ?s) (source_sites d)\<rparr>"
  have fails: "patch_source runtime now code p (sched, d) = (Inl 500, (sched, d))"
    if "valid_source_patch p" "null_column p" for p
  proof -
    have "apply_updates (patch_updates p) s = None"
      using null_column_update [OF that(2)] null_update_fails by blast
    moreover from this have "patch_updates p \<noteq> []" by auto
    ultimately show ?thesis
      using that(1) assms by (simp add: patch_source_def update_source_def update_fields_def)
  qed
  have us: "patch_updates ?p = [Set_official_url (lit ''None''), Set_base_url (lit ''None'')]" "valid_source_patch ?p"
    "pt_is_active ?p = None"
    by (simp_all add: patch_updates_def sent_def empty_patch_def link_text_def valid_source_patch_def)
  have "patch_source runtime now code ?p (sched, d) = (Inr (source_record ?s), (sched, ?d))"
    using assms us by (simp add: patch_source_def update_source_def update_fields_def)
  moreover have "find_source (ss_code s) ?d = Some ?s"
  proof -
    have found: "find_source (ss_code s) d = Some s" using assms(3) find_source_Some [OF assms(3)] by simp
    have "source_sites ?d = map (\<lambda>y. if y = s then ?s else y) (source_sites d)"
      using replaced_source [OF assms(1) found] by simp
    then have "find_source (ss_code s) ?d = map_option (\<lambda>y. if y = s then ?s else y) (find_source (ss_code s) d)"
      by (rule find_source_map) simp
    then show ?thesis using found by simp
  qed
  ultimately show ?thesis using fails by blast
qed

lemma null_in_a_source_patch_witness:
  "\<exists>st. patch_source (Some table_scheduler) 9000 (lit ''ggzy_gov_cn_deal'')
      (empty_patch\<lparr>pt_name := Some None\<rparr>) ([], sample_scheduled) = (Inl 500, st) \<and>
    patch_source (Some table_scheduler) 9000 (lit ''ggzy_gov_cn_deal'')
      (empty_patch\<lparr>pt_is_active := Some None\<rparr>) ([], sample_scheduled) = (Inl 500, st)"
proof -
  have "sources_ok sample_scheduled" "strip (lit ''ggzy_gov_cn_deal'') \<noteq> []"
    "find_source (normalize_source_code (strip (lit ''ggzy_gov_cn_deal''))) sample_scheduled =
      Some (hd (source_sites sample_scheduled))"
    by code_simp+
  note null = null_in_a_source_patch [OF this, THEN conjunct1, of "Some table_scheduler" 9000 "[]", rule_format]
  show ?thesis
    by (rule exI [of _ "([], sample_scheduled)"], intro conjI null)
      (simp_all add: empty_patch_def null_column_def valid_source_patch_def)
qed

end
