(* ===== verification/AdminFacts.thy ===== *)
theory AdminFacts
  imports AdminForms SourceApiFacts
begin

text \<open>
  The forms of the administration beside the API: together they keep the scheduler in step with the sources, and a field
  that is left empty is stored like null.
\<close>

section \<open>The scheduler\<close>

lemma snd_sync_and_get: "snd (sync_and_get runtime now missing changed asked st) = sync_source_schedule runtime now changed st"
  by (simp add: sync_and_get_def Let_def)

lemma all_in_step_create_form:
  assumes "scheduler_laws ops" "all_in_step ops st"
  shows "all_in_step ops (snd (create_and_sync (Some ops) now c st))"
proof (cases "create_source_row c (snd st)")
  case (Inl e)
  then show ?thesis using assms(2) by (cases e) (auto simp: create_and_sync_def)
next
  case (Inr rd)
  obtain s where s: "ss_code (fst rd) = ss_code s" "insert_source_site s (snd st) = Inr (snd rd)"
    using Inr by (auto simp: create_source_row_def Let_def source_record_def split: if_splits sum.splits)
  then show ?thesis
    using assms Inr insert_source_step [OF s(2)]
      all_in_step_sync [OF assms(1), of "fst st" "snd st" "snd rd" "ss_code s"]
    by (auto simp: create_and_sync_def all_in_step_def snd_sync_and_get split: prod.split)
qed

lemma all_in_step_create_submit:
  assumes "scheduler_laws ops" "all_in_step ops st"
  shows "all_in_step ops (snd (admin_create_source fl (Some ops) now body st))"
  using assms all_in_step_create_form [OF assms]
  by (auto simp: admin_create_source_def Let_def split: sum.split option.split)

lemma all_in_step_update_form:
  assumes "scheduler_laws ops" "all_in_step ops st"
  shows "all_in_step ops (snd (update_and_sync (Some ops) now suffix code us st))"
  using assms all_in_step_update(1) [OF assms(1), of "fst st" "snd st" code us]
  by (auto simp: update_and_sync_def snd_sync_and_get split: sum.split option.split)

datatype web_request =
    Api_request source_request
  | Create_form ustr
  | Config_form ustr ustr
  | Schedule_form ustr ustr

fun serve_web :: "form_lib \<Rightarrow> 's scheduler_ops option \<Rightarrow> instant \<times> web_request \<Rightarrow> 's api_state \<Rightarrow> 's api_state" where
  "serve_web fl runtime (now, Api_request q) st = serve runtime (now, q) st"
| "serve_web fl runtime (now, Create_form body) st = snd (admin_create_source fl runtime now body st)"
| "serve_web fl runtime (now, Config_form code body) st = snd (admin_update_config fl runtime now code body st)"
| "serve_web fl runtime (now, Schedule_form code body) st = snd (admin_update_schedule runtime now code body st)"

lemma serve_web_in_step:
  assumes "scheduler_laws ops" "all_in_step ops st"
  shows "all_in_step ops (serve_web fl (Some ops) e st)"
proof -
  obtain now q where e: "e = (now, q)" by fastforce
  show ?thesis
  proof (cases q)
    case (Api_request r)
    then show ?thesis using e serve_in_step [OF assms] by simp
  next
    case (Create_form body)
    then show ?thesis using e all_in_step_create_submit [OF assms] by simp
  next
    case (Config_form code body)
    then show ?thesis
      using e assms(2) all_in_step_update_form [OF assms] by (auto simp: admin_update_config_def split: option.split)
  next
    case (Schedule_form code body)
    then show ?thesis
      using e assms(2) all_in_step_update_form [OF assms] by (auto simp: admin_update_schedule_def split: sum.split)
  qed
qed

text \<open>
C38. A web process that has restored its scheduler and then serves any sequence of requests to the API and forms of the
administration that create sources, change them (their address, their name, whether they are active) or change their
schedule, with refreshes of the scheduler in between, holds at every moment a job for each source that is active, enabled
and has an allowed interval, with exactly that interval, and none for any other code: no request leaves the scheduler
behind.
\<close>

theorem web_requests_keep_scheduler_in_step:
  assumes "scheduler_laws ops" "sources_ok d"
    "(sched', d') = fold (serve_web fl (Some ops)) events (restore_from_db ops now (sched, d))"
  shows "map_option sj_days (so_get ops (schedule_job_id code) sched') =
     (case find_source code d' of
        None \<Rightarrow> None
      | Some s \<Rightarrow> if should_schedule s then Some (ss_schedule_days s) else None)"
proof -
  have "all_in_step ops (restore_from_db ops now (sched, d))" using restore_in_step [OF assms(1)] assms(2) by simp
  then have "all_in_step ops (fold (serve_web fl (Some ops)) events (restore_from_db ops now (sched, d)))"
    by (induction events rule: rev_induct) (simp_all add: serve_web_in_step [OF assms(1)])
  then show ?thesis
    unfolding assms(3) [symmetric]
    by (simp add: all_in_step_def in_step_def plan_def split: option.split)
qed

definition sample_form_lib :: form_lib where
  "sample_form_lib = \<lparr>fl_http_url = (\<lambda>t. if starts_with (lit ''https://'') t then Some t else None), fl_messages = (\<lambda>_. []),
     fl_error_text = (\<lambda>_. [])\<rparr>"

definition sample_web_events :: "(instant \<times> web_request) list" where
  "sample_web_events =
     [(9100, Schedule_form (lit ''ggzy_gov_cn_deal'') (lit ''schedule_enabled=on&schedule_days=3'')),
      (9200, Create_form (lit ''source_code=b&source_name=B&official_url=https://b.cn/&list_url=https://b.cn/l&schedule_enabled=true''))]"

lemma web_requests_keep_scheduler_in_step_witness:
  "let st = fold (serve_web sample_form_lib (Some table_scheduler)) sample_web_events (restore_from_db table_scheduler 9000 ([], sample_scheduled))
   in map_option sj_days (so_get table_scheduler (schedule_job_id (lit ''ggzy_gov_cn_deal'')) (fst st)) = Some 3 \<and>
      map_option sj_days (so_get table_scheduler (schedule_job_id (lit ''b'')) (fst st)) = Some 1"
proof -
  let ?st = "fold (serve_web sample_form_lib (Some table_scheduler)) sample_web_events (restore_from_db table_scheduler 9000 ([], sample_scheduled))"
  have "sources_ok sample_scheduled" by code_simp
  note step = web_requests_keep_scheduler_in_step [OF table_scheduler_laws this, of "fst ?st" "snd ?st" sample_form_lib sample_web_events 9000 "[]"]
  have "map_option (\<lambda>s. (should_schedule s, ss_schedule_days s)) (find_source (lit ''ggzy_gov_cn_deal'') (snd ?st))
      = Some (True, 3)"
    "map_option (\<lambda>s. (should_schedule s, ss_schedule_days s)) (find_source (lit ''b'') (snd ?st)) = Some (True, 1)"
    by code_simp+
  then show ?thesis
    using step [of "lit ''ggzy_gov_cn_deal''"] step [of "lit ''b''"]
    by (auto simp: Let_def split: option.splits)
qed

section \<open>Empty fields\<close>

definition links :: "db \<Rightarrow> (ustr \<times> ustr \<times> ustr) list" where
  "links d = map (\<lambda>s. (ss_code s, ss_official_url s, ss_base_url s)) (source_sites d)"

lemma links_set_next_run [simp]: "links (set_next_run k t d) = links d"
  by (simp add: links_def set_next_run_map)

lemma links_sync [simp]: "links (snd (sync_source_schedule runtime now code st)) = links (snd st)"
  by (auto simp: sync_source_schedule_def sync_source_def sync_source_in_session_def Let_def
      split: option.split prod.split)

lemma config_patch_fields:
  assumes "config_patch fl body = Some p"
  shows "valid_source_patch p"
    "strip (form_value body ''source_name'' '''') = [] \<Longrightarrow> pt_name p = Some None"
    "strip (form_value body ''source_name'' '''') \<noteq> [] \<Longrightarrow> \<exists>t. pt_name p = Some (Some t)"
    "strip (form_value body ''official_url'' '''') = [] \<Longrightarrow> pt_official_url p = Some None"
    "\<exists>l ds a j i m. pt_list_url p = Some l \<and> pt_description p = Some ds \<and> pt_is_active p = Some (Some a) \<and>
       pt_supports_js_render p = Some (Some j) \<and> pt_crawl_interval_minutes p = Some (Some i) \<and>
       pt_default_max_pages p = Some (Some m)"
  using assms by (auto simp: config_patch_def Let_def optional_link_def split: sum.splits option.splits if_splits)

lemma emptied_name_fails:
  assumes "get_source code d \<noteq> None" "strip code \<noteq> []" "find_source (normalize_source_code (strip code)) d = Some s"
    "config_patch fl body = Some p" "strip (form_value body ''source_name'' '''') = []"
  shows "admin_update_config fl runtime now code body (sched, d) = (Http_error 500, (sched, d))"
proof -
  have "null_column p" using config_patch_fields(2) [OF assms(4,5)] by (simp add: null_column_def)
  then have "apply_updates (patch_updates p) s = None"
    using null_column_update null_update_fails by blast
  moreover from this have "patch_updates p \<noteq> []" by auto
  ultimately show ?thesis
    using assms(1-4) by (simp add: admin_update_config_def update_and_sync_def update_source_def update_fields_def)
qed

lemma emptied_link_is_stored:
  assumes "get_source code d \<noteq> None" "strip code \<noteq> []" "find_source (normalize_source_code (strip code)) d = Some s"
    "config_patch fl body = Some p" "strip (form_value body ''source_name'' '''') \<noteq> []"
    "strip (form_value body ''official_url'' '''') = []"
  shows "\<exists>st. admin_update_config fl runtime now code body (sched, d) = (Redirect (source_url (ss_code s)), st) \<and>
    (ss_code s, lit ''None'', lit ''None'') \<in> set (links (snd st))"
proof -
  note fields = config_patch_fields [OF assms(4)]
  obtain t l ds a j i m where p: "pt_name p = Some (Some t)" "pt_official_url p = Some None" "pt_list_url p = Some l"
    "pt_description p = Some ds" "pt_is_active p = Some (Some a)" "pt_supports_js_render p = Some (Some j)"
    "pt_crawl_interval_minutes p = Some (Some i)" "pt_default_max_pages p = Some (Some m)"
    using fields(3) [OF assms(5)] fields(4) [OF assms(6)] fields(5) by blast
  obtain s' where s': "apply_updates (patch_updates p) s = Some s'" "ss_code s' = ss_code s"
    "ss_official_url s' = lit ''None''" "ss_base_url s' = lit ''None''"
    by (simp add: patch_updates_def sent_def p link_text_def)
  let ?d = "d\<lparr>source_sites := update_row ss_id (ss_id s) (\<lambda>_. s') (source_sites d)\<rparr>"
  have "patch_updates p \<noteq> []" by (simp add: patch_updates_def sent_def p)
  then have answer: "admin_update_config fl runtime now code body (sched, d) =
      (Redirect (source_url (ss_code s)), sync_source_schedule runtime now (ss_code s) (sched, ?d))"
    using assms(1-4) s' by (simp add: admin_update_config_def update_and_sync_def update_source_def update_fields_def
        source_record_def)
  have "s \<in> set (source_sites d)" using assms(3) by (auto dest: find_source_Some)
  then have "(ss_code s, lit ''None'', lit ''None'') \<in> set (links ?d)"
    using s'(2-4) by (force simp: links_def update_row_def)
  then show ?thesis using answer by simp
qed

text \<open>
C39. Null and an empty field are not refused as invalid where a source needs a value.  A request of the API that sends null
for the name, a flag, the interval or the number of pages fails only in the database, as an internal error that leaves
everything as it was, and so does the settings form of the administration with an empty name.  The settings form with an
empty link is accepted, and the text None is stored as the official and the base address of the source.
\<close>

theorem null_and_empty_fields:
  assumes "sources_ok d" "strip code \<noteq> []" "find_source (normalize_source_code (strip code)) d = Some s"
    "get_source code d \<noteq> None" "config_patch fl body = Some p"
  shows "(\<forall>q. valid_source_patch q \<and> null_column q \<longrightarrow> patch_source runtime now code q (sched, d) = (Inl 500, (sched, d))) \<and>
    (if strip (form_value body ''source_name'' '''') = []
     then admin_update_config fl runtime now code body (sched, d) = (Http_error 500, (sched, d))
     else strip (form_value body ''official_url'' '''') = [] \<longrightarrow>
       (\<exists>st. admin_update_config fl runtime now code body (sched, d) = (Redirect (source_url (ss_code s)), st) \<and>
          (ss_code s, lit ''None'', lit ''None'') \<in> set (links (snd st))))"
proof -
  note patch = null_in_a_source_patch [OF assms(1-3), THEN conjunct1, of runtime now sched]
  note name = emptied_name_fails [OF assms(4,2,3,5), of runtime now sched]
  note link = emptied_link_is_stored [OF assms(4,2,3,5), of runtime now sched]
  show ?thesis
    unfolding if_bool_eq_conj using patch name link by blast
qed

definition emptied_form :: ustr where
  "emptied_form =
     lit ''source_name=A&official_url=&list_url=https://a.cn/l&is_active=on&supports_js_render=off&crawl_interval_minutes=60&default_max_pages=5''"

lemma null_and_empty_fields_witness:
  "\<exists>st. admin_update_config sample_form_lib (Some table_scheduler) 9000 (lit ''ggzy_gov_cn_deal'') emptied_form ([], sample_scheduled) =
      (Redirect (source_url (lit ''ggzy_gov_cn_deal'')), st) \<and>
    (lit ''ggzy_gov_cn_deal'', lit ''None'', lit ''None'') \<in> set (links (snd st))"
proof -
  let ?s = "hd (source_sites sample_scheduled)"
  have source: "sources_ok sample_scheduled" "strip (lit ''ggzy_gov_cn_deal'') \<noteq> []"
    "find_source (normalize_source_code (strip (lit ''ggzy_gov_cn_deal''))) sample_scheduled = Some ?s"
    "get_source (lit ''ggzy_gov_cn_deal'') sample_scheduled \<noteq> None"
    by code_simp+
  have "config_patch sample_form_lib emptied_form \<noteq> None" by code_simp
  then obtain p where p: "config_patch sample_form_lib emptied_form = Some p" by blast
  note null_and_empty_fields [OF source p, THEN conjunct2, of "Some table_scheduler" 9000 "[]"]
  moreover have "strip (form_value emptied_form ''source_name'' '''') \<noteq> []" "strip (form_value emptied_form ''official_url'' '''') = []"
    "ss_code ?s = lit ''ggzy_gov_cn_deal''"
    by code_simp+
  ultimately show ?thesis by simp
qed

end
