(* ===== verification/Records.thy ===== *)
theory Records
  imports JobQueries Dedup
begin

text \<open>
  What is shown of crawl errors and raw documents: app/repositories/crawl_error_repository.py and
  raw_document_repository.py, their query services, and app/api/endpoints/crawl_errors.py and raw_documents.py.
\<close>

section \<open>The notice of a raw document\<close>

record notice_brief =
  ns_id :: int
  ns_source_code :: ustr
  ns_title :: ustr
  ns_notice_type :: ustr
  ns_current_version_id :: "int option"

record dated_notice_summary = notice_brief +
  ns_published_at :: "instant option"

record notice_version_summary =
  vs_id :: int
  vs_notice_id :: int
  vs_version_no :: int
  vs_is_current :: bool
  vs_title :: ustr
  vs_notice_type :: ustr

text \<open>Every version joined to its notice and the source of the notice.\<close>

definition versions_with_notices :: "db \<Rightarrow> (notice_version \<times> tender_notice \<times> ustr) list" where
  "versions_with_notices d =
     concat (map (\<lambda>v. map (Pair v) (filter (\<lambda>(n, _). tn_id n = nv_notice_id v)
         (with_code tn_source_site_id d (tender_notices d)))) (notice_versions d))"

definition version_order :: "(notice_version \<times> tender_notice \<times> ustr) order_term list" where
  "version_order =
     [true_first (\<lambda>r. nv_is_current (fst r)), desc (\<lambda>r. nv_version_no (fst r)), desc (\<lambda>r. nv_id (fst r))]"

definition notice_of_document :: "int \<Rightarrow> db \<Rightarrow> (notice_version \<times> tender_notice \<times> ustr) option" where
  "notice_of_document k d =
     first_row (sort_rows (before version_order)
       (filter (\<lambda>(v, _). nv_raw_document_id v = Some k) (versions_with_notices d)))"

definition to_version_summary :: "notice_version \<Rightarrow> notice_version_summary" where
  "to_version_summary v =
     \<lparr>vs_id = nv_id v, vs_notice_id = nv_notice_id v, vs_version_no = nv_version_no v, vs_is_current = nv_is_current v,
      vs_title = nv_title v, vs_notice_type = nv_notice_type v\<rparr>"

definition to_notice_summary :: "tender_notice \<Rightarrow> ustr \<Rightarrow> notice_brief" where
  "to_notice_summary n code =
     \<lparr>ns_id = tn_id n, ns_source_code = code, ns_title = tn_title n, ns_notice_type = tn_notice_type n,
      ns_current_version_id = tn_current_version_id n\<rparr>"

definition to_dated_summary :: "tender_notice \<Rightarrow> ustr \<Rightarrow> dated_notice_summary" where
  "to_dated_summary n code =
     \<lparr>ns_id = tn_id n, ns_source_code = code, ns_title = tn_title n, ns_notice_type = tn_notice_type n,
      ns_current_version_id = tn_current_version_id n, ns_published_at = tn_published_at n\<rparr>"

section \<open>Crawl errors\<close>

record crawl_error_query_filters =
  ef_source_code :: "ustr option"
  ef_stage :: "ustr option"
  ef_crawl_job_id :: "int option"
  ef_error_type :: "ustr option"

record crawl_error_list_item =
  el_id :: int
  el_source_code :: ustr
  el_crawl_job_id :: "int option"
  el_stage :: ustr
  el_error_type :: ustr
  el_message :: ustr
  el_url :: "ustr option"
  el_created_at :: instant

record crawl_error_list_result =
  er_items :: "crawl_error_list_item list"
  er_total :: nat
  er_limit :: nat
  er_offset :: nat

record crawl_error_source_summary =
  es_source_code :: ustr
  es_recent_error_count :: nat
  es_latest_error_id :: int
  es_latest_error_message :: ustr
  es_latest_error_created_at :: instant

record crawl_error_detail =
  ed_id :: int
  ed_source_code :: ustr
  ed_crawl_job_id :: "int option"
  ed_raw_document_id :: "int option"
  ed_stage :: ustr
  ed_error_type :: ustr
  ed_message :: ustr
  ed_detail :: "ustr option"
  ed_url :: "ustr option"
  ed_traceback :: "ustr option"
  ed_created_at :: instant
  ed_raw_document :: "raw_document_summary option"
  ed_notice :: "notice_brief option"
  ed_notice_version :: "notice_version_summary option"

definition matches_error :: "crawl_error_query_filters \<Rightarrow> crawl_error \<Rightarrow> ustr \<Rightarrow> bool" where
  "matches_error f e code \<longleftrightarrow>
     when_given (ef_source_code f) (\<lambda>t. code = t) \<and>
     when_given (ef_stage f) (\<lambda>t. ce_stage e = t) \<and>
     (case ef_crawl_job_id f of None \<Rightarrow> True | Some k \<Rightarrow> ce_crawl_job_id e = Some k) \<and>
     when_given (ef_error_type f) (\<lambda>t. ce_error_type e = t)"

definition error_rows :: "crawl_error_query_filters \<Rightarrow> db \<Rightarrow> (crawl_error \<times> ustr) list" where
  "error_rows f d = filter (\<lambda>(e, code). matches_error f e code) (with_code ce_source_site_id d (crawl_errors d))"

definition error_order :: "(crawl_error \<times> ustr) order_term list" where
  "error_order = [desc (\<lambda>r. ce_created_at (fst r)), desc (\<lambda>r. ce_id (fst r))]"

definition to_error_item :: "crawl_error \<times> ustr \<Rightarrow> crawl_error_list_item" where
  "to_error_item r =
     (case r of (e, code) \<Rightarrow>
        \<lparr>el_id = ce_id e, el_source_code = code, el_crawl_job_id = ce_crawl_job_id e, el_stage = ce_stage e,
         el_error_type = ce_error_type e, el_message = ce_error_message e, el_url = ce_url e,
         el_created_at = ce_created_at e\<rparr>)"

definition list_errors :: "crawl_error_query_filters \<Rightarrow> nat \<Rightarrow> nat \<Rightarrow> db \<Rightarrow> crawl_error_list_result" where
  "list_errors f limit offset d =
     (let rows = error_rows f d
      in \<lparr>er_items = map to_error_item (page_of_rows limit offset (sort_rows (before error_order) rows)),
          er_total = length rows, er_limit = limit, er_offset = offset\<rparr>)"

definition get_raw_document_summary :: "int option \<Rightarrow> db \<Rightarrow> raw_document_summary option" where
  "get_raw_document_summary k d =
     (case k of
        None \<Rightarrow> None
      | Some i \<Rightarrow> map_option (\<lambda>r. \<lparr>rs_id = rd_id r, rs_document_type = rd_document_type r,
          rs_fetched_at = rd_fetched_at r, rs_storage_uri = rd_storage_uri r\<rparr>) (get_row rd_id i (raw_documents d)))"

definition notice_relation :: "int option \<Rightarrow> db \<Rightarrow> notice_brief option \<times> notice_version_summary option" where
  "notice_relation k d =
     (case k of
        None \<Rightarrow> (None, None)
      | Some i \<Rightarrow>
         (case notice_of_document i d of
            None \<Rightarrow> (None, None)
          | Some (v, n, code) \<Rightarrow> (Some (to_notice_summary n code), Some (to_version_summary v))))"

definition get_error_detail :: "int \<Rightarrow> db \<Rightarrow> crawl_error_detail option" where
  "get_error_detail k d =
     (case first_row (filter (\<lambda>(e, _). ce_id e = k) (with_code ce_source_site_id d (crawl_errors d))) of
        None \<Rightarrow> None
      | Some (e, code) \<Rightarrow>
         (let (notice, version) = notice_relation (ce_raw_document_id e) d
          in Some \<lparr>ed_id = ce_id e, ed_source_code = code, ed_crawl_job_id = ce_crawl_job_id e,
               ed_raw_document_id = ce_raw_document_id e, ed_stage = ce_stage e, ed_error_type = ce_error_type e,
               ed_message = ce_error_message e, ed_detail = Some (ce_error_message e), ed_url = ce_url e,
               ed_traceback = ce_traceback e, ed_created_at = ce_created_at e,
               ed_raw_document = get_raw_document_summary (ce_raw_document_id e) d, ed_notice = notice,
               ed_notice_version = version\<rparr>))"

text \<open>
  GROUP BY source: the source id and code, the number of errors and the largest id of each group.
\<close>

definition error_groups :: "(crawl_error \<times> ustr) list \<Rightarrow> ((int \<times> ustr) \<times> nat \<times> int) list" where
  "error_groups rows =
     (let group_of = (\<lambda>(e, code). (ce_source_site_id e, code))
      in map (\<lambda>g. let members = filter (\<lambda>r. group_of r = g) rows
                   in (g, length members, max_key (\<lambda>r. ce_id (fst r)) members))
           (remdups (map group_of rows)))"

definition latest_error_map :: "int list \<Rightarrow> db \<Rightarrow> int \<Rightarrow> (ustr \<times> instant) option" where
  "latest_error_map ids d k =
     (if k \<in> set ids
      then map_option (\<lambda>e. (ce_error_message e, ce_created_at e)) (get_row ce_id k (crawl_errors d)) else None)"

definition list_recent_source_summaries ::
    "instant \<Rightarrow> crawl_error_query_filters \<Rightarrow> int \<Rightarrow> nat \<Rightarrow> db \<Rightarrow> crawl_error_source_summary list" where
  "list_recent_source_summaries now f recent_days limit d =
     (let since = now - recent_days * day;
          rows = filter (\<lambda>(e, _). since \<le> ce_created_at e) (error_rows f d);
          groups = take limit (sort_rows (before [desc (\<lambda>(_, n, _). n), desc (\<lambda>(_, _, k). k)]) (error_groups rows));
          latest = latest_error_map (map (\<lambda>(_, _, k). k) groups) d
      in concat (map (\<lambda>((_, code), n, k).
           case latest k of
             None \<Rightarrow> []
           | Some (message, created_at) \<Rightarrow>
               [\<lparr>es_source_code = code, es_recent_error_count = n, es_latest_error_id = k,
                 es_latest_error_message = message, es_latest_error_created_at = created_at\<rparr>]) groups))"

section \<open>Raw documents\<close>

record raw_document_query_filters =
  rf_source_code :: "ustr option"
  rf_document_type :: "ustr option"
  rf_crawl_job_id :: "int option"
  rf_content_hash :: "ustr option"

record raw_document_list_item =
  dl_id :: int
  dl_source_code :: ustr
  dl_crawl_job_id :: "int option"
  dl_url :: ustr
  dl_normalized_url :: ustr
  dl_document_type :: ustr
  dl_fetched_at :: instant
  dl_storage_uri :: ustr
  dl_mime_type :: "ustr option"
  dl_title :: "ustr option"
  dl_content_hash :: "ustr option"

record raw_document_list_result =
  dr_items :: "raw_document_list_item list"
  dr_total :: nat
  dr_limit :: nat
  dr_offset :: nat

record raw_document_detail = raw_document_list_item +
  dd_notice_version :: "notice_version_summary option"
  dd_tender_notice :: "dated_notice_summary option"

definition matches_document :: "raw_document_query_filters \<Rightarrow> raw_document \<Rightarrow> ustr \<Rightarrow> bool" where
  "matches_document f r code \<longleftrightarrow>
     when_given (rf_source_code f) (\<lambda>t. code = t) \<and>
     when_given (rf_document_type f) (\<lambda>t. rd_document_type r = t) \<and>
     (case rf_crawl_job_id f of None \<Rightarrow> True | Some k \<Rightarrow> rd_crawl_job_id r = Some k) \<and>
     when_given (rf_content_hash f) (\<lambda>t. rd_content_hash r = Some t)"

definition document_rows :: "raw_document_query_filters \<Rightarrow> db \<Rightarrow> (raw_document \<times> ustr) list" where
  "document_rows f d =
     filter (\<lambda>(r, code). matches_document f r code) (with_code rd_source_site_id d (raw_documents d))"

definition document_order :: "(raw_document \<times> ustr) order_term list" where
  "document_order =
     [nulls_last (\<lambda>r. Some (rd_fetched_at (fst r))), desc (\<lambda>r. rd_fetched_at (fst r)), desc (\<lambda>r. rd_id (fst r))]"

definition to_document_item :: "raw_document \<times> ustr \<Rightarrow> raw_document_list_item" where
  "to_document_item r =
     (case r of (x, code) \<Rightarrow>
        \<lparr>dl_id = rd_id x, dl_source_code = code, dl_crawl_job_id = rd_crawl_job_id x, dl_url = rd_url x,
         dl_normalized_url = rd_normalized_url x, dl_document_type = rd_document_type x,
         dl_fetched_at = rd_fetched_at x, dl_storage_uri = rd_storage_uri x, dl_mime_type = rd_mime_type x,
         dl_title = rd_title x, dl_content_hash = rd_content_hash x\<rparr>)"

definition list_raw_documents :: "raw_document_query_filters \<Rightarrow> nat \<Rightarrow> nat \<Rightarrow> db \<Rightarrow> raw_document_list_result" where
  "list_raw_documents f limit offset d =
     (let rows = document_rows f d
      in \<lparr>dr_items = map to_document_item (page_of_rows limit offset (sort_rows (before document_order) rows)),
          dr_total = length rows, dr_limit = limit, dr_offset = offset\<rparr>)"

definition get_raw_document_detail :: "int \<Rightarrow> db \<Rightarrow> raw_document_detail option" where
  "get_raw_document_detail k d =
     (case first_row (filter (\<lambda>(r, _). rd_id r = k) (with_code rd_source_site_id d (raw_documents d))) of
        None \<Rightarrow> None
      | Some (r, code) \<Rightarrow>
         (let relation = notice_of_document (rd_id r) d
          in Some \<lparr>dl_id = rd_id r, dl_source_code = code, dl_crawl_job_id = rd_crawl_job_id r, dl_url = rd_url r,
               dl_normalized_url = rd_normalized_url r, dl_document_type = rd_document_type r,
               dl_fetched_at = rd_fetched_at r, dl_storage_uri = rd_storage_uri r, dl_mime_type = rd_mime_type r,
               dl_title = rd_title r, dl_content_hash = rd_content_hash r,
               dd_notice_version = map_option (\<lambda>(v, _, _). to_version_summary v) relation,
               dd_tender_notice = map_option (\<lambda>(_, n, notice_code). to_dated_summary n notice_code) relation\<rparr>))"

section \<open>The endpoints\<close>

definition error_stages :: "ustr list" where
  "error_stages = map lit [''fetch'', ''parse'', ''persist'']"

definition valid_job_filter :: "int option \<Rightarrow> bool" where
  "valid_job_filter k \<longleftrightarrow> (case k of None \<Rightarrow> True | Some i \<Rightarrow> 1 \<le> i)"

text \<open>A stage or a notice type outside its enumeration makes the response fail.\<close>

definition list_errors_endpoint ::
    "crawl_error_query_filters \<Rightarrow> int \<Rightarrow> int \<Rightarrow> db \<Rightarrow> crawl_error_list_result http_result" where
  "list_errors_endpoint f limit offset d =
     (if valid_page limit offset \<and> valid_job_filter (ef_crawl_job_id f) \<and>
         (case ef_stage f of None \<Rightarrow> True | Some t \<Rightarrow> t \<in> set error_stages)
      then (let result = list_errors f (nat limit) (nat offset) d
            in if list_all (\<lambda>i. el_stage i \<in> set error_stages) (er_items result) then Inr result else Inl 500)
      else Inl 422)"

definition types_known :: "ustr option \<Rightarrow> ustr option \<Rightarrow> bool" where
  "types_known a b \<longleftrightarrow>
     (case a of None \<Rightarrow> True | Some t \<Rightarrow> t \<in> set notice_types) \<and>
     (case b of None \<Rightarrow> True | Some t \<Rightarrow> t \<in> set notice_types)"

definition error_detail_endpoint :: "int \<Rightarrow> db \<Rightarrow> crawl_error_detail http_result" where
  "error_detail_endpoint k d =
     (case get_error_detail k d of
        None \<Rightarrow> Inl 404
      | Some i \<Rightarrow>
          if ed_stage i \<in> set error_stages \<and>
             types_known (map_option ns_notice_type (ed_notice i)) (map_option vs_notice_type (ed_notice_version i))
          then Inr i else Inl 500)"

definition list_documents_endpoint ::
    "raw_document_query_filters \<Rightarrow> int \<Rightarrow> int \<Rightarrow> db \<Rightarrow> raw_document_list_result http_result" where
  "list_documents_endpoint f limit offset d =
     (if valid_page limit offset \<and> valid_job_filter (rf_crawl_job_id f)
      then Inr (list_raw_documents f (nat limit) (nat offset) d) else Inl 422)"

definition document_detail_endpoint :: "int \<Rightarrow> db \<Rightarrow> raw_document_detail http_result" where
  "document_detail_endpoint k d =
     (case get_raw_document_detail k d of
        None \<Rightarrow> Inl 404
      | Some i \<Rightarrow>
          if types_known (map_option ns_notice_type (dd_tender_notice i))
               (map_option vs_notice_type (dd_notice_version i))
          then Inr i else Inl 500)"

end
