(* ===== verification/Statistics.thy ===== *)
theory Statistics
  imports Records
begin

text \<open>
  The figures of the dashboard and of the operations report: app/repositories/stats_repository.py,
  app/services/source_ops_service.py, and app/api/endpoints/stats.py and reports.py.

  The day of an instant is counted from 1970-01-01, in UTC as in the rest of the model; the file of the workbook is left
  out.
\<close>

section \<open>The overview\<close>

record daily_count =
  dc_date :: ustr
  dc_count :: nat

record recent_job_summary =
  rj_id :: int
  rj_source_code :: ustr
  rj_status :: job_status
  rj_job_type :: job_type
  rj_started_at :: "instant option"
  rj_finished_at :: "instant option"
  rj_error_count :: int
  rj_message :: "ustr option"

record stats_overview =
  ov_source_count :: nat
  ov_active_source_count :: nat
  ov_crawl_job_count :: nat
  ov_crawl_job_running_count :: nat
  ov_notice_count :: nat
  ov_today_new_notice_count :: nat
  ov_recent_24h_new_notice_count :: nat
  ov_raw_document_count :: nat
  ov_crawl_error_count :: nat
  ov_recent_7d_crawl_job_counts :: "daily_count list"
  ov_recent_7d_notice_counts :: "daily_count list"
  ov_recent_7d_crawl_error_counts :: "daily_count list"
  ov_recent_failed_or_partial_jobs :: "recent_job_summary list"
  ov_recent_crawl_errors :: "crawl_error_list_item list"

definition day_of :: "instant \<Rightarrow> int" where
  "day_of t = t div day"

text \<open>\<open>date.isoformat()\<close>\<close>

definition iso_day :: "int \<Rightarrow> ustr" where
  "iso_day n = take 10 (isoformat (Notices.start_of_day n))"

text \<open>GROUP BY date(created): the days with rows and their numbers, then one entry for every day of the range.\<close>

definition grouped_days :: "instant \<Rightarrow> instant list \<Rightarrow> (int \<times> nat) list" where
  "grouped_days start_at created =
     (let days = map day_of (filter (\<lambda>t. start_at \<le> t) created)
      in map (\<lambda>n. (n, count_list days n)) (remdups days))"

definition recent_daily_counts :: "instant \<Rightarrow> nat \<Rightarrow> instant list \<Rightarrow> daily_count list" where
  "recent_daily_counts now recent_days created =
     (let start_day = day_of now - (int recent_days - 1);
          count_map = map_of (grouped_days (Notices.start_of_day start_day) created)
      in map (\<lambda>offset. \<lparr>dc_date = iso_day (start_day + int offset),
             dc_count = (case count_map (start_day + int offset) of None \<Rightarrow> 0 | Some n \<Rightarrow> n)\<rparr>) [0..<recent_days])"

text \<open>The notices created or given a version since an instant: a UNION, so each counts once.\<close>

definition count_recent_notice_updates :: "instant \<Rightarrow> db \<Rightarrow> nat" where
  "count_recent_notice_updates start_at d =
     length (remdups
       (map tn_id (filter (\<lambda>n. start_at \<le> tn_created_at n) (tender_notices d)) @
        map nv_notice_id (filter (\<lambda>v. start_at \<le> nv_created_at v) (notice_versions d))))"

definition recent_failed_or_partial_jobs :: "nat \<Rightarrow> db \<Rightarrow> recent_job_summary list" where
  "recent_failed_or_partial_jobs limit d =
     map (\<lambda>(j, code). \<lparr>rj_id = cj_id j, rj_source_code = code, rj_status = cj_status j, rj_job_type = cj_job_type j,
           rj_started_at = cj_started_at j, rj_finished_at = cj_finished_at j,
           rj_error_count = error_count (cj_counters j), rj_message = cj_message j\<rparr>)
       (take limit (sort_rows (before [desc (\<lambda>r. cj_created_at (fst r)), desc (\<lambda>r. cj_id (fst r))])
         (filter (\<lambda>(j, _). cj_status j = Failed \<or> cj_status j = Partial)
           (with_code cj_source_site_id d (crawl_jobs d)))))"

definition recent_crawl_errors :: "nat \<Rightarrow> db \<Rightarrow> crawl_error_list_item list" where
  "recent_crawl_errors limit d =
     map to_error_item (take limit (sort_rows (before error_order) (with_code ce_source_site_id d (crawl_errors d))))"

text \<open>The readings of the clock: by the reconciliation, for today, for the last 24 hours and for the three charts.\<close>

record stats_clock =
  sc_reconcile :: instant
  sc_today :: instant
  sc_recent :: instant
  sc_jobs :: instant
  sc_notices :: instant
  sc_errors :: instant

definition overview_of :: "stats_clock \<Rightarrow> nat \<Rightarrow> nat \<Rightarrow> nat \<Rightarrow> db \<Rightarrow> stats_overview" where
  "overview_of c recent_days job_limit error_limit d =
     \<lparr>ov_source_count = length (source_sites d),
      ov_active_source_count = length (filter ss_is_active (source_sites d)),
      ov_crawl_job_count = length (crawl_jobs d),
      ov_crawl_job_running_count = length (filter (\<lambda>j. cj_status j = Running) (crawl_jobs d)),
      ov_notice_count = length (tender_notices d),
      ov_today_new_notice_count = count_recent_notice_updates (Notices.start_of_day (day_of (sc_today c))) d,
      ov_recent_24h_new_notice_count = count_recent_notice_updates (sc_recent c - 24 * hours) d,
      ov_raw_document_count = length (raw_documents d),
      ov_crawl_error_count = length (crawl_errors d),
      ov_recent_7d_crawl_job_counts = recent_daily_counts (sc_jobs c) recent_days (map cj_created_at (crawl_jobs d)),
      ov_recent_7d_notice_counts = recent_daily_counts (sc_notices c) recent_days (map tn_created_at (tender_notices d)),
      ov_recent_7d_crawl_error_counts = recent_daily_counts (sc_errors c) recent_days (map ce_created_at (crawl_errors d)),
      ov_recent_failed_or_partial_jobs = recent_failed_or_partial_jobs job_limit d,
      ov_recent_crawl_errors = recent_crawl_errors error_limit d\<rparr>"

definition get_overview :: "stats_clock \<Rightarrow> db \<Rightarrow> stats_overview result \<times> db" where
  "get_overview c d = reconciled (sc_reconcile c) (overview_of c 7 10 10) d"

definition stats_overview_endpoint :: "stats_clock \<Rightarrow> db \<Rightarrow> stats_overview http_result \<times> db" where
  "stats_overview_endpoint c d = of_result (get_overview c d)"

section \<open>Operations by source\<close>

record source_ops_summary =
  op_source_id :: int
  op_source_code :: ustr
  op_source_name :: ustr
  op_official_url :: ustr
  op_is_active :: bool
  op_schedule_enabled :: bool
  op_schedule_days :: int
  op_today_crawl_job_count :: nat
  op_today_success_count :: nat
  op_today_failed_count :: nat
  op_today_partial_count :: nat
  op_today_new_notice_count :: nat
  op_last_job_status :: "job_status option"
  op_last_job_finished_at :: "instant option"
  op_last_error_message :: "ustr option"
  op_last_retry_status :: "job_status option"
  op_last_retry_job_id :: "int option"

text \<open>The group of a source in a GROUP BY, and the row with the largest id of a group.\<close>

definition load_job_stats :: "int \<Rightarrow> instant \<Rightarrow> db \<Rightarrow> nat \<times> nat \<times> nat \<times> nat" where
  "load_job_stats source_id since d =
     (let jobs = filter (\<lambda>j. cj_source_site_id j = source_id \<and> since \<le> cj_created_at j) (crawl_jobs d);
          number = (\<lambda>st. length (filter (\<lambda>j. cj_status j = st) jobs))
      in (length jobs, number Succeeded, number Failed, number Partial))"

definition load_notice_count :: "int \<Rightarrow> instant \<Rightarrow> db \<Rightarrow> nat" where
  "load_notice_count source_id since d =
     (let own = filter (\<lambda>n. tn_source_site_id n = source_id) (tender_notices d)
      in length (remdups
           (map tn_id (filter (\<lambda>n. since \<le> tn_created_at n) own) @
            concat (map (\<lambda>v. if since \<le> nv_created_at v
                             then map (\<lambda>n. nv_notice_id v) (filter (\<lambda>n. tn_id n = nv_notice_id v) own) else [])
                      (notice_versions d)))))"

definition latest_row :: "('r \<Rightarrow> int) \<Rightarrow> 'r list \<Rightarrow> 'r option" where
  "latest_row key rows = find (\<lambda>r. key r = max_key key rows) rows"

definition load_latest_job :: "int \<Rightarrow> db \<Rightarrow> crawl_job option" where
  "load_latest_job source_id d = latest_row cj_id (filter (\<lambda>j. cj_source_site_id j = source_id) (crawl_jobs d))"

definition load_latest_error :: "int \<Rightarrow> db \<Rightarrow> ustr option" where
  "load_latest_error source_id d =
     (case latest_row ce_id (filter (\<lambda>e. ce_source_site_id e = source_id) (crawl_errors d)) of
        None \<Rightarrow> None
      | Some e \<Rightarrow> if strip (ce_error_message e) = [] then None else Some (ce_error_message e))"

definition load_latest_retry :: "int \<Rightarrow> db \<Rightarrow> crawl_job option" where
  "load_latest_retry source_id d =
     latest_row cj_id (filter (\<lambda>j. cj_source_site_id j = source_id \<and> cj_retry_of_job_id j \<noteq> None) (crawl_jobs d))"

definition summary_of_source :: "instant \<Rightarrow> db \<Rightarrow> source_site \<Rightarrow> source_ops_summary" where
  "summary_of_source since d s =
     (let (jobs, succeeded, failed, partly) = load_job_stats (ss_id s) since d
      in \<lparr>op_source_id = ss_id s, op_source_code = ss_code s, op_source_name = ss_name s,
          op_official_url = (if ss_official_url s = [] then ss_base_url s else ss_official_url s),
          op_is_active = ss_is_active s, op_schedule_enabled = ss_schedule_enabled s,
          op_schedule_days = ss_schedule_days s, op_today_crawl_job_count = jobs, op_today_success_count = succeeded,
          op_today_failed_count = failed, op_today_partial_count = partly,
          op_today_new_notice_count = load_notice_count (ss_id s) since d,
          op_last_job_status = map_option cj_status (load_latest_job (ss_id s) d),
          op_last_job_finished_at = Option.bind (load_latest_job (ss_id s) d) cj_finished_at,
          op_last_error_message = load_latest_error (ss_id s) d,
          op_last_retry_status = map_option cj_status (load_latest_retry (ss_id s) d),
          op_last_retry_job_id = map_option cj_id (load_latest_retry (ss_id s) d)\<rparr>)"

definition ops_sources :: "ustr option \<Rightarrow> ustr list option \<Rightarrow> db \<Rightarrow> source_site list" where
  "ops_sources source_code source_codes d =
     order_by ss_code (filter (\<lambda>s. when_given source_code (\<lambda>t. ss_code s = t) \<and>
         (case source_codes of None \<Rightarrow> True | Some cs \<Rightarrow> cs = [] \<or> ss_code s \<in> set cs)) (source_sites d))"

definition list_source_ops ::
    "instant \<Rightarrow> instant \<Rightarrow> int \<Rightarrow> ustr option \<Rightarrow> ustr list option \<Rightarrow> db \<Rightarrow> source_ops_summary list result \<times> db" where
  "list_source_ops moment now recent_hours source_code source_codes d =
     (case reconciled moment id d of
        (Inl e, d') \<Rightarrow> (Inl e, d')
      | (Inr _, d') \<Rightarrow>
         (if recent_hours < 1 then (Inl (ValueError (lit ''recent_hours must be >= 1'')), d')
          else if source_codes = Some [] then (Inr [], d')
          else (Inr (map (summary_of_source (now - recent_hours * hours) d') (ops_sources source_code source_codes d')), d')))"

definition get_source_ops ::
    "instant \<Rightarrow> instant \<Rightarrow> int \<Rightarrow> ustr \<Rightarrow> db \<Rightarrow> source_ops_summary option result \<times> db" where
  "get_source_ops moment now recent_hours source_code d =
     (case list_source_ops moment now recent_hours (Some source_code) None d of
        (Inl e, d') \<Rightarrow> (Inl e, d')
      | (Inr items, d') \<Rightarrow> (Inr (first_row items), d'))"

section \<open>The report\<close>

definition report_headers :: "ustr list" where
  "report_headers =
     map lit [''source_code'', ''source_name'', ''official_url'', ''is_active'', ''schedule_enabled'', ''schedule_days'',
       ''today_crawl_job_count'', ''today_success_count'', ''today_failed_count'', ''today_partial_count'',
       ''today_new_notice_count'', ''last_job_status'', ''last_job_finished_at'', ''last_error_message'',
       ''last_retry_status'']"

definition report_cells :: "source_ops_summary \<Rightarrow> pyval list" where
  "report_cells r =
     (let text = (\<lambda>v. VStr (case v of None \<Rightarrow> [] | Some t \<Rightarrow> t))
      in [VStr (op_source_code r), VStr (op_source_name r), VStr (op_official_url r), VBool (op_is_active r),
          VBool (op_schedule_enabled r), VInt (op_schedule_days r), VInt (int (op_today_crawl_job_count r)),
          VInt (int (op_today_success_count r)), VInt (int (op_today_failed_count r)),
          VInt (int (op_today_partial_count r)), VInt (int (op_today_new_notice_count r)),
          text (map_option status_text (op_last_job_status r)), text (map_option isoformat (op_last_job_finished_at r)),
          text (op_last_error_message r), text (map_option status_text (op_last_retry_status r))])"

definition source_ops_report ::
    "instant \<Rightarrow> instant \<Rightarrow> int \<Rightarrow> ustr option \<Rightarrow> db \<Rightarrow> pyval list list http_result \<times> db" where
  "source_ops_report moment now recent_hours source_code d =
     (if \<not> (1 \<le> recent_hours \<and> recent_hours \<le> 720) then (Inl 422, d)
      else (case list_source_ops moment now recent_hours source_code None d of
              (Inl _, d') \<Rightarrow> (Inl 500, d')
            | (Inr items, d') \<Rightarrow> (Inr (map VStr report_headers # map report_cells items), d')))"

end
