(* ===== verification/JobQueryFacts.thy ===== *)
theory JobQueryFacts
  imports JobQueries JobProps
begin

text \<open>
  What a list of jobs shows of a database that the job service has kept: live jobs, one per source at most, and the
  retries of each.
\<close>

section \<open>Joined rows\<close>

lemma with_code_mem: "(r, code) \<in> set (with_code key d rows) \<longleftrightarrow>
    r \<in> set rows \<and> (\<exists>s \<in> set (source_sites d). ss_id s = key r \<and> code = ss_code s)"
  by (auto simp: with_code_def)

lemma with_code_one:
  assumes "distinct (map ss_id (source_sites d))" "s \<in> set (source_sites d)" "ss_id s = key r"
  shows "filter (\<lambda>s. ss_id s = key r) (source_sites d) = [s]"
proof -
  have "filter (\<lambda>x. ss_id x = ss_id s) xs = [s]" if "distinct (map ss_id xs)" "s \<in> set xs" for xs
    using that by (induction xs) (auto simp: filter_empty_conv image_iff)
  then show ?thesis using assms by metis
qed

text \<open>Every row whose source exists appears once.\<close>

lemma with_code_rows:
  assumes "distinct (map ss_id (source_sites d))" "\<forall>r \<in> set rows. key r \<in> ss_id ` set (source_sites d)"
  shows "map fst (with_code key d rows) = rows"
  using assms(2)
proof (induction rows)
  case (Cons r rows)
  obtain s where s: "s \<in> set (source_sites d)" "ss_id s = key r" using Cons.prems by force
  have "filter (\<lambda>s. ss_id s = key r) (source_sites d) = [s]" using with_code_one [OF assms(1) s(1), of key r] s(2) by simp
  then show ?case using Cons by (simp add: with_code_def)
qed (simp add: with_code_def)

section \<open>The order of the list\<close>

definition job_row_key :: "crawl_job \<times> ustr \<Rightarrow> int" where
  "job_row_key r = cj_id (fst r)"

interpretation job_list: row_order job_row_key "before (job_order b)"
proof -
  have id: "desc (\<lambda>r. cj_id (fst r)) = desc job_row_key" by (simp add: job_row_key_def [abs_def])
  have "row_order job_row_key (before ([nulls_last (\<lambda>r. Some (job_anchor (fst r))), desc (\<lambda>r. job_anchor (fst r))] @ [desc job_row_key]))"
    by (rule row_order_terms) (simp add: weak_orders)
  moreover have "row_order job_row_key (before ([] @ [desc job_row_key]))"
    by (rule row_order_terms) (simp add: weak_orders)
  ultimately show "row_order job_row_key (before (job_order b))"
    by (cases b) (simp_all add: job_order_def id)
qed

interpretation newest_first: row_order cj_id "before [desc cj_id]"
  using row_order_terms [of "[]" cj_id] by (simp add: weak_orders)

section \<open>Retries\<close>

lemma retry_map_find:
  "retry_map js m k = (case m k of Some j \<Rightarrow> Some j | None \<Rightarrow> find (\<lambda>j. cj_retry_of_job_id j = Some k) js)"
  by (induction js arbitrary: m) (auto split: option.split)

lemma retry_map_iff:
  assumes "retried_once (crawl_jobs d)" "k \<in> set ids"
  shows "retry_map (retry_rows ids d) Map.empty k = Some j \<longleftrightarrow>
    j \<in> set (crawl_jobs d) \<and> cj_retry_of_job_id j = Some k"
proof -
  have rows: "set (retry_rows ids d) =
      {j \<in> set (crawl_jobs d). \<exists>k \<in> set ids. cj_retry_of_job_id j = Some k}"
    by (auto simp: retry_rows_def split: option.splits)
  show ?thesis
  proof
    assume "retry_map (retry_rows ids d) Map.empty k = Some j"
    then have "find (\<lambda>j. cj_retry_of_job_id j = Some k) (retry_rows ids d) = Some j" by (simp add: retry_map_find)
    then show "j \<in> set (crawl_jobs d) \<and> cj_retry_of_job_id j = Some k"
      using rows by (metis (mono_tags, lifting) find_Some_iff mem_Collect_eq nth_mem)
  next
    assume j: "j \<in> set (crawl_jobs d) \<and> cj_retry_of_job_id j = Some k"
    then have "j \<in> set (retry_rows ids d)" using rows assms(2) by auto
    then obtain j' where j': "find (\<lambda>j. cj_retry_of_job_id j = Some k) (retry_rows ids d) = Some j'"
      using j by (cases "find (\<lambda>j. cj_retry_of_job_id j = Some k) (retry_rows ids d)") (auto simp: find_None_iff)
    then have "j' \<in> set (crawl_jobs d)" "cj_retry_of_job_id j' = Some k"
      using rows by (auto simp: find_Some_iff dest!: nth_mem)
    then have "j' = j" using assms(1) j by (auto simp: retried_once_def)
    then show "retry_map (retry_rows ids d) Map.empty k = Some j" using j' by (simp add: retry_map_find)
  qed
qed

lemma attach_original_fields [simp]:
  "jr_job (attach_original d i) = jr_job i" "jr_source_code (attach_original d i) = jr_source_code i"
  "jr_retried_by_job_id (attach_original d i) = jr_retried_by_job_id i"
  by (auto simp: attach_original_def split: option.split)

text \<open>An item of a list: a job of the database with the code of its source, and its retries.\<close>

lemma attached_item:
  assumes "i \<in> set (attach_retry_info d (map (to_job_record n) rows))" "retried_once (crawl_jobs d)"
  obtains r where "r \<in> set rows" "jr_job i = snapshot (fst r)" "jr_source_code i = snd r"
    "\<And>k. jr_retried_by_job_id i = Some k \<longleftrightarrow>
       (\<exists>j \<in> set (crawl_jobs d). cj_id j = k \<and> cj_retry_of_job_id j = Some (cj_id (fst r)))"
proof -
  let ?ids = "map (\<lambda>i. cj_id (jr_job i)) (map (to_job_record n) rows)"
  let ?m = "retry_map (retry_rows ?ids d) Map.empty"
  obtain r where r: "r \<in> set rows"
    and i: "i = (let item' = attach_original d (to_job_record n r)
      in case ?m (cj_id (jr_job (to_job_record n r))) of
           None \<Rightarrow> item'
         | Some j \<Rightarrow> item'\<lparr>jr_retried_by_job_id := Some (cj_id j), jr_retried_by_status := Some (cj_status j),
             jr_retried_by_finished_at := cj_finished_at j, jr_retried_by_message := cj_message j\<rparr>)"
    using assms(1) by (auto simp: attach_retry_info_def Let_def)
  have id: "cj_id (jr_job (to_job_record n r)) = cj_id (fst r)" by (simp add: to_job_record_def)
  have m: "?m (cj_id (fst r)) = Some j \<longleftrightarrow> j \<in> set (crawl_jobs d) \<and> cj_retry_of_job_id j = Some (cj_id (fst r))" for j
    using r by (intro retry_map_iff [OF assms(2)]) (auto simp: to_job_record_def)
  show thesis
  proof (rule that [OF r])
    show "jr_job i = snapshot (fst r)" "jr_source_code i = snd r"
      by (auto simp: i to_job_record_def Let_def split: option.split)
    show "jr_retried_by_job_id i = Some k \<longleftrightarrow>
       (\<exists>j \<in> set (crawl_jobs d). cj_id j = k \<and> cj_retry_of_job_id j = Some (cj_id (fst r)))" for k
    proof (cases "?m (cj_id (fst r))")
      case None
      then have "\<nexists>j. j \<in> set (crawl_jobs d) \<and> cj_retry_of_job_id j = Some (cj_id (fst r))" using m by auto
      then show ?thesis using None by (auto simp: i id Let_def) (simp add: to_job_record_def)
    next
      case (Some j)
      then have j: "j \<in> set (crawl_jobs d)" "cj_retry_of_job_id j = Some (cj_id (fst r))" using m by auto
      have "x = j" if "x \<in> set (crawl_jobs d)" "cj_retry_of_job_id x = Some (cj_id (fst r))" for x
        using that j assms(2) by (auto simp: retried_once_def)
      moreover have "jr_retried_by_job_id i = Some (cj_id j)" using Some by (simp add: i id Let_def)
      ultimately show ?thesis using j by (metis option.inject)
    qed
  qed
qed

section \<open>What a list shows\<close>

lemma reconciled_db:
  "reconciled m q d = (Inr (q (snd (reconcile_expired_jobs m None d))), snd (reconcile_expired_jobs m None d))"
  by (auto simp: reconciled_def reconcile_expired_jobs_def reconcile_eq expire_all_def Let_def)

lemma joined_jobs_mem:
  "(j, code) \<in> set (joined_jobs f d) \<longleftrightarrow> j \<in> set (crawl_jobs d) \<and> matches_job f j code \<and>
     (\<exists>s \<in> set (source_sites d). ss_id s = cj_source_site_id j \<and> code = ss_code s)"
  by (auto simp: joined_jobs_def with_code_mem)

lemma listed_item:
  assumes "i \<in> set (jl_items (list_jobs f b limit offset d))" "db_ok d"
  obtains j code where "(j, code) \<in> set (joined_jobs f d)" "jr_job i = snapshot j" "jr_source_code i = code"
    "\<And>k. jr_retried_by_job_id i = Some k \<longleftrightarrow>
       (\<exists>x \<in> set (crawl_jobs d). cj_id x = k \<and> cj_retry_of_job_id x = Some (cj_id j))"
proof -
  let ?page = "page_of_rows limit offset (sort_rows (before (job_order b)) (joined_jobs f d))"
  have page: "set ?page \<subseteq> set (joined_jobs f d)"
    using set_take_subset set_drop_subset job_list.set_sort_rows [of b "joined_jobs f d"]
    unfolding page_of_rows_def by fastforce
  have once: "retried_once (crawl_jobs d)" using assms(2) by (simp add: db_ok_def)
  have "i \<in> set (attach_retry_info d (map (to_job_record None) ?page))"
    using assms(1) by (simp add: list_jobs_def Let_def)
  then show thesis
    using page that by (elim attached_item [OF _ once]) auto
qed

lemma running_not_stale:
  assumes "job_ok j" "\<not> lease_expired m j" "now \<le> m"
  shows "cj_status j = Running \<Longrightarrow> \<not> stale_at now (cj_status j) (or_else (cj_timeout_at j) (cj_lease_expires_at j))"
  using assms by (auto simp: stale_at_def lease_expired_def resolve_timeout_at_def job_ok_def split: option.splits)

lemma snapshot_timeout [simp]:
  "or_else (resolve_timeout_at j) (cj_lease_expires_at j) = or_else (cj_timeout_at j) (cj_lease_expires_at j)"
  by (cases "cj_timeout_at j"; cases "cj_lease_expires_at j") (auto simp: resolve_timeout_at_def)

lemma progress_flags:
  "pr_is_active (build_crawl_job_progress now j) \<longleftrightarrow> cj_status j = Pending \<or> cj_status j = Running \<and>
     \<not> stale_at now (cj_status j) (or_else (cj_timeout_at j) (cj_lease_expires_at j))"
  "pr_is_stale (build_crawl_job_progress now j) \<longleftrightarrow>
     stale_at now (cj_status j) (or_else (cj_timeout_at j) (cj_lease_expires_at j))"
  by (simp_all add: build_crawl_job_progress_def Let_def split: prod.split)

text \<open>
C30. A list of crawl jobs is up to date: of whatever database the job service has kept, with whatever filters, order and
page, the list request succeeds, and every job it shows as running is within its lease, so that its progress is that of
an active job and a stale one is only ever a claimed job that no worker has started; of the jobs of one source it shows
at most one as active; and the retry it names for a job is the job that was created as its retry, whenever there is one.\<close>

theorem job_list_is_up_to_date:
  assumes "job_step\<^sup>*\<^sup>* (empty_db dia) d" "list_crawl_jobs m f b limit offset d = (r, d')"
  shows "\<exists>l. r = Inr l \<and>
     (\<forall>i \<in> set (jl_items l).
        (pr_is_active (build_crawl_job_progress m (jr_job i)) \<longleftrightarrow> active_status (cj_status (jr_job i))) \<and>
        (pr_is_stale (build_crawl_job_progress m (jr_job i)) \<longrightarrow> cj_status (jr_job i) = Pending) \<and>
        (\<forall>k. jr_retried_by_job_id i = Some k \<longleftrightarrow>
           (\<exists>j \<in> set (crawl_jobs d'). cj_id j = k \<and> cj_retry_of_job_id j = Some (cj_id (jr_job i))))) \<and>
     (\<forall>i \<in> set (jl_items l). \<forall>i' \<in> set (jl_items l). jr_source_code i = jr_source_code i' \<longrightarrow>
        active_status (cj_status (jr_job i)) \<longrightarrow> active_status (cj_status (jr_job i')) \<longrightarrow>
        cj_id (jr_job i) = cj_id (jr_job i'))"
proof -
  have d': "d' = snd (reconcile_expired_jobs m None d)" and r: "r = Inr (list_jobs f b limit offset d')"
    using assms(2) by (auto simp: list_crawl_jobs_def reconciled_db)
  have ok: "db_ok d'" using reachable_ok [OF assms(1)] reconcile_all_ok unfolding d' by blast
  have item: "(pr_is_active (build_crawl_job_progress m (jr_job i)) \<longleftrightarrow> active_status (cj_status (jr_job i))) \<and>
      (pr_is_stale (build_crawl_job_progress m (jr_job i)) \<longrightarrow> cj_status (jr_job i) = Pending) \<and>
      (\<forall>k. jr_retried_by_job_id i = Some k \<longleftrightarrow>
         (\<exists>j \<in> set (crawl_jobs d'). cj_id j = k \<and> cj_retry_of_job_id j = Some (cj_id (jr_job i))))"
    if listed: "i \<in> set (jl_items (list_jobs f b limit offset d'))" for i
  proof -
    obtain j code where row: "(j, code) \<in> set (joined_jobs f d')" "jr_job i = snapshot j" "jr_source_code i = code"
      and retry: "\<And>k. jr_retried_by_job_id i = Some k \<longleftrightarrow>
        (\<exists>x \<in> set (crawl_jobs d'). cj_id x = k \<and> cj_retry_of_job_id x = Some (cj_id j))"
      by (rule listed_item [OF listed ok]) (rule that; assumption)
    then have j: "j \<in> set (crawl_jobs d')" "jr_job i = snapshot j" by (auto simp: joined_jobs_mem)
    have "\<not> lease_expired m j" using reconcile_leaves_none [OF reachable_ok [OF assms(1)]] j(1) unfolding d' by blast
    then have "cj_status j = Running \<Longrightarrow>
        \<not> stale_at m (cj_status j) (or_else (cj_timeout_at j) (cj_lease_expires_at j))"
      using j(1) ok running_not_stale [of j m m] by (auto simp: db_ok_def)
    then show ?thesis
      using retry j(2) by (cases "cj_status j") (auto simp: progress_flags stale_at_def active_status_def)
  qed
  have one: "cj_id (jr_job i) = cj_id (jr_job i')"
    if listed: "i \<in> set (jl_items (list_jobs f b limit offset d'))" "i' \<in> set (jl_items (list_jobs f b limit offset d'))"
      "jr_source_code i = jr_source_code i'" "active_status (cj_status (jr_job i))" "active_status (cj_status (jr_job i'))"
    for i i'
  proof -
    obtain j s where j: "j \<in> set (crawl_jobs d')" "jr_job i = snapshot j" "s \<in> set (source_sites d')"
        "ss_id s = cj_source_site_id j" "jr_source_code i = ss_code s"
      using listed_item [OF listed(1) ok] by (metis joined_jobs_mem)
    obtain j' s' where j': "j' \<in> set (crawl_jobs d')" "jr_job i' = snapshot j'" "s' \<in> set (source_sites d')"
        "ss_id s' = cj_source_site_id j'" "jr_source_code i' = ss_code s'"
      using listed_item [OF listed(2) ok] by (metis joined_jobs_mem)
    have "s = s'" using j j' listed(3) ok by (auto simp: db_ok_def distinct_map dest: inj_onD)
    then have "j = j'"
      using j j' listed(4,5) ok by (auto simp: db_ok_def one_active_per_source_def)
    then show ?thesis using j(2) j'(2) by simp
  qed
  show ?thesis using r item one by blast
qed

definition no_job_filter :: crawl_job_query_filters where
  "no_job_filter = \<lparr>jq_source_code = None, jq_status = None, jq_job_type = None, jq_status_in = None, jq_started_from = None\<rparr>"

lemma job_list_is_up_to_date_witness:
  "\<exists>l i. fst (list_crawl_jobs 9000000000 no_job_filter By_started_at 20 0 sample_running) = Inr l \<and> jl_items l = [i] \<and>
     cj_status (jr_job i) = Failed \<and> \<not> pr_is_stale (build_crawl_job_progress 9000000000 (jr_job i))"
proof -
  let ?r = "list_crawl_jobs 9000000000 no_job_filter By_started_at 20 0 sample_running"
  have "case fst ?r of Inl _ \<Rightarrow> False
      | Inr l \<Rightarrow> (case jl_items l of [i] \<Rightarrow> cj_status (jr_job i) = Failed | _ \<Rightarrow> False)"
    by code_simp
  then obtain l i where l: "fst ?r = Inr l" "jl_items l = [i]" "cj_status (jr_job i) = Failed"
    by (auto split: sum.splits list.splits)
  have "job_step\<^sup>*\<^sup>* (empty_db Sqlite) sample_running" using sample_reach by (meson rtranclp_trans)
  from job_list_is_up_to_date [OF this, of 9000000000 no_job_filter By_started_at 20 0 "fst ?r" "snd ?r"] l
  show ?thesis by (auto simp: prod_eq_iff)
qed

end
