(* ===== verification/StatisticsFacts.thy ===== *)
theory StatisticsFacts
  imports Statistics JobQueryFacts CrawledNotices
begin

text \<open>
  The figures of the dashboard and of the operations report are those of the lists: what they count is what the list
  with the corresponding filters shows.
\<close>

section \<open>What a reconciliation leaves alone\<close>

lemma expire_all_tables [simp]:
  "tender_notices (expire_all m js d) = tender_notices d" "notice_versions (expire_all m js d) = notice_versions d"
  "raw_documents (expire_all m js d) = raw_documents d" "crawl_errors (expire_all m js d) = crawl_errors d"
  unfolding expire_all_def by (induction js arbitrary: d) (simp_all add: update_job_def)

lemma reconcile_tables [simp]:
  "tender_notices (snd (reconcile_expired_jobs m n d)) = tender_notices d"
  "notice_versions (snd (reconcile_expired_jobs m n d)) = notice_versions d"
  "raw_documents (snd (reconcile_expired_jobs m n d)) = raw_documents d"
  "crawl_errors (snd (reconcile_expired_jobs m n d)) = crawl_errors d"
  "source_sites (snd (reconcile_expired_jobs m n d)) = source_sites d"
  by (simp_all add: reconcile_db)

section \<open>Counting joined rows\<close>

lemma length_filter_fst: "length (filter (\<lambda>(r, x). P r) xs) = length (filter P (map fst xs))"
  by (induction xs) auto

lemma joined_count:
  assumes "distinct (map ss_id (source_sites d))" "\<forall>r \<in> set rows. key r \<in> ss_id ` set (source_sites d)"
  shows "length (filter (\<lambda>(r, code). P r) (with_code key d rows)) = length (filter P rows)"
  using with_code_rows [OF assms] by (simp add: length_filter_fst)

lemma with_sources_code:
  "map (\<lambda>(n, s). (n, ss_code s)) (with_sources d) = with_code tn_source_site_id d (tender_notices d)"
  by (simp add: with_code_def with_sources_def map_concat o_def)

lemma with_sources_rows:
  assumes "distinct (map ss_id (source_sites d))" "rows_ok d"
  shows "map fst (with_sources d) = tender_notices d"
proof -
  have "map fst (with_sources d) = map fst (map (\<lambda>(n, s). (n, ss_code s)) (with_sources d))"
    by (simp add: o_def split_def)
  moreover have "\<forall>n \<in> set (tender_notices d). tn_source_site_id n \<in> ss_id ` set (source_sites d)"
    using assms(2) by (simp add: rows_ok_def)
  ultimately show ?thesis unfolding with_sources_code using with_code_rows [OF assms(1)] by simp
qed

lemma with_sources_mem:
  "(n, s) \<in> set (with_sources d) \<longleftrightarrow>
     n \<in> set (tender_notices d) \<and> s \<in> set (source_sites d) \<and> ss_id s = tn_source_site_id n"
  by (auto simp: with_sources_def)

lemma list_total: "lr_total (list_notices env f False sby ord limit offset d) =
    length (filter (\<lambda>(n, s). matches_filters env d f n s) (with_sources d))"
  by (simp add: list_notices_def list_rows_def base_rows_def Let_def)

definition recent_filter :: "int \<Rightarrow> notice_query_filters" where
  "recent_filter h = no_filters\<lparr>qf_recent_hours := Some h\<rparr>"

lemma recent_filter_match:
  "matches_filters env d (recent_filter h) n s \<longleftrightarrow> touched_since (sq_filter_now env - h * hours) d n"
  by (simp add: matches_filters_def recent_filter_def no_filters_def matches_keyword_def when_given_def)

lemma recent_list_total:
  assumes "distinct (map ss_id (source_sites d))" "rows_ok d"
  shows "lr_total (list_notices env (recent_filter h) False sby ord limit offset d) =
    length (filter (touched_since (sq_filter_now env - h * hours) d) (tender_notices d))"
  using with_sources_rows [OF assms] by (simp add: list_total recent_filter_match length_filter_fst)

lemma source_list_total:
  assumes "distinct (map ss_id (source_sites d))" "distinct (map ss_code (source_sites d))" "rows_ok d"
    "s \<in> set (source_sites d)" "ss_code s \<noteq> []"
  shows "lr_total (list_notices env ((recent_filter h)\<lparr>qf_source_code := Some (ss_code s)\<rparr>) False sby ord limit offset d) =
    length (filter (\<lambda>n. tn_source_site_id n = ss_id s \<and> touched_since (sq_filter_now env - h * hours) d n)
      (tender_notices d))"
proof -
  let ?f = "(recent_filter h)\<lparr>qf_source_code := Some (ss_code s)\<rparr>"
  have "matches_filters env d ?f n s' \<longleftrightarrow> tn_source_site_id n = ss_id s \<and> touched_since (sq_filter_now env - h * hours) d n"
    if "(n, s') \<in> set (with_sources d)" for n s'
  proof -
    have s': "s' \<in> set (source_sites d)" "ss_id s' = tn_source_site_id n" using that by (auto simp: with_sources_mem)
    have "ss_code s' = ss_code s \<longleftrightarrow> s' = s" "ss_id s' = ss_id s \<longleftrightarrow> s' = s"
      using assms(1,2,4) s'(1) by (auto simp: distinct_map dest: inj_onD)
    then show ?thesis
      using assms(5) s'(2)
      by (auto simp: matches_filters_def recent_filter_def no_filters_def matches_keyword_def when_given_def)
  qed
  then have "filter (\<lambda>(n, s'). matches_filters env d ?f n s') (with_sources d) =
      filter (\<lambda>(n, s'). tn_source_site_id n = ss_id s \<and> touched_since (sq_filter_now env - h * hours) d n) (with_sources d)"
    by (intro filter_cong refl) auto
  then show ?thesis
    using with_sources_rows [OF assms(1,3)] by (simp add: list_total length_filter_fst)
qed

section \<open>Counting notices by UNION\<close>

lemma length_remdups_image:
  assumes "distinct (map key rows)" "set xs = key ` {r \<in> set rows. P r}"
  shows "length (remdups xs) = length (filter P rows)"
proof -
  have "length (remdups xs) = card (key ` {r \<in> set rows. P r})" using assms(2) by (simp add: length_remdups_card_conv)
  also have "\<dots> = card {r \<in> set rows. P r}"
    using assms(1) by (intro card_image) (auto simp: distinct_map intro: inj_on_subset)
  also have "\<dots> = length (filter P rows)"
    using assms(1) distinct_card [of "filter P rows"] by (simp add: distinct_map)
  finally show ?thesis .
qed

lemma recent_updates_count:
  assumes "rows_ok d"
  shows "count_recent_notice_updates start_at d = length (filter (touched_since start_at d) (tender_notices d))"
  unfolding count_recent_notice_updates_def
proof (rule length_remdups_image)
  show "distinct (map tn_id (tender_notices d))" using assms by (simp add: rows_ok_def)
  show "set (map tn_id (filter (\<lambda>n. start_at \<le> tn_created_at n) (tender_notices d)) @
      map nv_notice_id (filter (\<lambda>v. start_at \<le> nv_created_at v) (notice_versions d))) =
    tn_id ` {n \<in> set (tender_notices d). touched_since start_at d n}"
    using assms by (fastforce simp: rows_ok_def touched_since_def list_ex_iff image_iff)
qed

lemma notice_count_of_source:
  assumes "rows_ok d"
  shows "load_notice_count k since d =
    length (filter (\<lambda>n. tn_source_site_id n = k \<and> touched_since since d n) (tender_notices d))"
  unfolding load_notice_count_def Let_def
proof (rule length_remdups_image)
  show "distinct (map tn_id (tender_notices d))" using assms by (simp add: rows_ok_def)
  show "set (map tn_id (filter (\<lambda>n. since \<le> tn_created_at n) (filter (\<lambda>n. tn_source_site_id n = k) (tender_notices d))) @
      concat (map (\<lambda>v. if since \<le> nv_created_at v
          then map (\<lambda>n. nv_notice_id v)
            (filter (\<lambda>n. tn_id n = nv_notice_id v) (filter (\<lambda>n. tn_source_site_id n = k) (tender_notices d))) else [])
        (notice_versions d))) =
    tn_id ` {n \<in> set (tender_notices d). tn_source_site_id n = k \<and> touched_since since d n}"
    by (force simp: touched_since_def list_ex_iff image_iff split: if_splits)
qed

lemma count_by_source:
  assumes "distinct (map key ss)" "\<forall>r \<in> set rows. owner r \<in> key ` set ss"
  shows "(\<Sum>s\<leftarrow>ss. length (filter (\<lambda>r. owner r = key s \<and> P r) rows)) = length (filter P rows)"
  using assms(2)
proof (induction rows)
  case (Cons r rows)
  have one: "(\<Sum>s\<leftarrow>xs. if owner r = key s then 1 else (0::nat)) = (if owner r \<in> key ` set xs then 1 else 0)"
    if "distinct (map key xs)" for xs
    using that by (induction xs) auto
  have "(\<Sum>s\<leftarrow>ss. length (filter (\<lambda>r. owner r = key s \<and> P r) (r # rows))) =
      (\<Sum>s\<leftarrow>ss. (if P r then if owner r = key s then 1 else 0 else 0) +
        length (filter (\<lambda>r. owner r = key s \<and> P r) rows))"
    by (intro arg_cong [where f = sum_list] map_cong) auto
  also have "\<dots> = (if P r then 1 else 0) + length (filter P rows)"
    using Cons one [OF assms(1)] by (cases "P r") (simp_all add: sum_list_addf)
  finally show ?case by simp
qed simp

section \<open>The dashboard and the lists\<close>

definition documents_have_sources :: "db \<Rightarrow> bool" where
  "documents_have_sources d \<longleftrightarrow>
     (\<forall>r \<in> set (raw_documents d). rd_source_site_id r \<in> ss_id ` set (source_sites d)) \<and>
     (\<forall>e \<in> set (crawl_errors d). ce_source_site_id e \<in> ss_id ` set (source_sites d))"

definition no_error_filter :: crawl_error_query_filters where
  "no_error_filter = \<lparr>ef_source_code = None, ef_stage = None, ef_crawl_job_id = None, ef_error_type = None\<rparr>"

definition no_document_filter :: raw_document_query_filters where
  "no_document_filter = \<lparr>rf_source_code = None, rf_document_type = None, rf_crawl_job_id = None, rf_content_hash = None\<rparr>"

lemma filter_True_rows: "filter (\<lambda>(r, x). True) xs = xs"
  by (simp add: filter_id_conv)

lemma job_totals:
  assumes "db_ok d"
  shows "jl_total (list_jobs no_job_filter b limit offset d) = length (crawl_jobs d)"
    "jl_total (list_jobs (no_job_filter\<lparr>jq_status := Some (status_text st)\<rparr>) b limit offset d) =
      length (filter (\<lambda>j. cj_status j = st) (crawl_jobs d))"
proof -
  have keys: "distinct (map ss_id (source_sites d))"
    "\<forall>j \<in> set (crawl_jobs d). cj_source_site_id j \<in> ss_id ` set (source_sites d)"
    using assms by (auto simp: db_ok_def refs_ok_def)
  note count = joined_count [OF keys]
  have inj: "status_text a = status_text st \<longleftrightarrow> a = st" for a
    by (metis normalize_status_text sum.inject(2))
  have nonempty: "status_text st \<noteq> []" by (cases st) (simp_all add: lit_def)
  have "matches_job no_job_filter j code"
    "matches_job (no_job_filter\<lparr>jq_status := Some (status_text st)\<rparr>) j code \<longleftrightarrow> cj_status j = st" for j code
    using nonempty by (simp_all add: matches_job_def no_job_filter_def when_given_def inj)
  then show "jl_total (list_jobs no_job_filter b limit offset d) = length (crawl_jobs d)"
    "jl_total (list_jobs (no_job_filter\<lparr>jq_status := Some (status_text st)\<rparr>) b limit offset d) =
      length (filter (\<lambda>j. cj_status j = st) (crawl_jobs d))"
    using count [of "\<lambda>_. True"] count [of "\<lambda>j. cj_status j = st"]
    by (simp_all add: list_jobs_def joined_jobs_def Let_def)
qed

lemma document_totals:
  assumes "distinct (map ss_id (source_sites d))" "documents_have_sources d"
  shows "dr_total (list_raw_documents no_document_filter limit offset d) = length (raw_documents d)"
    "er_total (list_errors no_error_filter limit offset d) = length (crawl_errors d)"
proof -
  have "\<forall>r \<in> set (raw_documents d). rd_source_site_id r \<in> ss_id ` set (source_sites d)"
    "\<forall>e \<in> set (crawl_errors d). ce_source_site_id e \<in> ss_id ` set (source_sites d)"
    using assms(2) by (auto simp: documents_have_sources_def)
  note counts = joined_count [OF assms(1) this(1), of "\<lambda>_. True"] joined_count [OF assms(1) this(2), of "\<lambda>_. True"]
  show "dr_total (list_raw_documents no_document_filter limit offset d) = length (raw_documents d)"
    using counts(1)
    by (simp add: list_raw_documents_def document_rows_def matches_document_def no_document_filter_def when_given_def Let_def)
  show "er_total (list_errors no_error_filter limit offset d) = length (crawl_errors d)"
    using counts(2)
    by (simp add: list_errors_def error_rows_def matches_error_def no_error_filter_def when_given_def Let_def)
qed

lemma notice_total:
  assumes "distinct (map ss_id (source_sites d))" "rows_ok d"
  shows "lr_total (list_notices env no_filters False sby ord limit offset d) = length (tender_notices d)"
  using arg_cong [OF with_sources_rows [OF assms], of length]
  by (simp add: list_total no_filters_match filter_True_rows)

text \<open>
C31. The figures of the dashboard are the totals of the lists: of a database that the job service and the writers have kept
and whose documents and errors have their sources, the overview succeeds, and its numbers of jobs, of running jobs, of
notices, of documents and of errors are those of the lists without filter (with the filter for running jobs), whatever
their order and page; the new notices of the last 24 hours are those the list without deduplication shows with the filter
of 24 hours at the same moment, and none of the running jobs it counts is past its lease.\<close>

theorem dashboard_agrees_with_the_lists:
  assumes "db_ok d" "rows_ok d" "documents_have_sources d" "get_overview c d = (r, d')"
  shows "\<exists>v. r = Inr v \<and>
     ov_crawl_job_count v = jl_total (list_jobs no_job_filter b limit offset d') \<and>
     ov_crawl_job_running_count v = jl_total (list_jobs (no_job_filter\<lparr>jq_status := Some (lit ''running'')\<rparr>) b limit offset d') \<and>
     ov_notice_count v = lr_total (list_notices env no_filters False sby ord limit offset d') \<and>
     ov_recent_24h_new_notice_count v =
       lr_total (list_notices (env\<lparr>sq_filter_now := sc_recent c\<rparr>) (recent_filter 24) False sby ord limit offset d') \<and>
     ov_raw_document_count v = dr_total (list_raw_documents no_document_filter limit offset d') \<and>
     ov_crawl_error_count v = er_total (list_errors no_error_filter limit offset d') \<and>
     \<not> list_ex (lease_expired (sc_reconcile c)) (crawl_jobs d')"
proof -
  have d': "d' = snd (reconcile_expired_jobs (sc_reconcile c) None d)" and r: "r = Inr (overview_of c 7 10 10 d')"
    using assms(4) by (auto simp: get_overview_def reconciled_db)
  have ok: "db_ok d'" using assms(1) unfolding d' by (rule reconcile_all_ok)
  have rows: "rows_ok d'" "documents_have_sources d'"
    using assms(2,3) by (simp_all add: d' rows_ok_def documents_have_sources_def)
  have keys: "distinct (map ss_id (source_sites d'))" using ok by (simp add: db_ok_def)
  have live: "\<not> list_ex (lease_expired (sc_reconcile c)) (crawl_jobs d')"
    using reconcile_leaves_none [OF assms(1)] by (auto simp: d' list_ex_iff)
  show ?thesis
    using r live job_totals(1) [OF ok] job_totals(2) [OF ok, where st = Running] document_totals [OF keys rows(2)]
      notice_total [OF keys rows(1)] recent_list_total [OF keys rows(1)] recent_updates_count [OF rows(1)]
    by (simp add: overview_of_def)
qed

section \<open>The operations report\<close>

lemma status_counts_le:
  "length (filter (\<lambda>j. cj_status j = Succeeded) js) + length (filter (\<lambda>j. cj_status j = Failed) js) +
   length (filter (\<lambda>j. cj_status j = Partial) js) \<le> length js"
  by (induction js) auto

text \<open>
C32. The operations report counts every new notice once: of a database that the job service and the writers have kept, the
report over any number of hours succeeds, has one row for every source, and its new notices add up to those the list
without deduplication shows with the filter of the same hours; the row of a source gives those the list shows with the
filter for its code; and of the jobs of a row at most as many have succeeded, failed or partly succeeded as there are.\<close>

theorem report_counts_every_new_notice:
  assumes "db_ok d" "rows_ok d" "1 \<le> h" "list_source_ops m now h None None d = (r, d')"
  shows "\<exists>items. r = Inr items \<and> mset (map op_source_code items) = mset (map ss_code (source_sites d')) \<and>
     (\<Sum>x\<leftarrow>items. op_today_new_notice_count x) =
       lr_total (list_notices (env\<lparr>sq_filter_now := now\<rparr>) (recent_filter h) False sby ord limit offset d') \<and>
     (\<forall>x \<in> set items.
        (op_source_code x \<noteq> [] \<longrightarrow> op_today_new_notice_count x =
           lr_total (list_notices (env\<lparr>sq_filter_now := now\<rparr>) ((recent_filter h)\<lparr>qf_source_code := Some (op_source_code x)\<rparr>)
             False sby ord limit offset d')) \<and>
        op_today_success_count x + op_today_failed_count x + op_today_partial_count x \<le> op_today_crawl_job_count x)"
proof -
  let ?since = "now - h * hours"
  let ?items = "map (summary_of_source ?since d') (ops_sources None None d')"
  have d': "d' = snd (reconcile_expired_jobs m None d)" and r: "r = Inr ?items"
    using assms(3,4) by (auto simp: list_source_ops_def reconciled_db)
  have rows: "rows_ok d'" using assms(2) by (simp add: d' rows_ok_def)
  have "db_ok d'" using assms(1) unfolding d' by (rule reconcile_all_ok)
  then have keys: "distinct (map ss_id (source_sites d'))" "distinct (map ss_code (source_sites d'))"
    by (simp_all add: db_ok_def)
  have mset: "mset (ops_sources None None d') = mset (source_sites d')"
    by (simp add: ops_sources_def order_by_def when_given_def)
  have code: "op_source_code (summary_of_source t x s) = ss_code s" for t x s
    by (simp add: summary_of_source_def split: prod.split)
  have new: "op_today_new_notice_count (summary_of_source t x s) = load_notice_count (ss_id s) t x" for t x s
    by (simp add: summary_of_source_def split: prod.split)
  have "mset (map op_source_code ?items) = mset (map ss_code (source_sites d'))"
    using mset by (simp add: code o_def)
  moreover have "(\<Sum>x\<leftarrow>?items. op_today_new_notice_count x) =
      lr_total (list_notices (env\<lparr>sq_filter_now := now\<rparr>) (recent_filter h) False sby ord limit offset d')"
  proof -
    have "(\<Sum>x\<leftarrow>?items. op_today_new_notice_count x) = (\<Sum>s\<leftarrow>source_sites d'. load_notice_count (ss_id s) ?since d')"
      using arg_cong [OF mset, of "\<lambda>ss. \<Sum>s\<in>#ss. load_notice_count (ss_id s) ?since d'"]
      by (simp add: new o_def sum_mset_sum_list [symmetric])
    also have "\<dots> = length (filter (touched_since ?since d') (tender_notices d'))"
      unfolding notice_count_of_source [OF rows]
      using rows by (intro count_by_source [OF keys(1)]) (simp add: rows_ok_def)
    finally show ?thesis using recent_list_total [OF keys(1) rows] by simp
  qed
  moreover have "(op_source_code x \<noteq> [] \<longrightarrow> op_today_new_notice_count x =
       lr_total (list_notices (env\<lparr>sq_filter_now := now\<rparr>) ((recent_filter h)\<lparr>qf_source_code := Some (op_source_code x)\<rparr>)
         False sby ord limit offset d')) \<and>
     op_today_success_count x + op_today_failed_count x + op_today_partial_count x \<le> op_today_crawl_job_count x"
    if "x \<in> set ?items" for x
  proof -
    obtain s where s: "s \<in> set (source_sites d')" "x = summary_of_source ?since d' s"
      using \<open>x \<in> set ?items\<close> mset_eq_setD [OF mset] by auto
    have "op_today_success_count x + op_today_failed_count x + op_today_partial_count x \<le> op_today_crawl_job_count x"
      using status_counts_le [of "filter (\<lambda>j. cj_source_site_id j = ss_id s \<and> ?since \<le> cj_created_at j) (crawl_jobs d')"]
      by (simp add: s(2) summary_of_source_def load_job_stats_def Let_def)
    then show ?thesis
      using source_list_total [OF keys rows s(1)] notice_count_of_source [OF rows] by (simp add: s(2) code new)
  qed
  ultimately show ?thesis using r by blast
qed

section \<open>The charts\<close>

text \<open>Each entry of a chart is the number of rows created on its day, and the entries add up to the rows since the first.\<close>

lemma map_of_grouped_days:
  "map_of (grouped_days start_at created) n =
     (let k = length (filter (\<lambda>t. start_at \<le> t \<and> day_of t = n) created) in if k = 0 then None else Some k)"
proof -
  have "map_of (map (\<lambda>n. (n, f n)) xs) n = (if n \<in> set xs then Some (f n) else None)" for f :: "int \<Rightarrow> nat" and xs
    by (induction xs) auto
  moreover have "count_list (map day_of (filter (\<lambda>t. start_at \<le> t) created)) n =
      length (filter (\<lambda>t. start_at \<le> t \<and> day_of t = n) created)"
    by (induction created) auto
  ultimately show ?thesis
    by (auto simp: grouped_days_def Let_def filter_empty_conv)
qed

lemma chart_entries:
  "map dc_count (recent_daily_counts now k created) =
   map (\<lambda>i. length (filter (\<lambda>t. day_of t = day_of now - (int k - 1) + int i) created)) [0..<k]"
proof -
  have "Notices.start_of_day n \<le> t" if "day_of t = n + int i" for n t i
  proof -
    have day: "0 < day" by (simp add: day_def second_def)
    have "n * day \<le> (t div day) * day" using that day by (simp add: day_of_def)
    also have "\<dots> \<le> t" using day by (simp add: minus_mod_eq_div_mult [symmetric])
    finally show ?thesis by (simp only: Notices.start_of_day_def)
  qed
  then have "filter (\<lambda>t. Notices.start_of_day n \<le> t \<and> day_of t = n + int i) created = filter (\<lambda>t. day_of t = n + int i) created"
    for n i
    by (intro filter_cong refl) auto
  then show ?thesis
    by (simp add: recent_daily_counts_def Let_def map_of_grouped_days)
qed

section \<open>Witnesses\<close>

definition sample_report :: db where
  "sample_report = sample_finished\<lparr>tender_notices := [sample_notice 1 ''a'' None, sample_notice 2 ''b'' (Some 5)]\<rparr>"

lemma sample_report_ok: "db_ok sample_report" "rows_ok sample_report" "documents_have_sources sample_report"
proof -
  show "db_ok sample_report" using sample_ok(3) by (simp add: sample_report_def db_ok_def refs_ok_def)
  have "map tn_id (tender_notices sample_report) = [1, 2]" "notice_versions sample_report = []" 
    "list_all (\<lambda>n. tn_source_site_id n \<in> set (map ss_id (source_sites sample_report)) \<and> span_ok n)
       (tender_notices sample_report)"
    "list_all (\<lambda>a. list_all (\<lambda>b. \<not> notices_clash a b) (tender_notices sample_report)) (tender_notices sample_report)"
    "raw_documents sample_report = []" "crawl_errors sample_report = []"
    by code_simp+
  then show "rows_ok sample_report" "documents_have_sources sample_report"
    by (simp_all add: rows_ok_def documents_have_sources_def list_all_iff)
qed

lemma sample_report_totals:
  "lr_total (list_notices sample_sql no_filters False [] [] 20 0 (snd (reconcile_expired_jobs 9000 None sample_report))) = 2"
  "lr_total (list_notices (sample_sql\<lparr>sq_filter_now := 9000\<rparr>) (recent_filter 24) False [] [] 20 0
     (snd (reconcile_expired_jobs 9000 None sample_report))) = 2"
  by code_simp+

lemma databases_after:
  "snd (get_overview c d) = snd (reconcile_expired_jobs (sc_reconcile c) None d)"
  "snd (list_source_ops m now h code codes d) = snd (reconcile_expired_jobs m None d)"
  by (simp_all add: get_overview_def list_source_ops_def reconciled_db)

lemma dashboard_agrees_with_the_lists_witness:
  "\<exists>v. fst (get_overview \<lparr>sc_reconcile = 9000, sc_today = 9000, sc_recent = 9000, sc_jobs = 9000, sc_notices = 9000,
       sc_errors = 9000\<rparr> sample_report) = Inr v \<and> ov_notice_count v = 2 \<and> ov_recent_24h_new_notice_count v = 2"
proof -
  let ?c = "\<lparr>sc_reconcile = 9000, sc_today = 9000, sc_recent = 9000, sc_jobs = 9000, sc_notices = 9000, sc_errors = 9000\<rparr>"
  show ?thesis
    using sample_report_totals dashboard_agrees_with_the_lists [OF sample_report_ok prod.collapse [symmetric], of ?c By_id 20 0 sample_sql "[]" "[]"]
    by (auto simp: databases_after)
qed

lemma report_counts_every_new_notice_witness:
  "\<exists>items. fst (list_source_ops 9000 9000 24 None None sample_report) = Inr items \<and>
     (\<Sum>x\<leftarrow>items. op_today_new_notice_count x) = 2"
  using sample_report_totals(2) report_counts_every_new_notice [OF sample_report_ok(1,2) _ prod.collapse [symmetric],
      of 24 9000 9000 sample_sql "[]" "[]" 20 0]
  by (auto simp: databases_after)

end
