(* ===== verification/GgzyParser.thy ===== *)
theory GgzyParser
  imports AnhuiDetail "HOL-Library.Sublist"
begin

text \<open>
  crawler/tender_crawler/parsers/ggzy_gov_cn_deal_parser.py: from a record of the list interface of the national
  platform, and from the detail page, to the fields of a notice.

  What lies outside the program is an argument (\<open>ggzy_lib\<close>): the selectors, urljoin and the rest of
  \<open>page_lib\<close>, json.loads and json.dumps, int() of a value that is no int, bool or str, the check that
  scrapy.Request makes of an address, and urljoin of a response.
\<close>

section \<open>What the parser is given\<close>

text \<open>
  The outcome of json.loads: the text of a JSONDecodeError, another exception (ValueError of an integer that is
  too long, RecursionError) or a value.  \<open>gz_list t\<close> are the elements of the list that str() shows as t, None when
  the value with that text is no list.
\<close>

datatype json_outcome = Json_bad ustr | Json_raises pyerror | Json_value pyval

record ggzy_lib =
  gz_page :: page_lib
  gz_loads :: "ustr \<Rightarrow> json_outcome"
  gz_dumps :: "payload \<Rightarrow> ustr"
  gz_list :: "ustr \<Rightarrow> pyval list option"
  gz_other_int :: "ustr \<Rightarrow> int result"
  gz_title_text :: "ustr \<Rightarrow> ustr option"
  gz_body_texts :: "ustr \<Rightarrow> ustr list"
  gz_request_refused :: "ustr \<Rightarrow> pyerror option"
  gz_response_join :: "ustr \<Rightarrow> ustr \<Rightarrow> ustr \<Rightarrow> ustr result"

abbreviation gz_text :: "ggzy_lib \<Rightarrow> text_lib" where
  "gz_text gl \<equiv> pg_text (gz_page gl)"

record ggzy_record =
  gr_title :: ustr
  gr_normalized_title :: "ustr option"
  gr_published_date :: "ustr option"
  gr_published_at_iso :: "ustr option"
  gr_province :: "ustr option"
  gr_source_platform :: "ustr option"
  gr_issuer :: "ustr option"
  gr_notice_type :: ustr
  gr_detail_url :: "ustr option"
  gr_normalized_detail_url :: "ustr option"
  gr_external_id :: "ustr option"
  gr_source_duplicate_key :: ustr
  gr_source_list_item_fingerprint :: ustr
  gr_list_item_content_hash :: ustr
  gr_list_item_raw :: payload

section \<open>Texts\<close>

text \<open>\<open>_normalize_text\<close> and \<open>_normalize_identity_text\<close>.\<close>

definition page_text :: "text_lib \<Rightarrow> pyval \<Rightarrow> ustr option" where
  "page_text lib v =
     (case v of VNone \<Rightarrow> None | _ \<Rightarrow> text_or_none (strip (collapse_spaces (tl_nfkc lib (py_str v)))))"

definition identity_text :: "text_lib \<Rightarrow> ustr option \<Rightarrow> ustr" where
  "identity_text lib v =
     (case page_text lib (optional_text v) of
        None \<Rightarrow> lit ''-''
      | Some t \<Rightarrow> stable_seed_text (Some (tl_lower lib (strip (collapse_spaces (tl_nfkc lib t))))))"

text \<open>The truth of an optional text, as a value.\<close>

definition full :: "ustr option \<Rightarrow> ustr option" where
  "full v = (case v of None \<Rightarrow> None | Some t \<Rightarrow> text_or_none t)"

section \<open>The title without its trailing words\<close>

text \<open>
  The separators of the expression \<open>_MEANINGLESS_TITLE_SUFFIX_RE\<close>, and those that rstrip removes.  The words have
  no letter case, so that IGNORECASE and lower() change nothing when an end is compared with them.
\<close>

definition title_marks :: ustr where
  "title_marks = [45, 8212, 95, 58, 65306, 44, 65292, 12290, 65307, 59, 183]"

definition suffix_separator :: "nat \<Rightarrow> bool" where
  "suffix_separator c \<longleftrightarrow> py_space c \<or> c \<in> set title_marks"

definition title_words :: "ustr list" where
  "title_words = [zh_procurement, zh_tendering, zh_competitive_consultation, zh_competitive_negotiation, zh_inquiry,
     zh_bid_won, zh_deal_made, zh_result, zh_correction, zh_clarification, zh_termination, zh_bid_voided, zh_bid_failed]"

definition title_ends :: "ustr list" where
  "title_ends = [zh_metric_notices, zh_publicity, zh_notification, zh_information]"

definition cut_end :: "ustr list \<Rightarrow> ustr \<Rightarrow> ustr option" where
  "cut_end ws s = map_option (\<lambda>w. take (length s - length w) s) (find (\<lambda>w. ends_with w s) ws)"

definition drop_right :: "(nat \<Rightarrow> bool) \<Rightarrow> ustr \<Rightarrow> ustr" where
  "drop_right p s = rev (dropWhile p (rev s))"

text \<open>
  \<open>_MEANINGLESS_TITLE_SUFFIX_RE.sub("", s)\<close>: the leftmost match takes the word before the end, if there is one,
  and all separators before it.
\<close>

definition cut_suffix :: "ustr \<Rightarrow> ustr" where
  "cut_suffix s =
     (case cut_end title_ends s of
        None \<Rightarrow> s
      | Some r \<Rightarrow> drop_right suffix_separator (case cut_end title_words r of None \<Rightarrow> r | Some q \<Rightarrow> q))"

lemma strip_sublist: "sublist (strip s) s"
proof -
  have "sublist (rstrip t) t" for t
    unfolding rstrip_def by (metis rev_rev_ident suffix_dropWhile suffix_to_prefix prefix_imp_sublist)
  moreover have "sublist (lstrip s) s"
    unfolding lstrip_def by (simp add: suffix_dropWhile suffix_imp_sublist)
  ultimately show ?thesis unfolding strip_def by (rule sublist_order.order.trans)
qed

lemma drop_right_sublist: "sublist (drop_right p s) s"
  unfolding drop_right_def by (metis rev_rev_ident suffix_dropWhile suffix_to_prefix prefix_imp_sublist)

lemma cut_end_sublist: "cut_end ws s = Some r \<Longrightarrow> sublist r s"
  by (auto simp: cut_end_def)

lemma cut_suffix_sublist: "sublist (cut_suffix s) s"
  unfolding cut_suffix_def
  by (auto split: option.splits dest!: cut_end_sublist intro: sublist_order.order.trans drop_right_sublist)

lemma sublist_shorter: "sublist u s \<Longrightarrow> u \<noteq> s \<Longrightarrow> length u < length s"
  by (auto simp: sublist_def)

function cut_suffixes :: "ustr \<Rightarrow> ustr" where
  "cut_suffixes s = (let u = strip (cut_suffix s) in if u = s then s else cut_suffixes u)"
  by pat_completeness auto
termination
  by (relation "measure length")
     (auto intro!: sublist_shorter intro: sublist_order.order.trans [OF strip_sublist cut_suffix_sublist])

declare cut_suffixes.simps [simp del]

definition trailing_mark :: "nat \<Rightarrow> bool" where
  "trailing_mark c \<longleftrightarrow> c \<in> set (32 # title_marks)"

definition cut_marks :: "ustr \<Rightarrow> ustr" where
  "cut_marks s = strip (drop_right trailing_mark s)"

lemma cut_marks_sublist: "sublist (cut_marks s) s"
  unfolding cut_marks_def by (rule sublist_order.order.trans [OF strip_sublist drop_right_sublist])

lemma title_words_not_empty: "w \<in> set title_words \<Longrightarrow> w \<noteq> []"
  by (auto simp: title_words_def zh_procurement_def zh_tendering_def zh_competitive_consultation_def
      zh_competitive_negotiation_def zh_inquiry_def zh_bid_won_def zh_deal_made_def zh_result_def zh_correction_def
      zh_clarification_def zh_termination_def zh_bid_voided_def zh_bid_failed_def)

lemma cut_word_length: "cut_end title_words s = Some r \<Longrightarrow> length r < length s"
proof -
  assume "cut_end title_words s = Some r"
  then obtain w where w: "find (\<lambda>w. ends_with w s) title_words = Some w" "r = take (length s - length w) s"
    by (auto simp: cut_end_def)
  have "w \<noteq> []" using w(1) title_words_not_empty by (metis find_Some_iff nth_mem)
  moreover have "ends_with w s" using w(1) by (metis find_Some_iff)
  ultimately have "s \<noteq> []" by (auto simp: ends_with_def starts_with_def)
  then show ?thesis using w(2) \<open>w \<noteq> []\<close> by (cases s; cases w) auto
qed

function cut_words :: "ustr \<Rightarrow> ustr" where
  "cut_words s =
     (case cut_end title_words (cut_marks s) of None \<Rightarrow> cut_marks s | Some r \<Rightarrow> cut_words (cut_marks r))"
  by pat_completeness auto
termination
  by (relation "measure length")
     (auto dest!: cut_word_length intro: le_less_trans [OF sublist_length_le [OF cut_marks_sublist]]
        less_le_trans [OF _ sublist_length_le [OF cut_marks_sublist]])

declare cut_words.simps [simp del]

text \<open>\<open>normalize_title_for_source_dedup\<close>\<close>

definition normalize_source_title :: "text_lib \<Rightarrow> ustr \<Rightarrow> ustr option" where
  "normalize_source_title lib value =
     (case page_text lib (VStr value) of
        None \<Rightarrow> None
      | Some t \<Rightarrow>
         (let n = cut_marks (cut_words (cut_suffixes (strip (collapse_spaces (tl_nfkc lib t)))));
              shown = collapse_spaces (filter (\<lambda>c. c \<noteq> 32) n)
          in if shown = [] then None else Some (tl_lower lib shown)))"

section \<open>The fields of a record\<close>

text \<open>\<open>record.get(k1) or record.get(k2) or ...\<close>\<close>

fun get_any :: "text_lib \<Rightarrow> payload \<Rightarrow> string list \<Rightarrow> pyval" where
  "get_any lib d [] = VNone"
| "get_any lib d [k] = dict_get d (lit k)"
| "get_any lib d (k # l # ks) = py_or (tl_true lib) (dict_get d (lit k)) (get_any lib d (l # ks))"

definition ggzy_site_url :: ustr where
  "ggzy_site_url = lit ''https://www.ggzy.gov.cn/''"

definition infer_ggzy_notice_type :: "ustr \<Rightarrow> ustr option \<Rightarrow> ustr" where
  "infer_ggzy_notice_type title info_text =
     (let combined = title @ lit '' '' @ opt_text info_text
      in if list_ex (\<lambda>k. contains k combined)
           [zh_correction, zh_change, zh_clarification, zh_extension, zh_termination, zh_bid_voided, zh_bid_failed]
         then lit ''change''
         else if list_ex (\<lambda>k. contains k combined) [zh_bid_won, zh_deal_made, zh_result, zh_contract] then lit ''result''
         else lit ''announcement'')"

text \<open>The seed of the key and of the fingerprint, which differ in one word when the record has a link.\<close>

definition record_seed ::
    "text_lib \<Rightarrow> string \<Rightarrow> ustr \<Rightarrow> ustr option \<Rightarrow> ustr option \<Rightarrow> ustr option \<Rightarrow> ustr option \<Rightarrow> ustr option \<Rightarrow> ustr" where
  "record_seed lib word source_code link province source_platform normalized_title published_date =
     (case full link of
        Some u \<Rightarrow> source_code @ lit ''|'' @ lit word @ lit ''|'' @ u
      | None \<Rightarrow> join (lit ''|'')
          [source_code, identity_text lib province, identity_text lib source_platform, stable_seed_text normalized_title,
           stable_seed_text published_date])"

definition ggzy_duplicate_key ::
    "text_lib \<Rightarrow> ustr \<Rightarrow> ustr option \<Rightarrow> ustr option \<Rightarrow> ustr option \<Rightarrow> ustr option \<Rightarrow> ustr option \<Rightarrow> ustr" where
  "ggzy_duplicate_key lib source_code link province source_platform normalized_title published_date =
     tl_sha256 lib (record_seed lib ''detail_url'' source_code link province source_platform normalized_title published_date)"

definition ggzy_fingerprint ::
    "text_lib \<Rightarrow> ustr \<Rightarrow> ustr option \<Rightarrow> ustr option \<Rightarrow> ustr option \<Rightarrow> ustr option \<Rightarrow> ustr option \<Rightarrow> ustr" where
  "ggzy_fingerprint lib source_code link province source_platform normalized_title published_date =
     tl_sha256 lib (record_seed lib ''fingerprint'' source_code link province source_platform normalized_title published_date)"

definition first_text :: "text_lib \<Rightarrow> pyval list \<Rightarrow> ustr option" where
  "first_text lib vs = (case List.map_filter (page_text lib) vs of [] \<Rightarrow> None | t # _ \<Rightarrow> Some t)"

definition id_keys :: "string list" where
  "id_keys = [''id'', ''infoId'', ''infoID'', ''noticeId'', ''noticeID'', ''dealId'', ''dealID'', ''guid'', ''uuid'']"

definition id_params :: "string list" where
  "id_params = [''id'', ''guid'', ''noticeId'', ''detailId'']"

text \<open>The first value of every parameter that the query has.\<close>

definition first_values :: "ustr \<Rightarrow> string list \<Rightarrow> pyval list" where
  "first_values query ks = List.map_filter (\<lambda>k. case parse_qs_get query (lit k) of [] \<Rightarrow> None | v # _ \<Rightarrow> Some (VStr v)) ks"

definition locator_unless_link :: "text_lib \<Rightarrow> ustr \<Rightarrow> ustr option result" where
  "locator_unless_link lib url =
     and_then (extract_detail_locator lib (VStr url) VNone) (\<lambda>locator.
       case full locator of
         None \<Rightarrow> Inr None
       | Some t \<Rightarrow> and_then (normalize_detail_url lib (VStr url)) (\<lambda>link.
           Inr (if Some t \<noteq> link then Some t else None)))"

definition ggzy_external_id :: "text_lib \<Rightarrow> payload \<Rightarrow> ustr option \<Rightarrow> ustr option result" where
  "ggzy_external_id lib d detail_url =
     (case first_text lib (map (\<lambda>k. dict_get d (lit k)) id_keys) of
        Some t \<Rightarrow> Inr (Some t)
      | None \<Rightarrow>
         (case full detail_url of
            None \<Rightarrow> Inr None
          | Some url \<Rightarrow>
              and_then (split_url lib url) (\<lambda>p.
                case first_text lib (first_values (up_query p) id_params) of
                  Some t \<Rightarrow> Inr (Some t)
                | None \<Rightarrow> locator_unless_link lib url)))"

text \<open>The link of a record: as the site gives it, and as the normal form that the key is made of.\<close>

definition record_links :: "ggzy_lib \<Rightarrow> ustr option \<Rightarrow> (ustr option \<times> ustr option) result" where
  "record_links gl raw_url =
     (case raw_url of
        None \<Rightarrow> Inr (None, None)
      | Some u \<Rightarrow>
          and_then (pg_join (gz_page gl) ggzy_site_url u) (\<lambda>joined.
          and_then (normalize_url (gz_text gl) joined) (\<lambda>detail_url.
          and_then (normalize_detail_url (gz_text gl) (VStr detail_url)) (\<lambda>normalized.
            Inr (Some detail_url, normalized)))))"

definition parse_list_record :: "ggzy_lib \<Rightarrow> ustr \<Rightarrow> payload \<Rightarrow> ggzy_record option result" where
  "parse_list_record gl source_code d =
     (let lib = gz_text gl; get = (\<lambda>ks. page_text lib (get_any lib d ks))
      in case get [''title'', ''titleShow''] of
           None \<Rightarrow> Inr None
         | Some title \<Rightarrow>
            and_then (record_links gl (get [''url'', ''detailUrl'', ''linkUrl''])) (\<lambda>(detail_url, link).
            and_then (normalize_published_date lib
                        (optional_text (get [''publishTime'', ''publishedAt'', ''publishDate'']))) (\<lambda>published_date.
            (let province = get [''provinceText'', ''province''];
                 source_platform = get [''transactionSourcesPlatformText'', ''sourcePlatform'', ''platformName''];
                 issuer = page_text lib (py_or (tl_true lib) (dict_get d (lit ''issuer''))
                   (py_or (tl_true lib) (dict_get d (lit ''publisher'')) (optional_text source_platform)));
                 info_text = get [''informationTypeText'', ''infoType'', ''businessTypeText''];
                 normalized_title = normalize_source_title lib title
             in and_then (ggzy_external_id lib d detail_url) (\<lambda>external_id.
                Inr (Some \<lparr>gr_title = title, gr_normalized_title = normalized_title, gr_published_date = published_date,
                  gr_published_at_iso = map_option (\<lambda>t. t @ lit ''T00:00:00+00:00'') (full published_date),
                  gr_province = province, gr_source_platform = source_platform, gr_issuer = issuer,
                  gr_notice_type = infer_ggzy_notice_type title info_text, gr_detail_url = detail_url,
                  gr_normalized_detail_url = link, gr_external_id = external_id,
                  gr_source_duplicate_key =
                    ggzy_duplicate_key lib source_code link province source_platform normalized_title published_date,
                  gr_source_list_item_fingerprint =
                    ggzy_fingerprint lib source_code link province source_platform normalized_title published_date,
                  gr_list_item_content_hash = tl_sha256 lib (gz_dumps gl d), gr_list_item_raw = d\<rparr>))))))"

section \<open>The detail page\<close>

record ggzy_notice =
  gn_title :: ustr
  gn_notice_type :: ustr
  gn_external_id :: "ustr option"
  gn_issuer :: "ustr option"
  gn_region :: "ustr option"
  gn_published_at :: "instant option"
  gn_summary :: "ustr option"
  gn_content_text :: "ustr option"
  gn_list_page_url :: ustr
  gn_detail_page_url :: ustr
  gn_structured_data :: payload
  gn_attachments :: "parsed_attachment list"

definition ggzy_detail_text :: "ggzy_lib \<Rightarrow> ustr \<Rightarrow> ustr option" where
  "ggzy_detail_text gl html =
     text_or_none (strip (collapse_lines (join [10]
       (List.map_filter (\<lambda>t. page_text (gz_text gl) (VStr t)) (gz_body_texts gl html)))))"

definition ggzy_file_extensions :: "ustr list" where
  "ggzy_file_extensions = map lit [''.pdf'', ''.doc'', ''.docx'', ''.xls'', ''.xlsx'', ''.zip'', ''.rar'', ''.7z'']"

definition is_ggzy_attachment :: "text_lib \<Rightarrow> ustr \<Rightarrow> ustr option \<Rightarrow> bool" where
  "is_ggzy_attachment lib file_url link_text \<longleftrightarrow>
     list_ex (\<lambda>e. ends_with e (tl_lower lib file_url)) ggzy_file_extensions \<or>
     (case link_text of None \<Rightarrow> False | Some t \<Rightarrow> contains zh_attachment t \<or> contains zh_download t)"

fun ggzy_attachments ::
    "page_lib \<Rightarrow> ustr \<Rightarrow> ustr list \<Rightarrow> (ustr \<times> ustr list) list \<Rightarrow> parsed_attachment list result" where
  "ggzy_attachments pl page_url seen [] = Inr []"
| "ggzy_attachments pl page_url seen ((href, texts) # links) =
     (case page_text (pg_text pl) (VStr href) of
        None \<Rightarrow> ggzy_attachments pl page_url seen links
      | Some target \<Rightarrow>
         (let link_text = page_text (pg_text pl) (VStr (join (lit '' '') texts))
          in and_then (pg_join pl page_url target) (\<lambda>file_url.
               if \<not> is_ggzy_attachment (pg_text pl) file_url link_text then ggzy_attachments pl page_url seen links
               else and_then (normalize_url (pg_text pl) file_url) (\<lambda>normalized.
                 if normalized \<in> set seen then ggzy_attachments pl page_url seen links
                 else and_then (build_attachment pl file_url page_url link_text (lit ''notice_file'')) (\<lambda>a.
                      and_then (ggzy_attachments pl page_url (normalized # seen) links) (\<lambda>more_attachments.
                        Inr (case a of None \<Rightarrow> more_attachments | Some x \<Rightarrow> x # more_attachments)))))))"

definition ggzy_structured_data :: "ustr \<Rightarrow> ustr \<Rightarrow> ggzy_record \<Rightarrow> payload" where
  "ggzy_structured_data list_page_url page_url r =
     [(lit ''source_site_name'', VStr zh_ggzy_name), (lit ''source_site_url'', VStr ggzy_site_url),
      (lit ''list_page_url'', VStr list_page_url), (lit ''detail_page_url'', VStr page_url),
      (lit ''source_platform'', optional_text (gr_source_platform r)), (lit ''province'', optional_text (gr_province r)),
      (lit ''notice_type'', VStr (gr_notice_type r)), (lit ''list_item_raw'', VDict [] (gr_list_item_raw r))]"

definition parse_detail_notice :: "ggzy_lib \<Rightarrow> ustr \<Rightarrow> ustr \<Rightarrow> ggzy_record \<Rightarrow> ustr \<Rightarrow> ggzy_notice result" where
  "parse_detail_notice gl page_url html r list_page_url =
     (let lib = gz_text gl; body = ggzy_detail_text gl html;
          shown = page_text lib (optional_text (gz_title_text gl html))
      in and_then (ggzy_attachments (gz_page gl) page_url [] (pg_links (gz_page gl) html)) (\<lambda>attachments.
           Inr \<lparr>gn_title = (case shown of None \<Rightarrow> gr_title r | Some t \<Rightarrow> t), gn_notice_type = gr_notice_type r,
             gn_external_id = gr_external_id r, gn_issuer = gr_issuer r, gn_region = gr_province r,
             gn_published_at =
               (case parse_datetime_like lib (optional_text (gr_published_at_iso r)) of
                  Some i \<Rightarrow> Some i | None \<Rightarrow> parse_datetime_like lib (optional_text (gr_published_date r))),
             gn_summary = map_option (take 2000) body, gn_content_text = body, gn_list_page_url = list_page_url,
             gn_detail_page_url = page_url, gn_structured_data = ggzy_structured_data list_page_url page_url r,
             gn_attachments = attachments\<rparr>))"

end
