(* ===== verification/Ggzy.thy ===== *)
theory Ggzy
  imports GgzyParser
begin

text \<open>
  crawler/tender_crawler/spiders/ggzy_gov_cn_deal_spider.py: the crawl of the national platform.  The landing page
  leads to the first page of the list interface, a page of the list to the detail pages of its records and to the
  next page, a detail page to the full notice.

  A callback is given its response (\<open>page_answer\<close>) and the arguments of its request.  It returns what it yields, in
  order, the exception that ends it, if any, and the spider after it, where it changes the spider.
\<close>

section \<open>The arguments of the spider\<close>

record ggzy_spider =
  gs_job_id :: "int option"
  gs_job_type :: ustr
  gs_max_pages :: "int option"
  gs_backfill_year :: "int option"
  gs_source_type :: ustr
  gs_deal_classify :: ustr
  gs_deal_stage :: ustr
  gs_keyword :: ustr
  gs_deal_time :: ustr
  gs_time_begin :: "ustr option"
  gs_time_end :: "ustr option"
  gs_seen_keys :: "ustr list"
  gs_pages_scraped :: int
  gs_items_seen :: int
  gs_items_unique :: int
  gs_duplicates_skipped :: int

record ggzy_args =
  ga_crawl_job_id :: pyval
  ga_max_pages :: pyval
  ga_backfill_year :: pyval
  ga_job_type :: pyval
  ga_source_type :: pyval
  ga_deal_classify :: pyval
  ga_deal_stage :: pyval
  ga_deal_time :: pyval
  ga_keyword :: pyval

definition str_or :: "pyval \<Rightarrow> string \<Rightarrow> ustr" where
  "str_or v dflt = (case item_str v of None \<Rightarrow> lit dflt | Some t \<Rightarrow> t)"

definition ggzy_job_type :: "pyval \<Rightarrow> ustr" where
  "ggzy_job_type v =
     (let t = py_lower (strip (py_str v))
      in if t \<in> set (map lit [''manual'', ''manual_retry'', ''backfill'']) then t else lit ''manual'')"

definition year_of :: "instant \<Rightarrow> int" where
  "year_of i = civil_year (civil_from_days (i div day))"

definition init_ggzy :: "instant \<Rightarrow> ggzy_args \<Rightarrow> ggzy_spider result" where
  "init_ggzy now a =
     and_then (case ga_crawl_job_id a of VNone \<Rightarrow> Inr None | v \<Rightarrow> and_then (arg_int v) (\<lambda>i. Inr (Some i))) (\<lambda>job.
     and_then (parse_optional_positive_int (ga_max_pages a)) (\<lambda>max_pages.
     and_then (parse_optional_positive_int (ga_backfill_year a)) (\<lambda>given_year.
       (let job_type = ggzy_job_type (ga_job_type a);
            backfill = (job_type = lit ''backfill'' \<or> given_year \<noteq> None);
            year = (case given_year of Some y \<Rightarrow> y | None \<Rightarrow> year_of now)
        in Inr \<lparr>gs_job_id = job, gs_job_type = job_type, gs_max_pages = max_pages,
             gs_backfill_year = (if backfill then Some year else None), gs_source_type = str_or (ga_source_type a) ''1'',
             gs_deal_classify = str_or (ga_deal_classify a) ''02'', gs_deal_stage = str_or (ga_deal_stage a) ''0200'',
             gs_keyword = str_or (ga_keyword a) '''',
             gs_deal_time = str_or (ga_deal_time a) (if backfill then ''06'' else ''02''),
             gs_time_begin = (if backfill then Some (show_int year @ lit ''-01-01'') else None),
             gs_time_end = (if backfill then Some (show_int year @ lit ''-12-31'') else None),
             gs_seen_keys = [], gs_pages_scraped = 0, gs_items_seen = 0, gs_items_unique = 0,
             gs_duplicates_skipped = 0\<rparr>))))"

section \<open>Requests\<close>

definition ggzy_start_url :: ustr where
  "ggzy_start_url = lit ''https://www.ggzy.gov.cn/deal/dealList.html?HEADER_DEAL_TYPE=02''"

definition list_api_url :: ustr where
  "list_api_url = lit ''https://www.ggzy.gov.cn/information/pubTradingInfo/getTradList''"

definition ggzy_source_code :: ustr where
  "ggzy_source_code = lit ''ggzy_gov_cn_deal''"

type_synonym headers = "(ustr \<times> ustr) list"

definition browser_user_agent :: ustr where
  "browser_user_agent =
     lit ''Mozilla/5.0 (X11; Linux x86_64) AppleWebKit/537.36 (KHTML, like Gecko) Chrome/123.0.0.0 Safari/537.36''"

definition page_headers :: "ustr option \<Rightarrow> headers" where
  "page_headers referer =
     [(lit ''Accept'', lit ''text/html,application/xhtml+xml,application/xml;q=0.9,*/*;q=0.8''),
      (lit ''Accept-Language'', lit ''zh-CN,zh;q=0.9,en;q=0.8''), (lit ''User-Agent'', browser_user_agent)] @
     (case full referer of None \<Rightarrow> [] | Some r \<Rightarrow> [(lit ''Referer'', r)])"

definition ajax_headers :: "ustr \<Rightarrow> headers" where
  "ajax_headers referer =
     put_pair (lit ''X-Requested-With'') (lit ''XMLHttpRequest'')
       (put_pair (lit ''Accept'') (lit ''application/json, text/javascript, */*; q=0.01'') (page_headers (Some referer)))"

text \<open>A stage that means all stages is left out, like an empty one.\<close>

definition should_include_stage :: "ustr \<Rightarrow> bool" where
  "should_include_stage stage \<longleftrightarrow>
     (let n = strip stage
      in n \<noteq> [] \<and> \<not> (4 \<le> length n \<and> take 2 (drop 2 n) = lit ''00'') \<and> \<not> (6 \<le> length n \<and> take 2 (drop 4 n) = lit ''00''))"

definition ggzy_list_formdata :: "ggzy_spider \<Rightarrow> int \<Rightarrow> (ustr \<times> ustr) list" where
  "ggzy_list_formdata sp page =
     [(lit ''SOURCE_TYPE'', gs_source_type sp), (lit ''DEAL_TIME'', gs_deal_time sp), (lit ''PAGENUMBER'', show_int page),
      (lit ''isShowAll'', lit ''1''), (lit ''FINDTXT'', gs_keyword sp)] @
     (if gs_deal_classify sp \<noteq> lit ''00'' then [(lit ''DEAL_CLASSIFY'', gs_deal_classify sp)] else []) @
     (if should_include_stage (gs_deal_stage sp) then [(lit ''DEAL_STAGE'', gs_deal_stage sp)] else []) @
     (case (full (gs_time_begin sp), full (gs_time_end sp)) of
        (Some b, Some e) \<Rightarrow> if gs_deal_time sp = lit ''06'' then [(lit ''TIMEBEGIN'', b), (lit ''TIMEEND'', e)] else []
      | _ \<Rightarrow> [])"

record list_request =
  lr_page :: int
  lr_list_page_url :: ustr
  lr_formdata :: "(ustr \<times> ustr) list"
  lr_headers :: headers

definition build_list_request :: "ggzy_spider \<Rightarrow> int \<Rightarrow> ustr \<Rightarrow> list_request" where
  "build_list_request sp page list_page_url =
     \<lparr>lr_page = page, lr_list_page_url = list_page_url, lr_formdata = ggzy_list_formdata sp page,
      lr_headers = ajax_headers list_page_url\<rparr>"

text \<open>A detail request carries the record as a dict.\<close>

record detail_request =
  dr_url :: ustr
  dr_list_page_url :: ustr
  dr_record :: payload
  dr_headers :: headers

definition serialize_record :: "ggzy_record \<Rightarrow> payload" where
  "serialize_record r =
     [(lit ''title'', VStr (gr_title r)), (lit ''normalized_title'', optional_text (gr_normalized_title r)),
      (lit ''published_date'', optional_text (gr_published_date r)),
      (lit ''published_at_iso'', optional_text (gr_published_at_iso r)), (lit ''province'', optional_text (gr_province r)),
      (lit ''source_platform'', optional_text (gr_source_platform r)), (lit ''issuer'', optional_text (gr_issuer r)),
      (lit ''notice_type'', VStr (gr_notice_type r)), (lit ''detail_url'', optional_text (gr_detail_url r)),
      (lit ''normalized_detail_url'', optional_text (gr_normalized_detail_url r)),
      (lit ''external_id'', optional_text (gr_external_id r)),
      (lit ''source_duplicate_key'', VStr (gr_source_duplicate_key r)),
      (lit ''source_list_item_fingerprint'', VStr (gr_source_list_item_fingerprint r)),
      (lit ''list_item_content_hash'', VStr (gr_list_item_content_hash r)),
      (lit ''list_item_raw'', VDict [] (gr_list_item_raw r))]"

definition text_or_hash :: "text_lib \<Rightarrow> pyval \<Rightarrow> string \<Rightarrow> ustr" where
  "text_or_hash lib v missing = (case item_str v of Some t \<Rightarrow> t | None \<Rightarrow> tl_sha256 lib (lit missing))"

definition deserialize_record :: "text_lib \<Rightarrow> payload \<Rightarrow> ggzy_record" where
  "deserialize_record lib d =
     (let get = (\<lambda>k. dict_get d (lit k)); str = (\<lambda>k. item_str (get k))
      in \<lparr>gr_title = py_str (py_or (tl_true lib) (get ''title'') (VStr [])),
          gr_normalized_title = str ''normalized_title'', gr_published_date = str ''published_date'',
          gr_published_at_iso = str ''published_at_iso'', gr_province = str ''province'',
          gr_source_platform = str ''source_platform'', gr_issuer = str ''issuer'',
          gr_notice_type = str_or (get ''notice_type'') ''announcement'', gr_detail_url = str ''detail_url'',
          gr_normalized_detail_url = str ''normalized_detail_url'', gr_external_id = str ''external_id'',
          gr_source_duplicate_key = text_or_hash lib (get ''source_duplicate_key'') ''missing-source-dup-key'',
          gr_source_list_item_fingerprint =
            text_or_hash lib (get ''source_list_item_fingerprint'') ''missing-list-fingerprint'',
          gr_list_item_content_hash = text_or_hash lib (get ''list_item_content_hash'') ''missing-content'',
          gr_list_item_raw = (case as_mapping (get ''list_item_raw'') of None \<Rightarrow> [] | Some kvs \<Rightarrow> kvs)\<rparr>)"

section \<open>Items\<close>

datatype ggzy_output =
    Gz_document payload
  | Gz_notice payload
  | Gz_version payload
  | Gz_attachment payload
  | Gz_error payload
  | Gz_detail_request detail_request
  | Gz_list_request list_request

type_synonym ggzy_outcome = "ggzy_output list \<times> pyerror option"

text \<open>The callback ends with the exception of r, or goes on with its value.\<close>

definition yield_then :: "'a result \<Rightarrow> ('a \<Rightarrow> ggzy_outcome) \<Rightarrow> ggzy_outcome" where
  "yield_then r f = (case r of Inl e \<Rightarrow> ([], Some e) | Inr x \<Rightarrow> f x)"

definition after_outputs :: "ggzy_output list \<Rightarrow> ggzy_outcome \<Rightarrow> ggzy_outcome" where
  "after_outputs outs r = (outs @ fst r, snd r)"

definition ggzy_item_head :: "ggzy_spider \<Rightarrow> string \<Rightarrow> payload" where
  "ggzy_item_head sp kind =
     [(lit ''item_type'', VStr (lit kind)), (lit ''source_code'', VStr ggzy_source_code),
      (lit ''crawl_job_id'', opt_int (gs_job_id sp))]"

definition ggzy_raw_item ::
    "text_lib \<Rightarrow> ggzy_spider \<Rightarrow> page_answer \<Rightarrow> ustr \<Rightarrow> string \<Rightarrow> payload \<Rightarrow> ustr option \<Rightarrow> ustr option \<Rightarrow> payload result" where
  "ggzy_raw_item lib sp answer raw_url role extra_meta source_duplicate_key fingerprint =
     and_then (normalize_url lib raw_url) (\<lambda>normalized.
       (let r = pa_response answer; body = pa_text answer
        in Inr (ggzy_item_head sp ''raw_document'' @
           [(lit ''url'', VStr raw_url), (lit ''normalized_url'', VStr normalized),
            (lit ''url_hash'', VStr (tl_sha256 lib normalized)), (lit ''content_hash'', VStr (tl_sha256 lib body)),
            (lit ''document_type'', VStr (lit ''html'')), (lit ''fetched_at'', VStr (isoformat (pr_fetched_at r))),
            (lit ''storage_uri'', VStr []), (lit ''raw_body'', VStr body), (lit ''http_status'', VInt (pr_status r)),
            (lit ''mime_type'', VStr (pr_mime_type r)), (lit ''charset'', VStr (pr_charset r)),
            (lit ''title'', optional_text (text_or_none (clean_text (opt_text (pr_title r))))),
            (lit ''content_length'', VInt (int (length (utf8_encode body)))),
            (lit ''source_duplicate_key'', optional_text source_duplicate_key),
            (lit ''source_list_item_fingerprint'', optional_text fingerprint),
            (lit ''extra_meta'', VDict [] ((lit ''role'', VStr (lit role)) # extra_meta))])))"

definition ggzy_error_item ::
    "ggzy_spider \<Rightarrow> instant \<Rightarrow> string \<Rightarrow> ustr \<Rightarrow> ustr \<Rightarrow> ustr \<Rightarrow> bool \<Rightarrow> payload" where
  "ggzy_error_item sp now stage url error_type message retryable =
     ggzy_item_head sp ''crawl_error'' @
     [(lit ''stage'', VStr (lit stage)), (lit ''url'', VStr url), (lit ''error_type'', VStr error_type),
      (lit ''error_message'', VStr message), (lit ''traceback'', VStr []), (lit ''retryable'', VBool retryable),
      (lit ''occurred_at'', VStr (isoformat now))]"

definition notice_hash :: "text_lib \<Rightarrow> ggzy_record \<Rightarrow> ustr" where
  "notice_hash lib r = tl_sha256 lib (ggzy_source_code @ lit ''|'' @ gr_source_duplicate_key r)"

definition record_keys :: "ggzy_record \<Rightarrow> payload" where
  "record_keys r =
     [(lit ''dedup_key'', VStr (gr_source_duplicate_key r)),
      (lit ''source_duplicate_key'', VStr (gr_source_duplicate_key r)),
      (lit ''source_list_item_fingerprint'', VStr (gr_source_list_item_fingerprint r))]"

text \<open>What the notice and the version of a list record share.\<close>

definition draft_fields :: "ggzy_record \<Rightarrow> payload" where
  "draft_fields r =
     [(lit ''title'', VStr (gr_title r)), (lit ''notice_type'', VStr (gr_notice_type r)),
      (lit ''issuer'', optional_text (gr_issuer r)), (lit ''region'', optional_text (gr_province r)),
      (lit ''published_at'', optional_text (gr_published_at_iso r)), (lit ''deadline_at'', VNone),
      (lit ''budget_amount'', VNone), (lit ''budget_currency'', VStr (lit ''CNY''))]"

definition draft_page :: "ggzy_record \<Rightarrow> ustr \<Rightarrow> payload" where
  "draft_page r list_page_url =
     [(lit ''source_site_name'', VStr zh_ggzy_name), (lit ''source_site_url'', VStr ggzy_site_url),
      (lit ''list_page_url'', VStr list_page_url), (lit ''detail_page_url'', optional_text (gr_detail_url r)),
      (lit ''content_text'', VNone)]"

definition list_notice_item :: "text_lib \<Rightarrow> ggzy_spider \<Rightarrow> ggzy_record \<Rightarrow> ustr \<Rightarrow> payload" where
  "list_notice_item lib sp r list_page_url =
     ggzy_item_head sp ''tender_notice'' @
     [(lit ''external_id'', optional_text (gr_external_id r)), (lit ''project_code'', VNone),
      (lit ''dedup_hash'', VStr (notice_hash lib r))] @ record_keys r @ draft_fields r @ [(lit ''summary'', VNone)] @
     draft_page r list_page_url @
     [(lit ''source_url'', VStr (case full (gr_detail_url r) of None \<Rightarrow> list_page_url | Some u \<Rightarrow> u)),
      (lit ''raw_content_hash'', VStr (gr_list_item_content_hash r))]"

definition list_version_item :: "text_lib \<Rightarrow> ggzy_spider \<Rightarrow> ggzy_record \<Rightarrow> ustr \<Rightarrow> payload result" where
  "list_version_item lib sp r list_page_url =
     and_then (normalize_url lib (case full (gr_detail_url r) of
                 None \<Rightarrow> list_api_url @ lit ''?list_page='' @ list_page_url | Some u \<Rightarrow> u)) (\<lambda>normalized.
       Inr (ggzy_item_head sp ''notice_version'' @
         [(lit ''notice_dedup_hash'', VStr (notice_hash lib r)),
          (lit ''notice_external_id'', optional_text (gr_external_id r))] @ record_keys r @
         [(lit ''version_no'', VInt 1), (lit ''is_current'', VBool True),
          (lit ''content_hash'', VStr (gr_list_item_content_hash r))] @ draft_fields r @ draft_page r list_page_url @
         [(lit ''structured_data'', VDict []
             [(lit ''source_platform'', optional_text (gr_source_platform r)),
              (lit ''province'', optional_text (gr_province r)), (lit ''list_item_raw'', VDict [] (gr_list_item_raw r))]),
          (lit ''change_summary'', VStr (lit ''list-draft'')),
          (lit ''raw_document_url_hash'', VStr (tl_sha256 lib normalized))]))"

section \<open>The landing page\<close>

definition start_request :: "ustr \<times> headers" where
  "start_request = (ggzy_start_url, page_headers None)"

definition parse_landing :: "ggzy_lib \<Rightarrow> ggzy_spider \<Rightarrow> page_answer \<Rightarrow> ggzy_outcome" where
  "parse_landing gl sp answer =
     yield_then
       (ggzy_raw_item (gz_text gl) sp answer (pa_url answer) ''landing''
          [(lit ''job_type'', VStr (gs_job_type sp)), (lit ''deal_time'', VStr (gs_deal_time sp)),
           (lit ''deal_classify'', VStr (gs_deal_classify sp)), (lit ''deal_stage'', VStr (gs_deal_stage sp)),
           (lit ''source_type'', VStr (gs_source_type sp)), (lit ''backfill_year'', opt_int (gs_backfill_year sp))]
          None None)
       (\<lambda>raw. ([Gz_document raw, Gz_list_request (build_list_request sp 1 (pa_url answer))], None))"

section \<open>A page of the list\<close>

text \<open>The payload of the answer and what is wrong with it, if anything.\<close>

definition list_payload :: "ggzy_lib \<Rightarrow> ustr \<Rightarrow> (payload \<times> ustr option) result" where
  "list_payload gl body =
     (case gz_loads gl body of
        Json_bad t \<Rightarrow> Inr ([], Some (zh_list_not_json @ t @ lit '')''))
      | Json_raises e \<Rightarrow> Inl e
      | Json_value v \<Rightarrow> (case as_mapping v of Some d \<Rightarrow> Inr (d, None) | None \<Rightarrow> Inr ([], Some zh_list_not_object)))"

text \<open>\<open>int(payload.get("code") or 0)\<close>\<close>

definition api_code :: "ggzy_lib \<Rightarrow> payload \<Rightarrow> int result" where
  "api_code gl d =
     (case py_or (tl_true (gz_text gl)) (dict_get d (lit ''code'')) (VInt 0) of
        VOther t \<Rightarrow> gz_other_int gl t | v \<Rightarrow> arg_int v)"

definition as_int :: "pyval \<Rightarrow> int option" where
  "as_int v = (case item_str v of None \<Rightarrow> None | Some t \<Rightarrow> py_int t)"

definition record_entries :: "ggzy_lib \<Rightarrow> payload \<Rightarrow> pyval list" where
  "record_entries gl data =
     (case dict_get data (lit ''records'') of
        VOther t \<Rightarrow> (case gz_list gl t of None \<Rightarrow> [] | Some vs \<Rightarrow> vs) | _ \<Rightarrow> [])"

definition record_request :: "ggzy_lib \<Rightarrow> ggzy_record \<Rightarrow> ustr \<Rightarrow> ggzy_outcome" where
  "record_request gl r list_page_url =
     (case full (gr_detail_url r) of
        None \<Rightarrow> ([], None)
      | Some url \<Rightarrow>
         (case gz_request_refused gl url of
            Some e \<Rightarrow> ([], Some e)
          | None \<Rightarrow> ([Gz_detail_request \<lparr>dr_url = url, dr_list_page_url = list_page_url,
              dr_record = serialize_record r, dr_headers = page_headers (Some list_page_url)\<rparr>], None)))"

definition record_outputs :: "ggzy_lib \<Rightarrow> ggzy_spider \<Rightarrow> ggzy_record \<Rightarrow> ustr \<Rightarrow> ggzy_outcome" where
  "record_outputs gl sp r list_page_url =
     after_outputs [Gz_notice (list_notice_item (gz_text gl) sp r list_page_url)]
       (yield_then (list_version_item (gz_text gl) sp r list_page_url) (\<lambda>version.
          after_outputs [Gz_version version] (record_request gl r list_page_url)))"

text \<open>The state of the loop over the records: the keys seen, and how many records were new or skipped on this page.\<close>

record record_loop =
  rl_seen :: "ustr list"
  rl_new :: nat
  rl_skipped :: nat

fun parse_records ::
    "ggzy_lib \<Rightarrow> ggzy_spider \<Rightarrow> ustr \<Rightarrow> pyval list \<Rightarrow> record_loop \<Rightarrow> ggzy_output list \<times> pyerror option \<times> record_loop" where
  "parse_records gl sp list_page_url [] l = ([], None, l)"
| "parse_records gl sp list_page_url (v # vs) l =
     (case as_mapping v of
        None \<Rightarrow> parse_records gl sp list_page_url vs l
      | Some d \<Rightarrow>
         (case parse_list_record gl ggzy_source_code d of
            Inl e \<Rightarrow> ([], Some e, l)
          | Inr None \<Rightarrow> parse_records gl sp list_page_url vs l
          | Inr (Some r) \<Rightarrow>
              if gr_source_duplicate_key r \<in> set (rl_seen l)
              then parse_records gl sp list_page_url vs (l\<lparr>rl_skipped := rl_skipped l + 1\<rparr>)
              else (let l1 = l\<lparr>rl_seen := gr_source_duplicate_key r # rl_seen l, rl_new := rl_new l + 1\<rparr>
                    in case record_outputs gl sp r list_page_url of
                         (outs, Some e) \<Rightarrow> (outs, Some e, l1)
                       | (outs, None) \<Rightarrow>
                           (case parse_records gl sp list_page_url vs l1 of
                              (more_outs, e, l2) \<Rightarrow> (outs @ more_outs, e, l2)))))"

text \<open>What is wrong with the answer, once its code is known.\<close>

definition code_message :: "int \<Rightarrow> ustr option \<Rightarrow> ustr option" where
  "code_message code message =
     (if code = 200 then None
      else if code = 829 then Some zh_list_captcha
      else Some (zh_list_code @ show_int code @ lit '' message='' @
             (case message of None \<Rightarrow> lit ''-'' | Some t \<Rightarrow> t)))"

definition list_document_url :: "ggzy_spider \<Rightarrow> int \<Rightarrow> ustr" where
  "list_document_url sp page =
     list_api_url @ lit ''?page='' @ show_int page @ lit ''&deal_time='' @ gs_deal_time sp @ lit ''&deal_classify='' @
     gs_deal_classify sp"

record list_answer =
  an_code :: int
  an_message :: "ustr option"
  an_total :: "int option"
  an_pages :: "int option"
  an_current :: "int option"
  an_items :: nat
  an_error :: "ustr option"

definition ggzy_list_meta :: "ggzy_spider \<Rightarrow> ustr \<Rightarrow> int \<Rightarrow> list_answer \<Rightarrow> record_loop \<Rightarrow> payload" where
  "ggzy_list_meta sp list_page_url page an l =
     [(lit ''list_page_url'', VStr list_page_url), (lit ''current_page'', VInt page), (lit ''api_code'', VInt (an_code an)),
      (lit ''api_message'', optional_text (an_message an)), (lit ''api_total'', opt_int (an_total an)),
      (lit ''api_pages'', opt_int (an_pages an)), (lit ''api_current'', opt_int (an_current an)),
      (lit ''page_item_count'', VInt (int (an_items an))), (lit ''new_unique_item_count'', VInt (int (rl_new l))),
      (lit ''page_source_duplicates_skipped'', VInt (int (rl_skipped l))),
      (lit ''list_items_seen_total'', VInt (gs_items_seen sp)), (lit ''list_items_unique_total'', VInt (gs_items_unique sp)),
      (lit ''list_items_source_duplicates_skipped_total'', VInt (gs_duplicates_skipped sp)),
      (lit ''job_type'', VStr (gs_job_type sp)), (lit ''max_pages'', opt_int (gs_max_pages sp)),
      (lit ''backfill_year'', opt_int (gs_backfill_year sp)), (lit ''parse_error'', optional_text (an_error an))]"

text \<open>After the records: the document of the page, its error or the request of the next page.\<close>

definition wants_next_page :: "ggzy_spider \<Rightarrow> int \<Rightarrow> int option \<Rightarrow> bool" where
  "wants_next_page sp page pages \<longleftrightarrow>
     (case gs_max_pages sp of None \<Rightarrow> True | Some m \<Rightarrow> page < m) \<and>
     (case pages of None \<Rightarrow> False | Some n \<Rightarrow> 0 < n \<and> page < n)"

definition finish_list_page ::
    "ggzy_lib \<Rightarrow> ggzy_spider \<Rightarrow> instant \<Rightarrow> page_answer \<Rightarrow> int \<Rightarrow> ustr \<Rightarrow> list_answer \<Rightarrow> record_loop \<Rightarrow> ggzy_outcome" where
  "finish_list_page gl sp now answer page list_page_url an l =
     yield_then
       (ggzy_raw_item (gz_text gl) sp answer (list_document_url sp page) ''list'' (ggzy_list_meta sp list_page_url page an l)
          None None)
       (\<lambda>raw. after_outputs [Gz_document raw]
          (case an_error an of
             Some t \<Rightarrow>
               ([Gz_error (ggzy_error_item sp now (if starts_with zh_page_fetch_failed t then ''fetch'' else ''parse'')
                  (pa_url answer) (lit ''ListPageError'') t True)], None)
           | None \<Rightarrow>
               (if wants_next_page sp page (an_pages an)
                then [Gz_list_request (build_list_request sp (page + 1) list_page_url)] else [], None)))"

type_synonym ggzy_page_outcome = "ggzy_output list \<times> pyerror option \<times> ggzy_spider"

definition parse_list_answer ::
    "ggzy_lib \<Rightarrow> instant \<Rightarrow> page_answer \<Rightarrow> int \<Rightarrow> ustr \<Rightarrow> payload \<Rightarrow> ustr option \<Rightarrow> int \<Rightarrow> ggzy_spider \<Rightarrow> ggzy_page_outcome" where
  "parse_list_answer gl now answer page list_page_url d wrong code sp =
     (let message = (if d = [] then None else item_str (dict_get d (lit ''message'')));
          data = (case as_mapping (dict_get d (lit ''data'')) of None \<Rightarrow> [] | Some kvs \<Rightarrow> kvs);
          entries = record_entries gl data;
          problem = (case wrong of Some t \<Rightarrow> Some t | None \<Rightarrow> code_message code message);
          sp1 = sp\<lparr>gs_items_seen := gs_items_seen sp + int (length entries)\<rparr>
      in case parse_records gl sp1 list_page_url (if problem = None then entries else [])
                \<lparr>rl_seen = gs_seen_keys sp, rl_new = 0, rl_skipped = 0\<rparr> of
           (outs, Some e, l) \<Rightarrow> (outs, Some e, sp1\<lparr>gs_seen_keys := rl_seen l\<rparr>)
         | (outs, None, l) \<Rightarrow>
             (let sp2 = sp1\<lparr>gs_seen_keys := rl_seen l, gs_items_unique := gs_items_unique sp1 + int (rl_new l),
                    gs_duplicates_skipped := gs_duplicates_skipped sp1 + int (rl_skipped l)\<rparr>;
                  an = \<lparr>an_code = code, an_message = message, an_total = as_int (dict_get data (lit ''total'')),
                    an_pages = as_int (dict_get data (lit ''pages'')), an_current = as_int (dict_get data (lit ''current'')),
                    an_items = length entries, an_error = problem\<rparr>;
                  rest = finish_list_page gl sp2 now answer page list_page_url an l
              in (outs @ fst rest, snd rest, sp2)))"

definition parse_list_page ::
    "ggzy_lib \<Rightarrow> instant \<Rightarrow> page_answer \<Rightarrow> int \<Rightarrow> ustr \<Rightarrow> ggzy_spider \<Rightarrow> ggzy_page_outcome" where
  "parse_list_page gl now answer page list_page_url sp =
     (let sp1 = sp\<lparr>gs_pages_scraped := gs_pages_scraped sp + 1\<rparr>
      in case list_payload gl (pa_text answer) of
           Inl e \<Rightarrow> ([], Some e, sp1)
         | Inr (d, wrong) \<Rightarrow>
            (case (if d = [] then Inr 0 else api_code gl d) of
               Inl e \<Rightarrow> ([], Some e, sp1)
             | Inr code \<Rightarrow> parse_list_answer gl now answer page list_page_url d wrong code sp1))"

section \<open>A detail page\<close>

text \<open>json.loads of a text that starts like an object or a list: the value, None when it is no JSON.\<close>

definition parse_json_payload :: "ggzy_lib \<Rightarrow> ustr \<Rightarrow> pyval option result" where
  "parse_json_payload gl raw_text =
     (let t = lstrip raw_text
      in if t = [] \<or> hd t \<notin> {123, 91} then Inr None
         else (case gz_loads gl t of Json_bad _ \<Rightarrow> Inr None | Json_raises e \<Rightarrow> Inl e | Json_value v \<Rightarrow> Inr (Some v)))"

definition detail_error_message :: "ggzy_lib \<Rightarrow> ustr \<Rightarrow> ustr option result" where
  "detail_error_message gl body =
     and_then (parse_json_payload gl body) (\<lambda>v.
       Inr (case v of
              None \<Rightarrow> None
            | Some x \<Rightarrow>
               (case (case as_mapping x of None \<Rightarrow> None | Some d \<Rightarrow> map_option (\<lambda>c. (c, d)) (as_int (dict_get d (lit ''code'')))) of
                  None \<Rightarrow> if x = VNone then None else Some zh_detail_is_json
                | Some (code, d) \<Rightarrow>
                    Some (zh_detail_code @ show_int code @ lit '' message='' @
                      or_texts [opt_text (item_str (dict_get d (lit ''message''))),
                                opt_text (item_str (dict_get d (lit ''msg''))), lit ''-'']))))"

definition shown_published_at :: "ggzy_notice \<Rightarrow> ggzy_record \<Rightarrow> pyval" where
  "shown_published_at p r =
     (case gn_published_at p of Some i \<Rightarrow> VStr (isoformat i) | None \<Rightarrow> optional_text (gr_published_at_iso r))"

definition full_fields :: "ggzy_notice \<Rightarrow> ggzy_record \<Rightarrow> payload" where
  "full_fields p r =
     [(lit ''title'', VStr (gn_title p)), (lit ''notice_type'', VStr (gn_notice_type p)),
      (lit ''issuer'', optional_text (gn_issuer p)), (lit ''region'', optional_text (gn_region p)),
      (lit ''published_at'', shown_published_at p r), (lit ''deadline_at'', VNone), (lit ''budget_amount'', VNone),
      (lit ''budget_currency'', VStr (lit ''CNY''))]"

definition full_page :: "ggzy_notice \<Rightarrow> payload" where
  "full_page p =
     [(lit ''source_site_name'', VStr zh_ggzy_name), (lit ''source_site_url'', VStr ggzy_site_url),
      (lit ''list_page_url'', VStr (gn_list_page_url p)), (lit ''detail_page_url'', VStr (gn_detail_page_url p)),
      (lit ''content_text'', optional_text (gn_content_text p))]"

definition ggzy_notice_item :: "text_lib \<Rightarrow> ggzy_spider \<Rightarrow> page_answer \<Rightarrow> ggzy_record \<Rightarrow> ggzy_notice \<Rightarrow> payload" where
  "ggzy_notice_item lib sp answer r p =
     ggzy_item_head sp ''tender_notice'' @
     [(lit ''external_id'', optional_text (gn_external_id p)), (lit ''project_code'', VNone),
      (lit ''dedup_hash'', VStr (notice_hash lib r))] @ record_keys r @ full_fields p r @
     [(lit ''summary'', optional_text (gn_summary p))] @ full_page p @
     [(lit ''source_url'', VStr (gn_detail_page_url p)), (lit ''raw_content_hash'', VStr (tl_sha256 lib (pa_text answer)))]"

definition ggzy_version_item ::
    "text_lib \<Rightarrow> ggzy_spider \<Rightarrow> page_answer \<Rightarrow> ggzy_record \<Rightarrow> ggzy_notice \<Rightarrow> payload result" where
  "ggzy_version_item lib sp answer r p =
     and_then (normalize_url lib (pa_url answer)) (\<lambda>normalized.
       Inr (ggzy_item_head sp ''notice_version'' @
         [(lit ''notice_dedup_hash'', VStr (notice_hash lib r)),
          (lit ''notice_external_id'', optional_text (gn_external_id p))] @ record_keys r @
         [(lit ''version_no'', VInt 1), (lit ''is_current'', VBool True),
          (lit ''content_hash'', VStr (tl_sha256 lib (pa_text answer)))] @ full_fields p r @ full_page p @
         [(lit ''structured_data'', VDict [] (gn_structured_data p)), (lit ''change_summary'', VNone),
          (lit ''raw_document_url_hash'', VStr (tl_sha256 lib normalized))]))"

definition ggzy_attachment_item ::
    "ggzy_lib \<Rightarrow> ggzy_spider \<Rightarrow> page_answer \<Rightarrow> ggzy_record \<Rightarrow> ggzy_notice \<Rightarrow> parsed_attachment \<Rightarrow> payload result" where
  "ggzy_attachment_item gl sp answer r p x =
     and_then (gz_response_join gl (pa_url answer) (pa_text answer) (at_file_url x)) (\<lambda>joined.
     and_then (normalize_url (gz_text gl) joined) (\<lambda>file_url.
       (let file_name = or_texts [at_file_name x, after_last 47 file_url, lit ''attachment'']
        in Inr (ggzy_item_head sp ''tender_attachment'' @
          [(lit ''notice_dedup_hash'', VStr (notice_hash (gz_text gl) r)),
           (lit ''notice_external_id'', optional_text (gn_external_id p)), (lit ''notice_version_no'', VNone),
           (lit ''file_name'', VStr file_name), (lit ''attachment_type'', VStr (at_attachment_type x)),
           (lit ''file_url'', VStr file_url), (lit ''url_hash'', VStr (tl_sha256 (gz_text gl) file_url)),
           (lit ''file_hash'', VNone), (lit ''storage_uri'', VNone), (lit ''mime_type'', optional_text (at_mime_type x)),
           (lit ''file_ext'', (if 46 \<in> set file_name then VStr (after_last 46 file_name) else VNone)),
           (lit ''file_size_bytes'', VNone), (lit ''published_at'', shown_published_at p r),
           (lit ''source_url'', VStr (pa_url answer))]))))"

fun ggzy_attachment_items ::
    "ggzy_lib \<Rightarrow> ggzy_spider \<Rightarrow> page_answer \<Rightarrow> ggzy_record \<Rightarrow> ggzy_notice \<Rightarrow> parsed_attachment list \<Rightarrow> ggzy_outcome" where
  "ggzy_attachment_items gl sp answer r p [] = ([], None)"
| "ggzy_attachment_items gl sp answer r p (x # xs) =
     yield_then (ggzy_attachment_item gl sp answer r p x) (\<lambda>item.
       after_outputs [Gz_attachment item] (ggzy_attachment_items gl sp answer r p xs))"

definition ggzy_notice_items :: "ggzy_lib \<Rightarrow> ggzy_spider \<Rightarrow> page_answer \<Rightarrow> ggzy_record \<Rightarrow> ggzy_notice \<Rightarrow> ggzy_outcome" where
  "ggzy_notice_items gl sp answer r p =
     after_outputs [Gz_notice (ggzy_notice_item (gz_text gl) sp answer r p)]
       (yield_then (ggzy_version_item (gz_text gl) sp answer r p) (\<lambda>version.
          after_outputs [Gz_version version] (ggzy_attachment_items gl sp answer r p (gn_attachments p))))"

definition detail_meta :: "ustr \<Rightarrow> ustr \<Rightarrow> ggzy_record \<Rightarrow> payload" where
  "detail_meta list_page_url page_url r =
     [(lit ''list_page_url'', VStr list_page_url), (lit ''detail_page_url'', VStr page_url),
      (lit ''external_id'', optional_text (gr_external_id r)), (lit ''title'', VStr (gr_title r)),
      (lit ''province'', optional_text (gr_province r)), (lit ''source_platform'', optional_text (gr_source_platform r)),
      (lit ''notice_type'', VStr (gr_notice_type r))]"

definition parse_ggzy_detail ::
    "ggzy_lib \<Rightarrow> ggzy_spider \<Rightarrow> instant \<Rightarrow> page_answer \<Rightarrow> ustr \<Rightarrow> payload \<Rightarrow> ggzy_outcome" where
  "parse_ggzy_detail gl sp now answer list_page_url d =
     (let r = deserialize_record (gz_text gl) d
      in yield_then
           (ggzy_raw_item (gz_text gl) sp answer (pa_url answer) ''detail'' (detail_meta list_page_url (pa_url answer) r)
              (Some (gr_source_duplicate_key r)) (Some (gr_source_list_item_fingerprint r)))
           (\<lambda>raw. after_outputs [Gz_document raw]
              (yield_then (detail_error_message gl (pa_text answer)) (\<lambda>wrong.
                 case wrong of
                   Some t \<Rightarrow>
                     ([Gz_error (ggzy_error_item sp now ''fetch'' (pa_url answer) (lit ''DetailPageError'') t True)], None)
                 | None \<Rightarrow>
                    (case parse_detail_notice gl (pa_url answer) (pa_text answer) r list_page_url of
                       Inl e \<Rightarrow>
                         ([Gz_error (ggzy_error_item sp now ''parse'' (pa_url answer) (error_class e)
                            (zh_detail_parse_failed @ lit '': '' @ error_message e) False)], None)
                     | Inr p \<Rightarrow> ggzy_notice_items gl sp answer r p)))))"

section \<open>The crawl of the list\<close>

definition next_list_request :: "ggzy_output list \<Rightarrow> list_request option" where
  "next_list_request outs =
     (case List.map_filter (\<lambda>x. case x of Gz_list_request q \<Rightarrow> Some q | _ \<Rightarrow> None) outs of [] \<Rightarrow> None | q # _ \<Rightarrow> Some q)"

text \<open>
  The crawl of the list from a request on, over the answers to its requests in their order: what it yields, the
  spider after it, and the request it still waits for, if any.
\<close>

fun crawl_ggzy ::
    "ggzy_lib \<Rightarrow> instant \<Rightarrow> page_answer list \<Rightarrow> list_request \<Rightarrow> ggzy_spider \<Rightarrow>
     ggzy_output list \<times> ggzy_spider \<times> list_request option" where
  "crawl_ggzy gl now [] q sp = ([], sp, Some q)"
| "crawl_ggzy gl now (answer # answers) q sp =
     (case parse_list_page gl now answer (lr_page q) (lr_list_page_url q) sp of
        (outs, _, sp1) \<Rightarrow>
          (case next_list_request outs of
             None \<Rightarrow> (outs, sp1, None)
           | Some q1 \<Rightarrow>
               (case crawl_ggzy gl now answers q1 sp1 of (more_outs, sp2, waiting) \<Rightarrow> (outs @ more_outs, sp2, waiting))))"

end
