(* ===== verification/GgzyFacts.thy ===== *)
theory GgzyFacts
  imports Ggzy DetailFacts
begin

text \<open>
  What the crawl of the national platform guarantees: no notice is listed twice in a run, the crawl of the list ends,
  a record survives its detail request, the title key ignores trailing words; and that one link that Scrapy refuses
  ends the crawl of the list.
\<close>

section \<open>Outcomes\<close>

lemma yield_then_simps [simp]: "yield_then (Inl e) f = ([], Some e)" "yield_then (Inr x) f = f x"
  by (simp_all add: yield_then_def)

lemma fst_after_outputs [simp]: "fst (after_outputs outs r) = outs @ fst r"
  by (simp add: after_outputs_def)

lemma snd_after_outputs [simp]: "snd (after_outputs outs r) = snd r"
  by (simp add: after_outputs_def)

definition notices_of :: "ggzy_output list \<Rightarrow> payload list" where
  "notices_of outs = List.map_filter (\<lambda>x. case x of Gz_notice p \<Rightarrow> Some p | _ \<Rightarrow> None) outs"

definition documents_of :: "ggzy_output list \<Rightarrow> payload list" where
  "documents_of outs = List.map_filter (\<lambda>x. case x of Gz_document p \<Rightarrow> Some p | _ \<Rightarrow> None) outs"

definition list_requests_of :: "ggzy_output list \<Rightarrow> list_request list" where
  "list_requests_of outs = List.map_filter (\<lambda>x. case x of Gz_list_request q \<Rightarrow> Some q | _ \<Rightarrow> None) outs"

lemma outputs_of_simps [simp]:
  "notices_of [] = []" "documents_of [] = []" "list_requests_of [] = []"
  "notices_of (x # outs) = (case x of Gz_notice p \<Rightarrow> p # notices_of outs | _ \<Rightarrow> notices_of outs)"
  "documents_of (x # outs) = (case x of Gz_document p \<Rightarrow> p # documents_of outs | _ \<Rightarrow> documents_of outs)"
  "list_requests_of (x # outs) = (case x of Gz_list_request q \<Rightarrow> q # list_requests_of outs | _ \<Rightarrow> list_requests_of outs)"
  by (simp_all add: notices_of_def documents_of_def list_requests_of_def List.map_filter_def split: ggzy_output.split)

lemma outputs_of_append [simp]:
  "notices_of (a @ b) = notices_of a @ notices_of b" "documents_of (a @ b) = documents_of a @ documents_of b"
  "list_requests_of (a @ b) = list_requests_of a @ list_requests_of b"
  by (simp_all add: notices_of_def documents_of_def list_requests_of_def List.map_filter_def)

lemma next_list_request_eq: "next_list_request outs = (case list_requests_of outs of [] \<Rightarrow> None | q # _ \<Rightarrow> Some q)"
  by (simp add: next_list_request_def list_requests_of_def)

lemma next_list_request_Some: "next_list_request outs = Some q \<Longrightarrow> q \<in> set (list_requests_of outs)"
  by (simp add: next_list_request_eq split: list.splits)

section \<open>The records of a page\<close>

definition key_of :: "payload \<Rightarrow> pyval" where
  "key_of item = dict_get item (lit ''source_duplicate_key'')"

lemma key_of_notice: "key_of (list_notice_item lib sp r list_page_url) = VStr (gr_source_duplicate_key r)"
  by (simp add: key_of_def list_notice_item_def record_keys_def ggzy_item_head_def dict_get_def)

lemma record_outputs_notice:
  "notices_of (fst (record_outputs gl sp r u)) = [list_notice_item (gz_text gl) sp r u]"
  "documents_of (fst (record_outputs gl sp r u)) = []" "list_requests_of (fst (record_outputs gl sp r u)) = []"
  by (cases "list_version_item (gz_text gl) sp r u";
      simp add: record_outputs_def record_request_def split: option.split)+

lemma parse_records_keys:
  assumes "parse_records gl sp u vs l = (outs, e, l')" "distinct (rl_seen l)"
  shows "distinct (rl_seen l') \<and> (\<exists>ks. rl_seen l' = rev ks @ rl_seen l \<and> map key_of (notices_of outs) = map VStr ks \<and>
      rl_new l' = rl_new l + length ks) \<and> documents_of outs = [] \<and> list_requests_of outs = []"
  using assms
proof (induction vs arbitrary: l outs)
  case (Cons v vs)
  show ?case
  proof (cases "as_mapping v")
    case None
    then show ?thesis using Cons by simp
  next
    case (Some d)
    show ?thesis
    proof (cases "parse_list_record gl ggzy_source_code d")
      case (Inl x)
      then show ?thesis using Cons.prems by (simp add: Some)
    next
      case (Inr found)
      show ?thesis
      proof (cases found)
        case None
        then show ?thesis using Cons by (simp add: Some Inr)
      next
        case rec: (Some r)
        let ?k = "gr_source_duplicate_key r"
        show ?thesis
        proof (cases "?k \<in> set (rl_seen l)")
          case True
          then have "parse_records gl sp u vs (l\<lparr>rl_skipped := rl_skipped l + 1\<rparr>) = (outs, e, l')"
            using Cons.prems(1) by (simp add: Some Inr rec)
          from Cons.IH [OF this] Cons.prems(2) show ?thesis by simp
        next
          case False
          let ?l = "l\<lparr>rl_seen := ?k # rl_seen l, rl_new := rl_new l + 1\<rparr>"
          obtain first x where first: "record_outputs gl sp r u = (first, x)" by (metis prod.collapse)
          note shown = record_outputs_notice [of gl sp r u, unfolded first fst_conv]
          show ?thesis
          proof (cases x)
            case None
            obtain rest where rest: "parse_records gl sp u vs ?l = (rest, e, l')" "outs = first @ rest"
              using Cons.prems(1) False by (auto simp: Some Inr rec first None Let_def split: prod.splits)
            from Cons.IH [OF rest(1)] Cons.prems(2) False obtain ks where
              "distinct (rl_seen l')" "rl_seen l' = rev ks @ ?k # rl_seen l" "map key_of (notices_of rest) = map VStr ks"
              "rl_new l' = rl_new l + 1 + length ks" "documents_of rest = []" "list_requests_of rest = []"
              by auto
            then show ?thesis
              using shown by (auto simp: rest(2) key_of_notice intro!: exI [of _ "?k # ks"])
          next
            case (Some y)
            then show ?thesis
              using Cons.prems False \<open>as_mapping v = Some d\<close> shown
              by (auto simp: Inr rec first Let_def key_of_notice intro!: exI [of _ "[?k]"])
          qed
        qed
      qed
    qed
  qed
qed auto

section \<open>A page of the list\<close>

lemma finish_list_page_outputs:
  assumes "finish_list_page gl sp now answer page u an l = (outs, e)"
  shows "notices_of outs = []" "set (list_requests_of outs) \<subseteq> {build_list_request sp (page + 1) u}"
    "list_requests_of outs \<noteq> [] \<Longrightarrow> e = None \<and> an_error an = None \<and> wants_next_page sp page (an_pages an)"
  using assms
  by (cases "ggzy_raw_item (gz_text gl) sp answer (list_document_url sp page) ''list'' (ggzy_list_meta sp u page an l) None None";
      auto simp: finish_list_page_def after_outputs_def split: option.splits if_splits)+

text \<open>The number of pages that an answer reports.\<close>

definition payload_pages :: "payload \<Rightarrow> int option" where
  "payload_pages d = as_int (dict_get (case as_mapping (dict_get d (lit ''data'')) of None \<Rightarrow> [] | Some kvs \<Rightarrow> kvs) (lit ''pages''))"

definition reported_pages :: "ggzy_lib \<Rightarrow> ustr \<Rightarrow> int option" where
  "reported_pages gl body = (case list_payload gl body of Inl e \<Rightarrow> None | Inr (d, _) \<Rightarrow> payload_pages d)"

lemma parse_list_answer_outputs:
  assumes "parse_list_answer gl now answer page u d wrong code sp = (outs, e, sp')" "distinct (gs_seen_keys sp)"
  shows "distinct (gs_seen_keys sp') \<and>
    (\<exists>ks. gs_seen_keys sp' = rev ks @ gs_seen_keys sp \<and> map key_of (notices_of outs) = map VStr ks) \<and>
    gs_max_pages sp' = gs_max_pages sp \<and> gs_pages_scraped sp' = gs_pages_scraped sp \<and>
    (\<forall>q \<in> set (list_requests_of outs). lr_page q = page + 1 \<and> lr_list_page_url q = u \<and>
       wants_next_page sp page (payload_pages d) \<and> e = None)"
proof -
  define data where "data = (case as_mapping (dict_get d (lit ''data'')) of None \<Rightarrow> [] | Some kvs \<Rightarrow> kvs)"
  define entries where "entries = record_entries gl data"
  define message where "message = (if d = [] then None else item_str (dict_get d (lit ''message'')))"
  define problem where "problem = (case wrong of Some t \<Rightarrow> Some t | None \<Rightarrow> code_message code message)"
  define sp1 where "sp1 = sp\<lparr>gs_items_seen := gs_items_seen sp + int (length entries)\<rparr>"
  obtain recs x l where recs: "parse_records gl sp1 u (if problem = None then entries else [])
      \<lparr>rl_seen = gs_seen_keys sp, rl_new = 0, rl_skipped = 0\<rparr> = (recs, x, l)" by (metis prod_cases3)
  from parse_records_keys [OF recs] assms(2) obtain ks where ks:
    "distinct (rl_seen l)" "rl_seen l = rev ks @ gs_seen_keys sp" "map key_of (notices_of recs) = map VStr ks"
    "list_requests_of recs = []"
    by auto
  note unfolded = assms(1) [unfolded parse_list_answer_def Let_def, folded data_def, folded entries_def, folded message_def,
      folded problem_def, folded sp1_def, unfolded recs]
  show ?thesis
  proof (cases x)
    case (Some y)
    then show ?thesis using unfolded ks by (auto simp: sp1_def)
  next
    case None
    define sp2 where "sp2 = sp1\<lparr>gs_seen_keys := rl_seen l, gs_items_unique := gs_items_unique sp1 + int (rl_new l),
      gs_duplicates_skipped := gs_duplicates_skipped sp1 + int (rl_skipped l)\<rparr>"
    define an where "an = \<lparr>an_code = code, an_message = message, an_total = as_int (dict_get data (lit ''total'')),
      an_pages = as_int (dict_get data (lit ''pages'')), an_current = as_int (dict_get data (lit ''current'')),
      an_items = length entries, an_error = problem\<rparr>"
    have pages: "an_pages an = payload_pages d" by (simp add: an_def payload_pages_def data_def)
    have "(recs @ fst (finish_list_page gl sp2 now answer page u an l), snd (finish_list_page gl sp2 now answer page u an l),
        sp2) = (outs, e, sp')"
      using unfolded unfolding None prod.case option.case by (fold sp2_def an_def)
    then have an: "outs = recs @ fst (finish_list_page gl sp2 now answer page u an l)"
      "e = snd (finish_list_page gl sp2 now answer page u an l)" "sp' = sp2" unfolding prod.inject by blast+
    obtain rest where rest: "finish_list_page gl sp2 now answer page u an l = (rest, e)" using an(2) by (metis prod.collapse)
    note finish = finish_list_page_outputs [OF rest]
    have "\<forall>q \<in> set (list_requests_of rest). lr_page q = page + 1 \<and> lr_list_page_url q = u \<and>
        wants_next_page sp page (payload_pages d) \<and> e = None"
    proof
      fix q assume q: "q \<in> set (list_requests_of rest)"
      then have "q = build_list_request sp2 (page + 1) u" "list_requests_of rest \<noteq> []" using finish(2) by auto
      moreover have "wants_next_page sp2 page p = wants_next_page sp page p" for p
        by (simp add: wants_next_page_def sp2_def sp1_def)
      ultimately show "lr_page q = page + 1 \<and> lr_list_page_url q = u \<and> wants_next_page sp page (payload_pages d) \<and> e = None"
        using finish(3) pages by (simp add: build_list_request_def)
    qed
    moreover have "outs = recs @ rest" using an(1) rest by simp
    ultimately show ?thesis using ks finish(1) unfolding an(3) by (auto simp: sp2_def sp1_def)
  qed
qed

lemma parse_list_page_outputs:
  assumes "parse_list_page gl now answer page u sp = (outs, e, sp')" "distinct (gs_seen_keys sp)"
  shows "distinct (gs_seen_keys sp')"
    "\<exists>ks. gs_seen_keys sp' = rev ks @ gs_seen_keys sp \<and> map key_of (notices_of outs) = map VStr ks"
    "gs_max_pages sp' = gs_max_pages sp" "gs_pages_scraped sp' = gs_pages_scraped sp + 1"
    "next_list_request outs = Some q \<Longrightarrow> lr_page q = page + 1 \<and> lr_list_page_url q = u \<and>
       wants_next_page sp page (reported_pages gl (pa_text answer)) \<and> e = None"
proof -
  define sp1 where "sp1 = sp\<lparr>gs_pages_scraped := gs_pages_scraped sp + 1\<rparr>"
  have "distinct (gs_seen_keys sp') \<and>
    (\<exists>ks. gs_seen_keys sp' = rev ks @ gs_seen_keys sp \<and> map key_of (notices_of outs) = map VStr ks) \<and>
    gs_max_pages sp' = gs_max_pages sp \<and> gs_pages_scraped sp' = gs_pages_scraped sp + 1 \<and>
    (\<forall>q \<in> set (list_requests_of outs). lr_page q = page + 1 \<and> lr_list_page_url q = u \<and>
       wants_next_page sp page (reported_pages gl (pa_text answer)) \<and> e = None)"
  proof (cases "list_payload gl (pa_text answer)")
    case (Inl x)
    then show ?thesis using assms by (auto simp: parse_list_page_def)
  next
    case (Inr dw)
    obtain d wrong where dw: "dw = (d, wrong)" by force
    show ?thesis
    proof (cases "if d = [] then Inr 0 else api_code gl d")
      case (Inl x)
      then show ?thesis using assms Inr dw by (auto simp: parse_list_page_def)
    next
      case code: (Inr code)
      have "parse_list_answer gl now answer page u d wrong code sp1 = (outs, e, sp')"
        using assms(1) by (simp add: parse_list_page_def Inr dw code Let_def sp1_def)
      from parse_list_answer_outputs [OF this] assms(2)
      show ?thesis by (simp add: sp1_def reported_pages_def Inr dw wants_next_page_def)
    qed
  qed
  then show "distinct (gs_seen_keys sp')"
    "\<exists>ks. gs_seen_keys sp' = rev ks @ gs_seen_keys sp \<and> map key_of (notices_of outs) = map VStr ks"
    "gs_max_pages sp' = gs_max_pages sp" "gs_pages_scraped sp' = gs_pages_scraped sp + 1"
    "next_list_request outs = Some q \<Longrightarrow> lr_page q = page + 1 \<and> lr_list_page_url q = u \<and>
       wants_next_page sp page (reported_pages gl (pa_text answer)) \<and> e = None"
    using next_list_request_Some by blast+
qed

section \<open>The crawl of the list\<close>

lemma crawl_ggzy_keys:
  assumes "crawl_ggzy gl now answers q sp = (outs, sp', waiting)" "distinct (gs_seen_keys sp)"
  shows "distinct (gs_seen_keys sp') \<and>
    (\<exists>ks. gs_seen_keys sp' = rev ks @ gs_seen_keys sp \<and> map key_of (notices_of outs) = map VStr ks)"
  using assms
proof (induction answers arbitrary: q sp outs)
  case (Cons answer answers)
  obtain first e sp1 where first: "parse_list_page gl now answer (lr_page q) (lr_list_page_url q) sp = (first, e, sp1)"
    by (metis prod_cases3)
  note page = parse_list_page_outputs [OF first Cons.prems(2)]
  from page(2) obtain ks where ks: "gs_seen_keys sp1 = rev ks @ gs_seen_keys sp" "map key_of (notices_of first) = map VStr ks"
    by blast
  show ?case
  proof (cases "next_list_request first")
    case None
    then show ?thesis using Cons.prems(1) page(1,2) by (simp add: first)
  next
    case (Some q1)
    obtain rest where rest: "crawl_ggzy gl now answers q1 sp1 = (rest, sp', waiting)" "outs = first @ rest"
      using Cons.prems(1) by (auto simp: first Some split: prod.splits)
    from Cons.IH [OF rest(1) page(1)] obtain ls where
      "distinct (gs_seen_keys sp')" "gs_seen_keys sp' = rev ls @ gs_seen_keys sp1"
      "map key_of (notices_of rest) = map VStr ls" by blast
    then show ?thesis using ks by (intro conjI exI [of _ "ks @ ls"]) (simp_all add: rest(2))
  qed
qed simp

lemma init_ggzy_fresh:
  assumes "init_ggzy now args = Inr sp"
  shows "gs_seen_keys sp = []" "gs_pages_scraped sp = 0" "gs_max_pages sp = Some m \<Longrightarrow> 1 \<le> m"
proof -
  obtain max_pages where "parse_optional_positive_int (ga_max_pages args) = Inr max_pages"
    "gs_seen_keys sp = []" "gs_pages_scraped sp = 0" "gs_max_pages sp = max_pages"
    using assms unfolding init_ggzy_def and_then_Inr Let_def by fastforce
  then show "gs_seen_keys sp = []" "gs_pages_scraped sp = 0" "gs_max_pages sp = Some m \<Longrightarrow> 1 \<le> m"
    by (auto simp: parse_optional_positive_int_def and_then_Inr split: option.splits)
qed

text \<open>
C35. The crawl of the national platform lists a notice once: whatever the pages of the list hold, the notices that a
run of the spider yields for their records have different source duplicate keys, and these are the keys the spider
remembers.
\<close>

theorem record_is_listed_once:
  assumes "init_ggzy now0 args = Inr sp" "crawl_ggzy gl now answers q sp = (outs, sp', waiting)"
  shows "distinct (map key_of (notices_of outs)) \<and>
    set (map key_of (notices_of outs)) = VStr ` set (gs_seen_keys sp')"
proof -
  obtain ks where "distinct (gs_seen_keys sp')" "gs_seen_keys sp' = rev ks" "map key_of (notices_of outs) = map VStr ks"
    using crawl_ggzy_keys [OF assms(2)] init_ggzy_fresh(1) [OF assms(1)] by auto
  then show ?thesis by (auto simp: distinct_map inj_on_def)
qed

text \<open>No page beyond the limit is asked for.\<close>

definition page_limit :: "ggzy_lib \<Rightarrow> ggzy_spider \<Rightarrow> page_answer list \<Rightarrow> int \<Rightarrow> bool" where
  "page_limit gl sp answers m \<longleftrightarrow>
     gs_max_pages sp = Some m \<or> (\<forall>answer \<in> set answers. \<forall>n. reported_pages gl (pa_text answer) = Some n \<longrightarrow> n \<le> m)"

lemma wants_next_page_limit:
  assumes "page_limit gl sp (answer # answers) m" "wants_next_page sp page (reported_pages gl (pa_text answer))"
  shows "page < m"
  using assms by (auto simp: page_limit_def wants_next_page_def split: option.splits)

lemma crawl_ggzy_ends:
  assumes "crawl_ggzy gl now answers q sp = (outs, sp', waiting)" "distinct (gs_seen_keys sp)" "page_limit gl sp answers m"
  shows "gs_pages_scraped sp' \<le> gs_pages_scraped sp + max 1 (m - lr_page q + 1) \<and>
    (max 1 (m - lr_page q + 1) \<le> int (length answers) \<longrightarrow> waiting = None)"
  using assms
proof (induction answers arbitrary: q sp outs)
  case (Cons answer answers)
  obtain first e sp1 where first: "parse_list_page gl now answer (lr_page q) (lr_list_page_url q) sp = (first, e, sp1)"
    by (metis prod_cases3)
  note page = parse_list_page_outputs [OF first Cons.prems(2)]
  show ?case
  proof (cases "next_list_request first")
    case None
    then have "sp' = sp1" "waiting = None" using Cons.prems(1) by (simp_all add: first)
    then show ?thesis using page(4) by simp
  next
    case (Some q1)
    obtain rest where rest: "crawl_ggzy gl now answers q1 sp1 = (rest, sp', waiting)"
      using Cons.prems(1) by (auto simp: first Some split: prod.splits)
    have "lr_page q1 = lr_page q + 1" "lr_page q < m"
      using page(5) [OF Some] wants_next_page_limit [OF Cons.prems(3)] by auto
    moreover have "page_limit gl sp1 answers m" using Cons.prems(3) page(3) by (auto simp: page_limit_def)
    ultimately show ?thesis using Cons.IH [OF rest page(1)] page(4) by auto
  qed
qed simp

text \<open>
The crawl of the list ends: under a page limit, or when no answer reports more than m pages, no more than m pages are
scraped (and one at least), and once so many answers have come the spider waits for none.
\<close>

lemma platform_crawl_ends:
  assumes "init_ggzy now0 args = Inr sp" "page_limit gl sp answers m"
    "crawl_ggzy gl now answers (build_list_request sp 1 list_page_url) sp = (outs, sp', waiting)"
  shows "gs_pages_scraped sp' \<le> max 1 m \<and> (max 1 m \<le> int (length answers) \<longrightarrow> waiting = None)"
proof -
  note fresh = init_ggzy_fresh [OF assms(1)]
  from crawl_ggzy_ends [OF assms(3) _ assms(2)]
  show ?thesis by (simp add: fresh build_list_request_def)
qed

section \<open>A record survives its request\<close>

text \<open>What Python promises of str.lower and of the hexadecimal digest.\<close>

definition clean :: "ustr \<Rightarrow> bool" where
  "clean t \<longleftrightarrow> t \<noteq> [] \<and> strip t = t"

definition lawful_texts :: "text_lib \<Rightarrow> bool" where
  "lawful_texts lib \<longleftrightarrow> (\<forall>t. clean (tl_sha256 lib t)) \<and> (\<forall>t. clean t \<longrightarrow> clean (tl_lower lib t))"

definition clean_option :: "ustr option \<Rightarrow> bool" where
  "clean_option v \<longleftrightarrow> (\<forall>t. v = Some t \<longrightarrow> clean t)"

lemma clean_option_simps [simp]: "clean_option None" "clean_option (Some t) = clean t"
  by (auto simp: clean_option_def)

lemma item_str_clean [simp]: "clean t \<Longrightarrow> item_str (VStr t) = Some t"
  by (simp add: item_str_def text_or_none_def clean_def)

lemma item_str_clean_option [simp]: "clean_option v \<Longrightarrow> item_str (optional_text v) = v"
  by (cases v) (simp_all add: optional_text_def item_str_def text_or_none_def clean_def)

lemma page_text_clean: "page_text lib v = Some t \<Longrightarrow> clean t"
  by (auto simp: page_text_def text_or_none_def clean_def split: pyval.splits if_splits)

lemma normalize_text_clean: "lawful_texts lib \<Longrightarrow> normalize_text lib b v = Some t \<Longrightarrow> clean t"
  by (auto simp: normalize_text_def Let_def lawful_texts_def clean_def split: option.splits if_splits)

lemma no_space_clean: "(\<And>c. c \<in> set t \<Longrightarrow> \<not> py_space c) \<Longrightarrow> t \<noteq> [] \<Longrightarrow> clean t"
  by (simp add: clean_def strip_no_space)

lemma sublist_set: "sublist a b \<Longrightarrow> set a \<subseteq> set b"
  by (auto simp: sublist_def)

lemma collapse_spaces_set: "c \<in> set (collapse_spaces s) \<Longrightarrow> py_space c \<Longrightarrow> c = 32"
  by (induction s rule: collapse_spaces.induct) (auto split: if_splits)

lemma collapse_spaces_id: "(\<And>c. c \<in> set s \<Longrightarrow> \<not> py_space c) \<Longrightarrow> collapse_spaces s = s"
  by (induction s) auto

lemma cut_suffixes_sublist: "sublist (cut_suffixes s) s"
proof (induction s rule: cut_suffixes.induct)
  case (1 s)
  let ?u = "strip (cut_suffix s)"
  have step: "sublist ?u s" by (rule sublist_order.order.trans [OF strip_sublist cut_suffix_sublist])
  show ?case
  proof (cases "?u = s")
    case True
    then show ?thesis by (simp add: cut_suffixes.simps [of s])
  next
    case False
    then have "sublist (cut_suffixes ?u) ?u" using 1 by simp
    from sublist_order.order.trans [OF this step] show ?thesis using False by (simp add: cut_suffixes.simps [of s] Let_def)
  qed
qed

lemma cut_words_sublist: "sublist (cut_words s) s"
proof (induction s rule: cut_words.induct)
  case (1 s)
  show ?case
  proof (cases "cut_end title_words (cut_marks s)")
    case None
    then show ?thesis by (simp add: cut_marks_sublist cut_words.simps [of s])
  next
    case (Some r)
    have "sublist (cut_words (cut_marks r)) s"
      using 1 [OF Some] cut_marks_sublist [of r] cut_end_sublist [OF Some] cut_marks_sublist [of s]
      by (meson sublist_order.order.trans)
    then show ?thesis using Some by (simp add: cut_words.simps [of s])
  qed
qed

lemma source_title_clean:
  assumes "lawful_texts lib" "normalize_source_title lib v = Some t"
  shows "clean t"
proof -
  obtain w where w: "page_text lib (VStr v) = Some w" using assms(2) by (auto simp: normalize_source_title_def split: option.splits)
  define s where "s = strip (collapse_spaces (tl_nfkc lib w))"
  define n where "n = filter (\<lambda>c. c \<noteq> 32) (cut_marks (cut_words (cut_suffixes s)))"
  have "sublist (cut_marks (cut_words (cut_suffixes s))) s"
    by (meson cut_marks_sublist cut_words_sublist cut_suffixes_sublist sublist_order.order.trans)
  then have "c \<in> set s \<and> c \<noteq> 32" if "c \<in> set n" for c using that sublist_set by (fastforce simp: n_def)
  then have plain: "\<not> py_space c" if "c \<in> set n" for c
    using that collapse_spaces_set set_strip by (fastforce simp: s_def)
  then have "collapse_spaces n = n" by (rule collapse_spaces_id)
  then have "n \<noteq> []" "t = tl_lower lib n"
    using assms(2) by (auto simp: normalize_source_title_def w Let_def simp flip: s_def n_def split: if_splits)
  moreover have "clean n" using plain \<open>n \<noteq> []\<close> by (rule no_space_clean)
  ultimately show ?thesis using assms(1) by (simp add: lawful_texts_def)
qed

lemma pad_chars: "c \<in> set (pad n i) \<Longrightarrow> c = 45 \<or> (48 \<le> c \<and> c < 58)"
  by (auto simp: pad_def show_int_def dest: show_nat_digits split: if_splits)

lemma date_char_no_space: "c = 45 \<or> (48 \<le> c \<and> c < 58) \<Longrightarrow> \<not> py_space c"
  by (auto simp: py_space_def space_points_def)

lemma iso_date_clean: "clean (iso_date z)"
proof (rule no_space_clean)
  fix c assume "c \<in> set (iso_date z)"
  then have "c = 45 \<or> (48 \<le> c \<and> c < 58)"
    by (auto simp: iso_date_def lit_def Let_def dest: pad_chars)
  then show "\<not> py_space c" by (rule date_char_no_space)
qed (simp add: iso_date_def Let_def)

lemma published_date_clean:
  assumes "normalize_published_date lib v = Inr date"
  shows "clean_option date" "clean_option (map_option (\<lambda>t. t @ lit ''T00:00:00+00:00'') (full date))"
proof -
  obtain z where date: "date = None \<or> date = Some (iso_date z)"
    using assms by (auto simp: normalize_published_date_def and_then_Inr split: option.splits)
  have "clean (iso_date z @ lit ''T00:00:00+00:00'')"
  proof (rule no_space_clean)
    fix c assume "c \<in> set (iso_date z @ lit ''T00:00:00+00:00'')"
    then have "c = 45 \<or> (48 \<le> c \<and> c < 58) \<or> c \<in> set (lit ''T00:00:00+00:00'')"
      by (auto simp: iso_date_def lit_def Let_def dest: pad_chars)
    moreover have "list_all (\<lambda>c. \<not> py_space c) (lit ''T00:00:00+00:00'')" by code_simp
    ultimately show "\<not> py_space c" using date_char_no_space by (auto simp: list_all_iff)
  qed simp
  then show "clean_option date" "clean_option (map_option (\<lambda>t. t @ lit ''T00:00:00+00:00'') (full date))"
    using date iso_date_clean [of z] by (auto simp: clean_def full_def text_or_none_def)
qed

lemma locator_in_query_clean:
  assumes "lawful_texts lib" "locator_in_query lib query ks = Some t"
  shows "clean t"
  using assms(2)
  by (induction ks) (auto simp: Let_def normalize_text_clean [OF assms(1)] split: option.splits list.splits if_splits)

lemma locator_clean:
  assumes "lawful_texts lib" "locator_unless_link lib url = Inr (Some t)"
  shows "clean t"
proof -
  obtain locator where locator: "extract_detail_locator lib (VStr url) VNone = Inr locator" "full locator = Some t"
    "normalize_detail_url lib (VStr url) \<noteq> Inr (Some t)"
    using assms(2) by (auto simp: locator_unless_link_def and_then_Inr split: option.splits if_splits)
  have "locator = Some t" using locator(2) by (auto simp: full_def text_or_none_def split: option.splits if_splits)
  then have "locator_of_url lib (VStr url) = Inr (Some t)"
    using locator(1) by (simp add: extract_detail_locator_def item_str_def)
  then consider q where "locator_in_query lib q detail_locator_keys = Some t" | "normalize_detail_url lib (VStr url) = Inr (Some t)"
    by (auto simp: locator_of_url_def and_then_Inr split: option.splits)
  then show ?thesis using locator(3) locator_in_query_clean [OF assms(1)] by cases auto
qed

lemma first_text_clean: "first_text lib vs = Some t \<Longrightarrow> clean t"
proof -
  assume "first_text lib vs = Some t"
  then have "t \<in> set (List.map_filter (page_text lib) vs)" by (auto simp: first_text_def split: list.splits)
  then show ?thesis by (auto simp: List.map_filter_def dest: page_text_clean)
qed

lemma external_id_clean:
  assumes "lawful_texts lib" "ggzy_external_id lib d detail_url = Inr x"
  shows "clean_option x"
  unfolding clean_option_def
proof (intro allI impI)
  fix t assume "x = Some t"
  with assms(2) consider "\<exists>vs. first_text lib vs = Some t" | "\<exists>url. locator_unless_link lib url = Inr (Some t)"
    by (auto simp: ggzy_external_id_def and_then_Inr split: option.splits)
  then show "clean t" using first_text_clean locator_clean [OF assms(1)] by cases blast+
qed

definition clean_record :: "ggzy_record \<Rightarrow> bool" where
  "clean_record r \<longleftrightarrow>
     clean (gr_title r) \<and> clean (gr_notice_type r) \<and> clean (gr_source_duplicate_key r) \<and>
     clean (gr_source_list_item_fingerprint r) \<and> clean (gr_list_item_content_hash r) \<and>
     clean_option (gr_normalized_title r) \<and> clean_option (gr_published_date r) \<and> clean_option (gr_published_at_iso r) \<and>
     clean_option (gr_province r) \<and> clean_option (gr_source_platform r) \<and> clean_option (gr_issuer r) \<and>
     clean_option (gr_external_id r)"

lemma notice_type_clean: "clean (infer_ggzy_notice_type title info)"
proof -
  have "clean (lit ''change'')" "clean (lit ''result'')" "clean (lit ''announcement'')" by code_simp+
  then show ?thesis by (simp add: infer_ggzy_notice_type_def Let_def)
qed

lemma page_text_clean_option: "clean_option (page_text lib v)"
  using page_text_clean by (simp add: clean_option_def)

lemma parsed_record_clean:
  assumes "lawful_texts (gz_text gl)" "parse_list_record gl source_code d = Inr (Some r)"
  shows "clean_record r"
proof -
  define get where "get ks = page_text (gz_text gl) (get_any (gz_text gl) d ks)" for ks
  note unfolded = assms(2) [unfolded parse_list_record_def Let_def, folded get_def]
  obtain title where title: "get [''title'', ''titleShow''] = Some title"
    using unfolded by (auto split: option.splits)
  obtain detail_url link date external_id where parts:
    "record_links gl (get [''url'', ''detailUrl'', ''linkUrl'']) = Inr (detail_url, link)"
    "normalize_published_date (gz_text gl) (optional_text (get [''publishTime'', ''publishedAt'', ''publishDate''])) = Inr date"
    "ggzy_external_id (gz_text gl) d detail_url = Inr external_id"
    using unfolded by (auto simp: title and_then_Inr)
  have "clean title" using title page_text_clean by (simp add: get_def)
  moreover have "clean_option (normalize_source_title (gz_text gl) title)"
    using source_title_clean [OF assms(1)] by (simp add: clean_option_def)
  moreover have "clean_option (get ks)" for ks by (simp add: get_def page_text_clean_option)
  moreover have "clean (tl_sha256 (gz_text gl) t)" for t using assms(1) by (simp add: lawful_texts_def)
  moreover note published_date_clean [OF parts(2)] external_id_clean [OF assms(1) parts(3)] notice_type_clean
    page_text_clean_option
  ultimately show ?thesis
    using unfolded by (auto simp: title parts clean_record_def ggzy_duplicate_key_def ggzy_fingerprint_def)
qed

definition trimmed :: "ustr option \<Rightarrow> ustr option" where
  "trimmed v = item_str (optional_text v)"

lemma record_survives:
  assumes "clean_record r"
  shows "deserialize_record lib (serialize_record r) =
    r\<lparr>gr_detail_url := trimmed (gr_detail_url r), gr_normalized_detail_url := trimmed (gr_normalized_detail_url r)\<rparr>"
proof -
  have "py_str (py_or (tl_true lib) (VStr (gr_title r)) (VStr [])) = gr_title r"
    using assms by (simp add: clean_record_def clean_def py_or_def)
  then show ?thesis
    using assms unfolding clean_record_def
    by (simp add: deserialize_record_def serialize_record_def dict_get_def text_or_hash_def str_or_def as_mapping_def
        trimmed_def Let_def)
qed

text \<open>What the callback of a detail page yields.\<close>

definition items_of :: "ggzy_output list \<Rightarrow> payload list" where
  "items_of outs = List.map_filter (\<lambda>x. case x of Gz_version p \<Rightarrow> Some p | Gz_attachment p \<Rightarrow> Some p | _ \<Rightarrow> None) outs"

lemma items_of_simps [simp]:
  "items_of [] = []" "items_of (a @ b) = items_of a @ items_of b"
  "items_of (x # outs) = (case x of Gz_version p \<Rightarrow> p # items_of outs | Gz_attachment p \<Rightarrow> p # items_of outs | _ \<Rightarrow> items_of outs)"
  by (simp_all add: items_of_def List.map_filter_def split: ggzy_output.split)

lemma attachment_items_outputs:
  "notices_of (fst (ggzy_attachment_items gl sp answer r p xs)) = []"
  "item \<in> set (items_of (fst (ggzy_attachment_items gl sp answer r p xs))) \<Longrightarrow>
    dict_get item (lit ''notice_dedup_hash'') = VStr (notice_hash (gz_text gl) r)"
proof (induction xs)
  case (Cons x xs)
  {
    case 1
    then show ?case using Cons(1) by (cases "ggzy_attachment_item gl sp answer r p x") simp_all
  next
    case 2
    then show ?case using Cons(2)
      by (cases "ggzy_attachment_item gl sp answer r p x")
        (auto simp: ggzy_attachment_item_def and_then_Inr Let_def ggzy_item_head_def dict_get_def)
  }
qed simp_all

lemma version_item_hash:
  "ggzy_version_item lib sp answer r p = Inr item \<Longrightarrow> dict_get item (lit ''notice_dedup_hash'') = VStr (notice_hash lib r)"
  by (auto simp: ggzy_version_item_def and_then_Inr ggzy_item_head_def dict_get_def)

lemma notice_items_outputs:
  "notices_of (fst (ggzy_notice_items gl sp answer r p)) = [ggzy_notice_item (gz_text gl) sp answer r p]"
  "item \<in> set (items_of (fst (ggzy_notice_items gl sp answer r p))) \<Longrightarrow>
    dict_get item (lit ''notice_dedup_hash'') = VStr (notice_hash (gz_text gl) r)"
  by (cases "ggzy_version_item (gz_text gl) sp answer r p";
      auto simp: ggzy_notice_items_def attachment_items_outputs dest: version_item_hash)+

lemma parse_ggzy_detail_outputs:
  assumes "parse_ggzy_detail gl sp now answer u d = (outs, e)"
  shows "notices_of outs = [] \<and> items_of outs = [] \<or>
    (\<exists>r p. r = deserialize_record (gz_text gl) d \<and> parse_detail_notice gl (pa_url answer) (pa_text answer) r u = Inr p \<and>
       notices_of outs = notices_of (fst (ggzy_notice_items gl sp answer r p)) \<and>
       items_of outs = items_of (fst (ggzy_notice_items gl sp answer r p)))"
proof -
  let ?r = "deserialize_record (gz_text gl) d"
  let ?raw = "ggzy_raw_item (gz_text gl) sp answer (pa_url answer) ''detail'' (detail_meta u (pa_url answer) ?r)
      (Some (gr_source_duplicate_key ?r)) (Some (gr_source_list_item_fingerprint ?r))"
  have outs: "outs = fst (parse_ggzy_detail gl sp now answer u d)" using assms by simp
  show ?thesis
  proof (cases ?raw)
    case (Inl x)
    then show ?thesis unfolding outs by (simp add: parse_ggzy_detail_def Let_def)
  next
    case raw: (Inr raw)
    show ?thesis
    proof (cases "detail_error_message gl (pa_text answer)")
      case (Inl x)
      then show ?thesis unfolding outs by (simp add: parse_ggzy_detail_def Let_def raw)
    next
      case wrong: (Inr wrong)
      show ?thesis
        unfolding outs
        by (cases wrong; cases "parse_detail_notice gl (pa_url answer) (pa_text answer) ?r u")
          (simp_all add: parse_ggzy_detail_def Let_def raw wrong)
    qed
  qed
qed

definition shared_fields :: "ustr list" where
  "shared_fields = map lit [''dedup_hash'', ''dedup_key'', ''source_duplicate_key'', ''source_list_item_fingerprint'',
     ''external_id'', ''notice_type'', ''issuer'', ''region'']"

text \<open>
C34. The detail page of a record completes the notice that its list page announced: the record travels as a dict with the
request, and every notice that the detail callback yields, whatever its page holds and at whatever time it comes, has
the hash, the keys, the external id, the type, the issuer and the region of the listed one; its version and its
attachments refer to the listed notice.  The laws of str.lower and of the hexadecimal digest are that they give texts
without white space at the ends and, of a text that is not empty, no empty text.
\<close>

theorem detail_page_completes_its_record:
  assumes "lawful_texts (gz_text gl)" "parse_list_record gl ggzy_source_code d = Inr (Some r)"
    "Gz_detail_request q \<in> set (fst (record_outputs gl sp r list_page_url))"
    "parse_ggzy_detail gl sp' now answer (dr_list_page_url q) (dr_record q) = (outs, e)"
  shows "(\<forall>notice \<in> set (notices_of outs). \<forall>k \<in> set shared_fields.
      dict_get notice k = dict_get (list_notice_item (gz_text gl) sp r list_page_url) k) \<and>
    (\<forall>item \<in> set (items_of outs). dict_get item (lit ''notice_dedup_hash'') =
      dict_get (list_notice_item (gz_text gl) sp r list_page_url) (lit ''dedup_hash''))"
proof -
  let ?lib = "gz_text gl"
  have q: "dr_record q = serialize_record r"
    using assms(3) by (cases "list_version_item ?lib sp r list_page_url")
      (auto simp: record_outputs_def record_request_def split: option.splits)
  define r' where "r' = deserialize_record ?lib (dr_record q)"
  have r': "r' = r\<lparr>gr_detail_url := trimmed (gr_detail_url r), gr_normalized_detail_url := trimmed (gr_normalized_detail_url r)\<rparr>"
    unfolding r'_def q by (rule record_survives [OF parsed_record_clean [OF assms(1,2)]])
  have hash: "notice_hash ?lib r' = notice_hash ?lib r" by (simp add: r' notice_hash_def)
  have list_hash: "dict_get (list_notice_item ?lib sp r list_page_url) (lit ''dedup_hash'') = VStr (notice_hash ?lib r)"
    by (simp add: list_notice_item_def ggzy_item_head_def dict_get_def)
  have fields: "dict_get (ggzy_notice_item ?lib sp' answer r' p) k = dict_get (list_notice_item ?lib sp r list_page_url) k"
    if "parse_detail_notice gl (pa_url answer) (pa_text answer) r' u = Inr p" "k \<in> set shared_fields" for p k u
    using that
    by (auto simp: shared_fields_def parse_detail_notice_def and_then_Inr Let_def ggzy_notice_item_def list_notice_item_def
        ggzy_item_head_def record_keys_def full_fields_def draft_fields_def dict_get_def hash) (simp_all add: r')
  note items = parse_ggzy_detail_outputs [OF assms(4), folded r'_def]
  have "\<forall>notice \<in> set (notices_of outs). \<forall>k \<in> set shared_fields.
      dict_get notice k = dict_get (list_notice_item ?lib sp r list_page_url) k"
    using items fields notice_items_outputs(1) by (elim disjE exE conjE) auto
  moreover have "\<forall>item \<in> set (items_of outs). dict_get item (lit ''notice_dedup_hash'') =
      dict_get (list_notice_item ?lib sp r list_page_url) (lit ''dedup_hash'')"
    using items notice_items_outputs(2) hash list_hash by (elim disjE exE conjE) auto
  ultimately show ?thesis by blast
qed

end
