(* ===== verification/GgzyRuns.thy ===== *)
theory GgzyRuns
  imports GgzyFacts
begin

text \<open>
  What a title key ignores, what one link that Scrapy refuses does to a run, and examples of the crawl of the national
  platform.
\<close>

section \<open>Trailing words of a title\<close>

lemmas title_labels = zh_procurement_def zh_tendering_def zh_competitive_consultation_def
  zh_competitive_negotiation_def zh_inquiry_def zh_bid_won_def zh_deal_made_def zh_result_def zh_correction_def
  zh_clarification_def zh_termination_def zh_bid_voided_def zh_bid_failed_def zh_metric_notices_def zh_publicity_def
  zh_notification_def zh_information_def

lemma cut_end_of_end: "e \<in> set title_ends \<Longrightarrow> cut_end title_ends (y @ e) = Some y"
  by (auto simp: title_ends_def cut_end_def ends_with_def starts_with_def title_labels)

lemma cut_end_of_word: "w \<in> set title_words \<Longrightarrow> cut_end title_words (y @ w) = Some y"
  unfolding title_words_def
  by (elim set_ConsD [THEN disjE]; simp add: title_words_def cut_end_def ends_with_def starts_with_def title_labels)

lemma drop_right_append: "list_all p b \<Longrightarrow> a \<noteq> [] \<Longrightarrow> \<not> p (last a) \<Longrightarrow> drop_right p (a @ b) = a"
proof -
  assume "list_all p b" "a \<noteq> []" "\<not> p (last a)"
  then have "dropWhile p (rev b @ rev a) = rev a"
    by (cases a rule: rev_cases) (simp_all add: dropWhile_append list_all_iff)
  then show ?thesis by (simp add: drop_right_def)
qed

definition plain_title :: "text_lib \<Rightarrow> ustr \<Rightarrow> bool" where
  "plain_title lib t \<longleftrightarrow> t \<noteq> [] \<and> tl_nfkc lib t = t \<and> collapse_spaces t = t \<and> strip t = t"

lemma plain_title_normalized:
  assumes "plain_title lib s" "plain_title lib t" "cut_suffixes s = cut_suffixes t"
  shows "normalize_source_title lib s = normalize_source_title lib t"
proof -
  have "page_text lib (VStr x) = Some x \<and> strip (collapse_spaces (tl_nfkc lib x)) = x" if "plain_title lib x" for x
    using that by (simp add: plain_title_def page_text_def text_or_none_def)
  then show ?thesis using assms by (simp add: normalize_source_title_def)
qed

text \<open>
C37. The title key of a record ignores the usual ending of a title: a title that ends with any separators, one of the
thirteen business words and one of the four words for a notice has the same key as the title without them, whatever
the rest of the title is, as long as that rest does not itself end with a separator.  The titles are ones that the
clean-up leaves as they are.
\<close>

theorem title_key_ignores_its_ending:
  assumes "plain_title lib t" "\<not> suffix_separator (last t)" "list_all suffix_separator seps"
    "w \<in> set title_words" "e \<in> set title_ends" "plain_title lib (t @ seps @ w @ e)"
  shows "normalize_source_title lib (t @ seps @ w @ e) = normalize_source_title lib t"
proof -
  have "cut_suffix ((t @ seps @ w) @ e) = drop_right suffix_separator (t @ seps)"
    using cut_end_of_end [OF assms(5), of "t @ seps @ w"] cut_end_of_word [OF assms(4), of "t @ seps"]
    by (simp add: cut_suffix_def)
  also have "\<dots> = t" using assms(1-3) by (intro drop_right_append) (simp_all add: plain_title_def)
  finally have "strip (cut_suffix (t @ seps @ w @ e)) = t" using assms(1) by (simp add: plain_title_def)
  moreover have "w \<noteq> []" by (rule title_words_not_empty [OF assms(4)])
  ultimately have "cut_suffixes (t @ seps @ w @ e) = cut_suffixes t"
    by (subst cut_suffixes.simps) (simp add: Let_def)
  then show ?thesis by (rule plain_title_normalized [OF assms(6,1)])
qed

section \<open>A link that is refused\<close>

definition entry_keys :: "ggzy_lib \<Rightarrow> pyval list \<Rightarrow> ustr list" where
  "entry_keys gl vs =
     List.map_filter (\<lambda>v. case as_mapping v of
         None \<Rightarrow> None
       | Some d \<Rightarrow> (case parse_list_record gl ggzy_source_code d of
                     Inr (Some r) \<Rightarrow> Some (gr_source_duplicate_key r) | _ \<Rightarrow> None)) vs"

text \<open>
  A record breaks the page when its link cannot be read at all, or when it is new and Scrapy refuses to request its
  link, such as one of the scheme javascript.
\<close>

definition record_breaks :: "ggzy_lib \<Rightarrow> ustr list \<Rightarrow> payload \<Rightarrow> bool" where
  "record_breaks gl keys d \<longleftrightarrow>
     (case parse_list_record gl ggzy_source_code d of
        Inl _ \<Rightarrow> True
      | Inr None \<Rightarrow> False
      | Inr (Some r) \<Rightarrow> gr_source_duplicate_key r \<notin> set keys \<and>
          (case full (gr_detail_url r) of None \<Rightarrow> False | Some u \<Rightarrow> gz_request_refused gl u \<noteq> None))"

lemma record_breaks_mono: "record_breaks gl keys d \<Longrightarrow> set keys' \<subseteq> set keys \<Longrightarrow> record_breaks gl keys' d"
  by (auto simp: record_breaks_def split: sum.splits option.splits)

lemma record_outputs_refused:
  assumes "full (gr_detail_url r) = Some u" "gz_request_refused gl u \<noteq> None"
  shows "snd (record_outputs gl sp r list_page_url) \<noteq> None"
  using assms by (cases "list_version_item (gz_text gl) sp r list_page_url") (auto simp: record_outputs_def record_request_def)

lemma parse_records_breaks:
  assumes "record_breaks gl (rl_seen l @ entry_keys gl pre) d"
  shows "fst (snd (parse_records gl sp u (pre @ VDict s d # post) l)) \<noteq> None"
  using assms
proof (induction pre arbitrary: l)
  case Nil
  show ?case
  proof (cases "parse_list_record gl ggzy_source_code d")
    case (Inr found)
    then obtain r where r: "found = Some r" "gr_source_duplicate_key r \<notin> set (rl_seen l)"
      "\<exists>v. full (gr_detail_url r) = Some v \<and> gz_request_refused gl v \<noteq> None"
      using Nil by (auto simp: record_breaks_def entry_keys_def List.map_filter_def split: option.splits)
    then obtain outs e where "record_outputs gl sp r u = (outs, Some e)"
      using record_outputs_refused by (metis option.exhaust prod.collapse)
    then show ?thesis using r(2) by (simp add: as_mapping_def Inr r(1) Let_def)
  qed (simp add: as_mapping_def)
next
  case (Cons v pre)
  let ?rest = "pre @ VDict s d # post"
  have later: "fst (snd (parse_records gl sp u ?rest l')) \<noteq> None" if "set (rl_seen l') \<subseteq> set (rl_seen l @ entry_keys gl (v # pre))" for l'
    by (rule Cons.IH, rule record_breaks_mono [OF Cons.prems]) (use that in \<open>auto simp: entry_keys_def List.map_filter_def\<close>)
  show ?case
  proof (cases "as_mapping v")
    case None
    then show ?thesis using later by simp
  next
    case (Some d')
    show ?thesis
    proof (cases "parse_list_record gl ggzy_source_code d'")
      case (Inl e)
      then show ?thesis by (simp add: Some)
    next
      case (Inr found)
      show ?thesis
      proof (cases found)
        case None
        then show ?thesis using later by (simp add: Some Inr)
      next
        case rec: (Some r)
        have "gr_source_duplicate_key r \<in> set (entry_keys gl (v # pre))"
          by (simp add: entry_keys_def List.map_filter_def Some Inr rec)
        then have "fst (snd (parse_records gl sp u ?rest
            (l\<lparr>rl_seen := gr_source_duplicate_key r # rl_seen l, rl_new := rl_new l + 1\<rparr>))) \<noteq> None"
          by (intro later) auto
        moreover have "fst (snd (parse_records gl sp u ?rest (l\<lparr>rl_skipped := rl_skipped l + 1\<rparr>))) \<noteq> None"
          by (intro later) auto
        ultimately show ?thesis by (auto simp: Some Inr rec Let_def split: prod.splits option.splits)
      qed
    qed
  qed
qed

definition payload_entries :: "ggzy_lib \<Rightarrow> payload \<Rightarrow> pyval list" where
  "payload_entries gl d =
     record_entries gl (case as_mapping (dict_get d (lit ''data'')) of None \<Rightarrow> [] | Some kvs \<Rightarrow> kvs)"

text \<open>
C36. One bad link ends the crawl of the list: a page with a new record whose link Scrapy refuses to request (a link of
the scheme javascript has no "://"), or whose link cannot be read, ends with an exception that nothing catches.  The
page is not stored as a document, its records are not counted, and no further page is asked for, however many the
platform still has.
\<close>

theorem refused_link_ends_the_list:
  assumes "list_payload gl (pa_text answer) = Inr (d, None)" "api_code gl d = Inr 200"
    "payload_entries gl d = pre @ VDict s kvs # post" "record_breaks gl (gs_seen_keys sp @ entry_keys gl pre) kvs"
    "distinct (gs_seen_keys sp)"
  shows "\<exists>outs e sp'. parse_list_page gl now answer (lr_page q) (lr_list_page_url q) sp = (outs, Some e, sp') \<and>
      documents_of outs = [] \<and> gs_items_unique sp' = gs_items_unique sp \<and>
      crawl_ggzy gl now (answer # answers) q sp = (outs, sp', None)"
proof -
  have full_payload: "d \<noteq> []" using assms(3) by (auto simp: payload_entries_def dict_get_def as_mapping_def record_entries_def)
  define sp1 where "sp1 = sp\<lparr>gs_pages_scraped := gs_pages_scraped sp + 1, gs_items_seen := gs_items_seen sp +
    int (length (payload_entries gl d))\<rparr>"
  obtain outs x l where recs: "parse_records gl sp1 (lr_list_page_url q) (payload_entries gl d)
      \<lparr>rl_seen = gs_seen_keys sp, rl_new = 0, rl_skipped = 0\<rparr> = (outs, x, l)" by (metis prod_cases3)
  obtain e where e: "x = Some e"
    using parse_records_breaks [of gl "\<lparr>rl_seen = gs_seen_keys sp, rl_new = 0, rl_skipped = 0\<rparr>" pre kvs sp1 "lr_list_page_url q" s post]
      assms(4) recs assms(3) by auto
  have none: "documents_of outs = []" "list_requests_of outs = []" using parse_records_keys [OF recs] assms(5) by simp_all
  have "parse_list_page gl now answer (lr_page q) (lr_list_page_url q) sp = (outs, Some e, sp1\<lparr>gs_seen_keys := rl_seen l\<rparr>)"
    using recs full_payload unfolding e payload_entries_def
    by (simp add: parse_list_page_def parse_list_answer_def assms(1,2) code_message_def sp1_def payload_entries_def Let_def)
  then show ?thesis using none by (auto simp: next_list_request_eq sp1_def)
qed

section \<open>Examples\<close>

definition plain_lib :: text_lib where
  "plain_lib = sample_lib\<lparr>tl_lower := (\<lambda>s. s), tl_sha256 := (\<lambda>s. 104 # map (\<lambda>c. if py_space c then 95 else c) s)\<rparr>"

lemma plain_points: "\<not> py_space 104" "\<not> py_space 95"
  by code_simp+

lemma plain_lib_lawful: "lawful_texts plain_lib"
proof -
  have "clean (104 # map (\<lambda>c. if py_space c then 95 else c) s)" for s
    using plain_points by (intro no_space_clean) (auto split: if_splits)
  then show ?thesis by (simp add: lawful_texts_def plain_lib_def)
qed

definition sample_entry :: "string \<Rightarrow> string \<Rightarrow> pyval" where
  "sample_entry title link = VDict [] [(lit ''title'', VStr (lit title)), (lit ''url'', VStr (lit link)),
     (lit ''provinceText'', VStr (lit ''P''))]"

definition sample_payload :: "string \<Rightarrow> payload" where
  "sample_payload records =
     [(lit ''code'', VInt 200), (lit ''data'', VDict [] [(lit ''records'', VOther (lit records)), (lit ''pages'', VInt 2)])]"

definition sample_ggzy_lib :: ggzy_lib where
  "sample_ggzy_lib =
     \<lparr>gz_page = sample_page_lib\<lparr>pg_text := plain_lib, pg_join := (\<lambda>_ u. Inr (if starts_with (lit ''/'') u then lit ''https://a.cn'' @ u else u))\<rparr>,
      gz_loads = (\<lambda>t. if t = lit ''<html>'' then Json_bad [] else Json_value (VDict [] (if t = lit ''A'' then sample_payload ''A'' else sample_payload ''B''))),
      gz_dumps = (\<lambda>_. lit ''{}''),
      gz_list = (\<lambda>t. Some (if t = lit ''A'' then [sample_entry ''T1'' ''/a?id=1'', sample_entry ''T1'' ''/a?id=1'']
        else [sample_entry ''T3'' ''/a?id=3'', sample_entry ''T4'' ''javascript:void(0)''])),
      gz_other_int = (\<lambda>_. Inl OverflowError), gz_title_text = (\<lambda>_. None), gz_body_texts = (\<lambda>_. [lit ''text'']),
      gz_request_refused = (\<lambda>u. if contains (lit ''://'') u then None else Some (ValueError (lit ''Missing scheme in request url''))),
      gz_response_join = (\<lambda>_ _ u. Inr u)\<rparr>"

definition sample_ggzy_args :: ggzy_args where
  "sample_ggzy_args =
     \<lparr>ga_crawl_job_id = VInt 7, ga_max_pages = VNone, ga_backfill_year = VNone, ga_job_type = VStr (lit ''manual''),
      ga_source_type = VStr (lit ''1''), ga_deal_classify = VStr (lit ''02''), ga_deal_stage = VStr (lit ''0200''),
      ga_deal_time = VNone, ga_keyword = VNone\<rparr>"

definition sample_ggzy_spider :: ggzy_spider where
  "sample_ggzy_spider =
     \<lparr>gs_job_id = Some 7, gs_job_type = lit ''manual'', gs_max_pages = None, gs_backfill_year = None,
      gs_source_type = lit ''1'', gs_deal_classify = lit ''02'', gs_deal_stage = lit ''0200'', gs_keyword = [],
      gs_deal_time = lit ''02'', gs_time_begin = None, gs_time_end = None, gs_seen_keys = [], gs_pages_scraped = 0,
      gs_items_seen = 0, gs_items_unique = 0, gs_duplicates_skipped = 0\<rparr>"

lemma sample_ggzy_args_accepted: "init_ggzy 0 sample_ggzy_args = Inr sample_ggzy_spider"
  by code_simp

definition sample_answer :: "string \<Rightarrow> page_answer" where
  "sample_answer body = \<lparr>pa_url = lit ''https://a.cn/list'', pa_text = lit body,
     pa_response = \<lparr>pr_status = 200, pr_mime_type = [], pr_charset = [], pr_title = None, pr_fetched_at = 0\<rparr>\<rparr>"

definition sample_request :: list_request where
  "sample_request = build_list_request sample_ggzy_spider 1 (lit ''https://a.cn/list'')"

definition sample_platform_run :: "ggzy_output list \<times> ggzy_spider \<times> list_request option" where
  "sample_platform_run = crawl_ggzy sample_ggzy_lib 0 [sample_answer ''A''] sample_request sample_ggzy_spider"

lemma sample_page_seen:
  "case parse_list_page sample_ggzy_lib 0 (sample_answer ''A'') 1 (lit ''https://a.cn/list'') sample_ggzy_spider of
     (outs, e, sp) \<Rightarrow> length (notices_of outs) = 1 \<and> gs_items_seen sp = 2"
  by code_simp

lemma sample_platform_run_seen: "length (notices_of (fst sample_platform_run)) = 1 \<and> gs_items_seen (fst (snd sample_platform_run)) = 2"
  using sample_page_seen by (auto simp: sample_platform_run_def sample_request_def build_list_request_def split: prod.splits option.splits)

lemma record_is_listed_once_witness:
  "distinct (map key_of (notices_of (fst sample_platform_run))) \<and> length (notices_of (fst sample_platform_run)) = 1 \<and>
   gs_items_seen (fst (snd sample_platform_run)) = 2"
proof -
  obtain outs sp' waiting where run: "sample_platform_run = (outs, sp', waiting)" by (metis prod_cases3)
  from record_is_listed_once [OF sample_ggzy_args_accepted run [unfolded sample_platform_run_def]]
  show ?thesis using sample_platform_run_seen by (simp add: run)
qed

lemma platform_crawl_ends_witness:
  "snd (snd (crawl_ggzy sample_ggzy_lib 0 [sample_answer ''A'', sample_answer ''A''] sample_request sample_ggzy_spider)) = None"
proof -
  let ?answers = "[sample_answer ''A'', sample_answer ''A'']"
  have "reported_pages sample_ggzy_lib (lit ''A'') = Some 2" by code_simp
  then have limit: "page_limit sample_ggzy_lib sample_ggzy_spider ?answers 2" by (simp add: page_limit_def sample_answer_def)
  obtain outs sp' waiting where
    run: "crawl_ggzy sample_ggzy_lib 0 ?answers (build_list_request sample_ggzy_spider 1 (lit ''https://a.cn/list'')) sample_ggzy_spider =
      (outs, sp', waiting)" by (metis prod_cases3)
  from platform_crawl_ends [OF sample_ggzy_args_accepted limit run] have "waiting = None" by simp
  then show ?thesis using run by (simp add: sample_request_def)
qed

lemma title_key_ignores_its_ending_witness:
  "normalize_source_title plain_lib (lit ''T1'' @ lit '' - '' @ zh_procurement @ zh_metric_notices) =
   normalize_source_title plain_lib (lit ''T1'')"
proof (rule title_key_ignores_its_ending)
  show "plain_title plain_lib (lit ''T1'')" by code_simp
  show "\<not> suffix_separator (last (lit ''T1''))" by code_simp
  show "list_all suffix_separator (lit '' - '')" by code_simp
  show "zh_procurement \<in> set title_words" "zh_metric_notices \<in> set title_ends" by (simp_all add: title_words_def title_ends_def)
  show "plain_title plain_lib (lit ''T1'' @ lit '' - '' @ zh_procurement @ zh_metric_notices)" by code_simp
qed

lemma refused_link_ends_the_list_witness:
  "snd (snd (crawl_ggzy sample_ggzy_lib 0 [sample_answer ''B'', sample_answer ''A''] sample_request sample_ggzy_spider)) = None"
proof -
  have loaded: "list_payload sample_ggzy_lib (pa_text (sample_answer ''B'')) = Inr (sample_payload ''B'', None)" by code_simp
  have code: "api_code sample_ggzy_lib (sample_payload ''B'') = Inr 200" by code_simp
  have entries: "payload_entries sample_ggzy_lib (sample_payload ''B'') =
      [sample_entry ''T3'' ''/a?id=3''] @ VDict [] [(lit ''title'', VStr (lit ''T4'')), (lit ''url'', VStr (lit ''javascript:void(0)'')),
        (lit ''provinceText'', VStr (lit ''P''))] # []" by code_simp
  have breaks: "record_breaks sample_ggzy_lib (gs_seen_keys sample_ggzy_spider @ entry_keys sample_ggzy_lib [sample_entry ''T3'' ''/a?id=3''])
      [(lit ''title'', VStr (lit ''T4'')), (lit ''url'', VStr (lit ''javascript:void(0)'')), (lit ''provinceText'', VStr (lit ''P''))]"
    by code_simp
  have "distinct (gs_seen_keys sample_ggzy_spider)" by (simp add: sample_ggzy_spider_def)
  from refused_link_ends_the_list [OF loaded code entries breaks this, of 0 sample_request "[sample_answer ''A'']"]
  show ?thesis by auto
qed

definition sample_list_fields :: payload where
  "sample_list_fields = [(lit ''title'', VStr (lit ''T1'')), (lit ''url'', VStr (lit ''/a?id=1'')), (lit ''provinceText'', VStr (lit ''P''))]"

definition sample_record :: ggzy_record where
  "sample_record = (case parse_list_record sample_ggzy_lib ggzy_source_code sample_list_fields of Inr (Some r) \<Rightarrow> r | _ \<Rightarrow> undefined)"

definition sample_detail :: ggzy_outcome where
  "sample_detail = parse_ggzy_detail sample_ggzy_lib sample_ggzy_spider 0 (sample_answer ''<html>'') (lit ''https://a.cn/list'')
     (serialize_record sample_record)"

lemma sample_detail_notices: "length (notices_of (fst sample_detail)) = 1"
  by code_simp

lemma sample_record_parsed: "parse_list_record sample_ggzy_lib ggzy_source_code sample_list_fields = Inr (Some sample_record)"
proof -
  have "case parse_list_record sample_ggzy_lib ggzy_source_code sample_list_fields of Inr (Some r) \<Rightarrow> True | _ \<Rightarrow> False" by code_simp
  then show ?thesis by (auto simp: sample_record_def split: sum.splits option.splits)
qed

definition sample_detail_request :: detail_request where
  "sample_detail_request = \<lparr>dr_url = lit ''https://a.cn/a?id=1'', dr_list_page_url = lit ''https://a.cn/list'',
     dr_record = serialize_record sample_record, dr_headers = page_headers (Some (lit ''https://a.cn/list''))\<rparr>"

lemma sample_record_requested:
  "Gz_detail_request sample_detail_request \<in> set (fst (record_outputs sample_ggzy_lib sample_ggzy_spider sample_record (lit ''https://a.cn/list'')))"
proof -
  have "full (gr_detail_url sample_record) = Some (lit ''https://a.cn/a?id=1'')" by code_simp
  moreover have "gz_request_refused sample_ggzy_lib (lit ''https://a.cn/a?id=1'') = None" by code_simp
  moreover have "isl (list_version_item (gz_text sample_ggzy_lib) sample_ggzy_spider sample_record (lit ''https://a.cn/list'')) = False" by code_simp
  ultimately show ?thesis
    by (cases "list_version_item (gz_text sample_ggzy_lib) sample_ggzy_spider sample_record (lit ''https://a.cn/list'')")
      (simp_all add: record_outputs_def record_request_def sample_detail_request_def)
qed

lemma detail_page_completes_its_record_witness:
  "length (notices_of (fst sample_detail)) = 1 \<and> dict_get (hd (notices_of (fst sample_detail))) (lit ''dedup_hash'') =
     dict_get (list_notice_item (gz_text sample_ggzy_lib) sample_ggzy_spider sample_record (lit ''https://a.cn/list'')) (lit ''dedup_hash'')"
proof -
  obtain outs e where detail: "sample_detail = (outs, e)" by force
  have "parse_ggzy_detail sample_ggzy_lib sample_ggzy_spider 0 (sample_answer ''<html>'') (dr_list_page_url sample_detail_request)
      (dr_record sample_detail_request) = (outs, e)"
    using detail by (simp add: sample_detail_def sample_detail_request_def)
  moreover have "lawful_texts (gz_text sample_ggzy_lib)" using plain_lib_lawful by (simp add: sample_ggzy_lib_def)
  ultimately have "\<forall>notice \<in> set (notices_of outs). \<forall>k \<in> set shared_fields. dict_get notice k =
      dict_get (list_notice_item (gz_text sample_ggzy_lib) sample_ggzy_spider sample_record (lit ''https://a.cn/list'')) k"
    using detail_page_completes_its_record sample_record_parsed sample_record_requested by blast
  moreover have "lit ''dedup_hash'' \<in> set shared_fields" by (simp add: shared_fields_def)
  moreover have "notices_of outs \<noteq> []" using sample_detail_notices by (auto simp: detail)
  ultimately show ?thesis using sample_detail_notices by (simp add: detail)
qed

end
