(* ===== verification/ItemTypes.thy ===== *)
theory ItemTypes
  imports AnhuiDetail
begin

text \<open>
  crawler/tender_crawler/items.py: the classes of items and the fields they declare, and that the Anhui spider keeps to
  them.  A Scrapy item refuses a field its class does not declare with KeyError; the columns that the writers fill from
  the fields hold texts but for some integers, flags and JSON objects.
\<close>

section \<open>The classes of items\<close>

definition base_fields :: "ustr list" where
  "base_fields = map lit [''item_type'', ''source_code'', ''crawl_job_id'']"

definition raw_document_fields :: "ustr list" where
  "raw_document_fields =
     base_fields @ map lit [''url'', ''normalized_url'', ''url_hash'', ''content_hash'', ''document_type'', ''fetched_at'',
       ''storage_uri'', ''raw_body'', ''http_status'', ''mime_type'', ''charset'', ''title'', ''content_length'',
       ''source_duplicate_key'', ''source_list_item_fingerprint'', ''extra_meta'']"

definition tender_notice_fields :: "ustr list" where
  "tender_notice_fields =
     base_fields @ map lit [''external_id'', ''project_code'', ''dedup_hash'', ''dedup_key'', ''source_duplicate_key'',
       ''source_list_item_fingerprint'', ''title'', ''notice_type'', ''issuer'', ''region'', ''published_at'',
       ''deadline_at'', ''budget_amount'', ''budget_currency'', ''summary'', ''source_site_name'', ''source_site_url'',
       ''list_page_url'', ''detail_page_url'', ''content_text'', ''source_url'', ''raw_content_hash'']"

definition notice_version_fields :: "ustr list" where
  "notice_version_fields =
     base_fields @ map lit [''notice_dedup_hash'', ''notice_external_id'', ''dedup_key'', ''source_duplicate_key'',
       ''source_list_item_fingerprint'', ''version_no'', ''is_current'', ''content_hash'', ''title'', ''notice_type'',
       ''issuer'', ''region'', ''published_at'', ''deadline_at'', ''budget_amount'', ''budget_currency'',
       ''source_site_name'', ''source_site_url'', ''list_page_url'', ''detail_page_url'', ''content_text'',
       ''structured_data'', ''change_summary'', ''raw_document_url_hash'']"

definition tender_attachment_fields :: "ustr list" where
  "tender_attachment_fields =
     base_fields @ map lit [''notice_dedup_hash'', ''notice_external_id'', ''notice_version_no'', ''file_name'',
       ''attachment_type'', ''file_url'', ''url_hash'', ''file_hash'', ''storage_uri'', ''mime_type'', ''file_ext'',
       ''file_size_bytes'', ''published_at'', ''downloaded_at'', ''source_url'']"

definition crawl_error_fields :: "ustr list" where
  "crawl_error_fields =
     base_fields @ map lit [''stage'', ''url'', ''error_type'', ''error_message'', ''traceback'', ''retryable'',
       ''occurred_at'']"

definition item_classes :: "(ustr \<times> ustr list) list" where
  "item_classes =
     [(lit ''raw_document'', raw_document_fields), (lit ''tender_notice'', tender_notice_fields),
      (lit ''notice_version'', notice_version_fields), (lit ''tender_attachment'', tender_attachment_fields),
      (lit ''crawl_error'', crawl_error_fields)]"

section \<open>Well-typed items\<close>

datatype field_type = Text_field | Int_field | Flag_field | Object_field

definition int_fields :: "ustr list" where
  "int_fields = map lit [''crawl_job_id'', ''http_status'', ''content_length'', ''version_no'', ''notice_version_no'',
     ''file_size_bytes'']"

definition flag_fields :: "ustr list" where
  "flag_fields = map lit [''is_current'', ''retryable'']"

definition object_fields :: "ustr list" where
  "object_fields = map lit [''extra_meta'', ''structured_data'']"

definition field_type_of :: "ustr \<Rightarrow> field_type" where
  "field_type_of k =
     (if k \<in> set int_fields then Int_field else if k \<in> set flag_fields then Flag_field
      else if k \<in> set object_fields then Object_field else Text_field)"

fun fits :: "field_type \<Rightarrow> pyval \<Rightarrow> bool" where
  "fits t VNone \<longleftrightarrow> True"
| "fits t (VStr s) \<longleftrightarrow> t = Text_field"
| "fits t (VInt i) \<longleftrightarrow> t = Int_field"
| "fits t (VBool b) \<longleftrightarrow> t = Flag_field"
| "fits t (VDict s kvs) \<longleftrightarrow> t = Object_field"
| "fits t _ \<longleftrightarrow> False"

definition well_typed_item :: "payload \<Rightarrow> bool" where
  "well_typed_item item \<longleftrightarrow>
     list_ex (\<lambda>(kind, fields). dict_get item (lit ''item_type'') = VStr kind \<and> set (map fst item) \<subseteq> set fields)
       item_classes \<and>
     distinct (map fst item) \<and> list_all (\<lambda>(k, v). fits (field_type_of k) v) item"

lemma fits_optional [simp]: "fits Text_field (optional_text v)" "fits Int_field (opt_int i)"
  by (simp_all add: optional_text_def opt_int_def split: option.split)

lemma fits_cases [simp]:
  "(\<And>x. fits t (f x)) \<Longrightarrow> fits t (case v of None \<Rightarrow> VNone | Some x \<Rightarrow> f x)"
  by (simp split: option.split)

lemma fits_if [simp]: "fits t (if b then x else VNone) \<longleftrightarrow> b \<longrightarrow> fits t x"
  by simp

text \<open>An item whose keys are known is checked by them and, value by value, by their types.\<close>

definition keys_ok :: "ustr \<Rightarrow> ustr list \<Rightarrow> field_type list \<Rightarrow> bool" where
  "keys_ok kind ks ts \<longleftrightarrow>
     list_ex (\<lambda>(c, fields). c = kind \<and> list_all (\<lambda>k. k \<in> set fields) ks) item_classes \<and> distinct ks \<and>
     map field_type_of ks = ts"

lemma well_typed_by_keys:
  assumes "map fst item = ks" "keys_ok kind ks ts" "list_all2 fits ts (map snd item)"
    "dict_get item (lit ''item_type'') = VStr kind"
  shows "well_typed_item item"
proof -
  have "list_all2 fits (map field_type_of (map fst item)) (map snd item)" using assms by (simp add: keys_ok_def)
  then have "list_all (\<lambda>(k, v). fits (field_type_of k) v) item"
    by (auto simp: list_all2_map1 list_all2_map2 list_all2_same list_all_iff split: prod.splits)
  then show ?thesis using assms by (auto simp: well_typed_item_def keys_ok_def list_ex_iff list_all_iff)
qed

lemma raw_keys:
  "keys_ok (lit ''raw_document'') (map lit [''item_type'', ''source_code'', ''crawl_job_id'', ''url'', ''normalized_url'',
     ''url_hash'', ''content_hash'', ''document_type'', ''fetched_at'', ''storage_uri'', ''raw_body'', ''http_status'',
     ''mime_type'', ''charset'', ''title'', ''content_length'', ''source_duplicate_key'',
     ''source_list_item_fingerprint'', ''extra_meta''])
   [Text_field, Text_field, Int_field, Text_field, Text_field, Text_field, Text_field, Text_field, Text_field, Text_field,
    Text_field, Int_field, Text_field, Text_field, Text_field, Int_field, Text_field, Text_field, Object_field]"
  by code_simp

lemma well_typed_raw:
  assumes "build_raw_item lib sp r html url role meta key fp = Inr raw"
  shows "well_typed_item raw"
proof -
  obtain n where "normalize_url lib url = Inr n" using assms by (auto simp: build_raw_item_def and_then_def split: sum.splits)
  then show ?thesis
    using assms by (intro well_typed_by_keys [OF _ raw_keys]) (auto simp: build_raw_item_def dict_get_def)
qed

lemma error_keys:
  "keys_ok (lit ''crawl_error'') (map lit [''item_type'', ''source_code'', ''crawl_job_id'', ''stage'', ''url'',
     ''error_type'', ''error_message'', ''traceback'', ''retryable'', ''occurred_at''])
   [Text_field, Text_field, Int_field, Text_field, Text_field, Text_field, Text_field, Text_field, Flag_field,
    Text_field]"
  by code_simp

lemma notice_keys:
  "keys_ok (lit ''tender_notice'') (map lit [''item_type'', ''source_code'', ''crawl_job_id'', ''external_id'',
     ''project_code'', ''dedup_hash'', ''dedup_key'', ''source_duplicate_key'', ''source_list_item_fingerprint'',
     ''title'', ''notice_type'', ''issuer'', ''region'', ''published_at'', ''deadline_at'', ''budget_amount'',
     ''budget_currency'', ''summary'', ''source_site_name'', ''source_site_url'', ''list_page_url'',
     ''detail_page_url'', ''content_text'', ''source_url'', ''raw_content_hash''])
   [Text_field, Text_field, Int_field, Text_field, Text_field, Text_field, Text_field, Text_field, Text_field,
    Text_field, Text_field, Text_field, Text_field, Text_field, Text_field, Text_field, Text_field, Text_field,
    Text_field, Text_field, Text_field, Text_field, Text_field, Text_field, Text_field]"
  by code_simp

lemma version_keys:
  "keys_ok (lit ''notice_version'') (map lit [''item_type'', ''source_code'', ''crawl_job_id'',
     ''notice_dedup_hash'', ''notice_external_id'', ''dedup_key'', ''source_duplicate_key'',
     ''source_list_item_fingerprint'', ''version_no'', ''is_current'', ''content_hash'', ''title'',
     ''notice_type'', ''issuer'', ''region'', ''published_at'', ''deadline_at'', ''budget_amount'',
     ''budget_currency'', ''source_site_name'', ''source_site_url'', ''list_page_url'', ''detail_page_url'',
     ''content_text'', ''structured_data'', ''change_summary'', ''raw_document_url_hash''])
   [Text_field, Text_field, Int_field, Text_field, Text_field, Text_field, Text_field, Text_field, Int_field,
    Flag_field, Text_field, Text_field, Text_field, Text_field, Text_field, Text_field, Text_field, Text_field,
    Text_field, Text_field, Text_field, Text_field, Text_field, Text_field, Object_field, Text_field, Text_field]"
  by code_simp

lemma attachment_keys:
  "keys_ok (lit ''tender_attachment'') (map lit [''item_type'', ''source_code'', ''crawl_job_id'',
     ''notice_dedup_hash'', ''notice_external_id'', ''notice_version_no'', ''file_name'', ''attachment_type'',
     ''file_url'', ''url_hash'', ''file_hash'', ''storage_uri'', ''mime_type'', ''file_ext'', ''file_size_bytes'',
     ''published_at'', ''source_url''])
   [Text_field, Text_field, Int_field, Text_field, Text_field, Int_field, Text_field, Text_field, Text_field,
    Text_field, Text_field, Text_field, Text_field, Text_field, Int_field, Text_field, Text_field]"
  by code_simp

lemmas item_parts = item_head_def key_items_def notice_fields_def page_fields_def

lemma well_typed_error: "well_typed_item (build_error_item sp now stage url e m b)"
  by (intro well_typed_by_keys [OF _ error_keys]) (simp_all add: build_error_item_def dict_get_def)

lemma well_typed_notice: "well_typed_item (notice_item sp a u p k)"
  by (intro well_typed_by_keys [OF _ notice_keys]) (simp_all add: notice_item_def item_parts dict_get_def)

lemma well_typed_version: "well_typed_item (version_item sp a h p k)"
  by (intro well_typed_by_keys [OF _ version_keys]) (simp_all add: version_item_def item_parts dict_get_def)

lemma well_typed_attachment:
  assumes "attachment_item pl sp ru du p k x = Inr item"
  shows "well_typed_item item"
proof -
  obtain u where u: "pg_join pl ru (at_file_url x) = Inr u"
    using assms by (auto simp: attachment_item_def and_then_def split: sum.splits)
  obtain n where n: "normalize_url (pg_text pl) u = Inr n"
    using assms by (auto simp: attachment_item_def and_then_def u Let_def split: sum.splits)
  show ?thesis
    using assms
    by (intro well_typed_by_keys [OF _ attachment_keys])
      (auto simp: attachment_item_def u n Let_def item_parts dict_get_def)
qed

section \<open>The items of the spider\<close>

lemma well_typed_attachments: "list_all well_typed_item (fst (attachment_items pl sp ru du p k xs))"
  by (induction xs) (auto simp: item_then_def well_typed_attachment split: sum.split prod.split)

lemma well_typed_list_documents:
  assumes "List_document raw \<in> set (fst (parse_list lib page sp))"
  shows "well_typed_item raw"
proof -
  have finish: "well_typed_item raw"
    if "List_document raw \<in> set (fst (finish_list lib page cur m c picked s))" for cur m c picked s
    using that well_typed_raw
    by (auto simp: finish_list_def Let_def split: sum.splits option.splits if_splits)
  have "well_typed_item raw" if "List_document raw \<in> set (fst (parse_items lib page cur m items s))" for cur m items s
    using that finish by (auto simp: parse_items_def Let_def split: sum.splits)
  then show ?thesis using assms by (auto simp: parse_list_def Let_def split: sum.splits if_splits)
qed

text \<open>
Every item the Anhui spider yields is well-typed, whatever the site answers: it is of one of the five classes, it
has only fields its class declares, none of them twice, and every field holds a value of the type of its column: a text,
an integer, a flag or an object, or nothing.\<close>

lemma spider_items_are_well_typed:
  "list_all well_typed_item (fst (parse_detail lib sp now answer a)) \<and>
   list_all well_typed_item (fst (parse_xmdj lib sp answer guid detail_url a)) \<and>
   list_all well_typed_item (fst (parse_bulletin pl sp now answer guid detail_url xmdj_html a)) \<and>
   list_all (\<lambda>x. case x of List_document raw \<Rightarrow> well_typed_item raw
       | List_error url e \<Rightarrow> well_typed_item (list_error_item sp now url e) | _ \<Rightarrow> True) (fst (parse_list lib page sp))"
proof (intro conjI)
  show "list_all well_typed_item (fst (parse_detail lib sp now answer a))"
    by (auto simp: parse_detail_def item_then_def well_typed_error well_typed_raw split: sum.split)
  show "list_all well_typed_item (fst (parse_xmdj lib sp answer guid detail_url a))"
    by (auto simp: parse_xmdj_def item_then_def well_typed_raw split: sum.split)
  have "list_all well_typed_item (fst (bulletin_notice_items pl sp answer guid detail_url url a p))" for url p
    by (auto simp: bulletin_notice_items_def item_then_def after_items_def and_then_def well_typed_notice well_typed_version
        well_typed_attachments split: sum.split)
  then show "list_all well_typed_item (fst (parse_bulletin pl sp now answer guid detail_url xmdj_html a))"
    by (auto simp: parse_bulletin_def Let_def item_then_def after_items_def well_typed_error well_typed_raw split: sum.split)
  show "list_all (\<lambda>x. case x of List_document raw \<Rightarrow> well_typed_item raw
       | List_error url e \<Rightarrow> well_typed_item (list_error_item sp now url e) | _ \<Rightarrow> True) (fst (parse_list lib page sp))"
    using well_typed_list_documents
    by (auto simp: list_all_iff list_error_item_def well_typed_error split: anhui_output.split)
qed

end
