(* ===== verification/GgzyTypes.thy ===== *)
theory GgzyTypes
  imports Ggzy ItemTypes
begin

text \<open>The items of the spider for the national platform keep to their classes too.\<close>

definition well_typed_output :: "ggzy_output \<Rightarrow> bool" where
  "well_typed_output x =
     (case x of
        Gz_document p \<Rightarrow> well_typed_item p
      | Gz_notice p \<Rightarrow> well_typed_item p
      | Gz_version p \<Rightarrow> well_typed_item p
      | Gz_attachment p \<Rightarrow> well_typed_item p
      | Gz_error p \<Rightarrow> well_typed_item p
      | _ \<Rightarrow> True)"

definition well_typed_outputs :: "ggzy_output list \<Rightarrow> bool" where
  "well_typed_outputs outs = list_all well_typed_output outs"

lemma well_typed_outputs_simps [simp]:
  "well_typed_outputs []" "well_typed_outputs (x # outs) \<longleftrightarrow> well_typed_output x \<and> well_typed_outputs outs"
  "well_typed_outputs (a @ b) \<longleftrightarrow> well_typed_outputs a \<and> well_typed_outputs b"
  by (simp_all add: well_typed_outputs_def)

lemma well_typed_yield [simp]:
  "well_typed_outputs (fst (yield_then r f)) \<longleftrightarrow> (\<forall>x. r = Inr x \<longrightarrow> well_typed_outputs (fst (f x)))"
  by (cases r) (simp_all add: yield_then_def)

lemma well_typed_after [simp]:
  "well_typed_outputs (fst (after_outputs outs r)) \<longleftrightarrow> well_typed_outputs outs \<and> well_typed_outputs (fst r)"
  by (simp add: after_outputs_def)

lemmas ggzy_item_parts = ggzy_item_head_def record_keys_def draft_fields_def draft_page_def full_fields_def full_page_def

lemma fits_shown [simp]: "fits Text_field (shown_published_at p r)"
  by (simp add: shown_published_at_def split: option.split)

lemma ggzy_raw_well_typed: "ggzy_raw_item lib sp answer url role meta key fp = Inr raw \<Longrightarrow> well_typed_item raw"
  by (intro well_typed_by_keys [OF _ raw_keys]) (auto simp: ggzy_raw_item_def and_then_Inr Let_def ggzy_item_parts dict_get_def)

lemma ggzy_error_well_typed: "well_typed_item (ggzy_error_item sp now stage url t m b)"
  by (intro well_typed_by_keys [OF _ error_keys]) (simp_all add: ggzy_error_item_def ggzy_item_parts dict_get_def)

lemma list_notice_well_typed: "well_typed_item (list_notice_item lib sp r u)"
  by (intro well_typed_by_keys [OF _ notice_keys]) (simp_all add: list_notice_item_def ggzy_item_parts dict_get_def)

lemma list_version_well_typed: "list_version_item lib sp r u = Inr item \<Longrightarrow> well_typed_item item"
  by (intro well_typed_by_keys [OF _ version_keys]) (auto simp: list_version_item_def and_then_Inr ggzy_item_parts dict_get_def)

lemma ggzy_notice_well_typed: "well_typed_item (ggzy_notice_item lib sp answer r p)"
  by (intro well_typed_by_keys [OF _ notice_keys]) (simp_all add: ggzy_notice_item_def ggzy_item_parts dict_get_def)

lemma ggzy_version_well_typed: "ggzy_version_item lib sp answer r p = Inr item \<Longrightarrow> well_typed_item item"
  by (intro well_typed_by_keys [OF _ version_keys]) (auto simp: ggzy_version_item_def and_then_Inr ggzy_item_parts dict_get_def)

lemma ggzy_attachment_well_typed: "ggzy_attachment_item gl sp answer r p x = Inr item \<Longrightarrow> well_typed_item item"
  by (intro well_typed_by_keys [OF _ attachment_keys])
    (auto simp: ggzy_attachment_item_def and_then_Inr Let_def ggzy_item_parts dict_get_def)

lemmas ggzy_well_typed = ggzy_raw_well_typed ggzy_error_well_typed list_notice_well_typed list_version_well_typed
  ggzy_notice_well_typed ggzy_version_well_typed ggzy_attachment_well_typed

lemma ggzy_attachments_well_typed: "well_typed_outputs (fst (ggzy_attachment_items gl sp answer r p xs))"
  by (induction xs) (auto simp: well_typed_output_def ggzy_well_typed)

lemma ggzy_notice_items_well_typed: "well_typed_outputs (fst (ggzy_notice_items gl sp answer r p))"
  by (auto simp: ggzy_notice_items_def well_typed_output_def ggzy_well_typed ggzy_attachments_well_typed)

lemma record_outputs_well_typed: "well_typed_outputs (fst (record_outputs gl sp r u))"
  by (auto simp: record_outputs_def record_request_def well_typed_output_def ggzy_well_typed split: option.split)

lemma parse_records_well_typed: "well_typed_outputs (fst (parse_records gl sp u vs l))"
proof (induction vs arbitrary: l)
  case (Cons v vs)
  then show ?case
    using record_outputs_well_typed [of gl sp _ u]
    by (auto simp: Let_def split: option.split sum.split prod.split) (metis fst_conv)+
qed simp

lemma finish_list_page_well_typed: "well_typed_outputs (fst (finish_list_page gl sp now answer page u an l))"
  by (auto simp: finish_list_page_def well_typed_output_def ggzy_well_typed split: option.split)


end
