(* ===== verification/Spec2Isabelle.thy ===== *)
theory Spec2Isabelle
  imports RunScriptFacts Health Schedule Auth UrlFacts CrawledNotices AnhuiFacts Exports DetailFacts AdminFacts StatisticsFacts GgzyRuns GgzyTypes
begin

text \<open>
  \<^bold>\<open>The program.\<close> The platform crawls public tender sites and shows the notices it finds.  Crawl jobs are rows of a
  database (src/app/models).  A job is created through the API, by the scheduler or as a retry of a finished job
  (source_crawl_trigger_service.py); a sweep of the dispatch service claims pending jobs and starts a worker process for
  each (crawl_job_dispatch_service.py); the worker (app/run_crawl_job.py) starts the job, runs a Scrapy spider, reads
  what the spider stored and finishes the job.  crawl_job_service.py is the only code that changes the state of a job.
  The spider turns list pages into requests and pages of a notice into items; the pipelines give the items to the
  writers, which merge them into the tables of raw documents, notices, versions, attachments and errors, with the keys
  of deduplication.py.  The notice repository lists, ranks and exports what they have stored.

  \<^bold>\<open>The theories\<close>, in the order in which they build on each other.

  \<^item> Foundations. PyText and PyTime: Python's str, int and datetime as far as they are used; a text is a list of Unicode
    code points, an instant a number of microseconds. Labels: the literals that are not ASCII. Tables: the tables as
    lists of rows, with the locale \<open>row_store\<close> for what the services assume of looking up, updating and adding rows.
    Schema: one record per mapped class of app/models, the database, the constraints an INSERT enforces (the partial
    unique index on active jobs among them), and the exceptions as values. Queries: ORDER BY with the locale
    \<open>row_order\<close>, row_number() over a partition, LIKE and TRIM. Systems: the locales \<open>invariant_system\<close> and
    \<open>evolving_rows\<close>, in which facts about all runs are proved from facts about single steps.
  \<^item> Crawl jobs. Adapters (source_adapter_registry.py), Payloads (crawl_job_payloads.py), JobService
    (crawl_job_service.py: every \<open>..._in_session\<close> method on the open session and every public method as its own
    transaction). JobFacts: the invariant \<open>db_ok\<close> and the order in which a row may change. JobSteps: every public call
    as a step, the steps as an interpretation of \<open>evolving_rows\<close>. JobProps: what holds of any interleaving of the
    callers.
  \<^item> Starting and running jobs. Commands (the argument vectors and the checks on them), Dispatch (the sweep, over any
    dispatcher with the contract of the locale \<open>crawl_job_dispatcher\<close>; the two dispatchers of the program are
    interpretations), Trigger and TriggerFacts (creating, queueing, retrying; the session of the caller sees flushed
    rows only), Execute and ExecuteFacts (running a job and the worker, over any runner with the contract
    \<open>crawl_command_runner\<close>; the subprocess runner is the interpretation).
  \<^item> Operation. Health (health_rule_service.py, source_health_service.py), Schedule (source_schedule_service.py, over any
    scheduler that keeps \<open>scheduler_laws\<close>), Auth (core/auth.py), SourceApi and SourceApiFacts (endpoints/sources.py with
    its service and repository: requests that create and change sources, and the scheduler after them).
  \<^item> Crawling. Urls and UrlFacts (urllib.parse as it is used), Dedup and DedupFacts (deduplication.py). Anhui and
    AnhuiFacts: the list pages of anhui_ggzy_zfcg_spider.py and their pagination. NoticePages: parsers/base.py and
    anhui_ggzy_zfcg_parser.py. AnhuiDetail: the callbacks from the detail page to the bulletin. DetailFacts: how the
    items of a bulletin fit together in the database. ItemTypes: items.py and that the spider keeps to it.
  \<^item> Storing and showing. Writer, WriterFacts and WriterRepeat (sqlalchemy_writer.py: one transaction per item, and the
    cache of source ids that is not part of it), Notices and NoticesFacts (notice_repository.py,
    notice_query_service.py), CrawledNotices (the writers and the queries together), Exports (endpoints/notices.py with
    csv.writer).

  \<^bold>\<open>How the code is translated.\<close> A class is a record and its enumeration columns are datatypes; a method is a function
  from its arguments and the state to a result and the state after it; an exception is a value of \<open>pyerror\<close> in the left
  of a sum, so every raise and early return is a branch; a transaction returns the committed database. What the code
  takes from elsewhere is an argument: the clock, SHA-256 and HMAC, the Unicode tables (NFKC, lower beyond ASCII),
  datetime.fromisoformat and strptime, Decimal(text), mimetypes, urljoin, what the selectors of parsel find on a page,
  the process runner, the scheduler, and the answers of the crawled site.

  \<^bold>\<open>What the lemmas show.\<close> Jobs: at most one active job per source and one retry per job, final states stay, a job
  starts once, leases exclude other dispatchers, an expired job is failed and no other, every legal transition and no
  other is accepted, a pending job can be completed. Starting: a sweep accounts for every job, dispatching settles a
  job, a free source accepts a job, races and expired jobs give the documented conflict, the worker never leaves its
  job running. Crawling: the list crawl ends, requests every item once, and its counters are those the job receives;
  the spider's items have the declared fields and types; a stored version finds its raw document when the link has no
  tracking parameter. Storing: a notice has one current version, content that is stored is not stored again, keys
  identify pages. Showing: the deduplicated list is the best row of each key, its pages are the export, the CSV export
  can be read back, the detail page shows the current version.

  \<^bold>\<open>Loops and bounds.\<close> Every function is total; the recursions that are not structural have their termination proofs. The
  retry loop of the dispatcher runs over the attempts the configuration allows. The crawl of the list pages is a
  recursion over the answers of the site, which may be of any number: \<open>crawl_lists\<close> tells whether the spider still waits
  for an answer, and \<open>list_crawl_ends\<close> gives the number of answers after which it does not. Python's limit of 4300
  digits for int() is kept (\<open>int_digit_limit\<close>), and shows as a bound on the numbers that are printed and read back; the
  arithmetic of Decimal has its 28 digits.

  \<^bold>\<open>Not modelled.\<close> The HTML pages and forms of the admin endpoints, the templates, the pydantic schemas and FastAPI's
  own work (rendering, routing, parsing of requests); the repositories and query services of jobs, errors, raw documents
  and statistics, which are plain SELECT statements beside the notice repository; the other spiders and their parsers,
  whose core is CSS and XPath selectors; the archives of pages and attachments on disk, the JSONL writers, the
  Playwright connectors; Alembic migrations, seeds, demo data, settings, logging and the entry points. In the database,
  column widths, collations other than those given as arguments, updated_at and triggers are left out, and a sequence
  is rolled back with its transaction (PostgreSQL keeps the number; the ids are only compared for equality and order).
  Logging is left out everywhere. Interleavings are those of whole transactions: two sessions interact through what
  they have committed and through the unique indexes.
\<close>

end
